(* ===== verification/ShiftPV_Prelude.thy ===== *)
theory ShiftPV_Prelude
  imports Main "HOL-Library.Word" "HOL-Library.List_Lexorder" "HOL-Library.Char_ord"
begin

text \<open>
  The prelude of the ShiftPV development: the Go values every component shares.

  \<^item> \<open>error\<close> and \<open>res\<close>: Go's \<open>(value, error)\<close> results. \<open>Inl\<close> carries the error, \<open>Inr\<close> the
    value; a function that returns only an error is modelled with \<open>error option\<close>, where \<open>None\<close>
    is \<open>nil\<close>. A sentinel (\<open>ErrStateConflict\<close>, ...) is a constructor, \<open>fmt.Errorf("%w: ...")\<close>
    is \<open>Wrapped\<close> (\<open>Joined\<close> with two of them), any other error is \<open>Errorf\<close> with the constant part of its text.
  \<^item> \<open>int64\<close> arithmetic as \<open>int\<close> with the wrap-around written out (\<open>wrap64\<close>), \<open>uint64\<close> as
    \<open>64 word\<close>.
  \<^item> \<open>api_field\<close>: what reading one field of a Kubernetes object yields: it is absent, it is not of
    the expected shape, or it has a value.
  \<^item> two locales the components share: \<open>rule_chain\<close> (an ordered list of checks, the first
    failure wins) and \<open>ranked_steps\<close> (a step relation along which a rank never falls).
\<close>

section \<open>Collections\<close>

named_theorems go_simps \<open>equations that evaluate the Go helper functions\<close>
named_theorems err_simps \<open>equations on error results\<close>

section \<open>Errors and results\<close>

datatype error =
    Errorf string
  | Wrapped error string
  | Joined error error
  | ErrStateConflict
  | ErrVolumePublished
  | ErrPoolConfiguration
  | ErrPoolNotFound
  | ErrPoolNotReady
  | ErrPoolCopyConflict
  | ErrVolumeFinalizersPending
  | ErrLimitInexact
  | ErrLimitNotPositive
  | ErrConflict
  | ErrNoJournal
  | ErrObjectUnchanged
  | GoPanic
  | DeadlineExceeded
  | ApiNotFound
  | ApiConflict
  | ApiError string

type_synonym 'a res = "error + 'a"

text \<open>\<open>errors.Is\<close>: the error itself or one it wraps.\<close>

fun errors_is :: "error \<Rightarrow> error \<Rightarrow> bool" where
  "errors_is (Wrapped e m) t = (Wrapped e m = t \<or> errors_is e t)"
| "errors_is (Joined a b) t = (Joined a b = t \<or> errors_is a t \<or> errors_is b t)"
| "errors_is e t = (e = t)"

lemma errors_is_refl [simp]: "errors_is e e"
  by (cases e) simp_all

definition bind_res :: "'a res \<Rightarrow> ('a \<Rightarrow> 'b res) \<Rightarrow> 'b res" where
  "bind_res r f = (case r of Inl e \<Rightarrow> Inl e | Inr x \<Rightarrow> f x)"

lemma bind_res_simps [simp, err_simps]:
  "bind_res (Inl e) f = Inl e"
  "bind_res (Inr x) f = f x"
  by (simp_all add: bind_res_def)

lemma bind_res_Inr [err_simps]:
  "bind_res r f = Inr y \<longleftrightarrow> (\<exists>x. r = Inr x \<and> f x = Inr y)"
  by (cases r) simp_all

lemma bind_res_Inl:
  "bind_res r f = Inl e \<longleftrightarrow> r = Inl e \<or> (\<exists>x. r = Inr x \<and> f x = Inl e)"
  by (cases r) simp_all

lemma bind_res_InrE [elim!]:
  assumes "bind_res r f = Inr y"
  obtains x where "r = Inr x" and "f x = Inr y"
  using assms by (auto simp: bind_res_Inr)

text \<open>\<open>if err != nil { return err }\<close> before the rest of a function.\<close>

definition guard_err :: "error option \<Rightarrow> 'a res \<Rightarrow> 'a res" where
  "guard_err e r = (case e of None \<Rightarrow> r | Some x \<Rightarrow> Inl x)"

lemma guard_err_simps [simp, err_simps]:
  "guard_err None r = r"
  "guard_err (Some x) r = Inl x"
  by (simp_all add: guard_err_def)

lemma guard_err_Inr [err_simps]:
  "guard_err e r = Inr y \<longleftrightarrow> e = None \<and> r = Inr y"
  by (cases e) simp_all

text \<open>A chain of checks that stops at the first error.\<close>

fun first_error :: "error option list \<Rightarrow> error option" where
  "first_error [] = None"
| "first_error (None # es) = first_error es"
| "first_error (Some e # es) = Some e"

lemma first_error_None [err_simps]:
  "first_error es = None \<longleftrightarrow> (\<forall>e \<in> set es. e = None)"
  by (induction es rule: first_error.induct) auto

lemma first_error_Some:
  "first_error es = Some x \<Longrightarrow> Some x \<in> set es"
  by (induction es rule: first_error.induct) auto

definition require_that :: "bool \<Rightarrow> error \<Rightarrow> error option" where
  "require_that b e = (if b then None else Some e)"

lemma require_that_None [simp, err_simps]: "require_that b e = None \<longleftrightarrow> b"
  by (simp add: require_that_def)

lemma require_that_True [simp]: "require_that True e = None"
  by simp

lemma require_that_False [simp]: "require_that False e = Some e"
  by (simp add: require_that_def)

section \<open>Rule chains\<close>

text \<open>
  The interface of a validator that is an ordered list of rules: the journal's
  \<open>transitionRules\<close>, the prepared Move's checks. Every rule reads the same request; the first
  one that refuses decides the error.
\<close>

locale rule_chain =
  fixes rules :: "('a \<Rightarrow> error option) list"
    and validate :: "'a \<Rightarrow> error option"
  assumes validate_rules: "validate x = first_error (map (\<lambda>r. r x) rules)"
begin

lemma accepted_iff: "validate x = None \<longleftrightarrow> (\<forall>r \<in> set rules. r x = None)"
  by (simp add: validate_rules first_error_None)

lemma accepted_rule: "validate x = None \<Longrightarrow> r \<in> set rules \<Longrightarrow> r x = None"
  by (simp add: accepted_iff)

lemma refused_by_some_rule:
  assumes "validate x = Some e"
  obtains r where "r \<in> set rules" and "r x = Some e"
proof -
  from assms have "Some e \<in> set (map (\<lambda>r. r x) rules)"
    by (auto simp: validate_rules dest: first_error_Some)
  then show thesis using that by auto
qed

end

section \<open>Ranked step relations\<close>

text \<open>
  The interface of a durable state machine that never goes back: no step lowers the rank, and
  a step that keeps the rank keeps the phase. Such a machine changes its phase a bounded number
  of times, whatever it observes.
\<close>

fun changes :: "'p list \<Rightarrow> nat" where
  "changes (p # q # ps) = (if p = q then 0 else 1) + changes (q # ps)"
| "changes _ = 0"

locale ranked_steps =
  fixes step :: "'p \<Rightarrow> 'p \<Rightarrow> bool"
    and rank :: "'p \<Rightarrow> nat"
    and top :: nat
  assumes rank_mono: "step p q \<Longrightarrow> p \<noteq> q \<Longrightarrow> rank p < rank q"
    and rank_top: "step p q \<Longrightarrow> rank q \<le> top"
begin

lemma steps_rank_le: "step\<^sup>*\<^sup>* p q \<Longrightarrow> rank p \<le> rank q"
proof (induction rule: rtranclp_induct)
  case base
  show ?case by simp
next
  case (step y z)
  then show ?case using rank_mono [of y z] by (cases "y = z") auto
qed

lemma no_return: "step\<^sup>*\<^sup>* p q \<Longrightarrow> step\<^sup>*\<^sup>* q p \<Longrightarrow> p \<noteq> q \<Longrightarrow> False"
proof -
  assume pq: "step\<^sup>*\<^sup>* p q" and qp: "step\<^sup>*\<^sup>* q p" and ne: "p \<noteq> q"
  have strict: "step\<^sup>*\<^sup>* a b \<Longrightarrow> a \<noteq> b \<Longrightarrow> rank a < rank b" for a b
  proof (induction rule: rtranclp_induct)
    case base
    then show ?case by simp
  next
    case (step y z)
    show ?case
    proof (cases "y = z")
      case True
      with step show ?thesis by simp
    next
      case False
      from rank_mono [OF step.hyps(2) False] steps_rank_le [OF step.hyps(1)]
      show ?thesis by simp
    qed
  qed
  from strict [OF pq ne] strict [OF qp] ne show False by simp
qed

lemma changes_bounded:
  assumes "successively step ps" and "ps \<noteq> []" and "rank (hd ps) \<le> top"
  shows "rank (hd ps) + changes ps \<le> top"
  using assms
proof (induction ps rule: changes.induct)
  case (1 p q ps)
  then have pq: "step p q" and tail: "successively step (q # ps)" by simp_all
  have "rank q + changes (q # ps) \<le> top"
    using 1(1) tail rank_top [OF pq] by simp
  then show ?case using rank_mono [OF pq] by (cases "p = q") auto
qed simp_all

end

section \<open>Fields of API objects\<close>

text \<open>
  Reading a nested field of a Kubernetes object has three outcomes: the field is not there, it
  does not have the type the reader asks for, or it has a value.
\<close>

datatype 'a api_field = Missing | Malformed | Present 'a

text \<open>\<open>value, _, _ := unstructured.NestedString(...)\<close>: an error or a missing field reads as the
  zero value.\<close>

definition field_or :: "'a \<Rightarrow> 'a api_field \<Rightarrow> 'a" where
  "field_or z f = (case f of Present v \<Rightarrow> v | _ \<Rightarrow> z)"

lemma field_or_simps [simp]:
  "field_or z Missing = z"
  "field_or z Malformed = z"
  "field_or z (Present v) = v"
  by (simp_all add: field_or_def)

section \<open>Machine integers\<close>

definition max_int64 :: int where
  "max_int64 = 9223372036854775807"

definition min_int64 :: int where
  "min_int64 = - 9223372036854775808"

definition is_int64 :: "int \<Rightarrow> bool" where
  "is_int64 x \<longleftrightarrow> min_int64 \<le> x \<and> x \<le> max_int64"

definition wrap64 :: "int \<Rightarrow> int" where
  "wrap64 x = (x + 9223372036854775808) mod 18446744073709551616 - 9223372036854775808"

lemma wrap64_id [simp]: "is_int64 x \<Longrightarrow> wrap64 x = x"
  by (simp add: is_int64_def wrap64_def min_int64_def max_int64_def)

lemma is_int64_wrap64 [simp]: "is_int64 (wrap64 x)"
  using pos_mod_bound [of 18446744073709551616 "x + 9223372036854775808"]
    pos_mod_sign [of 18446744073709551616 "x + 9223372036854775808"]
  by (simp add: is_int64_def wrap64_def min_int64_def max_int64_def)

lemma is_int64_intro: "0 \<le> x \<Longrightarrow> x \<le> max_int64 \<Longrightarrow> is_int64 x"
  by (simp add: is_int64_def min_int64_def max_int64_def)

type_synonym uint64 = "64 word"

lemma word_le_max_sub:
  fixes a b :: "'a::len word"
  shows "b \<le> - 1 - a \<longleftrightarrow> unat a + unat b < 2 ^ LENGTH('a)"
proof -
  have "unat (- 1 - a) = unat (- 1 :: 'a word) - unat a"
    by (rule unat_sub) simp
  moreover have "unat (- 1 :: 'a word) = 2 ^ LENGTH('a) - 1"
    by (simp add: unsigned_minus_1_eq_mask mask_eq_exp_minus_1)
  moreover have "unat a < 2 ^ LENGTH('a)" by simp
  ultimately show ?thesis unfolding word_le_nat_alt by linarith
qed

lemma unat_add_no_overflow:
  fixes a b :: "'a::len word"
  shows "b \<le> - 1 - a \<Longrightarrow> unat (a + b) = unat a + unat b"
  by (simp add: word_le_max_sub unat_add_lem [THEN iffD1])

lemma unat_add_less: "unat a + unat b < 2 ^ LENGTH('a) \<Longrightarrow> unat (a + b) = unat a + unat b"
  for a b :: "'a::len word"
  by (simp add: unat_add_lem [THEN iffD1])

end
