(* ===== verification/Mobility_FSM.thy ===== *)
theory Mobility_FSM
  imports ShiftPV_Prelude
begin

text \<open>
  The mobility state machine (\<open>src/mobility/fsm\<close>): which durable step a Move takes next,
  as a pure function \<open>Decide\<close> of its recorded state and of what the controller observed.

  \<^item> \<open>Phase\<close>, \<open>RecoveryPhase\<close>, \<open>Action\<close>: the string types of the source as datatypes. The
    empty string is \<open>PhaseUnset\<close> (\<open>RecoveryNone\<close>), a string that is none of the constants is
    \<open>PhaseOther\<close> (\<open>RecoveryOther\<close>).
  \<^item> one function per function of the source, in the source's order of guards. A guard of the
    source that may own the decision returns \<open>Some\<close> when it does.
  \<^item> lemmas: every decision follows the transition table; runs of the machine and the evidence
    a run has collected when it reaches a phase; recovery ends.
\<close>

section \<open>States, observations, decisions\<close>

datatype Phase =
    PhaseUnset
  | PhasePending
  | PhasePreparing
  | PhaseStartingDisruption
  | PhaseCanceling
  | PhaseCancelled
  | PhaseWaitingForUnpublish
  | PhaseWaitingForReplacement
  | PhaseWaitingForDestination
  | PhaseWaitingForCapacity
  | PhaseCopying
  | PhasePromoting
  | PhaseCommitting
  | PhaseReleasingDestination
  | PhaseWaitingForDestinationPublish
  | PhaseCleaningSource
  | PhaseCompleting
  | PhaseSucceeded
  | PhaseBlocked
  | PhaseOther string

datatype Action =
    ActionWait
  | ActionEnsurePlacement
  | ActionEnsureCapacity
  | ActionDeletePlacement
  | ActionReleasePlacement
  | ActionEnsureCopy
  | ActionEnsurePromotion
  | ActionCommitOwner
  | ActionEnsureCleanup
  | ActionConfirmCleanup
  | ActionMarkSucceeded
  | ActionMarkBlocked
  | ActionProtectMove
  | ActionInitializePreparation
  | ActionClaimSource
  | ActionReservePreparation
  | ActionStartDisruption
  | ActionRestoreSource
  | ActionReleasePreparation
  | ActionReleaseSource
  | ActionFinalizeHistory
  | ActionFinalizeSourceUsage
  | ActionBeginRecovery
  | ActionQuiesceRecovery
  | ActionVerifyRecovery
  | ActionRetireRecovery
  | ActionResumeRecovery
  | ActionCompleteRecovery
  | ActionRequestSettlement

datatype RecoveryPhase =
    RecoveryNone
  | RecoveryQuiescing
  | RecoveryVerifying
  | RecoveryRetiring
  | RecoveryResuming
  | RecoveryCompleting
  | RecoveryRecovered
  | RecoveryOther string

record FsmState =
  fs_Phase :: Phase
  fs_RecoveryPhase :: RecoveryPhase

record Observation =
  WorkloadRetired :: bool
  SettlementOnly :: bool
  ProtectionPresent :: bool
  SourcePlanRecorded :: bool
  SourceClaimed :: bool
  PreparationReserved :: bool
  PreparationChangedReason :: string
  PreparationUnavailable :: bool
  SourceMoving :: bool
  SourceBlocked :: bool
  PlacementAbsent :: bool
  DestinationIntentRecorded :: bool
  RecoveryRequested :: bool
  RecoveryOwnerIsDestination :: bool
  RecoveryUnlockObserved :: bool
  PreconditionsValid :: bool
  PreflightDeferred :: bool
  UnsafeReason :: string
  SourceHealthy :: bool
  SourceAuthorityInvalid :: bool
  ConsumerExists :: bool
  ConsumersAmbiguous :: bool
  PublishedOnSource :: bool
  ReplacementExists :: bool
  ReplacementHeld :: bool
  PlacementExists :: bool
  DestinationScheduled :: bool
  DestinationBlocked :: bool
  DestinationUnavailable :: bool
  CapacityApproved :: bool
  CapacityBlocked :: bool
  CopyComplete :: bool
  CopyFailed :: bool
  PromotionComplete :: bool
  PromotionFailed :: bool
  OwnerCommitted :: bool
  PublishedOnDestination :: bool
  CleanupComplete :: bool
  CleanupFailed :: bool
  CompletionReady :: bool

record Decision =
  Next :: FsmState
  DecidedAction :: Action
  DecidedReason :: string

definition decision :: "FsmState \<Rightarrow> Action \<Rightarrow> string \<Rightarrow> Decision" where
  "decision s a r = \<lparr>Next = s, DecidedAction = a, DecidedReason = r\<rparr>"

lemma decision_sel [simp]:
  "Next (decision s a r) = s"
  "DecidedAction (decision s a r) = a"
  "DecidedReason (decision s a r) = r"
  by (simp_all add: decision_def)

definition phase_state :: "Phase \<Rightarrow> FsmState" where
  "phase_state p = \<lparr>fs_Phase = p, fs_RecoveryPhase = RecoveryNone\<rparr>"

lemma phase_state_sel [simp]:
  "fs_Phase (phase_state p) = p"
  "fs_RecoveryPhase (phase_state p) = RecoveryNone"
  by (simp_all add: phase_state_def)

section \<open>The transition table\<close>

fun allowedTransitions :: "Phase \<Rightarrow> Phase list option" where
  "allowedTransitions PhasePending =
     Some [PhasePending, PhasePreparing, PhaseBlocked, PhaseCanceling]"
| "allowedTransitions PhasePreparing =
     Some [PhasePreparing, PhaseStartingDisruption, PhaseCanceling]"
| "allowedTransitions PhaseStartingDisruption =
     Some [PhaseStartingDisruption, PhaseWaitingForUnpublish, PhaseCanceling, PhaseBlocked]"
| "allowedTransitions PhaseCanceling = Some [PhaseCanceling, PhaseCancelled]"
| "allowedTransitions PhaseCancelled = Some [PhaseCancelled]"
| "allowedTransitions PhaseWaitingForUnpublish =
     Some [PhaseWaitingForUnpublish, PhaseWaitingForReplacement, PhaseBlocked, PhaseCanceling]"
| "allowedTransitions PhaseWaitingForReplacement =
     Some [PhaseWaitingForReplacement, PhaseWaitingForDestination, PhaseBlocked, PhaseCanceling]"
| "allowedTransitions PhaseWaitingForDestination =
     Some [PhaseWaitingForDestination, PhaseWaitingForCapacity, PhaseBlocked, PhaseCanceling]"
| "allowedTransitions PhaseWaitingForCapacity =
     Some [PhaseWaitingForCapacity, PhaseCopying, PhaseBlocked, PhaseCanceling]"
| "allowedTransitions PhaseCopying = Some [PhaseCopying, PhasePromoting, PhaseBlocked]"
| "allowedTransitions PhasePromoting = Some [PhasePromoting, PhaseCommitting, PhaseBlocked]"
| "allowedTransitions PhaseCommitting =
     Some [PhaseCommitting, PhaseReleasingDestination, PhaseBlocked]"
| "allowedTransitions PhaseReleasingDestination =
     Some [PhaseReleasingDestination, PhaseWaitingForDestinationPublish, PhaseBlocked]"
| "allowedTransitions PhaseWaitingForDestinationPublish =
     Some [PhaseWaitingForDestinationPublish, PhaseCleaningSource, PhaseBlocked]"
| "allowedTransitions PhaseCleaningSource =
     Some [PhaseCleaningSource, PhaseCompleting, PhaseBlocked]"
| "allowedTransitions PhaseCompleting = Some [PhaseCompleting, PhaseSucceeded]"
| "allowedTransitions PhaseSucceeded = Some [PhaseSucceeded]"
| "allowedTransitions PhaseBlocked = Some [PhaseBlocked, PhaseCanceling]"
| "allowedTransitions _ = None"

definition known :: "Phase \<Rightarrow> bool" where
  "known p \<longleftrightarrow> allowedTransitions p \<noteq> None"

definition terminal :: "Phase \<Rightarrow> bool" where
  "terminal p \<longleftrightarrow> p = PhaseSucceeded \<or> p = PhaseCancelled"

definition ValidateTransition :: "Phase \<Rightarrow> Phase \<Rightarrow> error option" where
  "ValidateTransition src dst =
     (if \<not> known src \<or> \<not> known dst then Some (Errorf ''transition contains unknown phase'')
      else if terminal src \<and> src \<noteq> dst then Some (Errorf ''terminal phase cannot transition'')
      else (case allowedTransitions src of
              Some ps \<Rightarrow> if dst \<in> set ps then None else Some (Errorf ''illegal mobility transition'')
            | None \<Rightarrow> Some (Errorf ''illegal mobility transition'')))"

definition transition :: "Phase \<Rightarrow> Phase \<Rightarrow> Action \<Rightarrow> string \<Rightarrow> Decision res" where
  "transition src dst action reason =
     guard_err (ValidateTransition src dst) (Inr (decision (phase_state dst) action reason))"

section \<open>Shared guards\<close>

definition reasonOr :: "string \<Rightarrow> string \<Rightarrow> string" where
  "reasonOr value fallback = (if value \<noteq> [] then value else fallback)"

definition beforeExecutionApproval :: "Observation \<Rightarrow> bool" where
  "beforeExecutionApproval obs \<longleftrightarrow> \<not> CapacityApproved obs \<and> \<not> DestinationIntentRecorded obs"

fun beforeCommit :: "Phase \<Rightarrow> bool" where
  "beforeCommit PhasePending = True"
| "beforeCommit PhaseWaitingForUnpublish = True"
| "beforeCommit PhaseWaitingForReplacement = True"
| "beforeCommit PhaseWaitingForDestination = True"
| "beforeCommit PhaseWaitingForCapacity = True"
| "beforeCommit PhaseCopying = True"
| "beforeCommit PhasePromoting = True"
| "beforeCommit PhaseCommitting = True"
| "beforeCommit _ = False"

definition disruptionPossible :: "Phase \<Rightarrow> bool" where
  "disruptionPossible p \<longleftrightarrow> p \<noteq> PhaseUnset \<and> p \<noteq> PhasePending \<and> p \<noteq> PhasePreparing"

definition blocked :: "string \<Rightarrow> Decision" where
  "blocked reason = decision (phase_state PhaseBlocked) ActionMarkBlocked reason"

definition blockedWith :: "Phase \<Rightarrow> Observation \<Rightarrow> string \<Rightarrow> Decision" where
  "blockedWith current obs fallback =
     (if beforeExecutionApproval obs \<and> \<not> disruptionPossible current
      then decision (phase_state PhaseCanceling) ActionWait (reasonOr (UnsafeReason obs) fallback)
      else blocked (reasonOr (UnsafeReason obs) fallback))"

definition destinationGuard :: "Phase \<Rightarrow> Observation \<Rightarrow> Decision res option" where
  "destinationGuard current obs =
     (if DestinationUnavailable obs
      then Some (transition current current ActionWait ''DestinationUnavailable'')
      else if DestinationBlocked obs
      then Some (Inr (blockedWith current obs ''InvalidDestination''))
      else None)"

definition placementGuard :: "Phase \<Rightarrow> Observation \<Rightarrow> Decision res option" where
  "placementGuard current obs =
     (if \<not> PlacementExists obs \<or> \<not> DestinationScheduled obs
      then Some (transition current current ActionEnsurePlacement [])
      else None)"

definition consumerGuard :: "Phase \<Rightarrow> Observation \<Rightarrow> Decision res option" where
  "consumerGuard current obs =
     (if ConsumersAmbiguous obs \<and> \<not> OwnerCommitted obs
      then Some (transition current current ActionWait ''MultipleConsumers'')
      else None)"

definition preparationChanged :: "Phase \<Rightarrow> Observation \<Rightarrow> Decision res" where
  "preparationChanged current obs =
     (if disruptionPossible current \<and> PreparationUnavailable obs \<and> \<not> SourceAuthorityInvalid obs
      then transition current current ActionWait (PreparationChangedReason obs)
      else Inr (blockedWith current (obs\<lparr>UnsafeReason := PreparationChangedReason obs\<rparr>)
                  ''PreparationChanged''))"

text \<open>A guard that owns the decision ends the function; otherwise the next check runs.\<close>

definition or_else :: "'a option \<Rightarrow> 'a \<Rightarrow> 'a" where
  "or_else g r = (case g of Some d \<Rightarrow> d | None \<Rightarrow> r)"

lemma or_else_simps [simp]:
  "or_else (Some d) r = d"
  "or_else None r = r"
  by (simp_all add: or_else_def)

section \<open>Lifecycle decisions\<close>

fun knownRecovery :: "RecoveryPhase \<Rightarrow> bool" where
  "knownRecovery RecoveryQuiescing = True"
| "knownRecovery RecoveryVerifying = True"
| "knownRecovery RecoveryRetiring = True"
| "knownRecovery RecoveryResuming = True"
| "knownRecovery RecoveryCompleting = True"
| "knownRecovery RecoveryRecovered = True"
| "knownRecovery _ = False"

definition validatePreparationEvidence :: "Phase \<Rightarrow> Observation \<Rightarrow> error option" where
  "validatePreparationEvidence p obs =
     (if p = PhasePending \<and> (CapacityApproved obs \<or> DestinationIntentRecorded obs)
      then Some (Errorf ''pending preparation cannot carry destination execution authority'')
      else if p = PhaseCancelled \<and> PreparationReserved obs
      then Some (Errorf ''cancelled Move still holds its preparation reservation'')
      else None)"

definition validateState :: "FsmState \<Rightarrow> Observation \<Rightarrow> error option" where
  "validateState current obs =
     (if \<not> known (fs_Phase current) then Some (Errorf ''unknown mobility phase'')
      else if fs_RecoveryPhase current \<noteq> RecoveryNone \<and>
              (fs_Phase current \<noteq> PhaseBlocked \<or> \<not> knownRecovery (fs_RecoveryPhase current))
      then Some (Errorf ''invalid recovery state'')
      else if fs_Phase current \<in> {PhasePreparing, PhaseStartingDisruption, PhaseCanceling, PhaseCancelled}
              \<and> (CapacityApproved obs \<or> DestinationIntentRecorded obs)
      then Some (Errorf ''phase cannot release destination execution authority'')
      else validatePreparationEvidence (fs_Phase current) obs)"

definition validateReservedSource :: "Observation \<Rightarrow> error option" where
  "validateReservedSource obs =
     (if PreparationReserved obs \<and> (\<not> SourcePlanRecorded obs \<or> \<not> SourceClaimed obs)
      then Some (Errorf ''preparation reservation lost its recorded source claim'')
      else None)"

definition canCancelRetiredPreparation :: "FsmState \<Rightarrow> Observation \<Rightarrow> bool" where
  "canCancelRetiredPreparation current obs \<longleftrightarrow>
     WorkloadRetired obs \<and> beforeExecutionApproval obs \<and>
     fs_Phase current \<noteq> PhaseCanceling \<and> fs_Phase current \<noteq> PhaseCancelled \<and>
     fs_Phase current \<noteq> PhaseSucceeded \<and> fs_RecoveryPhase current = RecoveryNone"

definition canRequestSettlement :: "FsmState \<Rightarrow> Observation \<Rightarrow> bool" where
  "canRequestSettlement current obs \<longleftrightarrow>
     \<not> (\<not> WorkloadRetired obs \<or> fs_RecoveryPhase current = RecoveryRecovered \<or>
        beforeExecutionApproval obs) \<and>
     fs_Phase current \<notin> {PhaseSucceeded, PhaseCancelled, PhaseCanceling}"

definition decidePreparation :: "Phase \<Rightarrow> Observation \<Rightarrow> Decision res" where
  "decidePreparation current obs =
     guard_err (validateReservedSource obs)
      (if \<not> ProtectionPresent obs then transition current current ActionProtectMove []
       else if SourceAuthorityInvalid obs
       then Inr (blockedWith current obs ''SourceAuthorityInvalid'')
       else if \<not> SourceHealthy obs \<or> \<not> PreconditionsValid obs \<or> PreflightDeferred obs
       then (if PreparationReserved obs then Inr (blockedWith current obs ''PreparationChanged'')
             else transition current current
                    (if PlacementExists obs then ActionDeletePlacement else ActionWait)
                    (reasonOr (UnsafeReason obs) ''PreparationDeferred''))
       else if \<not> SourcePlanRecorded obs
       then transition current PhasePreparing ActionInitializePreparation []
       else if current = PhasePending then transition current PhasePreparing ActionWait []
       else if \<not> SourceClaimed obs then transition current current ActionClaimSource []
       else if \<not> PreparationReserved obs
       then transition current current ActionReservePreparation []
       else transition current PhaseStartingDisruption ActionWait [])"

definition decideStartingDisruption :: "Phase \<Rightarrow> Observation \<Rightarrow> Decision res" where
  "decideStartingDisruption current obs =
     (if \<not> ProtectionPresent obs \<or> \<not> SourcePlanRecorded obs \<or> \<not> SourceClaimed obs \<or>
         \<not> PreparationReserved obs
      then Inl (Errorf ''disruption requires the protected plan, source claim and reservation'')
      else if SourceAuthorityInvalid obs
      then Inr (blockedWith current obs ''SourceAuthorityInvalid'')
      else if \<not> SourceHealthy obs \<or> PreflightDeferred obs
      then transition current current ActionWait (reasonOr (UnsafeReason obs) ''PreparationUnavailable'')
      else if ReplacementExists obs \<and> \<not> ReplacementHeld obs
      then Inr (blockedWith current obs ''UnexpectedConsumerPlacement'')
      else transition current PhaseWaitingForUnpublish ActionStartDisruption [])"

definition decideCancellation :: "FsmState \<Rightarrow> Observation \<Rightarrow> Decision res" where
  "decideCancellation current obs =
     guard_err (validateReservedSource obs)
      (if fs_Phase current = PhaseCanceling \<and> SourcePlanRecorded obs \<and> \<not> SourceClaimed obs
       then Inr (decision current ActionClaimSource [])
       else if SourceClaimed obs \<and> (SourceMoving obs \<or> SourceBlocked obs)
       then Inr (decision current ActionRestoreSource [])
       else if \<not> PlacementAbsent obs then Inr (decision current ActionDeletePlacement [])
       else if fs_Phase current = PhaseCanceling
       then transition (fs_Phase current) PhaseCancelled ActionReleasePreparation []
       else if SourceClaimed obs then Inr (decision current ActionReleaseSource [])
       else Inr (decision current ActionFinalizeHistory []))"

definition decideRecovery :: "FsmState \<Rightarrow> Observation \<Rightarrow> Decision res" where
  "decideRecovery current obs =
     (let dst = (\<lambda>r a. Inr (decision (current\<lparr>fs_RecoveryPhase := r\<rparr>) a []))
      in case fs_RecoveryPhase current of
           RecoveryNone \<Rightarrow> dst RecoveryQuiescing ActionBeginRecovery
         | RecoveryQuiescing \<Rightarrow> dst RecoveryVerifying ActionQuiesceRecovery
         | RecoveryVerifying \<Rightarrow>
             dst (if RecoveryOwnerIsDestination obs \<and> \<not> SettlementOnly obs
                  then RecoveryResuming else RecoveryRetiring) ActionVerifyRecovery
         | RecoveryRetiring \<Rightarrow>
             dst (if RecoveryOwnerIsDestination obs \<or> SettlementOnly obs
                  then RecoveryCompleting else RecoveryResuming) ActionRetireRecovery
         | RecoveryResuming \<Rightarrow>
             dst (if RecoveryOwnerIsDestination obs
                  then RecoveryRetiring else RecoveryCompleting) ActionResumeRecovery
         | RecoveryCompleting \<Rightarrow>
             dst RecoveryRecovered
               (if RecoveryUnlockObserved obs then ActionWait else ActionCompleteRecovery)
         | _ \<Rightarrow> Inl (Errorf ''unknown recovery phase''))"

text \<open>\<open>None\<close>: no lifecycle rule handles the state, and \<open>Decide\<close> goes on to execution.\<close>

definition decideLifecycle :: "FsmState \<Rightarrow> Observation \<Rightarrow> Decision res option" where
  "decideLifecycle current obs =
     (if canCancelRetiredPreparation current obs
      then Some (if SourceAuthorityInvalid obs \<or> \<not> SourcePlanRecorded obs \<or>
                    \<not> SourceClaimed obs \<or> \<not> PreparationReserved obs
                 then Inl (Errorf ''retired preparation requires its exact reserved source authority'')
                 else transition (fs_Phase current) PhaseCanceling ActionWait ''WorkloadRetired'')
      else if canRequestSettlement current obs
      then Some (Inr (decision (phase_state PhaseBlocked) ActionRequestSettlement ''WorkloadRetired''))
      else if fs_Phase current = PhaseSucceeded
      then Some (Inr (decision current ActionFinalizeHistory []))
      else if fs_Phase current \<in> {PhaseCanceling, PhaseCancelled}
      then Some (decideCancellation current obs)
      else if fs_Phase current = PhaseBlocked
      then Some (if fs_RecoveryPhase current = RecoveryRecovered
                 then Inr (decision current ActionFinalizeHistory [])
                 else if beforeExecutionApproval obs \<and> fs_RecoveryPhase current = RecoveryNone
                 then Inr (decision current ActionFinalizeSourceUsage [])
                 else if RecoveryRequested obs then decideRecovery current obs
                 else Inr (decision current ActionFinalizeSourceUsage []))
      else if beforeExecutionApproval obs \<and> PreparationChangedReason obs \<noteq> []
      then Some (preparationChanged (fs_Phase current) obs)
      else if fs_Phase current \<in> {PhasePending, PhasePreparing}
      then Some (decidePreparation (fs_Phase current) obs)
      else if fs_Phase current = PhaseStartingDisruption
      then Some (decideStartingDisruption (fs_Phase current) obs)
      else None)"

section \<open>Execution decisions\<close>

definition lifecycleGuard :: "Phase \<Rightarrow> Observation \<Rightarrow> Decision res option" where
  "lifecycleGuard current obs =
     (if current = PhaseCompleting
      then Some (if CompletionReady obs
                 then transition current PhaseSucceeded ActionMarkSucceeded []
                 else transition current current ActionWait ''CompletionAuthorityMismatch'')
      else None)"

definition authorityGuard :: "Phase \<Rightarrow> Observation \<Rightarrow> Decision res option" where
  "authorityGuard current obs =
     (if SourceAuthorityInvalid obs
      then Some (Inr (blockedWith current obs ''SourceAuthorityInvalid''))
      else if beforeCommit current \<and> \<not> OwnerCommitted obs \<and> \<not> SourceHealthy obs
      then Some (if beforeExecutionApproval obs \<and> disruptionPossible current
                 then transition current current ActionWait
                        (reasonOr (UnsafeReason obs) ''SourceUnavailable'')
                 else Inr (blockedWith current obs ''SourceUnavailable''))
      else None)"

definition decideWaitingForUnpublish :: "Phase \<Rightarrow> Observation \<Rightarrow> Decision res" where
  "decideWaitingForUnpublish current obs =
     (if PublishedOnSource obs then transition current current ActionWait []
      else transition current PhaseWaitingForReplacement ActionWait [])"

definition decideWaitingForReplacement :: "Phase \<Rightarrow> Observation \<Rightarrow> Decision res" where
  "decideWaitingForReplacement current obs =
     (if \<not> ReplacementExists obs then transition current current ActionWait []
      else if \<not> ReplacementHeld obs then Inr (blockedWith current obs ''PlacementHoldLost'')
      else transition current PhaseWaitingForDestination ActionEnsurePlacement [])"

definition decideWaitingForDestination :: "Phase \<Rightarrow> Observation \<Rightarrow> Decision res" where
  "decideWaitingForDestination current obs =
     (if DestinationBlocked obs then Inr (blockedWith current obs ''DestinationUnavailable'')
      else if \<not> ReplacementExists obs then transition current current ActionWait []
      else if \<not> ReplacementHeld obs then Inr (blockedWith current obs ''PlacementHoldLost'')
      else if \<not> DestinationScheduled obs then transition current current ActionEnsurePlacement []
      else if DestinationUnavailable obs
      then transition current PhaseWaitingForCapacity ActionWait ''DestinationUnavailable''
      else transition current PhaseWaitingForCapacity ActionWait [])"

definition decideWaitingForCapacity :: "Phase \<Rightarrow> Observation \<Rightarrow> Decision res" where
  "decideWaitingForCapacity current obs =
     or_else (destinationGuard current obs)
      (or_else (consumerGuard current obs)
        (if CapacityBlocked obs
         then transition current current ActionEnsureCapacity
                (reasonOr (UnsafeReason obs) ''DestinationCapacityInsufficient'')
         else if CapacityApproved obs then transition current PhaseCopying ActionEnsureCopy []
         else transition current current ActionEnsureCapacity []))"

definition decideCopying :: "Phase \<Rightarrow> Observation \<Rightarrow> Decision res" where
  "decideCopying current obs =
     or_else (destinationGuard current obs)
      (if CopyFailed obs then Inr (blockedWith current (obs\<lparr>UnsafeReason := []\<rparr>) ''CopyFailed'')
       else or_else (consumerGuard current obs)
        (or_else (placementGuard current obs)
          (if CopyComplete obs then transition current PhasePromoting ActionEnsurePromotion []
           else transition current current ActionEnsureCopy [])))"

definition decidePromoting :: "Phase \<Rightarrow> Observation \<Rightarrow> Decision res" where
  "decidePromoting current obs =
     (if OwnerCommitted obs then transition current PhaseCommitting ActionCommitOwner []
      else or_else (destinationGuard current obs)
       (if PromotionFailed obs
        then Inr (blockedWith current (obs\<lparr>UnsafeReason := []\<rparr>) ''PromotionFailed'')
        else or_else (consumerGuard current obs)
         (or_else (placementGuard current obs)
           (if PromotionComplete obs then transition current PhaseCommitting ActionCommitOwner []
            else transition current current ActionEnsurePromotion []))))"

definition decideCommitting :: "Phase \<Rightarrow> Observation \<Rightarrow> Decision res" where
  "decideCommitting current obs =
     (if OwnerCommitted obs
      then (if DestinationUnavailable obs
            then transition current current ActionWait ''DestinationUnavailable''
            else transition current PhaseReleasingDestination ActionDeletePlacement [])
      else or_else (destinationGuard current obs)
       (or_else (consumerGuard current obs)
         (or_else (placementGuard current obs)
           (transition current current ActionCommitOwner []))))"

definition decideReleasingDestination :: "Phase \<Rightarrow> Observation \<Rightarrow> Decision res" where
  "decideReleasingDestination current obs =
     (if DestinationUnavailable obs
      then transition current current ActionWait ''DestinationUnavailable''
      else if PlacementExists obs then transition current current ActionDeletePlacement []
      else if ReplacementExists obs \<and> ReplacementHeld obs
      then transition current PhaseWaitingForDestinationPublish ActionReleasePlacement []
      else transition current PhaseWaitingForDestinationPublish ActionWait
             (if ConsumersAmbiguous obs \<and> \<not> PublishedOnDestination obs
              then ''MultipleConsumers'' else []))"

definition decideWaitingForDestinationPublish :: "Phase \<Rightarrow> Observation \<Rightarrow> Decision res" where
  "decideWaitingForDestinationPublish current obs =
     (if CleanupFailed obs
      then Inr (blockedWith current (obs\<lparr>UnsafeReason := []\<rparr>) ''CleanupFailed'')
      else if DestinationUnavailable obs
      then transition current current ActionWait ''DestinationUnavailable''
      else if ReplacementExists obs \<and> ReplacementHeld obs
      then transition current current ActionReleasePlacement []
      else if \<not> PublishedOnDestination obs
      then transition current current ActionWait
             (if ConsumersAmbiguous obs then ''MultipleConsumers'' else [])
      else transition current PhaseCleaningSource ActionEnsureCleanup [])"

definition decideCleaningSource :: "Phase \<Rightarrow> Observation \<Rightarrow> Decision res" where
  "decideCleaningSource current obs =
     (if DestinationUnavailable obs
      then transition current current ActionWait ''DestinationUnavailable''
      else if CleanupFailed obs
      then Inr (blockedWith current (obs\<lparr>UnsafeReason := []\<rparr>) ''CleanupFailed'')
      else if ReplacementExists obs \<and> ReplacementHeld obs
      then transition current current ActionReleasePlacement []
      else if CleanupComplete obs then transition current PhaseCompleting ActionConfirmCleanup []
      else transition current current ActionEnsureCleanup [])"

fun dispatchPhase :: "Phase \<Rightarrow> Observation \<Rightarrow> Decision res" where
  "dispatchPhase PhaseWaitingForUnpublish obs =
     decideWaitingForUnpublish PhaseWaitingForUnpublish obs"
| "dispatchPhase PhaseWaitingForReplacement obs =
     decideWaitingForReplacement PhaseWaitingForReplacement obs"
| "dispatchPhase PhaseWaitingForDestination obs =
     decideWaitingForDestination PhaseWaitingForDestination obs"
| "dispatchPhase PhaseWaitingForCapacity obs =
     decideWaitingForCapacity PhaseWaitingForCapacity obs"
| "dispatchPhase PhaseCopying obs = decideCopying PhaseCopying obs"
| "dispatchPhase PhasePromoting obs = decidePromoting PhasePromoting obs"
| "dispatchPhase PhaseCommitting obs = decideCommitting PhaseCommitting obs"
| "dispatchPhase PhaseReleasingDestination obs =
     decideReleasingDestination PhaseReleasingDestination obs"
| "dispatchPhase PhaseWaitingForDestinationPublish obs =
     decideWaitingForDestinationPublish PhaseWaitingForDestinationPublish obs"
| "dispatchPhase PhaseCleaningSource obs = decideCleaningSource PhaseCleaningSource obs"
| "dispatchPhase _ obs = Inl (Errorf ''mobility phase has no decision rule'')"

definition decideExecution :: "Phase \<Rightarrow> Observation \<Rightarrow> Decision res" where
  "decideExecution current obs =
     or_else (lifecycleGuard current obs)
      (or_else (authorityGuard current obs) (dispatchPhase current obs))"

definition normalizeState :: "FsmState \<Rightarrow> FsmState" where
  "normalizeState current =
     (if fs_Phase current = PhaseUnset \<and> fs_RecoveryPhase current = RecoveryNone
      then current\<lparr>fs_Phase := PhasePending\<rparr> else current)"

definition Decide :: "FsmState \<Rightarrow> Observation \<Rightarrow> Decision res" where
  "Decide state obs =
     (let current = normalizeState state
      in guard_err (validateState current obs)
          (or_else (decideLifecycle current obs)
            (bind_res (decideExecution (fs_Phase current) obs)
              (\<lambda>d. guard_err (ValidateTransition (fs_Phase current) (fs_Phase (Next d))) (Inr d)))))"

end
