(* ===== verification/Staged_Machine.thy ===== *)
theory Staged_Machine
  imports ShiftPV_Prelude
begin

text \<open>
  The contract shared by the durable state machines: a decision function that is called again
  and again on a stored state and on fresh observations. The caller stores the decided next
  state only after the decided action has completed, so a decision may leave the stored state
  as it was.

  \<open>machine_run\<close> is a run of such a machine with the observations and decisions made on the
  way. The locale \<open>staged_machine\<close> asks one law of the decision function: it never raises the
  stage of a state by more than one, and raises it only on an observation that is evidence for
  leaving the stage. Its lemma is that a run that reaches a stage has collected the evidence of
  every stage below, in order. \<open>staged_effects\<close> adds the decisions that need evidence.
\<close>

section \<open>Evidence in order\<close>

text \<open>The predicates hold at distinct positions of the list, in their order.\<close>

fun in_order :: "('a \<Rightarrow> bool) list \<Rightarrow> 'a list \<Rightarrow> bool" where
  "in_order [] xs = True"
| "in_order (P # Ps) [] = False"
| "in_order (P # Ps) (x # xs) = (P x \<and> in_order Ps xs \<or> in_order (P # Ps) xs)"

lemma in_order_append: "in_order Ps xs \<Longrightarrow> in_order Ps (xs @ ys)"
  by (induction Ps xs rule: in_order.induct) auto

lemma in_order_snoc: "in_order Ps xs \<Longrightarrow> P x \<Longrightarrow> in_order (Ps @ [P]) (xs @ [x])"
proof (induction Ps xs rule: in_order.induct)
  case (1 xs)
  then show ?case by (induction xs) auto
qed auto

lemma in_order_Cons_mono: "in_order (P # Ps) xs \<Longrightarrow> in_order Ps xs"
proof (induction xs arbitrary: P Ps)
  case (Cons x xs)
  then show ?case by (cases Ps) auto
qed simp

lemma in_order_prefix: "in_order (Ps @ Qs) xs \<Longrightarrow> in_order Ps xs"
  by (induction Ps xs rule: in_order.induct) auto

lemma in_order_member: "in_order Ps xs \<Longrightarrow> P \<in> set Ps \<Longrightarrow> \<exists>x \<in> set xs. P x"
  by (induction Ps xs rule: in_order.induct) auto

text \<open>The same as positions: strictly increasing indices at which the predicates hold.\<close>

lemma in_order_positions:
  "in_order Ps xs \<Longrightarrow>
   \<exists>is. length is = length Ps \<and> sorted_wrt (<) is \<and>
     (\<forall>k < length Ps. is ! k < length xs \<and> (Ps ! k) (xs ! (is ! k)))"
proof (induction Ps xs rule: in_order.induct)
  case (3 P Ps x xs)
  show ?case
  proof (cases "P x \<and> in_order Ps xs")
    case True
    with 3(1) obtain ks where ks: "length ks = length Ps" "sorted_wrt (<) ks"
      "\<forall>k < length Ps. ks ! k < length xs \<and> (Ps ! k) (xs ! (ks ! k))" by auto
    have "sorted_wrt (<) (0 # map Suc ks)"
      using ks(2) by (auto simp: sorted_wrt_map)
    moreover have "(0 # map Suc ks) ! k < length (x # xs) \<and>
        ((P # Ps) ! k) ((x # xs) ! ((0 # map Suc ks) ! k))" if "k < length (P # Ps)" for k
      using that ks(1,3) True by (cases k) auto
    ultimately show ?thesis using ks(1) by (intro exI [of _ "0 # map Suc ks"]) auto
  next
    case False
    with 3 obtain ks where ks: "length ks = length (P # Ps)" "sorted_wrt (<) ks"
      "\<forall>k < length (P # Ps). ks ! k < length xs \<and> ((P # Ps) ! k) (xs ! (ks ! k))" by auto
    then show ?thesis
      by (intro exI [of _ "map Suc ks"]) (auto simp: sorted_wrt_map)
  qed
qed auto

section \<open>Runs\<close>

inductive machine_run ::
  "('s \<Rightarrow> 'o \<Rightarrow> 'd res) \<Rightarrow> ('d \<Rightarrow> 's) \<Rightarrow> 's \<Rightarrow> ('o \<times> 'd) list \<Rightarrow> 's \<Rightarrow> bool"
  for decide nxt s where
  start: "machine_run decide nxt s [] s"
| hold: "machine_run decide nxt s tr t \<Longrightarrow> decide t obs = Inr d \<Longrightarrow>
     machine_run decide nxt s (tr @ [(obs, d)]) t"
| advance: "machine_run decide nxt s tr t \<Longrightarrow> decide t obs = Inr d \<Longrightarrow>
     machine_run decide nxt s (tr @ [(obs, d)]) (nxt d)"

inductive_cases machine_run_snocE: "machine_run decide nxt s (tr @ [(obs, d)]) t"
inductive_cases machine_run_NilE: "machine_run decide nxt s [] t"

lemma machine_run_prefix:
  assumes "machine_run decide nxt s (pre @ post) t"
  shows "\<exists>u. machine_run decide nxt s pre u"
  using assms
proof (induction post arbitrary: t rule: rev_induct)
  case (snoc e post)
  obtain obs d where e: "e = (obs, d)" by fastforce
  from snoc.prems have "machine_run decide nxt s ((pre @ post) @ [(obs, d)]) t" by (simp add: e)
  then obtain u where "machine_run decide nxt s (pre @ post) u"
    by (elim machine_run_snocE) blast+
  then show ?case by (rule snoc.IH)
qed auto

text \<open>The state a decision of the run was made on.\<close>

lemma machine_run_decision:
  assumes "machine_run decide nxt s (pre @ (obs, d) # post) t"
  shows "\<exists>u. machine_run decide nxt s pre u \<and> decide u obs = Inr d"
proof -
  from assms have "machine_run decide nxt s ((pre @ [(obs, d)]) @ post) t" by simp
  then obtain u where "machine_run decide nxt s (pre @ [(obs, d)]) u"
    using machine_run_prefix [of decide nxt s "pre @ [(obs, d)]" post t] by blast
  then show ?thesis by (elim machine_run_snocE) auto
qed

text \<open>A property of states that every decision keeps holds along a run.\<close>

lemma machine_run_invariant:
  assumes "machine_run decide nxt s tr t" and "I s"
    and "\<And>u obs d. I u \<Longrightarrow> decide u obs = Inr d \<Longrightarrow> I (nxt d)"
  shows "I t"
  using assms(1,2,3) by (induction rule: machine_run.induct) auto

text \<open>The run in which every decided next state is stored, as a function of the observations.\<close>

fun exec_run :: "('s \<Rightarrow> 'o \<Rightarrow> 'd res) \<Rightarrow> ('d \<Rightarrow> 's) \<Rightarrow> 's \<Rightarrow> 'o list \<Rightarrow> (('o \<times> 'd) list \<times> 's) res" where
  "exec_run decide nxt s [] = Inr ([], s)"
| "exec_run decide nxt s (obs # os) =
     bind_res (decide s obs) (\<lambda>d.
       bind_res (exec_run decide nxt (nxt d) os) (\<lambda>(tr, t). Inr ((obs, d) # tr, t)))"

lemma machine_run_Cons:
  assumes "machine_run decide nxt (nxt d) tr t" and "decide s obs = Inr d"
  shows "machine_run decide nxt s ((obs, d) # tr) t"
  using assms(1)
proof (induction rule: machine_run.induct)
  case start
  from machine_run.advance [OF machine_run.start, of decide s obs d nxt] assms(2)
  show ?case by simp
next
  case (hold tr t obs' d')
  then show ?case using machine_run.hold [of decide nxt s "(obs, d) # tr" t obs' d'] by simp
next
  case (advance tr t obs' d')
  then show ?case using machine_run.advance [of decide nxt s "(obs, d) # tr" t obs' d'] by simp
qed

lemma exec_run_sound:
  "exec_run decide nxt s os = Inr (tr, t) \<Longrightarrow> machine_run decide nxt s tr t"
  by (induction os arbitrary: s tr)
    (auto simp: err_simps split: prod.splits intro: machine_run.start machine_run_Cons)

lemma exec_run_append:
  "exec_run decide nxt s (os @ ps) =
     bind_res (exec_run decide nxt s os) (\<lambda>(tr, t).
       bind_res (exec_run decide nxt t ps) (\<lambda>(tr', u). Inr (tr @ tr', u)))"
proof (induction os arbitrary: s)
  case Nil
  show ?case by (cases "exec_run decide nxt s ps") (auto split: prod.splits)
next
  case (Cons obs os)
  show ?case
  proof (cases "decide s obs")
    case (Inr d)
    show ?thesis
    proof (cases "exec_run decide nxt (nxt d) os")
      case (Inr r)
      then show ?thesis using \<open>decide s obs = Inr d\<close> Cons
        by (cases r; cases "exec_run decide nxt (snd r) ps") (auto split: prod.splits)
    qed (simp add: Inr Cons)
  qed simp
qed

section \<open>The contract of a staged machine\<close>

locale staged_machine =
  fixes decide :: "'s \<Rightarrow> 'o \<Rightarrow> 'd res"
    and nxt :: "'d \<Rightarrow> 's"
    and stage_of :: "'s \<Rightarrow> nat option"
    and evidence :: "nat \<Rightarrow> 'o \<Rightarrow> bool"
  assumes staged: "decide s obs = Inr d \<Longrightarrow> stage_of (nxt d) = Some m \<Longrightarrow>
    \<exists>n. stage_of s = Some n \<and> (m = n \<or> m = Suc n \<and> evidence n obs)"
begin

lemma run_evidence:
  assumes "machine_run decide nxt s tr t" and "stage_of s = Some k" and "stage_of t = Some m"
  shows "k \<le> m \<and> in_order (map evidence [k..<m]) (map fst tr)"
  using assms(1,3)
proof (induction arbitrary: m rule: machine_run.induct)
  case start
  then show ?case using assms(2) by simp
next
  case (hold tr t obs d)
  then show ?case by (auto intro: in_order_append)
next
  case (advance tr t obs d)
  from staged [OF advance.hyps(2) advance.prems] obtain n where
    n: "stage_of t = Some n" and mn: "m = n \<or> m = Suc n \<and> evidence n obs" by blast
  from advance.IH [OF n] have kn: "k \<le> n" and io: "in_order (map evidence [k..<n]) (map fst tr)"
    by auto
  from mn show ?case
  proof
    assume "m = n"
    with kn io show ?thesis by (auto intro: in_order_append)
  next
    assume "m = Suc n \<and> evidence n obs"
    with kn io show ?thesis using in_order_snoc [of "map evidence [k..<n]"] by auto
  qed
qed

text \<open>A stage once left for a state outside the path is never reached again.\<close>

lemma off_path_stays:
  assumes "machine_run decide nxt s tr t" and "stage_of s = None"
  shows "stage_of t = None"
proof -
  have "stage_of (nxt d) = None" if "stage_of u = None" "decide u obs = Inr d" for u obs d
    using staged [OF that(2)] that(1) by (cases "stage_of (nxt d)") auto
  with assms show ?thesis by (auto elim: machine_run_invariant [where I = "\<lambda>u. stage_of u = None"])
qed

end

locale staged_effects = staged_machine +
  fixes needs :: "'d \<Rightarrow> nat"
  assumes effect: "decide s obs = Inr d \<Longrightarrow> needs d = Suc k \<Longrightarrow>
    \<exists>n. stage_of s = Some n \<and> (k < n \<or> n = k \<and> evidence k obs)"
begin

lemma effect_evidence:
  assumes run: "machine_run decide nxt s (pre @ (obs, d) # post) t" and s: "stage_of s = Some 0"
  shows "in_order (map evidence [0..<needs d]) (map fst pre @ [obs])"
proof (cases "needs d")
  case (Suc k)
  from machine_run_decision [OF run] obtain u where
    u: "machine_run decide nxt s pre u" and du: "decide u obs = Inr d" by blast
  from effect [OF du Suc] obtain n where
    n: "stage_of u = Some n" and kn: "k < n \<or> n = k \<and> evidence k obs" by blast
  from run_evidence [OF u s n] have io: "in_order (map evidence [0..<n]) (map fst pre)" by simp
  from kn show ?thesis
  proof
    assume "k < n"
    then have "map evidence [0..<n] = map evidence [0..<needs d] @ map evidence [needs d..<n]"
      using upt_add_eq_append [of 0 "Suc k" "n - Suc k"] by (simp add: Suc flip: map_append)
    with io show ?thesis by (auto intro!: in_order_append dest: in_order_prefix)
  next
    assume "n = k \<and> evidence k obs"
    with io show ?thesis using in_order_snoc [of "map evidence [0..<k]"] by (auto simp: Suc)
  qed
qed simp

end

end
