(* ===== verification/Mobility_Runs.thy ===== *)
theory Mobility_Runs
  imports Mobility_FSM Staged_Machine
begin

text \<open>
  Properties of the mobility state machine: single decisions, then whole runs.
\<close>

section \<open>Evaluating decisions\<close>

lemma ValidateTransition_refl:
  "known p \<Longrightarrow> ValidateTransition p p = None"
  by (cases p) (simp_all add: ValidateTransition_def known_def terminal_def)

lemma transition_Inr:
  "transition p q a r = Inr d \<longleftrightarrow>
     ValidateTransition p q = None \<and> d = decision (phase_state q) a r"
  by (auto simp: transition_def err_simps)

lemmas guard_defs =
  destinationGuard_def placementGuard_def consumerGuard_def lifecycleGuard_def authorityGuard_def

lemmas phase_rule_defs =
  decideWaitingForUnpublish_def decideWaitingForReplacement_def decideWaitingForDestination_def
  decideWaitingForCapacity_def decideCopying_def decidePromoting_def decideCommitting_def
  decideReleasingDestination_def decideWaitingForDestinationPublish_def decideCleaningSource_def

lemmas lifecycle_defs =
  decideLifecycle_def decidePreparation_def decideStartingDisruption_def decideCancellation_def
  preparationChanged_def

lemma or_else_Inr:
  "or_else g r = Inr d \<longleftrightarrow> g = Some (Inr d) \<or> (g = None \<and> r = Inr d)"
  by (cases g) auto

definition blocked_or_canceling :: "Phase \<Rightarrow> bool" where
  "blocked_or_canceling p \<longleftrightarrow> p = PhaseBlocked \<or> p = PhaseCanceling"

lemma blockedWith_phase:
  "fs_Phase (Next (blockedWith p obs f)) =
     (if beforeExecutionApproval obs \<and> \<not> disruptionPossible p then PhaseCanceling else PhaseBlocked)"
  by (simp add: blockedWith_def blocked_def)

text \<open>A successful \<open>Decide\<close> validated the state and took a lifecycle or an execution rule.\<close>

lemma Decide_cases [consumes 1, case_names lifecycle execution]:
  assumes "Decide s obs = Inr d"
  obtains "validateState (normalizeState s) obs = None"
      "decideLifecycle (normalizeState s) obs = Some (Inr d)"
    | "validateState (normalizeState s) obs = None"
      "decideLifecycle (normalizeState s) obs = None"
      "decideExecution (fs_Phase (normalizeState s)) obs = Inr d"
      "ValidateTransition (fs_Phase (normalizeState s)) (fs_Phase (Next d)) = None"
  using assms by (auto simp: Decide_def Let_def err_simps or_else_Inr)

section \<open>Every decision follows the table\<close>

lemma ValidateTransition_to_Blocked:
  "p \<in> {PhasePending, PhaseStartingDisruption, PhaseWaitingForUnpublish, PhaseWaitingForReplacement,
      PhaseWaitingForDestination, PhaseWaitingForCapacity, PhaseCopying, PhasePromoting,
      PhaseCommitting, PhaseReleasingDestination, PhaseWaitingForDestinationPublish,
      PhaseCleaningSource, PhaseBlocked} \<longleftrightarrow> ValidateTransition p PhaseBlocked = None"
  by (cases p) (simp_all add: ValidateTransition_def known_def terminal_def)

lemma ValidateTransition_to_Canceling:
  "p \<in> {PhasePending, PhasePreparing, PhaseStartingDisruption, PhaseWaitingForUnpublish,
      PhaseWaitingForReplacement, PhaseWaitingForDestination, PhaseWaitingForCapacity,
      PhaseCanceling, PhaseBlocked} \<longleftrightarrow> ValidateTransition p PhaseCanceling = None"
  by (cases p) (simp_all add: ValidateTransition_def known_def terminal_def)

text \<open>The phases whose failure is recorded as a transition the table has.\<close>

lemma blockedWith_transition:
  assumes "ValidateTransition p PhaseBlocked = None \<or> p = PhasePreparing \<and> beforeExecutionApproval obs"
  shows "ValidateTransition p (fs_Phase (Next (blockedWith p obs f))) = None"
  using assms
  by (auto simp: blockedWith_phase disruptionPossible_def
      simp flip: ValidateTransition_to_Blocked ValidateTransition_to_Canceling)

lemma decideRecovery_Inr:
  assumes "decideRecovery s obs = Inr d"
  shows "fs_Phase (Next d) = fs_Phase s"
  using assms by (auto simp: decideRecovery_def Let_def split: RecoveryPhase.splits)

lemma decideCancellation_transition:
  assumes "decideCancellation s obs = Inr d" and "known (fs_Phase s)"
  shows "ValidateTransition (fs_Phase s) (fs_Phase (Next d)) = None"
  using assms
  by (auto simp: decideCancellation_def err_simps transition_Inr ValidateTransition_refl split: if_splits)

lemma decidePreparation_transition:
  assumes "decidePreparation p obs = Inr d" and "p \<in> {PhasePending, PhasePreparing}"
    and "beforeExecutionApproval obs"
  shows "ValidateTransition p (fs_Phase (Next d)) = None"
proof -
  from assms(2,3) have b: "ValidateTransition p (fs_Phase (Next (blockedWith p obs f))) = None" for f
    by (intro blockedWith_transition) (auto simp flip: ValidateTransition_to_Blocked)
  from assms(1) show ?thesis
    by (auto simp: decidePreparation_def err_simps transition_Inr b split: if_splits)
qed

lemma decideStartingDisruption_transition:
  assumes "decideStartingDisruption PhaseStartingDisruption obs = Inr d"
  shows "ValidateTransition PhaseStartingDisruption (fs_Phase (Next d)) = None"
proof -
  have b: "ValidateTransition PhaseStartingDisruption
      (fs_Phase (Next (blockedWith PhaseStartingDisruption obs f))) = None" for f
    by (intro blockedWith_transition) (simp flip: ValidateTransition_to_Blocked)
  from assms show ?thesis
    by (auto simp: decideStartingDisruption_def transition_Inr b split: if_splits)
qed

lemma preparationChanged_transition:
  assumes "preparationChanged p obs = Inr d" and "known p"
    and "p \<notin> {PhaseSucceeded, PhaseCanceling, PhaseCancelled, PhaseCompleting}"
    and "beforeExecutionApproval obs"
  shows "ValidateTransition p (fs_Phase (Next d)) = None"
proof -
  let ?obs = "obs\<lparr>UnsafeReason := PreparationChangedReason obs\<rparr>"
  have "beforeExecutionApproval ?obs" using assms(4) by (simp add: beforeExecutionApproval_def)
  with assms(2,3)
  have b: "ValidateTransition p (fs_Phase (Next (blockedWith p ?obs f))) = None" for f
    by (intro blockedWith_transition, cases p)
      (simp_all add: known_def flip: ValidateTransition_to_Blocked)
  from assms(1) show ?thesis
    by (auto simp: preparationChanged_def transition_Inr b split: if_splits)
qed

lemma validateState_known:
  "validateState s obs = None \<Longrightarrow> known (fs_Phase s)"
  by (auto simp: validateState_def split: if_splits)

lemma validateState_early:
  "validateState s obs = None \<Longrightarrow>
   fs_Phase s \<in> {PhasePending, PhasePreparing, PhaseStartingDisruption, PhaseCanceling, PhaseCancelled} \<Longrightarrow>
   beforeExecutionApproval obs"
  by (auto simp: validateState_def validatePreparationEvidence_def beforeExecutionApproval_def
      split: if_splits)

lemma settlement_transition:
  assumes "canRequestSettlement s obs" and "validateState s obs = None"
  shows "ValidateTransition (fs_Phase s) PhaseBlocked = None \<or> fs_Phase s = PhaseCompleting"
proof -
  from assms(1) have "\<not> beforeExecutionApproval obs"
    and "fs_Phase s \<notin> {PhaseSucceeded, PhaseCancelled, PhaseCanceling}"
    by (auto simp: canRequestSettlement_def)
  with validateState_early [OF assms(2)] validateState_known [OF assms(2)] show ?thesis
    by (cases "fs_Phase s") (simp_all add: known_def flip: ValidateTransition_to_Blocked)
qed

lemma lifecycle_transition:
  assumes "validateState s obs = None" and "decideLifecycle s obs = Some (Inr d)"
  shows "ValidateTransition (fs_Phase s) (fs_Phase (Next d)) = None \<or>
    fs_Phase s = PhaseCompleting \<and> fs_Phase (Next d) \<in> {PhaseCompleting, PhaseBlocked}"
proof -
  note k = validateState_known [OF assms(1)]
  note early = validateState_early [OF assms(1)]
  have pc: ?thesis if "preparationChanged (fs_Phase s) obs = Inr d" "beforeExecutionApproval obs"
    "fs_Phase s \<notin> {PhaseSucceeded, PhaseCanceling, PhaseCancelled}"
  proof (cases "fs_Phase s = PhaseCompleting")
    case True
    with that show ?thesis
      by (auto simp: preparationChanged_def transition_Inr blockedWith_phase disruptionPossible_def
          split: if_splits)
  next
    case False
    with that k show ?thesis using preparationChanged_transition by auto
  qed
  from assms(2) show ?thesis
    using k early pc settlement_transition [OF _ assms(1)]
    by (auto simp: decideLifecycle_def transition_Inr ValidateTransition_refl
        dest: decideRecovery_Inr decideCancellation_transition
          decidePreparation_transition decideStartingDisruption_transition split: if_splits)
qed

lemma decide_table_or_completing:
  assumes "Decide s obs = Inr d"
  shows "ValidateTransition (fs_Phase (normalizeState s)) (fs_Phase (Next d)) = None \<or>
    fs_Phase s = PhaseCompleting \<and> fs_Phase (Next d) = PhaseBlocked"
  using assms
proof (cases rule: Decide_cases)
  case lifecycle
  have "fs_Phase (normalizeState s) = PhaseCompleting \<Longrightarrow> fs_Phase s = PhaseCompleting"
    by (auto simp: normalizeState_def split: if_splits)
  moreover have "ValidateTransition PhaseCompleting PhaseCompleting = None"
    by (simp add: ValidateTransition_refl known_def)
  ultimately show ?thesis using lifecycle_transition [OF lifecycle] by auto
next
  case execution
  then show ?thesis by simp
qed


section \<open>The path of a successful Move\<close>

text \<open>
  The phases of a Move that succeeds, in order, and for each of them what the controller has to
  observe before the machine leaves it for the next one.
\<close>

definition path :: "Phase list" where
  "path = [PhasePending, PhasePreparing, PhaseStartingDisruption, PhaseWaitingForUnpublish,
     PhaseWaitingForReplacement, PhaseWaitingForDestination, PhaseWaitingForCapacity, PhaseCopying,
     PhasePromoting, PhaseCommitting, PhaseReleasingDestination, PhaseWaitingForDestinationPublish,
     PhaseCleaningSource, PhaseCompleting, PhaseSucceeded]"

fun stage :: "Phase \<Rightarrow> nat option" where
  "stage PhasePending = Some 0"
| "stage PhasePreparing = Some 1"
| "stage PhaseStartingDisruption = Some 2"
| "stage PhaseWaitingForUnpublish = Some 3"
| "stage PhaseWaitingForReplacement = Some 4"
| "stage PhaseWaitingForDestination = Some 5"
| "stage PhaseWaitingForCapacity = Some 6"
| "stage PhaseCopying = Some 7"
| "stage PhasePromoting = Some 8"
| "stage PhaseCommitting = Some 9"
| "stage PhaseReleasingDestination = Some 10"
| "stage PhaseWaitingForDestinationPublish = Some 11"
| "stage PhaseCleaningSource = Some 12"
| "stage PhaseCompleting = Some 13"
| "stage PhaseSucceeded = Some 14"
| "stage _ = None"

definition source_usable :: "Observation \<Rightarrow> bool" where
  "source_usable obs \<longleftrightarrow> \<not> SourceAuthorityInvalid obs \<and> SourceHealthy obs"

definition source_prepared :: "Observation \<Rightarrow> bool" where
  "source_prepared obs \<longleftrightarrow> ProtectionPresent obs \<and> SourcePlanRecorded obs \<and> SourceClaimed obs \<and>
     PreparationReserved obs"

definition destination_live :: "Observation \<Rightarrow> bool" where
  "destination_live obs \<longleftrightarrow> \<not> DestinationUnavailable obs \<and> \<not> DestinationBlocked obs"

fun edge_evidence :: "Phase \<Rightarrow> Observation \<Rightarrow> bool" where
  "edge_evidence PhasePending obs =
     (ProtectionPresent obs \<and> source_usable obs \<and> PreconditionsValid obs \<and> \<not> PreflightDeferred obs)"
| "edge_evidence PhasePreparing obs =
     (source_prepared obs \<and> source_usable obs \<and> PreconditionsValid obs \<and> \<not> PreflightDeferred obs)"
| "edge_evidence PhaseStartingDisruption obs =
     (source_prepared obs \<and> source_usable obs \<and> \<not> PreflightDeferred obs \<and>
      (ReplacementExists obs \<longrightarrow> ReplacementHeld obs))"
| "edge_evidence PhaseWaitingForUnpublish obs = (\<not> PublishedOnSource obs)"
| "edge_evidence PhaseWaitingForReplacement obs = (ReplacementExists obs \<and> ReplacementHeld obs)"
| "edge_evidence PhaseWaitingForDestination obs =
     (DestinationScheduled obs \<and> \<not> DestinationBlocked obs \<and> ReplacementExists obs \<and> ReplacementHeld obs)"
| "edge_evidence PhaseWaitingForCapacity obs =
     (CapacityApproved obs \<and> \<not> CapacityBlocked obs \<and> destination_live obs)"
| "edge_evidence PhaseCopying obs =
     (CopyComplete obs \<and> \<not> CopyFailed obs \<and> PlacementExists obs \<and> DestinationScheduled obs \<and>
      destination_live obs)"
| "edge_evidence PhasePromoting obs =
     (OwnerCommitted obs \<or>
      PromotionComplete obs \<and> \<not> PromotionFailed obs \<and> \<not> ConsumersAmbiguous obs \<and> destination_live obs)"
| "edge_evidence PhaseCommitting obs = OwnerCommitted obs"
| "edge_evidence PhaseReleasingDestination obs = (\<not> PlacementExists obs \<and> \<not> DestinationUnavailable obs)"
| "edge_evidence PhaseWaitingForDestinationPublish obs =
     (PublishedOnDestination obs \<and> \<not> CleanupFailed obs)"
| "edge_evidence PhaseCleaningSource obs = (CleanupComplete obs \<and> \<not> CleanupFailed obs)"
| "edge_evidence PhaseCompleting obs = CompletionReady obs"
| "edge_evidence _ obs = False"

lemma stage_path: "stage p = Some n \<longleftrightarrow> n < length path \<and> path ! n = p"
proof -
  have nth: "n < length path \<Longrightarrow> path ! n = p \<Longrightarrow> stage p = Some n"
    by (auto simp: path_def less_Suc_eq numeral_eq_Suc)
  show ?thesis using nth by (cases p) (auto simp: path_def)
qed

lemma table_stage:
  assumes "ValidateTransition p q = None" and "stage q = Some m"
  shows "\<exists>n. stage p = Some n \<and> (m = n \<or> m = Suc n)"
  using assms
  by (cases p; cases q) (simp_all add: ValidateTransition_def known_def terminal_def)

lemma stage_off_path [simp]:
  "stage (fs_Phase (Next (blockedWith p obs f))) = None"
  by (simp add: blockedWith_phase)

text \<open>The lifecycle rules advance a Move only from the three phases before the disruption.\<close>

lemma lifecycle_evidence:
  assumes "decideLifecycle s obs = Some (Inr d)" and "stage (fs_Phase (Next d)) = Some m"
    and "fs_Phase (Next d) \<noteq> fs_Phase s"
  shows "edge_evidence (fs_Phase s) obs"
  using assms
  by (auto simp: decideLifecycle_def decidePreparation_def decideStartingDisruption_def
      decideCancellation_def preparationChanged_def transition_Inr err_simps source_prepared_def
      source_usable_def dest: decideRecovery_Inr split: if_splits)

lemma execution_evidence:
  assumes "decideExecution p obs = Inr d" and "stage (fs_Phase (Next d)) = Some m"
    and "fs_Phase (Next d) \<noteq> p"
  shows "edge_evidence p obs"
  using assms
  by (cases p)
    (auto simp: decideExecution_def guard_defs phase_rule_defs or_else_Inr transition_Inr
      destination_live_def split: if_splits)

lemma decide_stage:
  assumes "Decide s obs = Inr d" and "stage (fs_Phase (Next d)) = Some m"
  shows "\<exists>n. stage (fs_Phase (normalizeState s)) = Some n \<and>
    (m = n \<or> m = Suc n \<and> edge_evidence (fs_Phase (normalizeState s)) obs)"
proof -
  let ?p = "fs_Phase (normalizeState s)"
  have ev: "edge_evidence ?p obs" if "fs_Phase (Next d) \<noteq> ?p"
    using assms(1)
    by (cases rule: Decide_cases) (use that assms(2) lifecycle_evidence execution_evidence in blast)+
  from decide_table_or_completing [OF assms(1)] assms(2)
  have "ValidateTransition ?p (fs_Phase (Next d)) = None" by auto
  with table_stage assms(2) ev show ?thesis by fastforce
qed


section \<open>Effects and the stages they need\<close>

text \<open>How many stages of the path must have been left, counting the decision's own observation,
  when one of the forward actions with an effect outside the Move record is decided. Every other
  action needs no stage; the recovery actions have their own order below.\<close>

fun action_needs :: "Action \<Rightarrow> nat" where
  "action_needs ActionStartDisruption = 3"
| "action_needs ActionEnsureCapacity = 6"
| "action_needs ActionEnsureCopy = 7"
| "action_needs ActionEnsurePromotion = 8"
| "action_needs ActionCommitOwner = 9"
| "action_needs ActionReleasePlacement = 11"
| "action_needs ActionEnsureCleanup = 12"
| "action_needs ActionConfirmCleanup = 13"
| "action_needs ActionMarkSucceeded = 14"
| "action_needs _ = 0"

lemma action_needs_blockedWith [simp]:
  "action_needs (DecidedAction (blockedWith p obs f)) = 0"
  by (simp add: blockedWith_def blocked_def)

lemma decideRecovery_action:
  "decideRecovery s obs = Inr d \<Longrightarrow> action_needs (DecidedAction d) = 0"
  by (auto simp: decideRecovery_def Let_def split: RecoveryPhase.splits)

lemma lifecycle_effect:
  assumes "decideLifecycle s obs = Some (Inr d)" and "action_needs (DecidedAction d) = Suc k"
  shows "fs_Phase s = PhaseStartingDisruption \<and> k = 2 \<and> edge_evidence PhaseStartingDisruption obs"
  using assms
  by (auto simp: decideLifecycle_def decidePreparation_def decideStartingDisruption_def
      decideCancellation_def preparationChanged_def transition_Inr err_simps source_prepared_def
      source_usable_def dest: decideRecovery_action split: if_splits)

lemma execution_effect:
  assumes "decideExecution p obs = Inr d" and "action_needs (DecidedAction d) = Suc k"
  shows "\<exists>n. stage p = Some n \<and> (k < n \<or> n = k \<and> edge_evidence p obs)"
  using assms
  by (cases p)
    (auto simp: decideExecution_def guard_defs phase_rule_defs or_else_Inr transition_Inr
      destination_live_def split: if_splits)

lemma decide_effect:
  assumes "Decide s obs = Inr d" and "action_needs (DecidedAction d) = Suc k"
  shows "\<exists>n. stage (fs_Phase (normalizeState s)) = Some n \<and>
    (k < n \<or> n = k \<and> edge_evidence (fs_Phase (normalizeState s)) obs)"
  using assms(1)
proof (cases rule: Decide_cases)
  case lifecycle
  from lifecycle_effect [OF lifecycle(2) assms(2)] show ?thesis by auto
next
  case execution
  from execution_effect [OF execution(3) assms(2)] show ?thesis .
qed

lemma decide_next_known:
  assumes "Decide s obs = Inr d"
  shows "known (fs_Phase (Next d))"
  using decide_table_or_completing [OF assms]
  by (auto simp: ValidateTransition_def known_def split: if_splits)

lemma normalizeState_known:
  "known (fs_Phase s) \<Longrightarrow> normalizeState s = s"
  by (auto simp: normalizeState_def known_def)

definition move_stage :: "FsmState \<Rightarrow> nat option" where
  "move_stage s = stage (fs_Phase (normalizeState s))"

definition move_evidence :: "nat \<Rightarrow> Observation \<Rightarrow> bool" where
  "move_evidence n obs \<longleftrightarrow> n < length path \<and> edge_evidence (path ! n) obs"

abbreviation move_run :: "FsmState \<Rightarrow> (Observation \<times> Decision) list \<Rightarrow> FsmState \<Rightarrow> bool" where
  "move_run \<equiv> machine_run Decide Next"

interpretation mv: staged_effects Decide Next move_stage move_evidence
  "\<lambda>d. action_needs (DecidedAction d)"
proof unfold_locales
  fix s obs d m
  assume d: "Decide s obs = Inr d" and m: "move_stage (Next d) = Some m"
  from m have "stage (fs_Phase (Next d)) = Some m"
    by (simp add: move_stage_def normalizeState_known decide_next_known [OF d])
  from decide_stage [OF d this]
  show "\<exists>n. move_stage s = Some n \<and> (m = n \<or> m = Suc n \<and> move_evidence n obs)"
    by (auto simp: move_stage_def move_evidence_def stage_path)
next
  fix s obs d k
  assume "Decide s obs = Inr d" and "action_needs (DecidedAction d) = Suc k"
  from decide_effect [OF this]
  show "\<exists>n. move_stage s = Some n \<and> (k < n \<or> n = k \<and> move_evidence k obs)"
    by (auto simp: move_stage_def move_evidence_def stage_path)
qed

definition new_move :: FsmState where
  "new_move = phase_state PhaseUnset"

lemma new_move_stage: "move_stage new_move = Some 0"
  by (simp add: move_stage_def new_move_def normalizeState_def)

lemma move_evidence_upt:
  "n \<le> 14 \<Longrightarrow> map move_evidence [0..<n] = map edge_evidence (take n path)"
  by (rule nth_equalityI) (auto simp: move_evidence_def path_def fun_eq_iff)

section \<open>Ranks\<close>

text \<open>A new Move has an unset phase, below the whole path. Off the path a Move can be blocked,
  then canceling, then cancelled, and nothing else; a succeeded Move stays succeeded.\<close>

fun phase_rank :: "Phase \<Rightarrow> nat" where
  "phase_rank PhaseBlocked = 15"
| "phase_rank PhaseCanceling = 16"
| "phase_rank PhaseCancelled = 17"
| "phase_rank p = (case stage p of Some n \<Rightarrow> Suc n | None \<Rightarrow> 0)"

definition phase_step :: "Phase \<Rightarrow> Phase \<Rightarrow> bool" where
  "phase_step p q \<longleftrightarrow> p = q \<or> p = PhaseUnset \<and> known q \<or> ValidateTransition p q = None \<or>
     p = PhaseCompleting \<and> q = PhaseBlocked"

interpretation pr: ranked_steps phase_step phase_rank 17
proof unfold_locales
  fix p q
  assume "phase_step p q" and "p \<noteq> q"
  then show "phase_rank p < phase_rank q"
    by (cases p; cases q) (simp_all add: phase_step_def ValidateTransition_def known_def terminal_def)
next
  fix p q
  assume "phase_step p q"
  then show "phase_rank q \<le> 17"
    by (cases q) simp_all
qed

text \<open>One decision, stored or not.\<close>

definition decide_step :: "FsmState \<Rightarrow> FsmState \<Rightarrow> bool" where
  "decide_step s t \<longleftrightarrow> (\<exists>obs d. Decide s obs = Inr d \<and> (t = s \<or> t = Next d))"

lemma decide_step_phase:
  assumes "decide_step s t"
  shows "phase_step (fs_Phase s) (fs_Phase t)"
proof (cases "fs_Phase s = PhaseUnset")
  case True
  with assms show ?thesis
    by (auto simp: decide_step_def phase_step_def dest: decide_next_known)
next
  case False
  then have "normalizeState s = s" by (simp add: normalizeState_def)
  with assms show ?thesis
    by (auto simp: decide_step_def phase_step_def dest: decide_table_or_completing)
qed

lemma decide_steps_phases:
  "successively decide_step ss \<Longrightarrow> successively phase_step (map fs_Phase ss)"
  by (induction ss rule: induct_list012) (auto intro: decide_step_phase)

section \<open>Recovery\<close>

text \<open>The recovery phases in the order a fixed owner passes them.\<close>

definition recovery_order :: "bool \<Rightarrow> bool \<Rightarrow> (RecoveryPhase \<times> Action) list" where
  "recovery_order destination settlement =
     [(RecoveryQuiescing, ActionBeginRecovery), (RecoveryVerifying, ActionQuiesceRecovery)] @
     (if settlement
      then [(RecoveryRetiring, ActionVerifyRecovery), (RecoveryCompleting, ActionRetireRecovery)]
      else if destination
      then [(RecoveryResuming, ActionVerifyRecovery), (RecoveryRetiring, ActionResumeRecovery),
            (RecoveryCompleting, ActionRetireRecovery)]
      else [(RecoveryRetiring, ActionVerifyRecovery), (RecoveryResuming, ActionRetireRecovery),
            (RecoveryCompleting, ActionResumeRecovery)]) @
     [(RecoveryRecovered, ActionCompleteRecovery)]"

definition recovering :: "bool \<Rightarrow> bool \<Rightarrow> Observation \<Rightarrow> bool" where
  "recovering destination settlement obs \<longleftrightarrow>
     RecoveryRequested obs \<and> \<not> WorkloadRetired obs \<and> \<not> RecoveryUnlockObserved obs \<and>
     CapacityApproved obs \<and>
     RecoveryOwnerIsDestination obs = destination \<and> SettlementOnly obs = settlement"

definition recovery_state :: "RecoveryPhase \<Rightarrow> FsmState" where
  "recovery_state r = \<lparr>fs_Phase = PhaseBlocked, fs_RecoveryPhase = r\<rparr>"

lemma decide_recovery:
  assumes "recovering b c obs" and "r \<noteq> RecoveryRecovered" and "r = RecoveryNone \<or> knownRecovery r"
  shows "Decide (recovery_state r) obs = decideRecovery (recovery_state r) obs"
  using assms
  by (cases r)
    (auto simp: Decide_def Let_def normalizeState_def recovery_state_def validateState_def
      validatePreparationEvidence_def known_def recovering_def decideLifecycle_def
      canCancelRetiredPreparation_def canRequestSettlement_def beforeExecutionApproval_def)

lemma decideRecovery_step:
  "decideRecovery (recovery_state RecoveryNone) obs =
     Inr (decision (recovery_state RecoveryQuiescing) ActionBeginRecovery [])"
  "decideRecovery (recovery_state RecoveryQuiescing) obs =
     Inr (decision (recovery_state RecoveryVerifying) ActionQuiesceRecovery [])"
  "decideRecovery (recovery_state RecoveryVerifying) obs =
     Inr (decision (recovery_state (if RecoveryOwnerIsDestination obs \<and> \<not> SettlementOnly obs
       then RecoveryResuming else RecoveryRetiring)) ActionVerifyRecovery [])"
  "decideRecovery (recovery_state RecoveryRetiring) obs =
     Inr (decision (recovery_state (if RecoveryOwnerIsDestination obs \<or> SettlementOnly obs
       then RecoveryCompleting else RecoveryResuming)) ActionRetireRecovery [])"
  "decideRecovery (recovery_state RecoveryResuming) obs =
     Inr (decision (recovery_state (if RecoveryOwnerIsDestination obs
       then RecoveryRetiring else RecoveryCompleting)) ActionResumeRecovery [])"
  "decideRecovery (recovery_state RecoveryCompleting) obs =
     Inr (decision (recovery_state RecoveryRecovered)
       (if RecoveryUnlockObserved obs then ActionWait else ActionCompleteRecovery) [])"
  by (simp_all add: decideRecovery_def recovery_state_def)

lemma decide_recovery_step:
  assumes "recovering b c obs"
  shows "Decide (recovery_state RecoveryNone) obs =
      Inr (decision (recovery_state RecoveryQuiescing) ActionBeginRecovery [])"
    and "Decide (recovery_state RecoveryQuiescing) obs =
      Inr (decision (recovery_state RecoveryVerifying) ActionQuiesceRecovery [])"
    and "Decide (recovery_state RecoveryVerifying) obs =
      Inr (decision (recovery_state (if b \<and> \<not> c then RecoveryResuming else RecoveryRetiring))
        ActionVerifyRecovery [])"
    and "Decide (recovery_state RecoveryRetiring) obs =
      Inr (decision (recovery_state (if b \<or> c then RecoveryCompleting else RecoveryResuming))
        ActionRetireRecovery [])"
    and "Decide (recovery_state RecoveryResuming) obs =
      Inr (decision (recovery_state (if b then RecoveryRetiring else RecoveryCompleting))
        ActionResumeRecovery [])"
    and "Decide (recovery_state RecoveryCompleting) obs =
      Inr (decision (recovery_state RecoveryRecovered) ActionCompleteRecovery [])"
  using assms
  by (simp_all add: decide_recovery [OF assms] decideRecovery_step recovering_def)

text \<open>
  The recovery steps decided before a recovery phase is reached. Beginning needs the execution
  authority that recovery settles: approved capacity or a recorded destination intent.
\<close>

fun recovery_needs :: "RecoveryPhase \<Rightarrow> Action list" where
  "recovery_needs RecoveryNone = []"
| "recovery_needs RecoveryQuiescing = [ActionBeginRecovery]"
| "recovery_needs RecoveryVerifying = [ActionBeginRecovery, ActionQuiesceRecovery]"
| "recovery_needs _ = [ActionBeginRecovery, ActionQuiesceRecovery, ActionVerifyRecovery]"

fun recovery_decided :: "Action \<Rightarrow> Observation \<times> Decision \<Rightarrow> bool" where
  "recovery_decided a (obs, d) \<longleftrightarrow> DecidedAction d = a \<and> RecoveryRequested obs \<and>
     (a = ActionBeginRecovery \<longrightarrow> CapacityApproved obs \<or> DestinationIntentRecorded obs)"

lemma blockedWith_recovery [simp]:
  "fs_RecoveryPhase (Next (blockedWith p obs r)) = RecoveryNone"
  by (simp add: blockedWith_def blocked_def)

lemma phase_decisions_recovery:
  "transition p q a r = Inr d \<Longrightarrow> fs_RecoveryPhase (Next d) = RecoveryNone"
  "preparationChanged p obs = Inr d \<Longrightarrow> fs_RecoveryPhase (Next d) = RecoveryNone"
  "decidePreparation p obs = Inr d \<Longrightarrow> fs_RecoveryPhase (Next d) = RecoveryNone"
  "decideStartingDisruption p obs = Inr d \<Longrightarrow> fs_RecoveryPhase (Next d) = RecoveryNone"
  "decideCancellation s obs = Inr d \<Longrightarrow> fs_RecoveryPhase (Next d) = RecoveryNone \<or> Next d = s"
  "decideExecution p obs = Inr d \<Longrightarrow> fs_RecoveryPhase (Next d) = RecoveryNone"
proof -
  show t: "transition p q a r = Inr d \<Longrightarrow> fs_RecoveryPhase (Next d) = RecoveryNone" for p q a r d
    by (auto simp: transition_Inr)
  show "preparationChanged p obs = Inr d \<Longrightarrow> fs_RecoveryPhase (Next d) = RecoveryNone"
    by (auto simp: preparationChanged_def dest: t split: if_splits)
  show "decidePreparation p obs = Inr d \<Longrightarrow> fs_RecoveryPhase (Next d) = RecoveryNone"
    by (auto simp: decidePreparation_def err_simps dest: t split: if_splits)
  show "decideStartingDisruption p obs = Inr d \<Longrightarrow> fs_RecoveryPhase (Next d) = RecoveryNone"
    by (auto simp: decideStartingDisruption_def dest: t split: if_splits)
  show "decideCancellation s obs = Inr d \<Longrightarrow> fs_RecoveryPhase (Next d) = RecoveryNone \<or> Next d = s"
    by (auto simp: decideCancellation_def err_simps dest: t split: if_splits)
  show "decideExecution p obs = Inr d \<Longrightarrow> fs_RecoveryPhase (Next d) = RecoveryNone"
    by (cases p)
      (auto simp: decideExecution_def guard_defs phase_rule_defs or_else_Inr dest: t split: if_splits)
qed

lemma Decide_recovery_phase:
  assumes "Decide s obs = Inr d"
  shows "fs_RecoveryPhase (Next d) = RecoveryNone \<or> Next d = s \<or>
    fs_Phase s = PhaseBlocked \<and> RecoveryRequested obs \<and> decideRecovery s obs = Inr d \<and>
      (fs_RecoveryPhase s = RecoveryNone \<longrightarrow> CapacityApproved obs \<or> DestinationIntentRecorded obs)"
proof (cases "normalizeState s = s")
  case False
  then have "fs_Phase (normalizeState s) = PhasePending"
    by (simp add: normalizeState_def split: if_splits)
  from assms show ?thesis
    by (cases rule: Decide_cases)
      (auto simp: decideLifecycle_def \<open>fs_Phase (normalizeState s) = _\<close>
        dest: phase_decisions_recovery split: if_splits)
next
  case True
  from assms show ?thesis
    by (cases rule: Decide_cases)
      (auto simp: True decideLifecycle_def beforeExecutionApproval_def
        dest: phase_decisions_recovery split: if_splits)
qed

lemma recovery_run:
  assumes "move_run s tr t" and "fs_RecoveryPhase s = RecoveryNone"
  shows "in_order (map recovery_decided (recovery_needs (fs_RecoveryPhase t))) tr"
  using assms(1)
proof (induction rule: machine_run.induct)
  case start
  then show ?case by (simp add: assms(2))
next
  case (hold tr t obs d)
  then show ?case by (auto intro: in_order_append)
next
  case (advance tr t obs d)
  from Decide_recovery_phase [OF advance.hyps(2)] show ?case
  proof (elim disjE)
    assume "fs_RecoveryPhase (Next d) = RecoveryNone"
    then show ?thesis by simp
  next
    assume "Next d = t"
    with advance.IH show ?thesis by (auto intro: in_order_append)
  next
    assume r: "fs_Phase t = PhaseBlocked \<and> RecoveryRequested obs \<and> decideRecovery t obs = Inr d \<and>
      (fs_RecoveryPhase t = RecoveryNone \<longrightarrow> CapacityApproved obs \<or> DestinationIntentRecorded obs)"
    then have "recovery_needs (fs_RecoveryPhase (Next d)) = recovery_needs (fs_RecoveryPhase t) \<or>
      recovery_needs (fs_RecoveryPhase (Next d)) = recovery_needs (fs_RecoveryPhase t) @ [DecidedAction d] \<and>
        recovery_decided (DecidedAction d) (obs, d)"
      by (cases "fs_RecoveryPhase t") (auto simp: decideRecovery_def Let_def split: if_splits)
    then show ?thesis
      using advance.IH by (auto simp del: recovery_decided.simps intro: in_order_append in_order_snoc)
  qed
qed

lemma decided_retire:
  "transition p q a r = Inr d \<Longrightarrow> DecidedAction d = a"
  "DecidedAction (blockedWith p obs r) \<noteq> ActionRetireRecovery"
  "preparationChanged p obs = Inr d \<Longrightarrow> DecidedAction d \<noteq> ActionRetireRecovery"
  "decidePreparation p obs = Inr d \<Longrightarrow> DecidedAction d \<noteq> ActionRetireRecovery"
  "decideStartingDisruption p obs = Inr d \<Longrightarrow> DecidedAction d \<noteq> ActionRetireRecovery"
  "decideCancellation s obs = Inr d \<Longrightarrow> DecidedAction d \<noteq> ActionRetireRecovery"
  "decideExecution p obs = Inr d \<Longrightarrow> DecidedAction d \<noteq> ActionRetireRecovery"
proof -
  show t: "transition p q a r = Inr d \<Longrightarrow> DecidedAction d = a" for p q a r d
    by (auto simp: transition_Inr)
  show b: "DecidedAction (blockedWith p obs r) \<noteq> ActionRetireRecovery" for p obs r
    by (simp add: blockedWith_def blocked_def)
  show "preparationChanged p obs = Inr d \<Longrightarrow> DecidedAction d \<noteq> ActionRetireRecovery"
    by (auto simp: preparationChanged_def b dest: t split: if_splits)
  show "decidePreparation p obs = Inr d \<Longrightarrow> DecidedAction d \<noteq> ActionRetireRecovery"
    by (auto simp: decidePreparation_def err_simps b dest: t split: if_splits)
  show "decideStartingDisruption p obs = Inr d \<Longrightarrow> DecidedAction d \<noteq> ActionRetireRecovery"
    by (auto simp: decideStartingDisruption_def b dest: t split: if_splits)
  show "decideCancellation s obs = Inr d \<Longrightarrow> DecidedAction d \<noteq> ActionRetireRecovery"
    by (auto simp: decideCancellation_def err_simps dest: t split: if_splits)
  show "decideExecution p obs = Inr d \<Longrightarrow> DecidedAction d \<noteq> ActionRetireRecovery"
    by (cases p)
      (auto simp: decideExecution_def guard_defs phase_rule_defs or_else_Inr b dest: t split: if_splits)
qed

lemma Decide_retire:
  assumes "Decide s obs = Inr d" and "DecidedAction d = ActionRetireRecovery"
  shows "fs_RecoveryPhase s = RecoveryRetiring \<and> RecoveryRequested obs"
  using assms(1)
proof (cases rule: Decide_cases)
  case lifecycle
  with assms(2) have "fs_Phase (normalizeState s) = PhaseBlocked" "RecoveryRequested obs"
      "decideRecovery (normalizeState s) obs = Inr d"
    by (auto simp: decideLifecycle_def dest: decided_retire(1,3-) split: if_splits)
  moreover from this(1) have "normalizeState s = s" by (auto simp: normalizeState_def split: if_splits)
  ultimately show ?thesis
    using assms(2) by (auto simp: decideRecovery_def Let_def split: RecoveryPhase.splits if_splits)
next
  case execution
  with assms(2) show ?thesis by (auto dest: decided_retire(7))
qed

section \<open>Cooperative observations\<close>

lemma table_transition:
  "transition p q a r = (if ValidateTransition p q = None then Inr (decision (phase_state q) a r)
     else Inl (the (ValidateTransition p q)))"
  by (cases "ValidateTransition p q") (simp_all add: transition_def)

lemma path_transition:
  "ValidateTransition PhasePending PhasePreparing = None"
  "ValidateTransition PhasePreparing PhaseStartingDisruption = None"
  "ValidateTransition PhaseStartingDisruption PhaseWaitingForUnpublish = None"
  "ValidateTransition PhaseWaitingForUnpublish PhaseWaitingForReplacement = None"
  "ValidateTransition PhaseWaitingForReplacement PhaseWaitingForDestination = None"
  "ValidateTransition PhaseWaitingForDestination PhaseWaitingForCapacity = None"
  "ValidateTransition PhaseWaitingForCapacity PhaseCopying = None"
  "ValidateTransition PhaseCopying PhasePromoting = None"
  "ValidateTransition PhasePromoting PhaseCommitting = None"
  "ValidateTransition PhaseCommitting PhaseReleasingDestination = None"
  "ValidateTransition PhaseReleasingDestination PhaseWaitingForDestinationPublish = None"
  "ValidateTransition PhaseWaitingForDestinationPublish PhaseCleaningSource = None"
  "ValidateTransition PhaseCleaningSource PhaseCompleting = None"
  "ValidateTransition PhaseCompleting PhaseSucceeded = None"
  by (simp_all add: ValidateTransition_def known_def terminal_def)

text \<open>
  Observations under which a phase is left for the next one of the path: the evidence holds and
  nothing the earlier guards look at interferes.
\<close>

definition undisturbed :: "Observation \<Rightarrow> bool" where
  "undisturbed obs \<longleftrightarrow> \<not> WorkloadRetired obs \<and> PreparationChangedReason obs = [] \<and>
     source_usable obs \<and> destination_live obs \<and> \<not> ConsumersAmbiguous obs"

definition cooperative :: "Phase \<Rightarrow> Observation \<Rightarrow> bool" where
  "cooperative p obs \<longleftrightarrow> edge_evidence p obs \<and> undisturbed obs \<and>
     (p \<in> {PhasePending, PhasePreparing, PhaseStartingDisruption} \<longrightarrow>
        beforeExecutionApproval obs \<and> validateReservedSource obs = None) \<and>
     (p = PhasePromoting \<and> \<not> OwnerCommitted obs \<longrightarrow> PlacementExists obs \<and> DestinationScheduled obs) \<and>
     (p \<in> {PhaseWaitingForDestinationPublish, PhaseCleaningSource} \<longrightarrow>
        \<not> (ReplacementExists obs \<and> ReplacementHeld obs))"

definition execution_phase :: "Phase \<Rightarrow> bool" where
  "execution_phase p \<longleftrightarrow> p \<in> set (drop 3 (butlast path))"

lemma Decide_undisturbed:
  assumes "undisturbed obs" and "execution_phase p"
  shows "Decide (phase_state p) obs =
    (if p = PhaseCompleting then or_else (lifecycleGuard p obs) (dispatchPhase p obs)
     else bind_res (dispatchPhase p obs)
       (\<lambda>d. guard_err (ValidateTransition p (fs_Phase (Next d))) (Inr d)))"
proof -
  have p: "p \<noteq> PhaseUnset" "known p" "p \<notin> {PhasePending, PhasePreparing, PhaseStartingDisruption,
      PhaseCanceling, PhaseCancelled, PhaseSucceeded, PhaseBlocked}"
    using assms(2) by (auto simp: execution_phase_def path_def known_def)
  have "normalizeState (phase_state p) = phase_state p"
    using p(1) by (simp add: normalizeState_def)
  moreover have "validateState (phase_state p) obs = None"
    using p by (simp add: validateState_def validatePreparationEvidence_def)
  moreover have "decideLifecycle (phase_state p) obs = None"
    using p(3) assms(1)
    by (simp add: decideLifecycle_def canCancelRetiredPreparation_def canRequestSettlement_def
        undisturbed_def)
  moreover have "authorityGuard p obs = None"
    using assms(1) by (simp add: authorityGuard_def undisturbed_def source_usable_def)
  moreover have "lifecycleGuard p obs = None" if "p \<noteq> PhaseCompleting"
    using that by (simp add: lifecycleGuard_def)
  moreover have "bind_res (lg) (\<lambda>d. guard_err (ValidateTransition PhaseCompleting (fs_Phase (Next d))) (Inr d)) = lg"
    if "lifecycleGuard PhaseCompleting obs = Some lg" for lg
    using that
    by (auto simp: lifecycleGuard_def transition_def ValidateTransition_def known_def terminal_def
        split: if_splits)
  ultimately show ?thesis
    by (auto simp: Decide_def decideExecution_def) (simp add: lifecycleGuard_def)
qed

lemma decide_cooperative_execution:
  assumes "cooperative p obs" and "execution_phase p" and "stage p = Some n"
  shows "\<exists>d. Decide (phase_state p) obs = Inr d \<and> Next d = phase_state (path ! Suc n)"
proof -
  have u: "undisturbed obs" and ev: "edge_evidence p obs"
    using assms(1) by (auto simp: cooperative_def)
  have g: "destinationGuard q obs = None" "consumerGuard q obs = None" for q
    using u by (simp_all add: destinationGuard_def consumerGuard_def undisturbed_def destination_live_def)
  have "\<exists>d. (if p = PhaseCompleting then or_else (lifecycleGuard p obs) (dispatchPhase p obs)
     else bind_res (dispatchPhase p obs)
       (\<lambda>d. guard_err (ValidateTransition p (fs_Phase (Next d))) (Inr d))) = Inr d \<and>
      Next d = phase_state (path ! Suc n)"
    using assms ev
    by (cases p)
      (auto simp: execution_phase_def path_def cooperative_def undisturbed_def destination_live_def
        lifecycleGuard_def placementGuard_def g phase_rule_defs table_transition path_transition)
  then show ?thesis by (simp only: Decide_undisturbed [OF u assms(2)])
qed

lemma decide_cooperative_preparation:
  assumes "cooperative p obs" and "p \<in> {PhasePending, PhasePreparing, PhaseStartingDisruption}"
    and "stage p = Some n"
  shows "\<exists>d. Decide (phase_state p) obs = Inr d \<and> Next d = phase_state (path ! Suc n)"
proof -
  have u: "undisturbed obs" and ev: "edge_evidence p obs" and b: "beforeExecutionApproval obs"
    and r: "validateReservedSource obs = None"
    using assms(1,2) by (auto simp: cooperative_def)
  have "validateState (phase_state p) obs = None"
    using assms(2) b
    by (auto simp: validateState_def validatePreparationEvidence_def known_def beforeExecutionApproval_def)
  moreover have "decideLifecycle (phase_state p) obs =
      Some (if p = PhaseStartingDisruption then decideStartingDisruption p obs else decidePreparation p obs)"
    using assms(2) u
    by (auto simp: decideLifecycle_def canCancelRetiredPreparation_def canRequestSettlement_def
        undisturbed_def)
  moreover have "normalizeState (phase_state p) = phase_state p"
    using assms(2) by (auto simp: normalizeState_def)
  moreover have "\<exists>d. (if p = PhaseStartingDisruption then decideStartingDisruption p obs
      else decidePreparation p obs) = Inr d \<and> Next d = phase_state (path ! Suc n)"
  proof -
    have sp: "\<not> SourceAuthorityInvalid obs" "SourceHealthy obs"
      using u by (simp_all add: undisturbed_def source_usable_def)
    show ?thesis
      using assms(2,3) ev sp r
      by (elim insertE)
        (auto simp add: decideStartingDisruption_def decidePreparation_def source_prepared_def
          path_def table_transition path_transition)
  qed
  ultimately show ?thesis by (simp add: Decide_def)
qed

lemma decide_cooperative:
  assumes "cooperative (path ! n) obs" and "n < 14"
  shows "\<exists>d. Decide (phase_state (path ! n)) obs = Inr d \<and> Next d = phase_state (path ! Suc n)"
proof -
  have st: "stage (path ! n) = Some n"
    using assms(2) by (simp add: stage_path path_def)
  show ?thesis
  proof (cases "n < 3")
    case True
    then have "path ! n \<in> {PhasePending, PhasePreparing, PhaseStartingDisruption}"
      by (auto simp: path_def less_Suc_eq numeral_eq_Suc)
    with assms(1) st show ?thesis by (intro decide_cooperative_preparation)
  next
    case False
    with assms(2) have "execution_phase (path ! n)"
      by (auto simp: execution_phase_def path_def less_Suc_eq numeral_eq_Suc)
    with assms(1) st show ?thesis by (intro decide_cooperative_execution)
  qed
qed

lemma exec_run_cooperative:
  assumes "n + length os \<le> 14" and "\<forall>k < length os. cooperative (path ! (n + k)) (os ! k)"
  shows "\<exists>tr. exec_run Decide Next (phase_state (path ! n)) os =
    Inr (tr, phase_state (path ! (n + length os)))"
  using assms
proof (induction os arbitrary: n)
  case Nil
  then show ?case by simp
next
  case (Cons obs os)
  then have n: "n < 14" by simp
  from Cons.prems(2) have "cooperative (path ! n) obs" by force
  from decide_cooperative [OF this n] obtain d where
    d: "Decide (phase_state (path ! n)) obs = Inr d" "Next d = phase_state (path ! Suc n)" by blast
  from Cons.prems(2) have "\<forall>k < length os. cooperative (path ! (Suc n + k)) (os ! k)" by fastforce
  with Cons.IH [of "Suc n"] Cons.prems(1) obtain tr where
    "exec_run Decide Next (phase_state (path ! Suc n)) os =
       Inr (tr, phase_state (path ! (Suc n + length os)))" by auto
  then show ?case using d by auto
qed

lemma Decide_new_move: "Decide new_move obs = Decide (phase_state PhasePending) obs"
  by (simp add: Decide_def new_move_def normalizeState_def phase_state_def)

lemma exec_run_new_move:
  "os \<noteq> [] \<Longrightarrow> exec_run Decide Next new_move os = exec_run Decide Next (phase_state PhasePending) os"
  by (cases os) (simp_all add: Decide_new_move)

text \<open>Once disruption is possible, an execution rule gives up by blocking the Move.\<close>

lemma execution_not_cancelled:
  assumes "decideExecution p obs = Inr d"
    and "p \<notin> {PhaseUnset, PhasePending, PhasePreparing, PhaseCanceling, PhaseCancelled}"
  shows "fs_Phase (Next d) \<notin> {PhaseCanceling, PhaseCancelled}"
  using assms
  by (cases p)
    (auto simp: decideExecution_def guard_defs phase_rule_defs or_else_Inr transition_Inr
      blockedWith_phase disruptionPossible_def split: if_splits)

section \<open>Sample observations\<close>

definition quiet :: Observation where
  "quiet = \<lparr>WorkloadRetired = False, SettlementOnly = False, ProtectionPresent = False,
     SourcePlanRecorded = False, SourceClaimed = False, PreparationReserved = False,
     PreparationChangedReason = [], PreparationUnavailable = False, SourceMoving = False,
     SourceBlocked = False, PlacementAbsent = False, DestinationIntentRecorded = False,
     RecoveryRequested = False, RecoveryOwnerIsDestination = False, RecoveryUnlockObserved = False,
     PreconditionsValid = False, PreflightDeferred = False, UnsafeReason = [], SourceHealthy = False,
     SourceAuthorityInvalid = False, ConsumerExists = False, ConsumersAmbiguous = False,
     PublishedOnSource = False, ReplacementExists = False, ReplacementHeld = False,
     PlacementExists = False, DestinationScheduled = False, DestinationBlocked = False,
     DestinationUnavailable = False, CapacityApproved = False, CapacityBlocked = False,
     CopyComplete = False, CopyFailed = False, PromotionComplete = False, PromotionFailed = False,
     OwnerCommitted = False, PublishedOnDestination = False, CleanupComplete = False,
     CleanupFailed = False, CompletionReady = False\<rparr>"

definition healthy :: Observation where
  "healthy = quiet\<lparr>SourceHealthy := True, ProtectionPresent := True, PreconditionsValid := True\<rparr>"

definition reserved :: Observation where
  "reserved = healthy\<lparr>SourcePlanRecorded := True, SourceClaimed := True, PreparationReserved := True\<rparr>"

definition placed :: Observation where
  "placed = reserved\<lparr>ReplacementExists := True, ReplacementHeld := True, PlacementExists := True,
     DestinationScheduled := True\<rparr>"

definition approved :: Observation where
  "approved = placed\<lparr>CapacityApproved := True, DestinationIntentRecorded := True,
     PreparationReserved := False\<rparr>"

definition committed :: Observation where
  "committed = healthy\<lparr>CapacityApproved := True, DestinationIntentRecorded := True, OwnerCommitted := True\<rparr>"

definition smooth_move :: "Observation list" where
  "smooth_move = [healthy, reserved, reserved, reserved, placed, placed, approved,
     approved\<lparr>CopyComplete := True\<rparr>, approved\<lparr>PromotionComplete := True\<rparr>, committed, committed,
     committed\<lparr>PublishedOnDestination := True\<rparr>, committed\<lparr>CleanupComplete := True\<rparr>,
     committed\<lparr>CompletionReady := True\<rparr>]"

lemmas sample_defs = quiet_def healthy_def reserved_def placed_def approved_def committed_def

lemma smooth_move_cooperative:
  assumes "k < 14"
  shows "cooperative (path ! k) (smooth_move ! k)"
proof -
  from assms have "k \<in> {0, 1, 2, 3, 4, 5, 6, 7, 8, 9, 10, 11, 12, 13}"
    by (auto simp: eval_nat_numeral less_Suc_eq)
  then show ?thesis
    by (elim insertE emptyE; hypsubst)
      (simp_all add: path_def smooth_move_def sample_defs cooperative_def undisturbed_def
        source_usable_def source_prepared_def destination_live_def beforeExecutionApproval_def
        validateReservedSource_def)
qed

lemma smooth_move_length: "length smooth_move = 14"
  by (simp add: smooth_move_def)

lemma smooth_move_reaches:
  assumes "0 < n" and "n \<le> 14"
  shows "\<exists>tr. move_run new_move tr (phase_state (path ! n))"
proof -
  have "exec_run Decide Next new_move (take n smooth_move) =
      exec_run Decide Next (phase_state (path ! 0)) (take n smooth_move)"
    using assms by (subst exec_run_new_move) (auto simp: path_def smooth_move_def)
  moreover obtain tr where "exec_run Decide Next (phase_state (path ! 0)) (take n smooth_move) =
      Inr (tr, phase_state (path ! (0 + length (take n smooth_move))))"
    using exec_run_cooperative [of 0 "take n smooth_move"] assms smooth_move_cooperative
    by (auto simp: smooth_move_length)
  ultimately have "exec_run Decide Next new_move (take n smooth_move) = Inr (tr, phase_state (path ! n))"
    using assms by (simp add: smooth_move_length min_absorb2)
  from exec_run_sound [OF this] show ?thesis ..
qed

lemma Decide_promoted:
  "Decide (phase_state PhasePromoting) (approved\<lparr>PromotionComplete := True\<rparr>) =
     Inr (decision (phase_state PhaseCommitting) ActionCommitOwner [])"
  by (subst Decide_undisturbed)
    (simp_all add: undisturbed_def source_usable_def destination_live_def sample_defs
      execution_phase_def path_def decidePromoting_def guard_defs table_transition path_transition)

text \<open>A copy that fails blocks the Move, and a requested recovery retires its artifact.\<close>

lemma retirement_run:
  "\<exists>pre obs d s. move_run new_move (pre @ [(obs, d)]) s \<and> DecidedAction d = ActionRetireRecovery"
proof -
  obtain tr where tr: "move_run new_move tr (phase_state PhaseCopying)"
    using smooth_move_reaches [of 7] by (auto simp: path_def)
  let ?f = "approved\<lparr>CopyFailed := True\<rparr>"
  have "Decide (phase_state PhaseCopying) ?f =
      Inr (decision (recovery_state RecoveryNone) ActionMarkBlocked ''CopyFailed'')"
    by (subst Decide_undisturbed)
      (simp_all add: undisturbed_def source_usable_def destination_live_def sample_defs
        execution_phase_def path_def decideCopying_def guard_defs blockedWith_def blocked_def
        beforeExecutionApproval_def reasonOr_def recovery_state_def phase_state_def
        ValidateTransition_def known_def terminal_def)
  from machine_run.advance [where nxt = Next, OF tr this] obtain tr0 where
    b0: "move_run new_move tr0 (recovery_state RecoveryNone)" by auto
  have "recovering False False (approved\<lparr>RecoveryRequested := True\<rparr>)"
    by (simp add: recovering_def sample_defs)
  note st = decide_recovery_step [OF this]
  from machine_run.advance [where nxt = Next, OF b0 st(1)] obtain tr1 where
    b1: "move_run new_move tr1 (recovery_state RecoveryQuiescing)" by auto
  from machine_run.advance [where nxt = Next, OF b1 st(2)] obtain tr2 where
    b2: "move_run new_move tr2 (recovery_state RecoveryVerifying)" by auto
  from machine_run.advance [where nxt = Next, OF b2 st(3)] obtain tr3 where
    b3: "move_run new_move tr3 (recovery_state RecoveryRetiring)" by auto
  from machine_run.advance [where nxt = Next, OF b3 st(4)] show ?thesis
    by fastforce
qed

section \<open>Decisions with an unusable source\<close>











section \<open>Properties of single decisions\<close>

text \<open>
  C1. Every decision of the mobility machine follows the exported table of legal transitions,
  with one exception: an observation of a retired workload, or of a changed preparation,
  sends a completing Move to Blocked, an edge the table does not have.
\<close>

theorem decide_follows_table:
  assumes "Decide s obs = Inr d"
  shows "ValidateTransition (fs_Phase (normalizeState s)) (fs_Phase (Next d)) = None \<or>
    fs_Phase s = PhaseCompleting \<and> fs_Phase (Next d) = PhaseBlocked"
  using assms by (rule decide_table_or_completing)

theorem decide_follows_table_witness:
  "ValidateTransition PhasePromoting PhaseCommitting = None"
  using decide_follows_table [OF Decide_promoted] by (simp add: normalizeState_def)

text \<open>The exception does occur.\<close>

lemma completing_move_can_block:
  "(case Decide (phase_state PhaseCompleting) (committed\<lparr>WorkloadRetired := True\<rparr>) of
      Inr d \<Rightarrow> fs_Phase (Next d) = PhaseBlocked | Inl _ \<Rightarrow> False) \<and> ValidateTransition PhaseCompleting PhaseBlocked \<noteq> None"
  by code_simp

text \<open>
  C4. A cancellation never releases granted destination authority: whatever the state, a
  decision that leads to Canceling or Cancelled was made on an observation with neither approved
  capacity nor a recorded destination intent.
\<close>

theorem cancellation_only_before_approval:
  assumes "Decide s obs = Inr d" and "fs_Phase (Next d) \<in> {PhaseCanceling, PhaseCancelled}"
  shows "\<not> CapacityApproved obs \<and> \<not> DestinationIntentRecorded obs"
proof -
  let ?s = "normalizeState s"
  have v: "validateState ?s obs = None"
    using assms(1) by (cases rule: Decide_cases) auto
  have "beforeExecutionApproval obs"
  proof (rule ccontr)
    assume n: "\<not> beforeExecutionApproval obs"
    with validateState_early [OF v] have p: "fs_Phase ?s \<notin> {PhasePending, PhasePreparing,
      PhaseStartingDisruption, PhaseCanceling, PhaseCancelled}" by blast
    from assms(1) show False
    proof (cases rule: Decide_cases)
      case lifecycle
      with n p assms(2) show ?thesis
        by (auto simp: decideLifecycle_def canCancelRetiredPreparation_def
            dest: decideRecovery_Inr split: if_splits)
    next
      case execution
      have "fs_Phase ?s \<noteq> PhaseUnset"
        using validateState_known [OF v] by (auto simp: known_def)
      with execution_not_cancelled [OF execution(3)] p assms(2) show ?thesis by auto
    qed
  qed
  then show ?thesis by (simp add: beforeExecutionApproval_def)
qed

theorem cancellation_only_before_approval_witness:
  "\<exists>d. Decide (phase_state PhasePending) (healthy\<lparr>SourceAuthorityInvalid := True\<rparr>) = Inr d \<and>
     fs_Phase (Next d) = PhaseCanceling \<and> \<not> CapacityApproved (healthy\<lparr>SourceAuthorityInvalid := True\<rparr>)"
proof -
  let ?obs = "healthy\<lparr>SourceAuthorityInvalid := True\<rparr>"
  have "Decide (phase_state PhasePending) ?obs =
      Inr (decision (phase_state PhaseCanceling) ActionWait ''SourceAuthorityInvalid'')"
    by (simp add: Decide_def normalizeState_def validateState_def validatePreparationEvidence_def
        known_def decideLifecycle_def canCancelRetiredPreparation_def canRequestSettlement_def
        decidePreparation_def validateReservedSource_def blockedWith_def beforeExecutionApproval_def
        disruptionPossible_def reasonOr_def sample_defs)
  from cancellation_only_before_approval [OF this] this show ?thesis by simp
qed



text \<open>
  C6. Terminal history is final: from Succeeded, Cancelled or a recovered Blocked record every
  decision keeps the record as it is and has no effect on data.
\<close>

theorem settled_history_is_final:
  assumes "terminal (fs_Phase s) \<or> fs_RecoveryPhase s = RecoveryRecovered"
    and "Decide s obs = Inr d"
  shows "Next d = s \<and> DecidedAction d \<in>
    {ActionFinalizeHistory, ActionRestoreSource, ActionDeletePlacement, ActionReleaseSource}"
proof -
  have n: "normalizeState s = s"
    using assms(1) by (auto simp: normalizeState_def terminal_def)
  have v: "validateState s obs = None"
    using assms(2) by (cases rule: Decide_cases) (simp_all add: n)
  then have r: "fs_RecoveryPhase s = RecoveryRecovered \<Longrightarrow> fs_Phase s = PhaseBlocked"
    by (auto simp: validateState_def split: if_splits)
  have l: "decideLifecycle s obs = Some (if fs_Phase s = PhaseCancelled then decideCancellation s obs
      else Inr (decision s ActionFinalizeHistory []))"
  proof -
    consider "fs_Phase s = PhaseSucceeded" | "fs_Phase s = PhaseCancelled"
      | "fs_Phase s = PhaseBlocked" "fs_RecoveryPhase s = RecoveryRecovered"
      using assms(1) r by (auto simp: terminal_def)
    then show ?thesis
      by cases (simp_all add: decideLifecycle_def canCancelRetiredPreparation_def canRequestSettlement_def)
  qed
  have "(if fs_Phase s = PhaseCancelled then decideCancellation s obs
      else Inr (decision s ActionFinalizeHistory [])) = Inr d"
    using assms(2) by (cases rule: Decide_cases) (simp_all only: n l option.inject option.distinct)
  then show ?thesis
    by (auto simp: decideCancellation_def err_simps split: if_splits)
qed

theorem settled_history_is_final_witness:
  "\<exists>d. Decide (phase_state PhaseSucceeded) healthy = Inr d \<and> Next d = phase_state PhaseSucceeded"
proof -
  have "Decide (phase_state PhaseSucceeded) healthy =
      Inr (decision (phase_state PhaseSucceeded) ActionFinalizeHistory [])"
    by (simp add: Decide_def normalizeState_def validateState_def validatePreparationEvidence_def
        known_def decideLifecycle_def canCancelRetiredPreparation_def canRequestSettlement_def
        sample_defs)
  from settled_history_is_final [OF _ this] this show ?thesis by (simp add: terminal_def)
qed

section \<open>Properties of runs\<close>

text \<open>
  C2. A Move record that has reached Succeeded, from a new Move and through any sequence of
  observations, decisions and lost status writes, has collected the whole evidence in order:
  the source protected, claimed, reserved and unpublished, a held replacement, a scheduled
  destination, approved capacity, a complete copy, a completed promotion, the committed owner,
  the publication on the destination, the completed cleanup and the completion authority.
\<close>

theorem succeeded_run_has_ordered_evidence:
  assumes "move_run new_move tr s" and "fs_Phase s = PhaseSucceeded"
  shows "in_order (map edge_evidence (butlast path)) (map fst tr)"
proof -
  have "move_stage s = Some 14"
    using assms(2) by (simp add: move_stage_def normalizeState_def)
  from mv.run_evidence [OF assms(1) new_move_stage this] show ?thesis
    by (simp add: move_evidence_upt path_def)
qed

theorem succeeded_run_has_ordered_evidence_witness:
  "\<exists>tr s. move_run new_move tr s \<and> fs_Phase s = PhaseSucceeded \<and>
     in_order (map edge_evidence (butlast path)) (map fst tr)"
proof -
  obtain tr where tr: "move_run new_move tr (phase_state (path ! 14))"
    using smooth_move_reaches [of 14] by auto
  have "fs_Phase (phase_state (path ! 14)) = PhaseSucceeded" by (simp add: path_def)
  with tr succeeded_run_has_ordered_evidence [OF tr] show ?thesis by blast
qed

text \<open>
  C3. No effect on the volume is decided without its evidence. When any run of a new Move decides
  to evict, reserve capacity, copy, promote, commit the owner, release the replacement, delete the
  source copy, confirm that deletion or close the Move, the observations up to and including that
  decision contain, in order, the evidence of every phase that has to be left before it. When it
  decides to retire an artifact in recovery, which deletes the incoming or the retained copy,
  recovery is requested in that observation, and the run has before it, in order, the decisions to
  begin, quiesce and verify the recovery, each on a recovery request, the first on an observation
  with approved capacity or a recorded destination intent.
\<close>

theorem effects_need_ordered_evidence:
  assumes "move_run new_move (pre @ (obs, d) # post) s"
  shows "in_order (map edge_evidence (take (action_needs (DecidedAction d)) path))
      (map fst pre @ [obs]) \<and>
    (DecidedAction d = ActionRetireRecovery \<longrightarrow> RecoveryRequested obs \<and>
      in_order (map recovery_decided [ActionBeginRecovery, ActionQuiesceRecovery, ActionVerifyRecovery]) pre)"
proof
  have "action_needs (DecidedAction d) \<le> 14"
    by (cases "DecidedAction d") simp_all
  with mv.effect_evidence [OF assms new_move_stage]
  show "in_order (map edge_evidence (take (action_needs (DecidedAction d)) path)) (map fst pre @ [obs])"
    by (simp add: move_evidence_upt)
  from machine_run_decision [OF assms] obtain u where
    u: "move_run new_move pre u" "Decide u obs = Inr d" by blast
  have "in_order (map recovery_decided (recovery_needs (fs_RecoveryPhase u))) pre"
    by (rule recovery_run [OF u(1)]) (simp add: new_move_def)
  with Decide_retire [OF u(2)]
  show "DecidedAction d = ActionRetireRecovery \<longrightarrow> RecoveryRequested obs \<and>
      in_order (map recovery_decided [ActionBeginRecovery, ActionQuiesceRecovery, ActionVerifyRecovery]) pre"
    by auto
qed

theorem effects_need_ordered_evidence_witness:
  "(\<exists>pre obs d s. move_run new_move (pre @ [(obs, d)]) s \<and> DecidedAction d = ActionCommitOwner \<and>
     in_order (map edge_evidence (take 9 path)) (map fst pre @ [obs])) \<and>
   (\<exists>pre obs d s. move_run new_move (pre @ [(obs, d)]) s \<and> DecidedAction d = ActionRetireRecovery \<and>
     in_order (map recovery_decided [ActionBeginRecovery, ActionQuiesceRecovery, ActionVerifyRecovery]) pre)"
proof
  obtain tr where tr: "move_run new_move tr (phase_state PhasePromoting)"
    using smooth_move_reaches [of 8] by (auto simp: path_def)
  let ?obs = "approved\<lparr>PromotionComplete := True\<rparr>"
  let ?d = "decision (phase_state PhaseCommitting) ActionCommitOwner []"
  have run: "move_run new_move (tr @ [(?obs, ?d)]) (Next ?d)"
    by (rule machine_run.advance [where nxt = Next, OF tr Decide_promoted])
  then have "in_order (map edge_evidence (take 9 path)) (map fst tr @ [?obs])"
    using effects_need_ordered_evidence [of tr ?obs ?d "[]" "Next ?d"] by simp
  with run show "\<exists>pre obs d s. move_run new_move (pre @ [(obs, d)]) s \<and>
      DecidedAction d = ActionCommitOwner \<and> in_order (map edge_evidence (take 9 path)) (map fst pre @ [obs])"
    by (intro exI [of _ tr] exI [of _ ?obs] exI [of _ ?d]) auto
next
  obtain pre obs d s where run: "move_run new_move (pre @ [(obs, d)]) s"
    and d: "DecidedAction d = ActionRetireRecovery"
    using retirement_run by blast
  with effects_need_ordered_evidence [of pre obs d "[]" s]
  show "\<exists>pre obs d s. move_run new_move (pre @ [(obs, d)]) s \<and> DecidedAction d = ActionRetireRecovery \<and>
     in_order (map recovery_decided [ActionBeginRecovery, ActionQuiesceRecovery, ActionVerifyRecovery]) pre"
    by blast
qed

text \<open>
  C7. A Move changes its phase at most seventeen times in its life, setting the unset phase of a new
  record included, whatever is observed: along any sequence of decisions, stored or not, the
  phases climb a fixed rank and never return.
\<close>

theorem phase_changes_bounded:
  assumes "successively decide_step ss" and "ss \<noteq> []"
  shows "changes (map fs_Phase ss) \<le> 17"
proof -
  have "successively phase_step (map fs_Phase ss)"
    using assms(1) by (rule decide_steps_phases)
  moreover have "phase_rank (fs_Phase (hd ss)) \<le> 17"
    by (cases "fs_Phase (hd ss)") simp_all
  ultimately have "phase_rank (hd (map fs_Phase ss)) + changes (map fs_Phase ss) \<le> 17"
    using assms(2) by (intro pr.changes_bounded) (auto simp: hd_map)
  then show ?thesis by simp
qed

theorem phase_changes_bounded_witness:
  "decide_step new_move (phase_state PhasePreparing) \<and>
   changes (map fs_Phase [new_move, phase_state PhasePreparing]) \<le> 17"
proof -
  have "cooperative (path ! 0) healthy"
    using smooth_move_cooperative [of 0] by (simp add: smooth_move_def)
  from decide_cooperative [OF this] have st: "decide_step new_move (phase_state PhasePreparing)"
    by (auto simp: decide_step_def Decide_new_move path_def) metis
  with phase_changes_bounded [of "[new_move, phase_state PhasePreparing]"] show ?thesis by simp
qed

text \<open>
  C8. A Move makes progress: fourteen observations, each cooperative with its phase of the path,
  drive a new Move to Succeeded.
\<close>

theorem cooperative_move_succeeds:
  assumes "length os = 14" and "\<forall>k < 14. cooperative (path ! k) (os ! k)"
  shows "\<exists>tr. exec_run Decide Next new_move os = Inr (tr, phase_state PhaseSucceeded)"
proof -
  have "exec_run Decide Next new_move os = exec_run Decide Next (phase_state (path ! 0)) os"
    using assms(1) by (subst exec_run_new_move) (auto simp: path_def)
  moreover have "path ! 14 = PhaseSucceeded" by (simp add: path_def)
  ultimately show ?thesis using exec_run_cooperative [of 0 os] assms by simp
qed

theorem cooperative_move_succeeds_witness:
  "\<exists>tr. exec_run Decide Next new_move smooth_move = Inr (tr, phase_state PhaseSucceeded)"
  using cooperative_move_succeeds [OF smooth_move_length] smooth_move_cooperative by blast

text \<open>
  C9. Recovery of a blocked Move ends: with a fixed owner, requested recovery passes its phases
  exactly once and in the owner's order, so that a source owner retires the destination before
  it resumes service, a destination owner resumes service before it retires the source, and a
  settlement never resumes service.
\<close>

theorem recovery_settles:
  assumes "length os = length (recovery_order b c)" and "\<forall>obs \<in> set os. recovering b c obs"
  shows "\<exists>tr. exec_run Decide Next (recovery_state RecoveryNone) os =
      Inr (tr, recovery_state RecoveryRecovered) \<and>
    map (\<lambda>(obs, d). (fs_RecoveryPhase (Next d), DecidedAction d)) tr = recovery_order b c"
proof (cases c)
  case True
  with assms(1) obtain o1 o2 o3 o4 o5 where os: "os = [o1, o2, o3, o4, o5]"
    by (auto simp: recovery_order_def length_Suc_conv numeral_eq_Suc)
  with assms(2) True show ?thesis
    by (simp add: decide_recovery_step [where b = b and c = True] recovery_order_def)
      (simp add: recovery_state_def)
next
  case False
  with assms(1) obtain o1 o2 o3 o4 o5 o6 where os: "os = [o1, o2, o3, o4, o5, o6]"
    by (auto simp: recovery_order_def length_Suc_conv numeral_eq_Suc split: if_splits)
  with assms(2) False show ?thesis
    by (cases b)
      (simp_all add: decide_recovery_step [where b = b and c = False] recovery_order_def,
       simp_all add: recovery_state_def)
qed

theorem recovery_settles_witness:
  "\<exists>tr. exec_run Decide Next (recovery_state RecoveryNone)
      (replicate 6 (approved\<lparr>RecoveryRequested := True\<rparr>)) =
        Inr (tr, recovery_state RecoveryRecovered)"
  using recovery_settles [of "replicate 6 (approved\<lparr>RecoveryRequested := True\<rparr>)" False False]
  by (auto simp: recovery_order_def recovering_def sample_defs)

end
