(* ===== verification/Go_Stdlib.thy ===== *)
theory Go_Stdlib
  imports ShiftPV_Prelude
begin

unbundle bit_operations_syntax

text \<open>
  The parts of Go's standard library the sources call, on byte strings (\<open>char\<close> is a byte).

  \<^item> \<open>strings\<close>: prefixes, \<open>Split\<close> at one byte, \<open>ContainsAny\<close>, \<open>TrimSpace\<close>, \<open>Fields\<close>.
  \<^item> \<open>strconv.ParseUint\<close> in base 10 and \<open>fmt\<close>'s \<open>%d\<close>, with their round trip.
  \<^item> \<open>encoding/hex\<close>, with its round trip, and \<open>crypto/sha256\<close>.
  \<^item> \<open>path/filepath\<close> on Unix: \<open>IsAbs\<close>, \<open>Clean\<close>, \<open>Join\<close>.
\<close>

section \<open>Package strings\<close>

definition HasPrefix :: "string \<Rightarrow> string \<Rightarrow> bool" where
  "HasPrefix s p = (take (length p) s = p)"

definition TrimPrefix :: "string \<Rightarrow> string \<Rightarrow> string" where
  "TrimPrefix s p = (if HasPrefix s p then drop (length p) s else s)"

definition TrimSuffix :: "string \<Rightarrow> string \<Rightarrow> string" where
  "TrimSuffix s p = rev (TrimPrefix (rev s) (rev p))"

definition HasSuffix :: "string \<Rightarrow> string \<Rightarrow> bool" where
  "HasSuffix s p = HasPrefix (rev s) (rev p)"

lemma HasPrefix_append [simp]: "HasPrefix (p @ s) p"
  by (simp add: HasPrefix_def)

lemma HasPrefix_iff: "HasPrefix s p \<longleftrightarrow> (\<exists>r. s = p @ r)"
  by (metis HasPrefix_append HasPrefix_def append_take_drop_id)

lemma TrimPrefix_append [simp]: "TrimPrefix (p @ s) p = s"
  by (simp add: TrimPrefix_def)

lemma HasSuffix_iff: "HasSuffix s p \<longleftrightarrow> (\<exists>r. s = r @ p)"
proof -
  have "HasSuffix s p \<longleftrightarrow> (\<exists>r. rev s = rev p @ r)" by (simp add: HasSuffix_def HasPrefix_iff)
  also have "\<dots> \<longleftrightarrow> (\<exists>r. s = r @ p)" by (metis rev_append rev_rev_ident)
  finally show ?thesis .
qed

definition ContainsAny :: "string \<Rightarrow> string \<Rightarrow> bool" where
  "ContainsAny s cs = list_ex (\<lambda>c. c \<in> set cs) s"

lemma ContainsAny_iff: "ContainsAny s cs \<longleftrightarrow> set s \<inter> set cs \<noteq> {}"
  by (auto simp: ContainsAny_def list_ex_iff)

text \<open>\<open>strings.Split(s, sep)\<close> for a separator of one byte.\<close>

fun split_at :: "char \<Rightarrow> string \<Rightarrow> string list" where
  "split_at sep [] = [[]]"
| "split_at sep (c # cs) = (if c = sep then [] # split_at sep cs
     else (case split_at sep cs of w # ws \<Rightarrow> (c # w) # ws | [] \<Rightarrow> [[c]]))"

fun join_with :: "char \<Rightarrow> string list \<Rightarrow> string" where
  "join_with sep [] = []"
| "join_with sep [w] = w"
| "join_with sep (w # v # ws) = w @ sep # join_with sep (v # ws)"

lemma split_at_nonempty [simp]: "split_at sep s \<noteq> []"
  by (induction s) (auto split: list.splits)

lemma join_split_at [simp]: "join_with sep (split_at sep s) = s"
proof (induction s)
  case (Cons c s)
  then show ?case
    by (cases "split_at sep s" rule: list.exhaust; cases "tl (split_at sep s)") auto
qed simp

lemma split_at_no_sep: "sep \<notin> set w \<Longrightarrow> split_at sep w = [w]"
  by (induction w) auto

lemma split_at_append: "sep \<notin> set w \<Longrightarrow> split_at sep (w @ sep # s) = w # split_at sep s"
  by (induction w) auto

lemma split_at_append2: "split_at sep (s @ sep # r) = split_at sep s @ split_at sep r"
  by (induction s) (auto split: list.splits)

lemma split_join_with:
  "ws \<noteq> [] \<Longrightarrow> \<forall>w \<in> set ws. sep \<notin> set w \<Longrightarrow> split_at sep (join_with sep ws) = ws"
  by (induction sep ws rule: join_with.induct) (simp_all add: split_at_no_sep split_at_append)

lemma split_at_parts: "w \<in> set (split_at sep s) \<Longrightarrow> sep \<notin> set w"
  by (induction s arbitrary: w) (auto split: if_splits list.splits)

lemma split_at_two:
  "split_at sep s = [a, b] \<longleftrightarrow> s = a @ sep # b \<and> sep \<notin> set a \<and> sep \<notin> set b"
proof
  assume h: "split_at sep s = [a, b]"
  then show "s = a @ sep # b \<and> sep \<notin> set a \<and> sep \<notin> set b"
    using join_split_at [of sep s] split_at_parts [of _ sep s] by auto
qed (auto simp: split_at_append split_at_no_sep)

text \<open>
  The UTF-8 encodings of the code points \<open>unicode.IsSpace\<close> accepts. An encoding starts with a
  byte that occurs only at the start of an encoding, so looking for one at each byte finds the
  same places as decoding the string.
\<close>

definition byte_string :: "nat list \<Rightarrow> string" where
  "byte_string ns = map char_of ns"

definition space_encodings :: "string list" where
  "space_encodings = map byte_string
     ([[9], [10], [11], [12], [13], [32], [0xC2, 0x85], [0xC2, 0xA0], [0xE1, 0x9A, 0x80]]
      @ map (\<lambda>n. [0xE2, 0x80, n]) [0x80 ..< 0x8B]
      @ [[0xE2, 0x80, 0xA8], [0xE2, 0x80, 0xA9], [0xE2, 0x80, 0xAF], [0xE2, 0x81, 0x9F], [0xE3, 0x80, 0x80]])"

definition leading_space :: "string list \<Rightarrow> string \<Rightarrow> nat" where
  "leading_space encs s = (case filter (HasPrefix s) encs of e # _ \<Rightarrow> length e | [] \<Rightarrow> 0)"

function trim_left :: "string list \<Rightarrow> string \<Rightarrow> string" where
  "trim_left encs s = (if s = [] \<or> leading_space encs s = 0 then s
     else trim_left encs (drop (leading_space encs s) s))"
  by auto
termination by (relation "measure (\<lambda>(e, s). length s)") auto

declare trim_left.simps [simp del]

definition TrimSpace :: "string \<Rightarrow> string" where
  "TrimSpace s = rev (trim_left (map rev space_encodings) (rev (trim_left space_encodings s)))"

definition visible :: "char \<Rightarrow> bool" where
  "visible c \<longleftrightarrow> 33 \<le> (of_char c :: nat) \<and> (of_char c :: nat) \<le> 126"

lemma space_encodings_invisible:
  "e \<in> set space_encodings \<Longrightarrow> e \<noteq> [] \<and> \<not> visible (hd e) \<and> \<not> visible (last e)"
  by (auto simp: space_encodings_def byte_string_def visible_def)

lemma leading_space_visible:
  assumes "\<forall>e \<in> set encs. e \<noteq> [] \<and> \<not> visible (hd e)" and "s = [] \<or> visible (hd s)"
  shows "leading_space encs s = 0"
proof -
  have "\<not> HasPrefix s e" if "e \<in> set encs" for e
    using assms that by (cases e; cases s) (auto simp: HasPrefix_def)
  then have "filter (HasPrefix s) encs = []" by (simp add: filter_empty_conv)
  then show ?thesis by (simp add: leading_space_def)
qed

lemma TrimSpace_visible:
  assumes "s = [] \<or> visible (hd s) \<and> visible (last s)"
  shows "TrimSpace s = s"
proof -
  have "leading_space space_encodings s = 0"
    using assms space_encodings_invisible by (intro leading_space_visible) auto
  then have "trim_left space_encodings s = s" by (simp add: trim_left.simps [of _ s])
  moreover have "leading_space (map rev space_encodings) (rev s) = 0"
    using assms space_encodings_invisible by (intro leading_space_visible) (auto simp: hd_rev)
  then have "trim_left (map rev space_encodings) (rev s) = rev s"
    by (simp add: trim_left.simps [of _ "rev s"])
  ultimately show ?thesis by (simp add: TrimSpace_def)
qed

text \<open>\<open>strings.Fields\<close>; the second argument is the field being read.\<close>

function fields_from :: "string \<Rightarrow> string \<Rightarrow> string list" where
  "fields_from [] w = (if w = [] then [] else [rev w])"
| "fields_from (c # cs) w = (let n = leading_space space_encodings (c # cs) in
     if n = 0 then fields_from cs (c # w)
     else (if w = [] then [] else [rev w]) @ fields_from (drop n (c # cs)) [])"
  by pat_completeness auto
termination by (relation "measure (\<lambda>(s, w). length s)") auto

definition Fields :: "string \<Rightarrow> string list" where
  "Fields s = fields_from s []"

lemma fields_from_visible:
  "list_all visible w \<Longrightarrow> fields_from (w @ r) acc = fields_from r (rev w @ acc)"
proof (induction w arbitrary: acc)
  case (Cons c w)
  then have "leading_space space_encodings (c # w @ r) = 0"
    using space_encodings_invisible by (intro leading_space_visible) auto
  with Cons show ?case by simp
qed simp

lemma leading_blank: "leading_space space_encodings (CHR '' '' # r) = 1"
proof -
  have blank: "CHR '' '' = char_of (32 :: nat)" by code_simp
  show ?thesis
    by (simp add: blank leading_space_def space_encodings_def byte_string_def HasPrefix_def char_of_eq_iff)
qed

lemma Fields_two:
  assumes "list_all visible w" and "list_all visible v" and "w \<noteq> []" and "v \<noteq> []"
  shows "Fields (w @ CHR '' '' # v) = [w, v]"
  using fields_from_visible [OF assms(1), of "CHR '' '' # v" "[]"]
    fields_from_visible [OF assms(2), of "[]" "[]"] assms(3,4)
  by (simp add: Fields_def leading_blank)

section \<open>Decimal numbers\<close>

definition is_digit :: "char \<Rightarrow> bool" where
  "is_digit c \<longleftrightarrow> 48 \<le> (of_char c :: nat) \<and> (of_char c :: nat) \<le> 57"

definition digit_value :: "char \<Rightarrow> nat" where
  "digit_value c = of_char c - 48"

definition digit_char :: "nat \<Rightarrow> char" where
  "digit_char d = char_of (48 + d)"

lemma digit_char [simp]:
  assumes "d < 10"
  shows "is_digit (digit_char d)" and "digit_value (digit_char d) = d"
  using assms by (simp_all add: is_digit_def digit_value_def digit_char_def)

lemma digit_char_value [simp]: "is_digit c \<Longrightarrow> digit_char (digit_value c) = c"
  by (simp add: is_digit_def digit_value_def digit_char_def)

lemma digit_value_less: "is_digit c \<Longrightarrow> digit_value c < 10"
  unfolding is_digit_def digit_value_def by linarith

definition decimal_value :: "string \<Rightarrow> nat" where
  "decimal_value s = foldl (\<lambda>n c. 10 * n + digit_value c) 0 s"

lemma decimal_value_snoc [simp]: "decimal_value (s @ [c]) = 10 * decimal_value s + digit_value c"
  by (simp add: decimal_value_def)

lemma decimal_value_Nil [simp]: "decimal_value [] = 0"
  by (simp add: decimal_value_def)

text \<open>\<open>strconv.ParseUint(s, 10, bits)\<close>.\<close>

definition ParseUint :: "string \<Rightarrow> nat \<Rightarrow> nat res" where
  "ParseUint s bits = (if s = [] \<or> \<not> list_all is_digit s then Inl (Errorf ''invalid syntax'')
     else if decimal_value s < 2 ^ bits then Inr (decimal_value s)
     else Inl (Errorf ''value out of range''))"

text \<open>\<open>fmt.Sprintf("%d", n)\<close> of an unsigned number.\<close>

fun print_nat :: "nat \<Rightarrow> string" where
  "print_nat n = (if n < 10 then [digit_char n] else print_nat (n div 10) @ [digit_char (n mod 10)])"

declare print_nat.simps [simp del]

lemma print_nat_digits: "list_all is_digit (print_nat n)"
  by (induction n rule: print_nat.induct) (subst print_nat.simps, simp)

lemma print_nat_nonempty [simp]: "print_nat n \<noteq> []"
  by (subst print_nat.simps) simp

lemma decimal_value_print_nat [simp]: "decimal_value (print_nat n) = n"
proof (induction n rule: print_nat.induct)
  case (1 n)
  then show ?case
    by (subst print_nat.simps) (simp add: decimal_value_def)
qed

lemma ParseUint_print_nat: "n < 2 ^ bits \<Longrightarrow> ParseUint (print_nat n) bits = Inr n"
  by (simp add: ParseUint_def print_nat_digits)

lemma ParseUint_bound: "ParseUint s bits = Inr n \<Longrightarrow> n < 2 ^ bits"
  by (auto simp: ParseUint_def split: if_splits)

lemma print_nat_no_char: "\<not> is_digit c \<Longrightarrow> c \<notin> set (print_nat n)"
  using print_nat_digits [of n] by (auto simp: list_all_iff)

lemma print_nat_inject [simp]: "print_nat m = print_nat n \<longleftrightarrow> m = n"
  by (metis decimal_value_print_nat)

section \<open>Package encoding/hex\<close>

definition hex_digit :: "nat \<Rightarrow> char" where
  "hex_digit n = (if n < 10 then char_of (48 + n) else char_of (87 + n))"

definition hex_value :: "char \<Rightarrow> nat option" where
  "hex_value c = (let n = of_char c :: nat in
     if 48 \<le> n \<and> n \<le> 57 then Some (n - 48)
     else if 97 \<le> n \<and> n \<le> 102 then Some (n - 87)
     else if 65 \<le> n \<and> n \<le> 70 then Some (n - 55) else None)"

definition is_lower_hex :: "char \<Rightarrow> bool" where
  "is_lower_hex c \<longleftrightarrow> (let n = of_char c :: nat in (97 \<le> n \<and> n \<le> 102) \<or> (48 \<le> n \<and> n \<le> 57))"

lemma hex_digit [simp]:
  assumes "n < 16"
  shows "hex_value (hex_digit n) = Some n" and "is_lower_hex (hex_digit n)"
  using assms by (auto simp: hex_value_def hex_digit_def is_lower_hex_def Let_def)

lemma hex_value_less: "hex_value c = Some n \<Longrightarrow> n < 16"
  by (auto simp: hex_value_def Let_def split: if_splits)

lemma hex_value_lower: "is_lower_hex c \<Longrightarrow> \<exists>n < 16. hex_value c = Some n \<and> hex_digit n = c"
  by (auto simp: hex_value_def hex_digit_def is_lower_hex_def Let_def)

fun EncodeToString :: "8 word list \<Rightarrow> string" where
  "EncodeToString [] = []"
| "EncodeToString (b # bs) = hex_digit (unat b div 16) # hex_digit (unat b mod 16) # EncodeToString bs"

fun DecodeString :: "string \<Rightarrow> 8 word list option" where
  "DecodeString [] = Some []"
| "DecodeString [c] = None"
| "DecodeString (c # d # cs) = (case (hex_value c, hex_value d, DecodeString cs) of
     (Some h, Some l, Some bs) \<Rightarrow> Some (word_of_nat (16 * h + l) # bs) | _ \<Rightarrow> None)"

lemma unat_byte_less: "unat (b :: 8 word) < 256"
  by (rule order_less_le_trans [OF unsigned_less]) simp

lemma DecodeString_Encode: "DecodeString (EncodeToString bs) = Some bs"
proof (induction bs)
  case (Cons b bs)
  have "unat b div 16 < 16" using unat_byte_less [of b] by linarith
  with Cons show ?case by simp
qed simp

lemma EncodeToString_length [simp]: "length (EncodeToString bs) = 2 * length bs"
  by (induction bs) simp_all

lemma EncodeToString_lower: "list_all is_lower_hex (EncodeToString bs)"
proof (induction bs)
  case (Cons b bs)
  have "unat b div 16 < 16" using unat_byte_less [of b] by linarith
  with Cons show ?case by simp
qed simp

text \<open>\<open>strings.ToLower\<close> on bytes below 128.\<close>

definition lower_byte :: "char \<Rightarrow> char" where
  "lower_byte c = (let n = of_char c :: nat in if 65 \<le> n \<and> n \<le> 90 then char_of (n + 32) else c)"

definition ToLower :: "string \<Rightarrow> string" where
  "ToLower s = map lower_byte s"

lemma lower_byte_lower_hex [simp]: "is_lower_hex c \<Longrightarrow> lower_byte c = c"
  by (auto simp: is_lower_hex_def lower_byte_def Let_def)

lemma ToLower_lower_hex: "list_all is_lower_hex s \<Longrightarrow> ToLower s = s"
  by (simp add: ToLower_def list_all_iff map_idI)

section \<open>Package crypto/sha256\<close>

text \<open>
  The constants of the standard, by their definition: the first 32 bits of the fractional parts of
  the cube roots of the first 64 primes and of the square roots of the first eight. The root of
  order \<open>e\<close> is found from its highest bit down.
\<close>

fun root_bits :: "nat \<Rightarrow> nat \<Rightarrow> nat \<Rightarrow> nat \<Rightarrow> nat" where
  "root_bits e n 0 r = r"
| "root_bits e n (Suc b) r = root_bits e n b (if (r + 2 ^ b) ^ e \<le> n then r + 2 ^ b else r)"

definition is_prime :: "nat \<Rightarrow> bool" where
  "is_prime n = list_all (\<lambda>d. n mod d \<noteq> 0) [2 ..< n]"

definition root_fraction :: "nat \<Rightarrow> nat \<Rightarrow> 32 word" where
  "root_fraction e p = word_of_nat (root_bits e (p * 2 ^ (32 * e)) 40 0)"

definition sha256_k :: "32 word list" where
  "sha256_k = map (root_fraction 3) (filter is_prime [2 ..< 312])"

type_synonym sha256_state = "32 word \<times> 32 word \<times> 32 word \<times> 32 word \<times> 32 word \<times> 32 word \<times> 32 word \<times> 32 word"

definition sha256_init :: sha256_state where
  "sha256_init = (let h = root_fraction 2 in (h 2, h 3, h 5, h 7, h 11, h 13, h 17, h 19))"

definition rotr :: "nat \<Rightarrow> 32 word \<Rightarrow> 32 word" where
  "rotr n w = drop_bit n w OR push_bit (32 - n) w"

definition small_sigma :: "nat \<Rightarrow> nat \<Rightarrow> nat \<Rightarrow> 32 word \<Rightarrow> 32 word" where
  "small_sigma a b c w = rotr a w XOR rotr b w XOR drop_bit c w"

definition big_sigma :: "nat \<Rightarrow> nat \<Rightarrow> nat \<Rightarrow> 32 word \<Rightarrow> 32 word" where
  "big_sigma a b c w = rotr a w XOR rotr b w XOR rotr c w"

text \<open>The message schedule keeps the last sixteen words, oldest first.\<close>

fun sha256_rounds :: "32 word list \<Rightarrow> 32 word list \<Rightarrow> sha256_state \<Rightarrow> sha256_state" where
  "sha256_rounds [] ws st = st"
| "sha256_rounds (k # ks) ws (a, b, c, d, e, f, g, h) = (
     let w = ws ! 0;
         next = small_sigma 17 19 10 (ws ! 14) + ws ! 9 + small_sigma 7 18 3 (ws ! 1) + w;
         t1 = h + big_sigma 6 11 25 e + ((e AND f) XOR (NOT e AND g)) + k + w;
         t2 = big_sigma 2 13 22 a + ((a AND b) XOR (a AND c) XOR (b AND c))
     in sha256_rounds ks (tl ws @ [next]) (t1 + t2, a, b, c, d + t1, e, f, g))"

fun be_words :: "8 word list \<Rightarrow> 32 word list" where
  "be_words (a # b # c # d # bs) =
     (push_bit 24 (ucast a) OR push_bit 16 (ucast b) OR push_bit 8 (ucast c) OR ucast d) # be_words bs"
| "be_words _ = []"

definition sha256_block :: "sha256_state \<Rightarrow> 8 word list \<Rightarrow> sha256_state" where
  "sha256_block st bs = (case (st, sha256_rounds sha256_k (be_words bs) st) of
     ((a, b, c, d, e, f, g, h), (a', b', c', d', e', f', g', h')) \<Rightarrow>
       (a + a', b + b', c + c', d + d', e + e', f + f', g + g', h + h'))"

definition be_bytes :: "nat \<Rightarrow> 'a::len word \<Rightarrow> 8 word list" where
  "be_bytes n w = map (\<lambda>i. ucast (drop_bit (8 * i) w)) (rev [0 ..< n])"

definition sha256_pad :: "8 word list \<Rightarrow> 8 word list" where
  "sha256_pad bs = bs @ 0x80 # replicate ((119 - length bs mod 64) mod 64) 0 @ be_bytes 8 (word_of_nat (8 * length bs) :: uint64)"

fun sha256_blocks :: "nat \<Rightarrow> sha256_state \<Rightarrow> 8 word list \<Rightarrow> sha256_state" where
  "sha256_blocks 0 st bs = st"
| "sha256_blocks (Suc n) st bs = sha256_blocks n (sha256_block st (take 64 bs)) (drop 64 bs)"

definition string_bytes :: "string \<Rightarrow> 8 word list" where
  "string_bytes s = map (\<lambda>c. word_of_nat (of_char c)) s"

definition Sum256 :: "8 word list \<Rightarrow> 8 word list" where
  "Sum256 bs = (let padded = sha256_pad bs in
     case sha256_blocks (length padded div 64) sha256_init padded of
       (a, b, c, d, e, f, g, h) \<Rightarrow> concat (map (\<lambda>w. be_bytes 4 w) [a, b, c, d, e, f, g, h]))"

lemma be_bytes_length [simp]: "length (be_bytes n v) = n"
  by (simp add: be_bytes_def)

lemma Sum256_length [simp]: "length (Sum256 bs) = 32"
  by (simp add: Sum256_def Let_def split: prod.splits)

section \<open>Package path/filepath\<close>

abbreviation slash :: char where "slash \<equiv> CHR ''/''"

definition IsAbs :: "string \<Rightarrow> bool" where
  "IsAbs p = HasPrefix p ''/''"

text \<open>
  \<open>filepath.Clean\<close> on Unix: empty and dot elements go, a dot-dot element removes the element
  before it, one at a root goes. The elements kept so far are a stack.
\<close>

fun clean_elems :: "bool \<Rightarrow> string list \<Rightarrow> string list \<Rightarrow> string list" where
  "clean_elems rooted st [] = rev st"
| "clean_elems rooted st (e # es) = (
     if e = [] \<or> e = ''.'' then clean_elems rooted st es
     else if e = ''..'' then
       (case st of [] \<Rightarrow> clean_elems rooted (if rooted then [] else [''..'']) es
        | t # ts \<Rightarrow> clean_elems rooted (if t = ''..'' then ''..'' # st else ts) es)
     else clean_elems rooted (e # st) es)"

definition Clean :: "string \<Rightarrow> string" where
  "Clean p = (if p = [] then ''.''
     else let elems = clean_elems (IsAbs p) [] (split_at slash p) in
       if IsAbs p then slash # join_with slash elems
       else if elems = [] then ''.'' else join_with slash elems)"

definition Join :: "string list \<Rightarrow> string" where
  "Join elems = (case dropWhile (\<lambda>e. e = []) elems of [] \<Rightarrow> [] | es \<Rightarrow> Clean (join_with slash es))"

text \<open>An absolute path is clean when its elements are proper names.\<close>

definition proper_elem :: "string \<Rightarrow> bool" where
  "proper_elem e \<longleftrightarrow> e \<noteq> [] \<and> e \<noteq> ''.'' \<and> e \<noteq> ''..'' \<and> slash \<notin> set e"

definition path_elems :: "string \<Rightarrow> string list" where
  "path_elems p = filter (\<lambda>e. e \<noteq> []) (split_at slash p)"

definition abs_path :: "string list \<Rightarrow> string" where
  "abs_path es = slash # join_with slash es"

lemma IsAbs_Cons [simp]: "IsAbs (c # p) \<longleftrightarrow> c = slash"
  by (auto simp: IsAbs_def HasPrefix_def)

lemma IsAbs_iff: "IsAbs p \<longleftrightarrow> (\<exists>q. p = slash # q)"
  by (cases p) (auto simp: IsAbs_def HasPrefix_def)

lemma clean_elems_proper:
  assumes "\<forall>e \<in> set es. slash \<notin> set e" and "list_all proper_elem st"
  shows "list_all proper_elem (clean_elems True st es)"
  using assms
proof (induction es arbitrary: st)
  case (Cons e es)
  show ?case
  proof (cases "e = [] \<or> e = ''.''")
    case True
    with Cons show ?thesis by simp
  next
    case False
    show ?thesis
    proof (cases "e = ''..''")
      case True
      with Cons show ?thesis by (cases st) (simp_all add: proper_elem_def)
    next
      case neq: False
      with False Cons.prems(1) have "proper_elem e" by (simp add: proper_elem_def)
      with Cons.prems(2) have "list_all proper_elem (e # st)" by simp
      with False neq Cons show ?thesis by simp
    qed
  qed
qed (simp add: list_all_rev)

lemma clean_elems_id:
  "list_all proper_elem es \<Longrightarrow> clean_elems rooted st es = rev st @ es"
  by (induction es arbitrary: st) (auto simp: proper_elem_def)

lemma clean_elems_append:
  "list_all proper_elem fs \<Longrightarrow> clean_elems r st (es @ fs) = clean_elems r st es @ fs"
  by (induction r st es rule: clean_elems.induct) (auto simp: clean_elems_id split: list.splits)

lemma Clean_abs:
  assumes "IsAbs p"
  obtains es where "Clean p = abs_path es" and "list_all proper_elem es"
proof -
  have "list_all proper_elem (clean_elems True [] (split_at slash p))"
    using split_at_parts by (intro clean_elems_proper) auto
  moreover have "Clean p = abs_path (clean_elems True [] (split_at slash p))"
    using assms by (auto simp: Clean_def abs_path_def IsAbs_iff Let_def)
  ultimately show thesis using that by blast
qed

lemma split_abs_path:
  assumes "list_all proper_elem es"
  shows "split_at slash (abs_path es) = [] # (if es = [] then [[]] else es)"
  using assms split_join_with [of es slash]
  by (auto simp: abs_path_def proper_elem_def list_all_iff)

lemma path_elems_abs_path: "list_all proper_elem es \<Longrightarrow> path_elems (abs_path es) = es"
  by (simp add: path_elems_def split_abs_path)
    (auto simp: proper_elem_def list_all_iff intro: filter_True)

lemma abs_path_inject:
  "list_all proper_elem es \<Longrightarrow> list_all proper_elem fs \<Longrightarrow> abs_path es = abs_path fs \<longleftrightarrow> es = fs"
  by (metis path_elems_abs_path)

lemma IsAbs_abs_path [simp]: "IsAbs (abs_path es)"
  by (simp add: abs_path_def)

lemma abs_path_nonempty [simp]: "abs_path es \<noteq> []"
  by (simp add: abs_path_def)

lemma Clean_abs_path: "list_all proper_elem es \<Longrightarrow> Clean (abs_path es) = abs_path es"
  by (simp add: Clean_def split_abs_path clean_elems_id) (simp add: abs_path_def)

lemma Clean_idem_abs: "IsAbs p \<Longrightarrow> Clean (Clean p) = Clean p"
  by (metis Clean_abs Clean_abs_path)

lemma join_with_snocs:
  "es \<noteq> [] \<Longrightarrow> fs \<noteq> [] \<Longrightarrow> join_with sep (es @ fs) = join_with sep es @ sep # join_with sep fs"
  by (induction sep es rule: join_with.induct) (auto simp: neq_Nil_conv)

lemma Join_abs_path:
  assumes "list_all proper_elem es" and "list_all proper_elem fs" and "fs \<noteq> []"
  shows "Join (abs_path es # fs) = abs_path (es @ fs)"
proof -
  let ?j = "join_with slash (abs_path es # fs)"
  have j: "?j = abs_path es @ slash # join_with slash fs"
    using assms(3) by (cases fs) auto
  have "split_at slash ?j = split_at slash (abs_path es) @ fs"
  proof (cases "es = []")
    case True
    then show ?thesis
      using assms j split_join_with [of fs slash]
      by (auto simp: abs_path_def proper_elem_def list_all_iff)
  next
    case False
    have "?j = slash # join_with slash (es @ fs)"
      using join_with_snocs [OF False assms(3), of slash] j by (simp add: abs_path_def)
    moreover have "split_at slash (join_with slash (es @ fs)) = es @ fs"
      using assms by (intro split_join_with) (auto simp: proper_elem_def list_all_iff)
    ultimately show ?thesis using False assms(1) by (simp add: split_abs_path)
  qed
  then have "clean_elems True [] (split_at slash ?j) = es @ fs"
    using assms(1,2) by (simp add: clean_elems_append split_abs_path clean_elems_id)
  moreover have "IsAbs ?j" "?j \<noteq> []" unfolding j by (simp_all add: abs_path_def)
  ultimately have "Clean ?j = abs_path (es @ fs)" by (simp add: Clean_def abs_path_def)
  then show ?thesis by (simp add: Join_def)
qed

end
