(* ===== verification/Capacity_Unit.thy ===== *)
theory Capacity_Unit
  imports Go_Stdlib "HOL-Library.Product_Lexorder" "HOL-Library.Multiset"
begin

text \<open>
  Block allocations (\<open>src/pool/capacityunit/extent.go\<close> and \<open>sysfs.go\<close>): the backing ranges of a
  device, their canonical form, and whether two allocations share a sector.

  \<^item> \<open>Extent\<close>, \<open>segment\<close>, \<open>block\<close>: the structs of the source; sector numbers are 64-bit words.
  \<^item> \<open>resolve\<close> takes the remaining depth as its first argument (\<open>maxDepth\<close> minus the source's
    \<open>depth\<close>), so depth sixteen is fuel zero; the kernel's answers are the argument \<open>inspect\<close>.
  \<^item> \<open>sysfs_inspect\<close> reads an operating system given by a record of its operations.
  \<^item> the specification is on sets of sectors (\<open>cover\<close>): \<open>Normalize\<close> is a canonical form of a set
    of sectors, \<open>Overlap\<close> is a common sector, \<open>Resolve\<close> accounts for every sector of the device.
\<close>

section \<open>Device numbers and backing identities\<close>

abbreviation max_uint64 :: uint64 where "max_uint64 \<equiv> - 1"
abbreviation (input) maxExtents :: nat where "maxExtents \<equiv> 256"
abbreviation (input) maxDepth :: nat where "maxDepth \<equiv> 16"

definition parseDevice :: "string \<Rightarrow> (nat \<times> nat) res" where
  "parseDevice device = (case split_at CHR '':'' device of
     [f0, f1] \<Rightarrow>
       (case ParseUint f0 32 of
          Inl _ \<Rightarrow> Inl (Errorf ''invalid block device major'')
        | Inr major \<Rightarrow>
            (case ParseUint f1 32 of
               Inl _ \<Rightarrow> Inl (Errorf ''invalid block device minor'')
             | Inr minor \<Rightarrow>
                 if device \<noteq> print_nat major @ '':'' @ print_nat minor
                 then Inl (Errorf ''block device identity is not canonical'')
                 else Inr (major, minor)))
   | _ \<Rightarrow> Inl (Errorf ''invalid block device identity''))"

definition ValidateDevice :: "string \<Rightarrow> error option" where
  "ValidateDevice device = (case parseDevice device of Inl e \<Rightarrow> Some e | Inr _ \<Rightarrow> None)"

abbreviation wwid_prefix :: string where "wwid_prefix \<equiv> ''wwid:''"

definition validateBackingIdentity :: "string \<Rightarrow> error option" where
  "validateBackingIdentity device = (if HasPrefix device wwid_prefix
     then (case DecodeString (TrimPrefix device wwid_prefix) of
             None \<Rightarrow> Some (Errorf ''invalid backing WWID digest'')
           | Some data \<Rightarrow> if length data \<noteq> 32 \<or> device \<noteq> ToLower device
               then Some (Errorf ''invalid backing WWID digest'') else None)
     else ValidateDevice device)"

section \<open>Extents\<close>

record Extent =
  ex_Device :: string
  ex_Start :: uint64
  ex_Sectors :: uint64

text \<open>The order of \<open>sort.Slice\<close>: by device, then by start.\<close>

definition extent_key :: "Extent \<Rightarrow> string \<times> uint64" where
  "extent_key e = (ex_Device e, ex_Start e)"

text \<open>
  The loop of \<open>Normalize\<close> and its body; the extents kept so far are a stack, the last one on top.
\<close>

definition normalize_step :: "Extent list \<Rightarrow> Extent \<Rightarrow> Extent list res" where
  "normalize_step acc e = guard_err (validateBackingIdentity (ex_Device e)) (
     if ex_Sectors e = 0 \<or> ex_Sectors e > max_uint64 - ex_Start e
     then Inl (Errorf ''block allocation extent is invalid'')
     else case acc of
       [] \<Rightarrow> Inr [e]
     | previous # rest \<Rightarrow>
         if ex_Device previous = ex_Device e then
           (let fin = ex_Start previous + ex_Sectors previous in
            if ex_Start e < fin then Inl (Errorf ''block allocation contains overlapping extents'')
            else if ex_Start e = fin
            then Inr (previous\<lparr>ex_Sectors := ex_Sectors previous + ex_Sectors e\<rparr> # rest)
            else Inr (e # acc))
         else Inr (e # acc))"

fun normalize_loop :: "Extent list \<Rightarrow> Extent list \<Rightarrow> Extent list res" where
  "normalize_loop acc [] = Inr (rev acc)"
| "normalize_loop acc (e # es) = bind_res (normalize_step acc e) (\<lambda>acc'. normalize_loop acc' es)"

definition Normalize :: "Extent list \<Rightarrow> Extent list res" where
  "Normalize extents = (if extents = [] \<or> length extents > maxExtents
     then Inl (Errorf ''block allocation must contain bounded extents'')
     else normalize_loop [] (sort_key extent_key extents))"

definition extents_meet :: "Extent \<Rightarrow> Extent \<Rightarrow> bool" where
  "extents_meet a b \<longleftrightarrow> ex_Device a = ex_Device b \<and> ex_Start a < ex_Start b + ex_Sectors b \<and>
     ex_Start b < ex_Start a + ex_Sectors a"

definition Overlap :: "Extent list \<Rightarrow> Extent list \<Rightarrow> bool res" where
  "Overlap left right = bind_res (Normalize left) (\<lambda>l. bind_res (Normalize right) (\<lambda>r.
     Inr (list_ex (\<lambda>a. list_ex (extents_meet a) r) l)))"

section \<open>Resolving a device\<close>

record segment =
  sg_start :: uint64
  sg_sectors :: uint64
  sg_device :: string
  sg_offset :: uint64

record block =
  bl_size :: uint64
  bl_identity :: string
  bl_parent :: string
  bl_start :: uint64
  bl_mapped :: bool
  bl_segments :: "segment list"

fun segments_end :: "uint64 \<Rightarrow> segment list \<Rightarrow> uint64 res" where
  "segments_end fin [] = Inr fin"
| "segments_end fin (s # ss) = (
     if sg_start s \<noteq> fin \<or> sg_sectors s = 0 \<or> sg_sectors s > max_uint64 - fin \<or> sg_device s = []
     then Inl (Errorf ''mapped allocation table has gaps or invalid ranges'')
     else segments_end (fin + sg_sectors s) ss)"

definition validateSegments :: "block \<Rightarrow> error option" where
  "validateSegments b = (if bl_segments b = [] \<or> length (bl_segments b) > maxExtents
     then Some (Errorf ''mapped allocation has no complete bounded table'')
     else case segments_end 0 (bl_segments b) of
       Inl e \<Rightarrow> Some e
     | Inr fin \<Rightarrow> require_that (fin = bl_size b) (Errorf ''mapped allocation table does not cover the device''))"

text \<open>The loop over the segments; \<open>rec\<close> is the call of \<open>resolve\<close> one level deeper.\<close>

fun resolveSegments :: "(string \<Rightarrow> uint64 \<Rightarrow> uint64 \<Rightarrow> Extent list res) \<Rightarrow> uint64 \<Rightarrow> uint64 \<Rightarrow>
    Extent list \<Rightarrow> segment list \<Rightarrow> Extent list res" where
  "resolveSegments rec start sectors extents [] = Inr extents"
| "resolveSegments rec start sectors extents (s # ss) = (
     let first = max start (sg_start s); last = min (start + sectors) (sg_start s + sg_sectors s) in
     if first \<ge> last then resolveSegments rec start sectors extents ss
     else let offset = first - sg_start s in
       if offset > max_uint64 - sg_offset s then Inl (Errorf ''mapped allocation offset overflows'')
       else bind_res (rec (sg_device s) (sg_offset s + offset) (last - first)) (\<lambda>resolved.
         if length (extents @ resolved) > maxExtents
         then Inl (Errorf ''block allocation extent limit exceeded'')
         else resolveSegments rec start sectors (extents @ resolved) ss))"

fun resolve :: "(string \<Rightarrow> block res) \<Rightarrow> nat \<Rightarrow> string \<Rightarrow> uint64 \<Rightarrow> uint64 \<Rightarrow> string set \<Rightarrow> Extent list res" where
  "resolve inspect 0 device start sectors visiting =
     Inl (Errorf ''block allocation dependency cycle or depth exceeded'')"
| "resolve inspect (Suc n) device start sectors visiting = (
     if device \<in> visiting then Inl (Errorf ''block allocation dependency cycle or depth exceeded'')
     else bind_res (inspect device) (\<lambda>b.
       if sectors = 0 \<or> start > bl_size b \<or> sectors > bl_size b - start
       then Inl (Errorf ''block allocation range is invalid'')
       else if bl_parent b \<noteq> [] then
         (if start > max_uint64 - bl_start b then Inl (Errorf ''partition offset overflows'')
          else resolve inspect n (bl_parent b) (bl_start b + start) sectors (insert device visiting))
       else if \<not> bl_mapped b then
         Inr [\<lparr>ex_Device = (if bl_identity b = [] then device else bl_identity b),
               ex_Start = start, ex_Sectors = sectors\<rparr>]
       else guard_err (validateSegments b)
         (resolveSegments (\<lambda>d o' l. resolve inspect n d o' l (insert device visiting))
            start sectors [] (bl_segments b))))"

definition Resolve :: "(string \<Rightarrow> block res) option \<Rightarrow> string \<Rightarrow> Extent list res" where
  "Resolve backend device = (case backend of
     None \<Rightarrow> Inl (Errorf ''block allocation inspector is unavailable'')
   | Some inspect \<Rightarrow> bind_res (inspect device) (\<lambda>b.
       bind_res (resolve inspect maxDepth device 0 (bl_size b) {}) Normalize))"

section \<open>Reading sysfs\<close>

text \<open>
  What \<open>sysfsBackend.inspect\<close> asks of the operating system. A file that does not exist is
  \<open>ApiNotFound\<close>, the error \<open>os.IsNotExist\<close> recognises.
\<close>

record os_view =
  EvalSymlinks :: "string \<Rightarrow> string res"
  ReadFile :: "string \<Rightarrow> string res"
  Stat :: "string \<Rightarrow> error option"
  ReadDir :: "string \<Rightarrow> string list res"
  DMTable :: "string \<Rightarrow> segment list res"

definition filepath_Dir :: "string \<Rightarrow> string" where
  "filepath_Dir p = Clean (join_with slash (butlast (split_at slash p) @ [[]]))"

definition contains_string :: "string \<Rightarrow> string \<Rightarrow> bool" where
  "contains_string s sub = list_ex (\<lambda>n. HasPrefix (drop n s) sub) [0 ..< Suc (length s)]"

definition readNumber :: "os_view \<Rightarrow> string \<Rightarrow> uint64 res" where
  "readNumber sys path = bind_res (ReadFile sys path) (\<lambda>data.
     case ParseUint (TrimSpace data) 64 of
       Inl _ \<Rightarrow> Inl (Errorf ''invalid block allocation number'')
     | Inr n \<Rightarrow> Inr (word_of_nat n))"

fun backingIdentity_from :: "os_view \<Rightarrow> string \<Rightarrow> string \<Rightarrow> string list \<Rightarrow> string res" where
  "backingIdentity_from sys path device [] = Inr device"
| "backingIdentity_from sys path device (name # names) =
     (case ReadFile sys (Join [path, name]) of
        Inl e \<Rightarrow> if e = ApiNotFound then backingIdentity_from sys path device names else Inl e
      | Inr data \<Rightarrow> if TrimSpace data = [] then Inl (Errorf ''backing WWID is empty'')
          else Inr (wwid_prefix @ EncodeToString (Sum256 (string_bytes (TrimSpace data)))))"

definition backingIdentity :: "os_view \<Rightarrow> string \<Rightarrow> string \<Rightarrow> string res" where
  "backingIdentity sys path device = backingIdentity_from sys path device [''wwid'', ''device/wwid'']"

definition empty_block :: "uint64 \<Rightarrow> block" where
  "empty_block sz = \<lparr>bl_size = sz, bl_identity = [], bl_parent = [], bl_start = 0,
     bl_mapped = False, bl_segments = []\<rparr>"

definition inspect_whole :: "os_view \<Rightarrow> string \<Rightarrow> string \<Rightarrow> uint64 \<Rightarrow> block res" where
  "inspect_whole sys path device sz = (
     if contains_string path ''/virtual/block/'' then Inl (Errorf ''virtual block allocation is unsupported'')
     else bind_res (ReadDir sys (Join [path, ''slaves''])) (\<lambda>slaves.
       if slaves \<noteq> [] then Inl (Errorf ''stacked block allocation is unsupported'')
       else bind_res (backingIdentity sys path device) (\<lambda>ident.
         Inr ((empty_block sz)\<lparr>bl_identity := ident\<rparr>))))"

definition sysfs_inspect :: "os_view \<Rightarrow> string \<Rightarrow> string \<Rightarrow> string \<Rightarrow> block res" where
  "sysfs_inspect sys root control device = (
     if \<not> IsAbs root \<or> \<not> IsAbs control
     then Inl (Errorf ''sysfs and device-mapper control paths must be absolute'')
     else bind_res (parseDevice device) (\<lambda>_.
       case EvalSymlinks sys (Join [root, ''dev/block'', device]) of
         Inl e \<Rightarrow> Inl (Wrapped e ''inspect backing block device'')
       | Inr path \<Rightarrow> bind_res (readNumber sys (Join [path, ''size''])) (\<lambda>sz.
           case Stat sys (Join [path, ''partition'']) of
             None \<Rightarrow> bind_res (readNumber sys (Join [path, ''start''])) (\<lambda>start.
               bind_res (ReadFile sys (Join [filepath_Dir path, ''dev''])) (\<lambda>parent.
                 Inr ((empty_block sz)\<lparr>bl_start := start, bl_parent := TrimSpace parent\<rparr>)))
           | Some e \<Rightarrow> if e \<noteq> ApiNotFound then Inl e
               else (case Stat sys (Join [path, ''dm'']) of
                 None \<Rightarrow> bind_res (DMTable sys device) (\<lambda>segments.
                   Inr ((empty_block sz)\<lparr>bl_mapped := True, bl_segments := segments\<rparr>))
               | Some e \<Rightarrow> if e \<noteq> ApiNotFound then Inl e
                   else inspect_whole sys path device sz))))"

section \<open>Sectors\<close>

text \<open>The sectors of an extent, and of a list of extents, as pairs of device and number.\<close>

definition lo :: "Extent \<Rightarrow> nat" where
  "lo e = unat (ex_Start e)"

definition hi :: "Extent \<Rightarrow> nat" where
  "hi e = unat (ex_Start e) + unat (ex_Sectors e)"

definition sectors_of :: "Extent \<Rightarrow> (string \<times> nat) list" where
  "sectors_of e = map (Pair (ex_Device e)) [lo e ..< hi e]"

definition cover :: "Extent list \<Rightarrow> (string \<times> nat) set" where
  "cover es = set (concat (map sectors_of es))"

definition valid_extent :: "Extent \<Rightarrow> bool" where
  "valid_extent e \<longleftrightarrow> lo e < hi e \<and> hi e < 2 ^ 64"

definition gap_before :: "Extent \<Rightarrow> Extent \<Rightarrow> bool" where
  "gap_before a b \<longleftrightarrow> ex_Device a < ex_Device b \<or> ex_Device a = ex_Device b \<and> hi a < lo b"

definition canonical :: "Extent list \<Rightarrow> bool" where
  "canonical es \<longleftrightarrow> sorted_wrt gap_before es \<and> (\<forall>e \<in> set es. valid_extent e)"

lemma mem_cover: "(d, k) \<in> cover es \<longleftrightarrow> (\<exists>e \<in> set es. ex_Device e = d \<and> lo e \<le> k \<and> k < hi e)"
  by (force simp: cover_def sectors_of_def)

lemma cover_simps [simp]:
  "cover [] = {}"
  "cover (e # es) = set (sectors_of e) \<union> cover es"
  "cover (es @ fs) = cover es \<union> cover fs"
  "cover (rev es) = cover es"
  by (auto simp: cover_def)

lemma mem_sectors_of [simp]: "(d, k) \<in> set (sectors_of e) \<longleftrightarrow> d = ex_Device e \<and> lo e \<le> k \<and> k < hi e"
  by (auto simp: sectors_of_def)

lemma distinct_sectors_of [simp]: "distinct (sectors_of e)"
  by (simp add: sectors_of_def distinct_map inj_on_def)

lemma length_sectors_of [simp]: "length (sectors_of e) = unat (ex_Sectors e)"
  by (simp add: sectors_of_def lo_def hi_def)

lemma valid_extent_iff:
  "valid_extent e \<longleftrightarrow> \<not> (ex_Sectors e = 0 \<or> ex_Sectors e > max_uint64 - ex_Start e)"
  using word_le_max_sub [of "ex_Sectors e" "ex_Start e"]
  by (auto simp: valid_extent_def lo_def hi_def not_less unat_eq_0 [symmetric] simp del: unat_eq_0)

lemma unat_end: "valid_extent e \<Longrightarrow> unat (ex_Start e + ex_Sectors e) = hi e"
  by (simp add: valid_extent_def hi_def unat_add_less)

lemma extent_eqI:
  "ex_Device a = ex_Device b \<Longrightarrow> lo a = lo b \<Longrightarrow> hi a = hi b \<Longrightarrow> a = (b :: Extent)"
  by (cases a, cases b) (simp add: lo_def hi_def word_unat_eq_iff)

text \<open>The body of the loop, when it does not fail.\<close>

definition push_extent :: "Extent list \<Rightarrow> Extent \<Rightarrow> Extent list" where
  "push_extent acc e = (case acc of [] \<Rightarrow> [e] | p # ps \<Rightarrow>
     if ex_Device p = ex_Device e \<and> hi p = lo e
     then p\<lparr>ex_Sectors := ex_Sectors p + ex_Sectors e\<rparr> # ps else e # acc)"

definition follows :: "Extent list \<Rightarrow> Extent \<Rightarrow> bool" where
  "follows acc e \<longleftrightarrow> acc = [] \<or> extent_key (hd acc) \<le> extent_key e"

lemma gap_before_trans:
  "gap_before a b \<Longrightarrow> gap_before b c \<Longrightarrow> valid_extent b \<Longrightarrow> gap_before a c"
  by (auto simp: gap_before_def valid_extent_def)

lemma extent_key_le:
  "extent_key p \<le> extent_key e \<longleftrightarrow> ex_Device p < ex_Device e \<or> ex_Device p = ex_Device e \<and> lo p \<le> lo e"
  by (auto simp: extent_key_def less_eq_prod_def lo_def word_le_nat_alt)

lemma step_overlap:
  assumes "valid_extent p" and "valid_extent e" and "extent_key p \<le> extent_key e"
  shows "set (sectors_of p) \<inter> set (sectors_of e) \<noteq> {} \<longleftrightarrow> ex_Device p = ex_Device e \<and> lo e < hi p"
proof
  assume "ex_Device p = ex_Device e \<and> lo e < hi p"
  then have "(ex_Device e, lo e) \<in> set (sectors_of p) \<inter> set (sectors_of e)"
    using assms by (auto simp: extent_key_le valid_extent_def)
  then show "set (sectors_of p) \<inter> set (sectors_of e) \<noteq> {}" by blast
qed auto

lemma normalize_step_Inr:
  assumes "canonical (rev acc)" and "follows acc e"
  shows "normalize_step acc e = Inr acc' \<longleftrightarrow>
    validateBackingIdentity (ex_Device e) = None \<and> valid_extent e \<and>
    (acc \<noteq> [] \<longrightarrow> set (sectors_of (hd acc)) \<inter> set (sectors_of e) = {}) \<and> acc' = push_extent acc e"
proof (cases acc)
  case Nil
  then show ?thesis
    by (auto simp: normalize_step_def push_extent_def err_simps valid_extent_iff)
next
  case (Cons p ps)
  with assms have p: "valid_extent p" and le: "extent_key p \<le> extent_key e"
    by (auto simp: canonical_def follows_def)
  have w: "ex_Start e < ex_Start p + ex_Sectors p \<longleftrightarrow> lo e < hi p"
    "ex_Start e = ex_Start p + ex_Sectors p \<longleftrightarrow> hi p = lo e"
    using unat_end [OF p] by (auto simp: word_less_nat_alt lo_def word_unat_eq_iff)
  show ?thesis
  proof (cases "valid_extent e")
    case True
    have "set (sectors_of p) \<inter> set (sectors_of e) = {} \<longleftrightarrow> \<not> (ex_Device p = ex_Device e \<and> lo e < hi p)"
      using step_overlap [OF p True le] by blast
    moreover have "ex_Sectors e \<noteq> 0" "\<not> ex_Sectors e > max_uint64 - ex_Start e"
      using True by (simp_all add: valid_extent_iff)
    ultimately show ?thesis using True
      by (auto simp: Cons normalize_step_def push_extent_def err_simps w Let_def)
  next
    case False
    then have "ex_Sectors e = 0 \<or> ex_Sectors e > max_uint64 - ex_Start e"
      by (simp add: valid_extent_iff)
    with False show ?thesis by (simp add: normalize_step_def err_simps)
  qed
qed

lemma earlier_disjoint:
  assumes "canonical (rev (p # ps))" and "extent_key p \<le> extent_key e"
  shows "cover ps \<inter> set (sectors_of e) = {}"
proof -
  have "gap_before q p" "valid_extent q" if "q \<in> set ps" for q
    using assms(1) that by (auto simp: canonical_def sorted_wrt_append)
  with assms(2) show ?thesis
    by (fastforce simp: mem_cover gap_before_def extent_key_le)
qed

lemma push_extent_merge:
  assumes "valid_extent p" and "valid_extent e" and "hi p = lo e"
  defines "m \<equiv> p\<lparr>ex_Sectors := ex_Sectors p + ex_Sectors e\<rparr>"
  shows "lo m = lo p" and "hi m = hi e" and "valid_extent m" and "ex_Device m = ex_Device p"
proof -
  have "unat (ex_Sectors p + ex_Sectors e) = unat (ex_Sectors p) + unat (ex_Sectors e)"
    using assms by (intro unat_add_less) (auto simp: valid_extent_def lo_def hi_def)
  with assms show "lo m = lo p" "hi m = hi e" "valid_extent m" "ex_Device m = ex_Device p"
    by (auto simp: valid_extent_def lo_def hi_def)
qed

lemma push_extent_facts:
  assumes "canonical (rev acc)" and "follows acc e" and "valid_extent e"
    and "acc \<noteq> [] \<longrightarrow> set (sectors_of (hd acc)) \<inter> set (sectors_of e) = {}"
  shows "canonical (rev (push_extent acc e))"
    and "cover (push_extent acc e) = cover acc \<union> set (sectors_of e)"
    and "cover acc \<inter> set (sectors_of e) = {}"
    and "extent_key e \<le> extent_key f \<Longrightarrow> follows (push_extent acc e) f"
proof -
  consider "acc = []" | p ps where "acc = p # ps" by (cases acc) auto
  then have "canonical (rev (push_extent acc e)) \<and>
    cover (push_extent acc e) = cover acc \<union> set (sectors_of e) \<and>
    cover acc \<inter> set (sectors_of e) = {} \<and>
    (extent_key e \<le> extent_key f \<longrightarrow> follows (push_extent acc e) f)" for f
  proof cases
    case 1
    with assms(3) show ?thesis by (simp add: push_extent_def canonical_def follows_def)
  next
    case (2 p ps)
    with assms have p: "valid_extent p" and le: "extent_key p \<le> extent_key e"
      and ps: "\<forall>q \<in> set ps. gap_before q p \<and> valid_extent q" and c: "canonical (rev ps)"
      by (auto simp: canonical_def follows_def sorted_wrt_append)
    from assms(4) 2 have no: "\<not> (ex_Device p = ex_Device e \<and> lo e < hi p)"
      using step_overlap [OF p assms(3) le] by auto
    have dis: "cover acc \<inter> set (sectors_of e) = {}"
      using earlier_disjoint [of p ps e] assms(1,4) le 2 by auto
    show ?thesis
    proof (cases "ex_Device p = ex_Device e \<and> hi p = lo e")
      case True
      let ?m = "p\<lparr>ex_Sectors := ex_Sectors p + ex_Sectors e\<rparr>"
      note m = push_extent_merge [OF p assms(3) conjunct2 [OF True]]
      have "set (sectors_of ?m) = set (sectors_of p) \<union> set (sectors_of e)"
        using m True p assms(3) by (auto simp: valid_extent_def)
      moreover have "gap_before q ?m" if "q \<in> set ps" for q
        using ps that m by (auto simp: gap_before_def)
      ultimately show ?thesis
        using True 2 dis c m ps le
        by (auto simp: push_extent_def canonical_def sorted_wrt_append follows_def extent_key_def)
    next
      case False
      with no le have "gap_before p e" by (auto simp: gap_before_def extent_key_le)
      moreover from this have "gap_before q e" if "q \<in> set ps" for q
        using gap_before_trans ps that p by blast
      ultimately show ?thesis
        using False 2 dis c ps p assms(3)
        by (auto simp: push_extent_def canonical_def sorted_wrt_append follows_def)
    qed
  qed
  then show "canonical (rev (push_extent acc e))"
    and "cover (push_extent acc e) = cover acc \<union> set (sectors_of e)"
    and "cover acc \<inter> set (sectors_of e) = {}"
    and "extent_key e \<le> extent_key f \<Longrightarrow> follows (push_extent acc e) f"
    by auto
qed

definition usable_extent :: "Extent \<Rightarrow> bool" where
  "usable_extent e \<longleftrightarrow> validateBackingIdentity (ex_Device e) = None \<and> valid_extent e"

lemma normalize_loop_Inr:
  assumes "canonical (rev acc)" and "sorted (map extent_key es)" and "es \<noteq> [] \<longrightarrow> follows acc (hd es)"
  shows "(\<exists>ys. normalize_loop acc es = Inr ys) \<longleftrightarrow> (\<forall>e \<in> set es. usable_extent e) \<and>
      distinct (concat (map sectors_of es)) \<and> cover acc \<inter> cover es = {}"
    and "normalize_loop acc es = Inr ys \<Longrightarrow> canonical ys \<and> cover ys = cover acc \<union> cover es"
  using assms
proof (induction es arbitrary: acc)
  case Nil
  { case 1 then show ?case by simp }
  { case 2 then show ?case by auto }
next
  case (Cons e es)
  { case 1
    note step = normalize_step_Inr [OF 1(1), of e]
    have fe: "follows acc e" using 1(3) by simp
    show ?case
    proof (cases "usable_extent e \<and> cover acc \<inter> set (sectors_of e) = {}")
      case True
      then have hd: "acc \<noteq> [] \<longrightarrow> set (sectors_of (hd acc)) \<inter> set (sectors_of e) = {}"
        by (cases acc) auto
      with True have st: "normalize_step acc e = Inr (push_extent acc e)"
        using step fe by (simp add: usable_extent_def)
      note facts = push_extent_facts [OF 1(1) fe _ hd]
      have "(\<exists>ys. normalize_loop (push_extent acc e) es = Inr ys) \<longleftrightarrow> (\<forall>e \<in> set es. usable_extent e) \<and>
          distinct (concat (map sectors_of es)) \<and> cover (push_extent acc e) \<inter> cover es = {}"
        using True 1(2) facts by (intro Cons.IH(1)) (auto simp: usable_extent_def neq_Nil_conv)
      with True st facts(2) show ?thesis
        by (auto simp: usable_extent_def cover_def)
    next
      case False
      have "normalize_step acc e \<noteq> Inr acc'" for acc'
        using False step fe push_extent_facts(3) [OF 1(1) fe] by (auto simp: usable_extent_def)
      then obtain x where "normalize_step acc e = Inl x" by (cases "normalize_step acc e") auto
      with False show ?thesis by auto
    qed }
  { case 2
    then have fe: "follows acc e" by simp
    from 2(1) obtain acc' where st: "normalize_step acc e = Inr acc'" and
      rest: "normalize_loop acc' es = Inr ys" by auto
    from st have v: "valid_extent e" and acc': "acc' = push_extent acc e"
      and hd: "acc \<noteq> [] \<longrightarrow> set (sectors_of (hd acc)) \<inter> set (sectors_of e) = {}"
      using normalize_step_Inr [OF 2(2) fe] by auto
    note facts = push_extent_facts [OF 2(2) fe v hd]
    have "canonical ys \<and> cover ys = cover acc' \<union> cover es"
      using rest 2(3) facts acc' by (intro Cons.IH(2)) (auto simp: neq_Nil_conv)
    with facts(2) acc' show ?case by auto }
qed

lemma cover_perm: "set es = set fs \<Longrightarrow> cover es = cover fs"
  by (simp add: cover_def)

lemma mset_concat_map: "mset (concat (map f es)) = (\<Sum>e \<in># mset es. mset (f e))"
  by (induction es) simp_all

lemma distinct_sectors_perm:
  "mset es = mset fs \<Longrightarrow> distinct (concat (map sectors_of es)) = distinct (concat (map sectors_of fs))"
  by (intro mset_eq_imp_distinct_iff) (simp add: mset_concat_map)

lemma Normalize_Inr:
  assumes "Normalize es = Inr ys"
  shows "canonical ys" and "cover ys = cover es"
proof -
  have "normalize_loop [] (sort_key extent_key es) = Inr ys"
    using assms by (simp add: Normalize_def split: if_splits)
  from normalize_loop_Inr(2) [OF _ _ _ this] have "canonical ys \<and> cover ys = cover (sort_key extent_key es)"
    by (simp add: canonical_def follows_def)
  then show "canonical ys" "cover ys = cover es"
    using cover_perm [of "sort_key extent_key es" es] by simp_all
qed

lemma Normalize_ok_iff:
  "(\<exists>ys. Normalize es = Inr ys) \<longleftrightarrow> es \<noteq> [] \<and> length es \<le> maxExtents \<and>
     (\<forall>e \<in> set es. usable_extent e) \<and> distinct (concat (map sectors_of es))"
  using normalize_loop_Inr(1) [where acc = "[]" and es = "sort_key extent_key es"]
    distinct_sectors_perm [of "sort_key extent_key es" es]
  by (auto simp: Normalize_def canonical_def follows_def)

section \<open>The canonical form is unique\<close>

text \<open>An extent of a canonical list is a maximal run of covered sectors.\<close>

definition maximal_run :: "(string \<times> nat) set \<Rightarrow> Extent \<Rightarrow> bool" where
  "maximal_run A e \<longleftrightarrow> set (sectors_of e) \<subseteq> A \<and> (ex_Device e, hi e) \<notin> A \<and>
     (lo e = 0 \<or> (ex_Device e, lo e - 1) \<notin> A)"

lemma canonical_cases:
  assumes "canonical es" and "a \<in> set es" and "b \<in> set es"
  shows "a = b \<or> gap_before a b \<or> gap_before b a"
  using assms
proof (induction es)
  case (Cons e es)
  then show ?case by (auto simp: canonical_def)
qed simp

lemma canonical_run:
  assumes "canonical es" and "e \<in> set es"
  shows "maximal_run (cover es) e"
proof -
  have v: "valid_extent x" if "x \<in> set es" for x using assms(1) that by (simp add: canonical_def)
  have out: "\<not> (lo x \<le> k \<and> k < hi x)"
    if "x \<in> set es" "ex_Device x = ex_Device e" "k = hi e \<or> lo e = Suc k" for x k
    using canonical_cases [OF assms(1) that(1) assms(2)] that(2,3) v [OF that(1)] v [OF assms(2)]
    by (auto simp: gap_before_def valid_extent_def)
  have "set (sectors_of e) \<subseteq> cover es" using assms(2) by (auto simp: cover_def)
  moreover have "(ex_Device e, hi e) \<notin> cover es" using out [where k = "hi e"] by (auto simp: mem_cover)
  moreover have "(ex_Device e, lo e - 1) \<notin> cover es" if "lo e \<noteq> 0"
    using out [where k = "lo e - 1"] that by (auto simp: mem_cover)
  ultimately show ?thesis by (auto simp: maximal_run_def)
qed

lemma run_in_canonical:
  assumes "canonical es" and "valid_extent e" and "maximal_run (cover es) e"
  shows "e \<in> set es"
proof -
  let ?d = "ex_Device e"
  have "(?d, lo e) \<in> cover es" using assms(2,3) by (auto simp: maximal_run_def valid_extent_def)
  then obtain x where x: "x \<in> set es" "ex_Device x = ?d" "lo x \<le> lo e" "lo e < hi x"
    by (auto simp: mem_cover)
  have in_cover: "(?d, k) \<in> cover es" if "lo x \<le> k" "k < hi x" for k
    using x that by (auto simp: mem_cover)
  have "lo x = lo e"
  proof (rule ccontr)
    assume "lo x \<noteq> lo e"
    with x in_cover [of "lo e - 1"] assms(3) show False by (auto simp: maximal_run_def)
  qed
  moreover have "hi x = hi e"
  proof (rule ccontr)
    assume ne: "hi x \<noteq> hi e"
    show False
    proof (cases "hi x < hi e")
      case True
      with assms(3) x have "(?d, hi x) \<in> cover es" by (auto simp: maximal_run_def)
      with canonical_run [OF assms(1) x(1)] x(2) show False by (simp add: maximal_run_def)
    next
      case False
      with ne have "(?d, hi e) \<in> cover es"
        using in_cover [of "hi e"] x assms(2) by (simp add: valid_extent_def)
      with assms(3) show False by (simp add: maximal_run_def)
    qed
  qed
  ultimately have "x = e" using x(2) by (intro extent_eqI) auto
  with x(1) show ?thesis by simp
qed

lemma gap_before_asym: "valid_extent a \<Longrightarrow> valid_extent b \<Longrightarrow> gap_before a b \<Longrightarrow> \<not> gap_before b a"
  by (auto simp: gap_before_def valid_extent_def)

lemma canonical_eqI:
  assumes "canonical es" and "canonical fs" and "set es = set fs"
  shows "es = fs"
  using assms
proof (induction es arbitrary: fs)
  case (Cons e es)
  then obtain f fs' where fs: "fs = f # fs'" by (cases fs) auto
  have irr: "\<not> gap_before x x" if "valid_extent x" for x
    using that by (auto simp: gap_before_def valid_extent_def)
  have ef: "e = f"
  proof (rule ccontr)
    assume "e \<noteq> f"
    then have "gap_before e f" and "gap_before f e"
      using Cons.prems fs by (auto simp: canonical_def)
    with gap_before_asym [of e f] Cons.prems fs show False by (auto simp: canonical_def)
  qed
  moreover have "e \<notin> set es" "f \<notin> set fs'"
    using Cons.prems fs irr by (auto simp: canonical_def)
  ultimately have "set es = set fs'" using Cons.prems(3) fs by auto
  with Cons.prems fs have "es = fs'" by (intro Cons.IH) (auto simp: canonical_def)
  with ef fs show ?case by simp
qed simp

lemma canonical_unique:
  assumes "canonical es" and "canonical fs" and "cover es = cover fs"
  shows "es = fs"
proof (rule canonical_eqI [OF assms(1,2)])
  have runs: "set xs = {e. valid_extent e \<and> maximal_run (cover xs) e}" if "canonical xs" for xs
    using canonical_run [OF that] run_in_canonical [OF that] that by (auto simp only: canonical_def)
  show "set es = set fs" unfolding runs [OF assms(1)] runs [OF assms(2)] assms(3) ..
qed

section \<open>A resolved allocation accounts for its device\<close>

definition total :: "Extent list \<Rightarrow> nat" where
  "total es = sum_list (map (\<lambda>e. unat (ex_Sectors e)) es)"

lemma total_simps [simp]: "total [] = 0" "total (e # es) = unat (ex_Sectors e) + total es"
  "total (es @ fs) = total es + total fs"
  by (simp_all add: total_def)

lemma total_length: "total es = length (concat (map sectors_of es))"
  by (induction es) simp_all

lemma segments_end_step:
  assumes "segments_end fin (s # ss) = Inr e"
  shows "sg_start s = fin" and "segments_end (fin + sg_sectors s) ss = Inr e"
    and "unat (fin + sg_sectors s) = unat fin + unat (sg_sectors s)"
  using assms by (auto simp: not_less unat_add_no_overflow split: if_splits)

lemma segments_end_le: "segments_end fin ss = Inr e \<Longrightarrow> unat fin \<le> unat e"
proof (induction ss arbitrary: fin)
  case (Cons s ss)
  with segments_end_step [OF Cons.prems] show ?case by fastforce
qed simp

lemma unat_max_min: "unat (max a b) = max (unat a) (unat b)" "unat (min a b) = min (unat a) (unat b)"
  for a b :: "'a::len word"
  by (auto simp: max_def min_def word_le_nat_alt)

lemma resolveSegments_total:
  assumes "\<And>d a l es. rec d a l = Inr es \<Longrightarrow> total es = unat l"
    and "unat start + unat sectors < 2 ^ 64"
    and "segments_end fin ss = Inr e"
    and "resolveSegments rec start sectors exts ss = Inr out"
  shows "total out = total exts + (min (unat start + unat sectors) (unat e) - max (unat start) (unat fin))"
  using assms(3,4)
proof (induction ss arbitrary: fin exts)
  case Nil
  then show ?case by auto
next
  case (Cons s ss)
  note st = segments_end_step [OF Cons.prems(1)]
  let ?first = "max start (sg_start s)" and ?last = "min (start + sectors) (sg_start s + sg_sectors s)"
  let ?F = "unat fin" and ?M = "unat fin + unat (sg_sectors s)"
  have ss': "unat (start + sectors) = unat start + unat sectors"
    using assms(2) by (simp add: unat_add_less)
  have first: "unat ?first = max (unat start) ?F" and
    last: "unat ?last = min (unat start + unat sectors) ?M"
    using st ss' by (simp_all add: unat_max_min)
  have split: "min (unat start + unat sectors) (unat e) - max (unat start) ?F =
    (unat ?last - unat ?first) + (min (unat start + unat sectors) (unat e) - max (unat start) ?M)"
    using segments_end_le [OF st(2)] st(3) unfolding first last by linarith
  show ?case
  proof (cases "?last \<le> ?first")
    case True
    with Cons.prems(2) have "resolveSegments rec start sectors exts ss = Inr out" by simp
    from Cons.IH [OF st(2) this] split True st(3) show ?thesis by (simp add: word_le_nat_alt)
  next
    case False
    then obtain res where res: "rec (sg_device s) (sg_offset s + (?first - sg_start s)) (?last - ?first) = Inr res"
      and rest: "resolveSegments rec start sectors (exts @ res) ss = Inr out"
      using Cons.prems(2) by (simp only: resolveSegments.simps Let_def False if_False)
        (auto split: if_splits)
    have "unat (?last - ?first) = unat ?last - unat ?first"
      by (rule unat_sub [OF order.strict_implies_order [OF False [unfolded not_le]]])
    with assms(1) [OF res] Cons.IH [OF st(2) rest] split st(3) show ?thesis by simp
  qed
qed

lemma resolve_total: "resolve inspect n d start sectors vis = Inr es \<Longrightarrow> total es = unat sectors"
proof (induction n arbitrary: d start sectors vis es)
  case (Suc n)
  obtain b where b: "inspect d = Inr b" using Suc.prems by (auto split: if_splits)
  have range: "\<not> (start > bl_size b \<or> sectors > bl_size b - start)"
    using Suc.prems b by (auto split: if_splits)
  then have "start \<le> bl_size b" and "sectors \<le> bl_size b - start" by (simp_all add: not_less)
  then have "unat sectors \<le> unat (bl_size b) - unat start" and "unat start \<le> unat (bl_size b)"
    using unat_sub [of start "bl_size b"] by (simp_all add: word_le_nat_alt)
  then have le: "unat start + unat sectors \<le> unat (bl_size b)" by linarith
  have small: "unat (bl_size b) < 2 ^ 64" by (rule order_less_le_trans [OF unsigned_less]) simp
  consider "bl_parent b \<noteq> []" | "bl_parent b = []" "\<not> bl_mapped b" | "bl_parent b = []" "bl_mapped b"
    by blast
  then show ?case
  proof cases
    case 1
    with Suc.prems b show ?thesis by (auto intro: Suc.IH split: if_splits)
  next
    case 2
    with Suc.prems b show ?thesis by (auto split: if_splits)
  next
    case 3
    let ?rec = "\<lambda>d' a l. resolve inspect n d' a l (insert d vis)"
    have v: "validateSegments b = None" and r: "resolveSegments ?rec start sectors [] (bl_segments b) = Inr es"
      using 3 Suc.prems b by (auto simp: err_simps split: if_splits)
    from v have "segments_end 0 (bl_segments b) = Inr (bl_size b)"
      by (auto simp: validateSegments_def split: if_splits sum.splits)
    from resolveSegments_total [OF Suc.IH _ this r] le small show ?thesis by simp
  qed
qed simp

lemma canonical_distinct: "canonical es \<Longrightarrow> distinct (concat (map sectors_of es))"
proof (induction es)
  case (Cons e es)
  then have "distinct (concat (map sectors_of es))" by (simp add: canonical_def)
  moreover have "set (sectors_of e) \<inter> cover es = {}"
    using Cons.prems by (fastforce simp: canonical_def gap_before_def mem_cover)
  ultimately show ?case by (simp add: cover_def)
qed simp

lemma card_cover: "distinct (concat (map sectors_of es)) \<Longrightarrow> card (cover es) = total es"
  by (simp only: cover_def total_length distinct_card)

lemma extents_meet_iff:
  assumes "valid_extent a" and "valid_extent b"
  shows "extents_meet a b \<longleftrightarrow> set (sectors_of a) \<inter> set (sectors_of b) \<noteq> {}"
proof
  assume "extents_meet a b"
  then have d: "ex_Device a = ex_Device b" and "lo a < hi b" "lo b < hi a"
    using unat_end assms by (auto simp: extents_meet_def word_less_nat_alt lo_def)
  then have "(ex_Device a, max (lo a) (lo b)) \<in> set (sectors_of a) \<inter> set (sectors_of b)"
    using assms by (simp add: valid_extent_def)
  then show "set (sectors_of a) \<inter> set (sectors_of b) \<noteq> {}" by blast
next
  assume "set (sectors_of a) \<inter> set (sectors_of b) \<noteq> {}"
  then show "extents_meet a b"
    using unat_end assms by (auto simp: extents_meet_def word_less_nat_alt lo_def)
qed

lemma Overlap_Inr:
  "Overlap l r = Inr b \<longleftrightarrow>
     (\<exists>xs ys. Normalize l = Inr xs \<and> Normalize r = Inr ys) \<and> b = (cover l \<inter> cover r \<noteq> {})"
proof -
  have "list_ex (\<lambda>a. list_ex (extents_meet a) ys) xs \<longleftrightarrow> cover l \<inter> cover r \<noteq> {}"
    if n: "Normalize l = Inr xs" "Normalize r = Inr ys" for xs ys
  proof -
    have v: "\<forall>x \<in> set xs \<union> set ys. valid_extent x"
      using Normalize_Inr(1) [OF n(1)] Normalize_Inr(1) [OF n(2)] by (auto simp: canonical_def)
    have "list_ex (\<lambda>a. list_ex (extents_meet a) ys) xs \<longleftrightarrow>
        (\<exists>a \<in> set xs. \<exists>b \<in> set ys. set (sectors_of a) \<inter> set (sectors_of b) \<noteq> {})"
      using v extents_meet_iff by (auto simp: list_ex_iff)
    also have "\<dots> \<longleftrightarrow> cover xs \<inter> cover ys \<noteq> {}" by (auto simp: cover_def)
    finally show ?thesis using Normalize_Inr(2) [OF n(1)] Normalize_Inr(2) [OF n(2)] by simp
  qed
  then show ?thesis by (auto simp: Overlap_def err_simps)
qed

lemma Overlap_cover: "Overlap l r = Inr b \<Longrightarrow> b = (cover l \<inter> cover r \<noteq> {})"
  by (simp add: Overlap_Inr)

lemma parseDevice_print:
  assumes "a < 2 ^ 32" and "b < 2 ^ 32"
  shows "parseDevice (print_nat a @ '':'' @ print_nat b) = Inr (a, b)"
proof -
  have "CHR '':'' \<notin> set (print_nat n)" for n
    by (rule print_nat_no_char) (simp add: is_digit_def)
  then have "split_at CHR '':'' (print_nat a @ '':'' @ print_nat b) = [print_nat a, print_nat b]"
    by (simp add: split_at_append split_at_no_sep)
  with assms show ?thesis by (simp add: parseDevice_def ParseUint_print_nat)
qed

lemma parseDevice_canonical:
  "parseDevice d = Inr (a, b) \<Longrightarrow> a < 2 ^ 32 \<and> b < 2 ^ 32 \<and> d = print_nat a @ '':'' @ print_nat b"
  by (auto simp: parseDevice_def dest: ParseUint_bound split: list.splits sum.splits if_splits)

lemma wwid_identity_ok: "validateBackingIdentity (wwid_prefix @ EncodeToString (Sum256 bs)) = None"
proof -
  let ?h = "EncodeToString (Sum256 bs)"
  have "ToLower (wwid_prefix @ ?h) = ToLower wwid_prefix @ ToLower ?h" by (simp add: ToLower_def)
  moreover have "ToLower wwid_prefix = wwid_prefix" by (simp add: ToLower_def lower_byte_def)
  ultimately have "ToLower (wwid_prefix @ ?h) = wwid_prefix @ ?h"
    by (simp add: ToLower_lower_hex EncodeToString_lower)
  then show ?thesis
    unfolding validateBackingIdentity_def TrimPrefix_append by (simp add: DecodeString_Encode del: append.simps)
qed

lemma device_ok:
  assumes "a < 2 ^ 32" and "b < 2 ^ 32"
  shows "validateBackingIdentity (print_nat a @ '':'' @ print_nat b) = None"
proof -
  let ?d = "print_nat a @ '':'' @ print_nat b"
  obtain c cs where c: "print_nat a = c # cs" "is_digit c"
    using print_nat_digits [of a] by (cases "print_nat a") auto
  then have "\<not> HasPrefix ?d wwid_prefix" by (auto simp: HasPrefix_def is_digit_def)
  then show ?thesis
    using parseDevice_print [OF assms] by (simp add: validateBackingIdentity_def ValidateDevice_def)
qed

lemma sda_ok: "validateBackingIdentity ''8:0'' = None"
proof -
  have "print_nat 8 = ''8''" "print_nat 0 = ''0''"
    by code_simp+
  with device_ok [of 8 0] show ?thesis by simp
qed

lemma sda_device: "ValidateDevice ''8:0'' = None"
  using sda_ok by (simp add: validateBackingIdentity_def HasPrefix_def)

section \<open>Properties\<close>

text \<open>
  C11. \<open>Normalize\<close> is the canonical form of a set of sectors. It answers exactly for one to 256
  extents with valid devices, non-empty ranges that do not overflow, and no sector named twice;
  its result is sorted with a gap between any two extents of a device and covers exactly the same
  sectors; and two allocations have the same normal form exactly when they cover the same
  sectors.
\<close>

theorem Normalize_canonical_form:
  "((\<exists>ys. Normalize es = Inr ys) \<longleftrightarrow> es \<noteq> [] \<and> length es \<le> 256 \<and>
      (\<forall>e \<in> set es. usable_extent e) \<and> distinct (concat (map sectors_of es))) \<and>
   (\<forall>ys. Normalize es = Inr ys \<longrightarrow> canonical ys \<and> cover ys = cover es) \<and>
   (\<forall>fs xs ys. Normalize es = Inr xs \<longrightarrow> Normalize fs = Inr ys \<longrightarrow> (xs = ys \<longleftrightarrow> cover es = cover fs))"
proof (intro conjI allI impI)
  fix fs xs ys
  assume n: "Normalize es = Inr xs" "Normalize fs = Inr ys"
  then show "xs = ys \<longleftrightarrow> cover es = cover fs"
    using Normalize_Inr [OF n(1)] Normalize_Inr [OF n(2)] canonical_unique [of xs ys] by auto
qed (use Normalize_ok_iff Normalize_Inr in blast)+

theorem Normalize_canonical_form_witness:
  "cover [\<lparr>ex_Device = ''8:0'', ex_Start = 0, ex_Sectors = 20\<rparr>] =
   cover [\<lparr>ex_Device = ''8:0'', ex_Start = 10, ex_Sectors = 10\<rparr>, \<lparr>ex_Device = ''8:0'', ex_Start = 0, ex_Sectors = 10\<rparr>]"
proof -
  have "Normalize [\<lparr>ex_Device = ''8:0'', ex_Start = 10, ex_Sectors = 10\<rparr>,
      \<lparr>ex_Device = ''8:0'', ex_Start = 0, ex_Sectors = 10\<rparr>] =
    Inr [\<lparr>ex_Device = ''8:0'', ex_Start = 0, ex_Sectors = 20\<rparr>]"
    by (simp add: Normalize_def normalize_step_def extent_key_def sda_ok)
  with Normalize_canonical_form show ?thesis by blast
qed

text \<open>
  \<open>Overlap\<close> decides sharing of storage: when both allocations are acceptable its answer says
  whether they have a sector in common, and no 64-bit addition in the comparison overflows; if
  either is not acceptable it fails instead of answering.
\<close>

theorem Overlap_common_sector:
  "Overlap l r = Inr b \<longleftrightarrow>
     (\<exists>xs ys. Normalize l = Inr xs \<and> Normalize r = Inr ys) \<and> b = (cover l \<inter> cover r \<noteq> {})"
  by (rule Overlap_Inr)

text \<open>
  C12. A resolved allocation accounts for its whole device: whatever stack of partitions and linear
  mappings the kernel reports, when \<open>Resolve\<close> answers, the extents are canonical and hold exactly
  as many distinct sectors as the device has.
\<close>

theorem Resolve_accounts_for_device:
  assumes "Resolve (Some inspect) device = Inr es" and "inspect device = Inr b"
  shows "canonical es \<and> card (cover es) = unat (bl_size b)"
proof -
  obtain xs where r: "resolve inspect maxDepth device 0 (bl_size b) {} = Inr xs" and n: "Normalize xs = Inr es"
    using assms by (auto simp: Resolve_def)
  have "card (cover es) = total xs"
    using Normalize_Inr(2) [OF n] Normalize_ok_iff [of xs] n card_cover by auto
  with resolve_total [OF r] Normalize_Inr(1) [OF n] show ?thesis by simp
qed

definition sample_blocks :: "string \<Rightarrow> block res" where
  "sample_blocks d = (
     if d = ''8:0'' then Inr (empty_block 4096)
     else if d = ''8:1'' then Inr ((empty_block 1024)\<lparr>bl_parent := ''8:0'', bl_start := 128\<rparr>)
     else if d = ''253:0'' then Inr ((empty_block 128)\<lparr>bl_mapped := True, bl_segments :=
       [\<lparr>sg_start = 0, sg_sectors = 128, sg_device = ''8:1'', sg_offset = 64\<rparr>]\<rparr>)
     else Inl (Errorf ''unknown block device''))"

theorem Resolve_accounts_for_device_witness:
  "Resolve (Some sample_blocks) ''253:0'' = Inr [\<lparr>ex_Device = ''8:0'', ex_Start = 192, ex_Sectors = 128\<rparr>] \<and>
   card (cover [\<lparr>ex_Device = ''8:0'', ex_Start = 192, ex_Sectors = 128\<rparr>]) = 128"
proof -
  have "resolve sample_blocks (Suc (Suc (Suc n))) ''253:0'' 0 128 {} =
      Inr [\<lparr>ex_Device = ''8:0'', ex_Start = 192, ex_Sectors = 128\<rparr>]" for n
    by (simp add: sample_blocks_def empty_block_def validateSegments_def)
  from this [of 13] have r: "Resolve (Some sample_blocks) ''253:0'' =
      Inr [\<lparr>ex_Device = ''8:0'', ex_Start = 192, ex_Sectors = 128\<rparr>]"
    by (simp add: Resolve_def sample_blocks_def empty_block_def Normalize_def normalize_step_def sda_ok)
  have "sample_blocks ''253:0'' = Inr ((empty_block 128)\<lparr>bl_mapped := True, bl_segments :=
       [\<lparr>sg_start = 0, sg_sectors = 128, sg_device = ''8:1'', sg_offset = 64\<rparr>]\<rparr>)"
    by (simp add: sample_blocks_def)
  from Resolve_accounts_for_device [OF r this] r show ?thesis by (simp add: empty_block_def)
qed

text \<open>
  Device numbers round-trip: \<open>parseDevice\<close> accepts precisely the canonical decimal
  spellings of two 32-bit numbers joined by a colon, and reads the numbers back.
\<close>

theorem parseDevice_roundtrip:
  "parseDevice d = Inr (a, b) \<longleftrightarrow> a < 2 ^ 32 \<and> b < 2 ^ 32 \<and> d = print_nat a @ '':'' @ print_nat b"
  using parseDevice_canonical parseDevice_print by metis

text \<open>
  C13. What the inspector reads of a whole disk is accepted evidence: for a device that is neither
  a partition nor a mapping, the identity it reports is the device's own canonical number or the
  digest of a non-empty WWID, and passes \<open>validateBackingIdentity\<close>.
\<close>

theorem inspected_identity_accepted:
  assumes "sysfs_inspect sys root control device = Inr b" and "bl_parent b = []" and "\<not> bl_mapped b"
    and "Stat sys (Join [path, ''partition'']) \<noteq> None"
    and "EvalSymlinks sys (Join [root, ''dev/block'', device]) = Inr path"
  shows "validateBackingIdentity (bl_identity b) = None \<and> bl_identity b \<noteq> []"
proof -
  have dev: "ValidateDevice device = None" and whole: "\<exists>sz. inspect_whole sys path device sz = Inr b"
    using assms by (auto simp: sysfs_inspect_def ValidateDevice_def split: if_splits option.splits)
  obtain x y where "parseDevice device = Inr (x, y)"
    using dev by (auto simp: ValidateDevice_def split: sum.splits)
  from parseDevice_canonical [OF this] device_ok [of x y]
  have "validateBackingIdentity device = None" and "device \<noteq> []" by auto
  with whole wwid_identity_ok show ?thesis
    by (auto simp: inspect_whole_def backingIdentity_def split: if_splits sum.splits)
qed

definition sample_disk :: os_view where
  "sample_disk = \<lparr>EvalSymlinks = \<lambda>p. Inr ''/sys/devices/sda'',
     ReadFile = \<lambda>p. if p = ''/sys/devices/sda/size'' then Inr ''100'' else Inl ApiNotFound,
     Stat = \<lambda>p. Some ApiNotFound, ReadDir = \<lambda>p. Inr [],
     DMTable = \<lambda>d. Inl (Errorf ''not a mapping'')\<rparr>"

theorem inspected_identity_accepted_witness:
  "\<exists>b. sysfs_inspect sample_disk ''/sys'' ''/dev/mapper/control'' ''8:0'' = Inr b \<and>
     validateBackingIdentity (bl_identity b) = None"
proof -
  have j: "Join [''/sys/devices/sda'', ''size''] = ''/sys/devices/sda/size''"
    "Join [''/sys/devices/sda'', ''wwid''] = ''/sys/devices/sda/wwid''"
    "Join [''/sys/devices/sda'', ''device/wwid''] = ''/sys/devices/sda/device/wwid''"
    "contains_string ''/sys/devices/sda'' ''/virtual/block/'' = False"
    by code_simp+
  have t: "TrimSpace ''100'' = ''100''" by (rule TrimSpace_visible) (simp add: visible_def)
  have n: "ParseUint ''100'' 64 = Inr 100"
    by (simp add: ParseUint_def is_digit_def decimal_value_def digit_value_def)
  have "parseDevice ''8:0'' \<noteq> Inl e" for e
    using sda_ok by (auto simp: validateBackingIdentity_def ValidateDevice_def HasPrefix_def)
  then obtain ab where d: "parseDevice ''8:0'' = Inr ab" by (cases "parseDevice ''8:0''") auto
  have s: "sysfs_inspect sample_disk ''/sys'' ''/dev/mapper/control'' ''8:0'' =
      Inr ((empty_block 100)\<lparr>bl_identity := ''8:0''\<rparr>)"
    by (simp add: sysfs_inspect_def sample_disk_def d j n t readNumber_def inspect_whole_def
        backingIdentity_def)
  from inspected_identity_accepted [OF s, of "''/sys/devices/sda''"] s show ?thesis
    by (simp add: sample_disk_def empty_block_def)
qed

end
