(* ===== verification/Device_Mapper.thy ===== *)
theory Device_Mapper
  imports Capacity_Unit
begin

text \<open>
  Decoding the kernel's device-mapper table (\<open>src/pool/capacityunit/dm_linux.go\<close>).

  \<^item> the response is a list of bytes; offsets are 32-bit words, as in the source. A slice
    expression out of range is a run-time panic, the error \<open>GoPanic\<close>.
  \<^item> the sizes of the kernel's structures and the byte order are the record \<open>dm_abi\<close>, an argument
    of the decoder.
  \<^item> the decoder never panics, whatever bytes the kernel returns.
\<close>

section \<open>Bytes\<close>

record dm_abi =
  SizeofDmIoctl :: "32 word"
  SizeofDmTargetSpec :: "32 word"
  little_endian :: bool

definition slice :: "nat \<Rightarrow> nat \<Rightarrow> 'a list \<Rightarrow> 'a list res" where
  "slice a b xs = (if a \<le> b \<and> b \<le> length xs then Inr (take (b - a) (drop a xs)) else Inl GoPanic)"

definition le_value :: "8 word list \<Rightarrow> 'a::len word" where
  "le_value bs = foldr (\<lambda>b w. push_bit 8 w OR ucast b) bs 0"

definition native_value :: "dm_abi \<Rightarrow> 8 word list \<Rightarrow> 'a::len word" where
  "native_value abi bs = le_value (if little_endian abi then bs else rev bs)"

definition bytes_string :: "8 word list \<Rightarrow> string" where
  "bytes_string bs = map (\<lambda>b. char_of (unat b)) bs"

definition trim_right_nul :: "string \<Rightarrow> string" where
  "trim_right_nul s = rev (dropWhile (\<lambda>c. c = char_of (0 :: nat)) (rev s))"

section \<open>The decoder\<close>

definition dm_parameters :: "8 word list \<Rightarrow> (string \<times> uint64) res" where
  "dm_parameters parameters = (
     if 0 \<notin> set parameters then Inl (Errorf ''device-mapper target parameters are incomplete'')
     else case Fields (bytes_string (takeWhile (\<lambda>b. b \<noteq> 0) parameters)) of
       [f0, f1] \<Rightarrow> bind_res (parseDevice f0) (\<lambda>_.
         case ParseUint f1 64 of
           Inl _ \<Rightarrow> Inl (Errorf ''linear backing offset is invalid'')
         | Inr n \<Rightarrow> Inr (f0, word_of_nat n))
     | _ \<Rightarrow> Inl (Errorf ''linear allocation parameters are invalid''))"

definition dm_end :: "dm_abi \<Rightarrow> 32 word \<Rightarrow> 32 word \<Rightarrow> 32 word \<Rightarrow> bool \<Rightarrow> 8 word list \<Rightarrow> (32 word) res" where
  "dm_end abi start sz offset further target = bind_res (slice 20 24 target) (\<lambda>nb.
     let next = native_value abi nb in
     if further then
       (if next > sz - start \<or> next \<le> offset - start + SizeofDmTargetSpec abi
        then Inl (Errorf ''device-mapper target offset is invalid'')
        else Inr (start + next))
     else Inr sz)"

text \<open>The body of the loop: one target, and the offset of the next one.\<close>

definition dm_target :: "dm_abi \<Rightarrow> 8 word list \<Rightarrow> 32 word \<Rightarrow> 32 word \<Rightarrow> bool \<Rightarrow> 32 word \<Rightarrow> (segment \<times> 32 word) res" where
  "dm_target abi data start sz further offset = (
     if offset mod 8 \<noteq> 0 \<or> offset > sz \<or> sz - offset < SizeofDmTargetSpec abi
     then Inl (Errorf ''device-mapper target response is truncated'')
     else bind_res (slice (unat offset) (unat (offset + SizeofDmTargetSpec abi)) data) (\<lambda>target.
       bind_res (dm_end abi start sz offset further target) (\<lambda>fin.
       bind_res (slice 24 40 target) (\<lambda>kb.
         if trim_right_nul (bytes_string kb) \<noteq> ''linear''
         then Inl (Errorf ''device-mapper target does not prove fixed allocation'')
         else bind_res (slice (unat (offset + SizeofDmTargetSpec abi)) (unat fin) data) (\<lambda>parameters.
           bind_res (dm_parameters parameters) (\<lambda>(device, backingStart).
           bind_res (slice 0 8 target) (\<lambda>sb.
           bind_res (slice 8 16 target) (\<lambda>lb.
             Inr (\<lparr>sg_start = native_value abi sb, sg_sectors = native_value abi lb,
                   sg_device = device, sg_offset = backingStart\<rparr>, fin)))))))))"

text \<open>\<open>n\<close> targets are still to be read.\<close>

fun dm_targets :: "dm_abi \<Rightarrow> 8 word list \<Rightarrow> 32 word \<Rightarrow> 32 word \<Rightarrow> nat \<Rightarrow> 32 word \<Rightarrow> segment list \<Rightarrow> segment list res" where
  "dm_targets abi data start sz 0 offset segments = Inr segments"
| "dm_targets abi data start sz (Suc n) offset segments =
     bind_res (dm_target abi data start sz (n \<noteq> 0) offset) (\<lambda>(s, fin).
       dm_targets abi data start sz n fin (segments @ [s]))"

definition decodeDMTable :: "dm_abi \<Rightarrow> 8 word list \<Rightarrow> 32 word \<Rightarrow> 32 word \<Rightarrow> 32 word \<Rightarrow> segment list res" where
  "decodeDMTable abi data start sz target_count = (
     if sz > word_of_nat (length data) \<or> start < SizeofDmIoctl abi \<or> start \<ge> sz \<or> target_count = 0 \<or>
        unat target_count > maxExtents
     then Inl (Errorf ''device-mapper allocation response is invalid'')
     else dm_targets abi data start sz (unat target_count) start [])"

section \<open>The decoder stays within the response\<close>

lemma slice_Inr: "a \<le> b \<Longrightarrow> b \<le> length xs \<Longrightarrow> \<exists>ys. slice a b xs = Inr ys \<and> length ys = b - a"
  by (auto simp: slice_def)

lemma parseDevice_no_panic: "parseDevice d \<noteq> Inl GoPanic"
  by (auto simp: parseDevice_def split: list.splits sum.splits)

lemma dm_parameters_no_panic: "dm_parameters ps \<noteq> Inl GoPanic"
  using parseDevice_no_panic
  by (auto simp: dm_parameters_def bind_res_Inl split: list.splits sum.splits)

lemma dm_parameters_device: "dm_parameters ps = Inr (d, n) \<Longrightarrow> ValidateDevice d = None"
  by (auto simp: dm_parameters_def ValidateDevice_def split: if_splits list.splits sum.splits)

lemma dm_end_facts:
  assumes "length target = 40" and "SizeofDmTargetSpec abi = 40"
    and "unat start \<le> unat offset" and "unat offset + 40 \<le> unat sz"
  shows "dm_end abi start sz offset further target \<noteq> Inl GoPanic"
    and "dm_end abi start sz offset further target = Inr fin \<Longrightarrow>
      unat offset + 40 \<le> unat fin \<and> unat fin \<le> unat sz"
proof -
  obtain nb where nb: "slice 20 24 target = Inr nb" using slice_Inr [of 20 24 target] assms(1) by auto
  then show "dm_end abi start sz offset further target \<noteq> Inl GoPanic"
    by (simp add: dm_end_def Let_def)
  assume fin: "dm_end abi start sz offset further target = Inr fin"
  show "unat offset + 40 \<le> unat fin \<and> unat fin \<le> unat sz"
  proof (cases further)
    case False
    with fin nb assms show ?thesis by (auto simp: dm_end_def Let_def)
  next
    case True
    let ?n = "native_value abi nb :: 32 word"
    have fin': "fin = start + ?n" and le: "?n \<le> sz - start" and gt: "offset - start + 40 < ?n"
      using fin nb True assms(2) by (auto simp: dm_end_def Let_def not_less not_le split: if_splits)
    have so: "unat (offset - start) = unat offset - unat start" and ss: "unat (sz - start) = unat sz - unat start"
      using assms by (auto intro!: unat_sub simp: word_le_nat_alt)
    have b: "unat sz < 2 ^ 32" by (rule order_less_le_trans [OF unsigned_less]) simp
    have "unat (offset - start + 40) = unat offset - unat start + 40"
      using so b assms by (subst unat_add_less) auto
    with gt have g: "unat offset - unat start + 40 < unat ?n" by (simp add: word_less_nat_alt)
    from le ss have l: "unat ?n \<le> unat sz - unat start" by (simp add: word_le_nat_alt)
    have "unat fin = unat start + unat ?n"
      using fin' l b assms by (subst fin', subst unat_add_less) auto
    with g l assms show ?thesis by auto
  qed
qed

lemma dm_target_facts:
  assumes "SizeofDmTargetSpec abi = 40" and "unat sz \<le> length data" and "unat start \<le> unat offset"
  shows "dm_target abi data start sz further offset \<noteq> Inl GoPanic"
    and "dm_target abi data start sz further offset = Inr (s, fin) \<Longrightarrow>
      unat start \<le> unat fin \<and> ValidateDevice (sg_device s) = None"
proof -
  let ?ok = "\<not> (offset mod 8 \<noteq> 0 \<or> offset > sz \<or> sz - offset < SizeofDmTargetSpec abi)"
  have room: "unat offset + 40 \<le> unat sz" and nxt: "unat (offset + 40) = unat offset + 40" if ?ok
  proof -
    from that have le: "offset \<le> sz" and "40 \<le> sz - offset" using assms(1) by (auto simp: not_less)
    then have "40 \<le> unat (sz - offset)" by (simp add: word_le_nat_alt)
    with le show room: "unat offset + 40 \<le> unat sz" by (simp add: unat_sub word_le_nat_alt)
    have "unat sz < 2 ^ 32" by (rule order_less_le_trans [OF unsigned_less]) simp
    with room show "unat (offset + 40) = unat offset + 40" by (subst unat_add_less) auto
  qed
  have tgt: "\<exists>target. slice (unat offset) (unat (offset + SizeofDmTargetSpec abi)) data = Inr target \<and>
      length target = 40" if ?ok
    using slice_Inr [of "unat offset" "unat offset + 40" data] room [OF that] nxt [OF that] assms by auto
  have cut: "\<exists>ys. slice a b t = Inr ys" if "length t = 40" "a \<le> b" "b \<le> 40" for a b and t :: "8 word list"
    using that slice_Inr [of a b t] by auto
  show "dm_target abi data start sz further offset \<noteq> Inl GoPanic"
  proof (cases ?ok)
    case True
    obtain target where t: "slice (unat offset) (unat (offset + SizeofDmTargetSpec abi)) data = Inr target"
      "length target = 40" using tgt [OF True] by blast
    note e = dm_end_facts [OF t(2) assms(1,3) room [OF True], where further = further]
    obtain kb sb lb where cuts: "slice 24 40 target = Inr kb" "slice 0 8 target = Inr sb"
      "slice 8 16 target = Inr lb"
      using cut [OF t(2), of 24 40] cut [OF t(2), of 0 8] cut [OF t(2), of 8 16] by auto
    show ?thesis
    proof (cases "dm_end abi start sz offset further target")
      case (Inl x)
      with e(1) True t(1) show ?thesis by (simp add: dm_target_def)
    next
      case (Inr fin)
      then obtain ys where "slice (unat (offset + SizeofDmTargetSpec abi)) (unat fin) data = Inr ys"
        using e(2) [OF Inr] nxt [OF True] assms slice_Inr [of "unat offset + 40" "unat fin" data] by auto
      with Inr True t(1) cuts dm_parameters_no_panic [of ys] show ?thesis
        by (cases "dm_parameters ys") (auto simp: dm_target_def)
    qed
  next
    case False
    then show ?thesis by (auto simp: dm_target_def)
  qed
  assume r: "dm_target abi data start sz further offset = Inr (s, fin)"
  then have ok: ?ok by (auto simp: dm_target_def split: if_splits)
  obtain target where t: "slice (unat offset) (unat (offset + SizeofDmTargetSpec abi)) data = Inr target"
    "length target = 40" using tgt [OF ok] by blast
  from r ok t have e: "dm_end abi start sz offset further target = Inr fin"
    by (auto simp: dm_target_def split: if_splits)
  moreover have "ValidateDevice (sg_device s) = None"
  proof (rule ccontr)
    assume "ValidateDevice (sg_device s) \<noteq> None"
    then have "dm_parameters ps \<noteq> Inr (sg_device s, n)" for ps n using dm_parameters_device by metis
    with r ok t e show False by (auto simp: dm_target_def split: if_splits)
  qed
  ultimately show "unat start \<le> unat fin \<and> ValidateDevice (sg_device s) = None"
    using dm_end_facts(2) [OF t(2) assms(1,3) room [OF ok]] assms(3) by fastforce
qed

lemma dm_targets_facts:
  assumes "SizeofDmTargetSpec abi = 40" and "unat sz \<le> length data" and "unat start \<le> unat offset"
  shows "dm_targets abi data start sz n offset acc \<noteq> Inl GoPanic"
    and "dm_targets abi data start sz n offset acc = Inr out \<Longrightarrow>
      (\<exists>new. out = acc @ new \<and> length new = n \<and> (\<forall>s \<in> set new. ValidateDevice (sg_device s) = None))"
  using assms(3)
proof (induction n arbitrary: offset acc)
  case (Suc n)
  { case 1
    show ?case using dm_target_facts [OF assms(1,2) 1] Suc.IH(1) by (auto simp: bind_res_Inl) }
  { case 2
    then obtain s fin where s: "dm_target abi data start sz (n \<noteq> 0) offset = Inr (s, fin)"
      and r: "dm_targets abi data start sz n fin (acc @ [s]) = Inr out" by auto
    note f = dm_target_facts(2) [OF assms(1,2) 2(2) s]
    obtain new where "out = (acc @ [s]) @ new" "length new = n" "\<forall>s \<in> set new. ValidateDevice (sg_device s) = None"
      using Suc.IH(2) [OF r] f by blast
    with f show ?case by (intro exI [of _ "s # new"]) auto }
qed auto

text \<open>
  C14. The decoder of the kernel's table is memory safe: on any response shorter than four
  gigabytes, with targets of forty bytes, no slice expression panics, whatever offsets and counts
  the response claims; and when it answers, it has read exactly the announced number of
  segments, each naming a device by its canonical number.
\<close>

theorem decodeDMTable_safe:
  assumes "SizeofDmTargetSpec abi = 40" and "length data < 2 ^ 32"
  shows "decodeDMTable abi data start sz target_count \<noteq> Inl GoPanic \<and>
    (\<forall>segs. decodeDMTable abi data start sz target_count = Inr segs \<longrightarrow>
       length segs = unat target_count \<and> (\<forall>s \<in> set segs. ValidateDevice (sg_device s) = None))"
proof -
  have "unat sz \<le> length data" if "\<not> sz > word_of_nat (length data)"
  proof -
    have "unat (word_of_nat (length data) :: 32 word) = length data"
      using assms(2) by (simp add: unat_of_nat take_bit_nat_eq_self)
    with that show ?thesis by (simp add: not_less word_le_nat_alt)
  qed
  note facts = dm_targets_facts [OF assms(1) this, of start start]
  show ?thesis using facts(1) by (auto simp: decodeDMTable_def dest!: facts(2))
qed

definition sample_abi :: dm_abi where
  "sample_abi = \<lparr>SizeofDmIoctl = 312, SizeofDmTargetSpec = 40, little_endian = True\<rparr>"

definition sample_target :: "8 word list" where
  "sample_target = replicate 8 0 @ 128 # replicate 15 0 @ string_bytes ''linear'' @ replicate 10 0"

definition sample_params :: "8 word list" where
  "sample_params = string_bytes ''8:0 2048'' @ [0]"

theorem decodeDMTable_safe_witness:
  "\<exists>segs. decodeDMTable sample_abi (replicate 312 0 @ sample_target @ sample_params) 312 361 1 = Inr segs \<and>
     length segs = 1"
proof -
  let ?data = "replicate 312 0 @ sample_target @ sample_params"
  have lt: "length sample_target = 40" and lp: "length sample_params = 9"
    by (simp_all add: sample_target_def sample_params_def string_bytes_def)
  have cut: "slice 312 352 ?data = Inr sample_target" "slice 352 361 ?data = Inr sample_params"
    using lt lp by (simp_all add: slice_def)
  have t: "slice 20 24 sample_target = Inr (replicate 4 0)" "slice 0 8 sample_target = Inr (replicate 8 0)"
    "slice 8 16 sample_target = Inr (128 # replicate 7 0)"
    "slice 24 40 sample_target = Inr (string_bytes ''linear'' @ replicate 10 0)"
    by (simp_all add: slice_def sample_target_def string_bytes_def)
  have k: "trim_right_nul (bytes_string (string_bytes ''linear'' @ replicate 10 0)) = ''linear''"
    by code_simp
  have f: "Fields ''8:0 2048'' = [''8:0'', ''2048'']"
    using Fields_two [of "''8:0''" "''2048''"] by (simp add: visible_def)
  have n: "ParseUint ''2048'' 64 = Inr 2048"
    by (simp add: ParseUint_def is_digit_def decimal_value_def digit_value_def)
  obtain ab where d: "parseDevice ''8:0'' = Inr ab"
    using sda_ok by (cases "parseDevice ''8:0''") (auto simp: validateBackingIdentity_def ValidateDevice_def HasPrefix_def)
  have b: "bytes_string (takeWhile (\<lambda>b. b \<noteq> 0) sample_params) = ''8:0 2048''" "0 \<in> set sample_params"
    by code_simp+
  have "\<exists>s. decodeDMTable sample_abi ?data 312 361 1 = Inr [s]"
    using lt lp by (simp add: decodeDMTable_def sample_abi_def dm_target_def dm_end_def dm_parameters_def
        cut t k f n d b)
  then obtain s where s: "decodeDMTable sample_abi ?data 312 361 1 = Inr [s]" ..
  with decodeDMTable_safe [of sample_abi ?data 312 361 1] lt lp show ?thesis
    by (simp add: sample_abi_def)
qed

end
