(* ===== verification/Kubernetes_Lib.thy ===== *)
theory Kubernetes_Lib
  imports ShiftPV_Prelude
begin

text \<open>
  What the sources use of the Kubernetes libraries, as arguments of the definitions that use it.

  \<^item> \<open>Condition\<close>: the fields of \<open>metav1.Condition\<close> that are read.
  \<^item> \<open>k8s_lib\<close>: the library functions. \<open>k_Quantity\<close> is \<open>resource.ParseQuantity\<close> followed by
    \<open>AsInt64\<close>: the value, and whether it is exact. A validation function of the library returns a
    list of messages; here it says whether that list is empty.
  \<^item> times are instants in nanoseconds; \<open>None\<close> is the zero time. \<open>time_Sub\<close> saturates as
    \<open>Time.Sub\<close> does.
\<close>

record Condition =
  cond_Type :: string
  cond_Status :: string
  cond_ObservedGeneration :: int
  cond_Reason :: string

abbreviation ConditionTrue :: string where "ConditionTrue \<equiv> ''True''"

record k8s_lib =
  k_IsDNS1123Label :: "string \<Rightarrow> bool"
  k_IsDNS1123Subdomain :: "string \<Rightarrow> bool"
  k_Quantity :: "string \<Rightarrow> (int \<times> bool) res"
  k_FindStatusCondition :: "Condition list \<Rightarrow> string \<Rightarrow> Condition option"

text \<open>
  The documented behaviour of \<open>meta.FindStatusCondition\<close> and of \<open>AsInt64\<close>: a condition of the
  requested type from the list, and a signed 64-bit number.
\<close>

definition k8s_documented :: "k8s_lib \<Rightarrow> bool" where
  "k8s_documented k \<longleftrightarrow>
     (\<forall>cs t c. k_FindStatusCondition k cs t = Some c \<longrightarrow> c \<in> set cs \<and> cond_Type c = t) \<and>
     (\<forall>q v x. k_Quantity k q = Inr (v, x) \<longrightarrow> is_int64 v)"

type_synonym time = "int option"

definition time_Sub :: "int \<Rightarrow> int \<Rightarrow> int" where
  "time_Sub a b = max min_int64 (min max_int64 (a - b))"

text \<open>
  \<open>t.IsZero() || staleAfter <= 0 || now.Sub(t) > staleAfter || now.Before(t)\<close>, negated.
\<close>

definition fresh :: "int \<Rightarrow> int \<Rightarrow> time \<Rightarrow> bool" where
  "fresh now staleAfter t = (case t of None \<Rightarrow> False
     | Some at \<Rightarrow> \<not> (staleAfter \<le> 0 \<or> time_Sub now at > staleAfter \<or> now < at))"

lemma freshD:
  assumes "fresh now staleAfter (Some at)" and "staleAfter < max_int64"
  shows "at \<le> now \<and> now - at \<le> staleAfter"
  using assms by (auto simp: fresh_def time_Sub_def min_def max_def min_int64_def max_int64_def split: if_splits)

end
