(* ===== verification/Pool_Registration.thy ===== *)
theory Pool_Registration
  imports Capacity_Unit Kubernetes_Lib "HOL-Library.Sublist"
begin

text \<open>
  Registration of capacity pools (\<open>src/pool/registration\<close>): a pool's configuration, its capacity
  unit, and whether its storage is independent of its peers on the node.

  The specification is on path elements and on sectors: \<open>PathsOverlap\<close> is nesting of the cleaned
  paths, and a pool found independent shares no path and no sector with any peer that counts.
\<close>

section \<open>Model\<close>

abbreviation FixedBlock :: string where "FixedBlock \<equiv> ''FixedBlock''"

record Check =
  ck_OK :: bool
  ck_Known :: bool
  ck_Reason :: string

record CapacityUnit =
  cu_Device :: string
  cu_Source :: string
  cu_Filesystem :: string
  cu_Extents :: "Extent list"

record Allocation =
  al_UID :: string
  al_NodeName :: string
  al_MountPath :: string
  al_Policy :: string
  al_Approved :: bool
  al_Deleting :: bool
  al_Retired :: bool
  al_Unit :: "CapacityUnit option"
  al_Evidence :: Check

definition failed :: "string \<Rightarrow> Check" where
  "failed reason = \<lparr>ck_OK = False, ck_Known = True, ck_Reason = reason\<rparr>"

definition verified :: Check where
  "verified = \<lparr>ck_OK = True, ck_Known = True, ck_Reason = ''CapacityAllocationVerified''\<rparr>"

definition passed :: Check where
  "passed = \<lparr>ck_OK = True, ck_Known = True, ck_Reason = []\<rparr>"

definition ValidateUnit :: "CapacityUnit option \<Rightarrow> error option" where
  "ValidateUnit u = (case u of
     None \<Rightarrow> Some (Errorf ''fixed filesystem capacity identity is incomplete or unsupported'')
   | Some c \<Rightarrow>
       if ValidateDevice (cu_Device c) \<noteq> None \<or> cu_Source c = [] \<or>
          (cu_Filesystem c \<noteq> ''ext4'' \<and> cu_Filesystem c \<noteq> ''xfs'')
       then Some (Errorf ''fixed filesystem capacity identity is incomplete or unsupported'')
       else case Normalize (cu_Extents c) of
         Inl e \<Rightarrow> Some e
       | Inr normalized \<Rightarrow> require_that (normalized = cu_Extents c)
           (Errorf ''capacity allocation evidence is not normalized''))"

definition SameCapacityUnit :: "CapacityUnit option \<Rightarrow> CapacityUnit option \<Rightarrow> bool" where
  "SameCapacityUnit left right \<longleftrightarrow> left \<noteq> None \<and> right \<noteq> None \<and> ValidateUnit left = None \<and>
     ValidateUnit right = None \<and> left = right"

section \<open>Configuration\<close>

record Configuration =
  cf_NodeName :: string
  cf_PoolGroup :: string
  cf_MountPath :: string
  cf_MountPolicy :: string
  cf_CapacityPolicy :: string
  cf_CapacityLimit :: string

definition ParseLimitBytes :: "k8s_lib \<Rightarrow> string \<Rightarrow> int res" where
  "ParseLimitBytes k limit = bind_res (k_Quantity k limit) (\<lambda>(v, exact).
     if \<not> exact then Inl ErrLimitInexact
     else if v \<le> 0 then Inl ErrLimitNotPositive
     else Inr v)"

definition ValidateBackingConfiguration :: "Configuration \<Rightarrow> Check" where
  "ValidateBackingConfiguration c = (
     if cf_NodeName c = [] \<or> \<not> IsAbs (cf_MountPath c) \<or> Clean (cf_MountPath c) = ''/'' \<or>
        (cf_MountPolicy c \<noteq> [] \<and> cf_MountPolicy c \<noteq> ''RequireMountPoint'') \<or>
        (cf_CapacityPolicy c \<noteq> [] \<and> cf_CapacityPolicy c \<noteq> FixedBlock)
     then failed ''PoolConfigurationInvalid'' else passed)"

definition ValidateTopologyConfiguration :: "k8s_lib \<Rightarrow> Configuration \<Rightarrow> Check" where
  "ValidateTopologyConfiguration k c = (
     if \<not> ck_OK (ValidateBackingConfiguration c) then ValidateBackingConfiguration c
     else if \<not> k_IsDNS1123Label k (cf_PoolGroup c) then failed ''PoolConfigurationInvalid''
     else passed)"

definition ValidateConfiguration :: "k8s_lib \<Rightarrow> Configuration \<Rightarrow> Check" where
  "ValidateConfiguration k c = (
     if \<not> ck_OK (ValidateTopologyConfiguration k c) then ValidateTopologyConfiguration k c
     else case ParseLimitBytes k (cf_CapacityLimit c) of
       Inl _ \<Rightarrow> failed ''PoolCapacityLimitInvalid''
     | Inr _ \<Rightarrow> passed)"

section \<open>Independence of peers\<close>

definition PathsOverlap :: "string \<Rightarrow> string \<Rightarrow> bool" where
  "PathsOverlap left0 right0 = (let left = Clean left0; right = Clean right0 in
     left = right \<or> HasPrefix left (TrimSuffix right ''/'' @ ''/'') \<or>
     HasPrefix right (TrimSuffix left ''/'' @ ''/''))"

definition unit_extents :: "CapacityUnit option \<Rightarrow> Extent list" where
  "unit_extents u = (case u of None \<Rightarrow> [] | Some c \<Rightarrow> cu_Extents c)"

definition independentPair :: "Allocation \<Rightarrow> Allocation \<Rightarrow> Check" where
  "independentPair target peer = (
     if al_Policy target \<noteq> FixedBlock then failed ''CapacityIsolationRequired''
     else if PathsOverlap (al_MountPath target) (al_MountPath peer) then failed ''CapacityPathsOverlap''
     else if al_Policy peer \<noteq> FixedBlock \<or> \<not> ck_Known (al_Evidence peer) \<or> \<not> ck_OK (al_Evidence peer) \<or>
             ValidateUnit (al_Unit peer) \<noteq> None
     then failed ''CapacityPeerUnproven''
     else case Overlap (unit_extents (al_Unit target)) (unit_extents (al_Unit peer)) of
       Inl _ \<Rightarrow> failed ''CapacityBackingOverlap''
     | Inr shared \<Rightarrow> if shared then failed ''CapacityBackingOverlap'' else verified)"

fun independent_of :: "Allocation \<Rightarrow> Allocation list \<Rightarrow> Check" where
  "independent_of target [] = verified"
| "independent_of target (peer # peers) = (
     if al_NodeName peer \<noteq> al_NodeName target \<or> al_UID peer = al_UID target \<or>
        (al_Approved target \<and> \<not> al_Approved peer)
     then independent_of target peers
     else if al_Retired peer then
       (if PathsOverlap (al_MountPath target) (al_MountPath peer) then failed ''CapacityPathsOverlap''
        else independent_of target peers)
     else if \<not> ck_OK (independentPair target peer) then independentPair target peer
     else independent_of target peers)"

definition Independent :: "Allocation \<Rightarrow> Allocation list \<Rightarrow> Check" where
  "Independent target allocations = (
     if al_Retired target \<and> \<not> al_Deleting target then failed ''PoolRegistrationRetired''
     else if al_Policy target \<noteq> [] \<and> al_Policy target \<noteq> FixedBlock then failed ''CapacityPolicyInvalid''
     else if al_Policy target = FixedBlock \<and> (\<not> ck_Known (al_Evidence target) \<or>
             \<not> ck_OK (al_Evidence target) \<or> ValidateUnit (al_Unit target) \<noteq> None) then
       (if ck_Reason (al_Evidence target) \<noteq> [] \<and> \<not> ck_OK (al_Evidence target) then al_Evidence target
        else failed ''CapacityIsolationUnproven'')
     else if al_Deleting target then verified
     else independent_of target allocations)"

section \<open>Lemmas\<close>

lemma failed_OK [simp]: "\<not> ck_OK (failed r)" "ck_Reason (failed r) = r"
  by (simp_all add: failed_def)

lemma passed_OK [simp]: "ck_OK passed" "ck_OK verified"
  by (simp_all add: passed_def verified_def)

lemma TrimSuffix_slash:
  "TrimSuffix (s @ ''/'') ''/'' = s"
  "s = [] \<or> last s \<noteq> slash \<Longrightarrow> TrimSuffix s ''/'' = s"
  by (simp add: TrimSuffix_def TrimPrefix_def HasPrefix_def)
    (cases s rule: rev_cases; auto simp: TrimSuffix_def TrimPrefix_def HasPrefix_def)

lemma abs_path_last:
  assumes "list_all proper_elem es" and "es \<noteq> []"
  shows "last (abs_path es) \<noteq> slash"
proof
  assume "last (abs_path es) = slash"
  then obtain s where s: "abs_path es = s @ [slash]"
    by (metis abs_path_nonempty append_butlast_last_id)
  have "split_at slash (abs_path es) = split_at slash s @ [[]]"
    using split_at_append2 [of slash s "[]"] by (simp add: s)
  with split_abs_path [OF assms(1)] assms(2) have "[] # es = split_at slash s @ [[]]" by simp
  from arg_cong [OF this, of last] assms(2) have "last es = []" by simp
  with assms show False by (auto simp: list_all_iff proper_elem_def)
qed

lemma nested_path:
  assumes "list_all proper_elem es" and "list_all proper_elem fs"
  shows "HasPrefix (abs_path es) (TrimSuffix (abs_path fs) ''/'' @ ''/'') \<longleftrightarrow> fs = [] \<or> strict_prefix fs es"
proof (cases "fs = []")
  case True
  then show ?thesis by (simp add: abs_path_def TrimSuffix_slash(1) [of "[]", simplified] HasPrefix_def)
next
  case False
  have trim: "TrimSuffix (abs_path fs) ''/'' = abs_path fs"
    by (rule TrimSuffix_slash(2)) (use abs_path_last [OF assms(2) False] in simp)
  show ?thesis
  proof
    assume "HasPrefix (abs_path es) (TrimSuffix (abs_path fs) ''/'' @ ''/'')"
    then obtain r where r: "abs_path es = abs_path fs @ slash # r"
      by (auto simp: trim HasPrefix_iff)
    have "split_at slash (abs_path es) = split_at slash (abs_path fs) @ split_at slash r"
      unfolding r by (rule split_at_append2)
    with split_abs_path [OF assms(1)] split_abs_path [OF assms(2)] False
    have "es = fs @ split_at slash r" by (cases fs) (auto split: if_splits)
    then show "fs = [] \<or> strict_prefix fs es" by (auto simp: strict_prefix_def prefix_def)
  next
    assume "fs = [] \<or> strict_prefix fs es"
    with False obtain g where g: "es = fs @ g" "g \<noteq> []" by (auto simp: strict_prefix_def prefix_def)
    then have "abs_path es = abs_path fs @ slash # join_with slash g"
      using join_with_snocs [OF False, of g slash] by (simp add: abs_path_def)
    then show "HasPrefix (abs_path es) (TrimSuffix (abs_path fs) ''/'' @ ''/'')"
      by (simp add: trim HasPrefix_iff)
  qed
qed

lemma PathsOverlap_nesting:
  assumes "IsAbs l" and "IsAbs r"
  shows "PathsOverlap l r \<longleftrightarrow>
    prefix (path_elems (Clean l)) (path_elems (Clean r)) \<or> prefix (path_elems (Clean r)) (path_elems (Clean l))"
proof -
  obtain es where es: "Clean l = abs_path es" "list_all proper_elem es" using Clean_abs [OF assms(1)] .
  obtain fs where fs: "Clean r = abs_path fs" "list_all proper_elem fs" using Clean_abs [OF assms(2)] .
  have "abs_path es = abs_path fs \<longleftrightarrow> es = fs" using abs_path_inject es fs by blast
  then show ?thesis
    using nested_path [OF es(2) fs(2)] nested_path [OF fs(2) es(2)]
    by (auto simp: PathsOverlap_def Let_def es fs path_elems_abs_path strict_prefix_def)
qed

lemma ValidateUnit_None:
  assumes "ValidateUnit u = None"
  obtains c where "u = Some c" and "Normalize (cu_Extents c) = Inr (cu_Extents c)"
  using assms by (auto simp: ValidateUnit_def split: option.splits if_splits sum.splits)

text \<open>
  The peers that count against a pool: the other registrations of its node, and for an approved pool
  only the approved ones. A retired peer still counts for the directories, while its backing is not
  compared.
\<close>

definition counts_against :: "Allocation \<Rightarrow> Allocation \<Rightarrow> bool" where
  "counts_against target peer \<longleftrightarrow> al_NodeName peer = al_NodeName target \<and> al_UID peer \<noteq> al_UID target \<and>
     (al_Approved target \<longrightarrow> al_Approved peer)"

lemma independentPair_OK:
  assumes "ck_OK (independentPair target peer)"
  shows "\<not> PathsOverlap (al_MountPath target) (al_MountPath peer) \<and>
    cover (unit_extents (al_Unit target)) \<inter> cover (unit_extents (al_Unit peer)) = {} \<and>
    al_Policy target = FixedBlock \<and> ValidateUnit (al_Unit peer) = None"
proof -
  obtain b where o: "Overlap (unit_extents (al_Unit target)) (unit_extents (al_Unit peer)) = Inr b" "\<not> b"
    using assms by (auto simp: independentPair_def split: if_splits sum.splits)
  with assms Overlap_cover [OF o(1)] show ?thesis
    by (auto simp: independentPair_def split: if_splits)
qed

lemma independent_of_OK:
  assumes "ck_OK (independent_of target peers)" and "peer \<in> set peers" and "counts_against target peer"
  shows "\<not> PathsOverlap (al_MountPath target) (al_MountPath peer) \<and>
    (\<not> al_Retired peer \<longrightarrow> ck_OK (independentPair target peer))"
  using assms
proof (induction peers)
  case (Cons p peers)
  show ?case
  proof (cases "peer = p")
    case True
    with Cons.prems show ?thesis
      by (auto simp: counts_against_def dest: independentPair_OK split: if_splits)
  next
    case False
    with Cons show ?thesis by (auto split: if_splits)
  qed
qed simp

section \<open>Properties\<close>

text \<open>
  Overlap of pool paths is nesting of directories: for absolute paths, \<open>PathsOverlap\<close> holds
  exactly when the elements of one cleaned path are an initial part of the other's, so siblings
  with a common textual prefix never overlap.
\<close>

theorem PathsOverlap_is_nesting:
  assumes "IsAbs l" and "IsAbs r"
  shows "PathsOverlap l r \<longleftrightarrow>
    prefix (path_elems (Clean l)) (path_elems (Clean r)) \<or> prefix (path_elems (Clean r)) (path_elems (Clean l))"
  using assms by (rule PathsOverlap_nesting)

theorem PathsOverlap_is_nesting_witness:
  "\<not> PathsOverlap ''/mnt/pool'' ''/mnt/pool2''"
proof -
  have "path_elems (Clean ''/mnt/pool'') = [''mnt'', ''pool'']"
    "path_elems (Clean ''/mnt/pool2'') = [''mnt'', ''pool2'']" by code_simp+
  with PathsOverlap_is_nesting [of "''/mnt/pool''" "''/mnt/pool2''"] show ?thesis by simp
qed

text \<open>
  A pool judged independent shares nothing with the peers that count (on its node, another
  registration, approved if it is approved itself): no path of theirs nests with its own, and
  unless they are retired the backing allocations have no sector in common; a pool that has
  such a peer must itself be of the fixed-block policy with valid evidence.
\<close>

theorem Independent_shares_nothing:
  assumes "ck_OK (Independent target peers)" and "\<not> al_Deleting target"
    and "peer \<in> set peers" and "counts_against target peer"
  shows "\<not> PathsOverlap (al_MountPath target) (al_MountPath peer) \<and>
    (\<not> al_Retired peer \<longrightarrow>
      cover (unit_extents (al_Unit target)) \<inter> cover (unit_extents (al_Unit peer)) = {} \<and>
      al_Policy target = FixedBlock \<and> ValidateUnit (al_Unit target) = None \<and> ValidateUnit (al_Unit peer) = None)"
proof -
  have i: "ck_OK (independent_of target peers)"
    and v: "al_Policy target = FixedBlock \<Longrightarrow> ValidateUnit (al_Unit target) = None"
    using assms(1,2) by (auto simp: Independent_def split: if_splits)
  from independent_of_OK [OF i assms(3,4)] independentPair_OK v show ?thesis by blast
qed

definition sample_allocation :: "string \<Rightarrow> string \<Rightarrow> uint64 \<Rightarrow> Allocation" where
  "sample_allocation uid path start = \<lparr>al_UID = uid, al_NodeName = ''node'', al_MountPath = path,
     al_Policy = FixedBlock, al_Approved = True, al_Deleting = False, al_Retired = False,
     al_Unit = Some \<lparr>cu_Device = ''8:0'', cu_Source = ''/dev/sda'', cu_Filesystem = ''ext4'',
       cu_Extents = [\<lparr>ex_Device = ''8:0'', ex_Start = start, ex_Sectors = 1024\<rparr>]\<rparr>,
     al_Evidence = passed\<rparr>"

theorem Independent_shares_nothing_witness:
  "ck_OK (Independent (sample_allocation ''a'' ''/mnt/a'' 0) [sample_allocation ''b'' ''/mnt/b'' 1024]) \<and>
   cover (unit_extents (al_Unit (sample_allocation ''a'' ''/mnt/a'' 0))) \<inter>
   cover (unit_extents (al_Unit (sample_allocation ''b'' ''/mnt/b'' 1024))) = {}"
proof -
  let ?a = "sample_allocation ''a'' ''/mnt/a'' 0" and ?b = "sample_allocation ''b'' ''/mnt/b'' 1024"
  have p: "\<not> PathsOverlap ''/mnt/a'' ''/mnt/b''" by code_simp
  have u: "ValidateUnit (al_Unit ?a) = None" "ValidateUnit (al_Unit ?b) = None"
    by (simp_all add: ValidateUnit_def sample_allocation_def sda_device Normalize_def normalize_step_def sda_ok)
  have "Overlap (unit_extents (al_Unit ?a)) (unit_extents (al_Unit ?b)) = Inr False"
    by (simp add: Overlap_def unit_extents_def sample_allocation_def Normalize_def normalize_step_def
        sda_ok extents_meet_def)
  with u p have ok: "ck_OK (Independent ?a [?b])"
    by (simp add: Independent_def independentPair_def sample_allocation_def passed_def)
  from Independent_shares_nothing [OF ok, of ?b] ok show ?thesis
    by (simp add: counts_against_def sample_allocation_def)
qed

end
