(* ===== verification/Object_Store.thy ===== *)
theory Object_Store
  imports Go_Stdlib
begin

text \<open>
  Durable objects and the read-modify-write loop over them
  (\<open>mutateObject\<close> and \<open>updateObjectFinalizer\<close> of \<open>src/kubernetes/volumeapi/registry.go\<close>).

  \<^item> \<open>api_object\<close>: the metadata of a Kubernetes object and a body, the fields of its spec and status.
  \<^item> \<open>api_client\<close>: the dynamic client of one resource, an argument of every definition that uses it.
    It reads and changes a world \<open>'w\<close>. \<open>retry\<close> is \<open>retry.RetryOnConflict\<close>: it runs a closure over
    the captured variables and the world.
  \<^item> \<open>client_writes\<close> and \<open>retries_on_conflict\<close> state what the sources rely on: a write
    leaves the store as it was or stores the object that was sent; the loop runs the closure at
    least once and again only after a conflict.
  \<^item> the locale \<open>object_invariant\<close> gives what every mutation has in common: a property of single
    objects that \<open>apply\<close> keeps is kept by the whole loop, for every stored object.
\<close>

section \<open>Objects and clients\<close>

record 'b api_object =
  ao_Kind :: string
  ao_Name :: string
  ao_UID :: string
  ao_ResourceVersion :: string
  ao_Generation :: int
  ao_DeletionTimestamp :: "int option"
  ao_Finalizers :: "string list"
  ao_Annotations :: "string \<rightharpoonup> string"
  ao_Body :: 'b

record ('w, 'b) api_client =
  api_Get :: "'w \<Rightarrow> string \<Rightarrow> 'b api_object res"
  api_List :: "'w \<Rightarrow> 'b api_object list res"
  api_Create :: "'w \<Rightarrow> 'b api_object \<Rightarrow> 'b api_object res \<times> 'w"
  api_Update :: "'w \<Rightarrow> 'b api_object \<Rightarrow> 'b api_object res \<times> 'w"
  api_UpdateStatus :: "'w \<Rightarrow> 'b api_object \<Rightarrow> 'b api_object res \<times> 'w"
  api_Delete :: "'w \<Rightarrow> string \<Rightarrow> string \<Rightarrow> string option \<Rightarrow> error option \<times> 'w"

text \<open>\<open>object.GetAnnotations()[key]\<close>: a missing key reads as the empty string.\<close>

definition annotation :: "'b api_object \<Rightarrow> string \<Rightarrow> string" where
  "annotation obj key = (case ao_Annotations obj key of None \<Rightarrow> [] | Some v \<Rightarrow> v)"

definition set_annotation :: "string \<Rightarrow> string \<Rightarrow> 'b api_object \<Rightarrow> 'b api_object" where
  "set_annotation key v obj = obj\<lparr>ao_Annotations := (ao_Annotations obj)(key \<mapsto> v)\<rparr>"

definition has_finalizer :: "'b api_object \<Rightarrow> string \<Rightarrow> bool" where
  "has_finalizer obj f \<longleftrightarrow> f \<in> set (ao_Finalizers obj)"

text \<open>\<open>(*Registry).validate\<close>: a registry without a client is not configured.\<close>

definition validate_client :: "'c option \<Rightarrow> error option" where
  "validate_client client = (case client of None \<Rightarrow> Some (Errorf ''volume registry is not configured'') | Some _ \<Rightarrow> None)"

section \<open>The loop\<close>

type_synonym 's closure = "'s \<Rightarrow> error option \<times> 's"

text \<open>One mutation; an empty \<open>om_uid\<close> leaves the identity to \<open>om_apply\<close>.\<close>

record 'b objectMutation =
  om_name :: string
  om_uid :: string
  om_status :: bool
  om_apply :: "'b api_object \<Rightarrow> 'b api_object res"

definition mutate_attempt :: "('w, 'b) api_client \<Rightarrow> 'b objectMutation \<Rightarrow> 'w closure" where
  "mutate_attempt client m w = (case api_Get client w (om_name m) of
     Inl e \<Rightarrow> (Some (Wrapped e ''read''), w)
   | Inr obj \<Rightarrow>
       if om_uid m \<noteq> [] \<and> ao_UID obj \<noteq> om_uid m then (Some (Wrapped ErrStateConflict ''UID changed''), w)
       else case om_apply m obj of
         Inl e \<Rightarrow> if errors_is e ErrObjectUnchanged then (None, w) else (Some e, w)
       | Inr obj' \<Rightarrow>
           (case (if om_status m then api_UpdateStatus client w obj' else api_Update client w obj') of
              (Inl e, w') \<Rightarrow> (Some (Wrapped e ''write''), w')
            | (Inr _, w') \<Rightarrow> (None, w')))"

definition mutateObject :: "('w, 'b) api_client option \<Rightarrow> ('w closure \<Rightarrow> 'w closure) \<Rightarrow> 'b objectMutation \<Rightarrow> 'w closure" where
  "mutateObject client retry m w = (case client of
     None \<Rightarrow> (validate_client client, w)
   | Some c \<Rightarrow> retry (mutate_attempt c m) w)"

definition finalizer_attempt :: "('w, 'b) api_client \<Rightarrow> string \<Rightarrow> string \<Rightarrow> string \<Rightarrow> bool \<Rightarrow> 'w closure" where
  "finalizer_attempt client name uid finalizer present w = (case api_Get client w name of
     Inl e \<Rightarrow> if e = ApiNotFound \<and> \<not> present then (None, w) else (Some (Wrapped e ''read finalizer''), w)
   | Inr obj \<Rightarrow>
       if ao_UID obj \<noteq> uid then (Some (Wrapped ErrStateConflict ''UID changed''), w)
       else if present = has_finalizer obj finalizer then (None, w)
       else if present \<and> ao_DeletionTimestamp obj \<noteq> None
       then (Some (Wrapped ErrStateConflict ''already deleting without protection''), w)
       else
         let finalizers = (if present then ao_Finalizers obj @ [finalizer]
                           else filter (\<lambda>f. f \<noteq> finalizer) (ao_Finalizers obj)) in
         (case api_Update client w (obj\<lparr>ao_Finalizers := finalizers\<rparr>) of
            (Inl e, w') \<Rightarrow> (Some (Wrapped e ''update finalizer''), w')
          | (Inr _, w') \<Rightarrow> (None, w')))"

definition updateObjectFinalizer :: "('w, 'b) api_client option \<Rightarrow> ('w closure \<Rightarrow> 'w closure) \<Rightarrow>
    string \<Rightarrow> string \<Rightarrow> string \<Rightarrow> bool \<Rightarrow> 'w closure" where
  "updateObjectFinalizer client retry name uid finalizer present w = (case client of
     None \<Rightarrow> (validate_client client, w)
   | Some c \<Rightarrow> if name = [] \<or> uid = [] then (Some (Errorf ''object name and UID are required''), w)
       else retry (finalizer_attempt c name uid finalizer present) w)"

section \<open>What the clients are relied on for\<close>

text \<open>
  An accepted write stores what was sent; the server maintains version and generation. A write that
  removes the last finalizer of an object that is being deleted removes the object.
\<close>

definition stored_as :: "'b api_object \<Rightarrow> 'b api_object \<Rightarrow> bool" where
  "stored_as sent kept \<longleftrightarrow> ao_Kind kept = ao_Kind sent \<and> ao_Name kept = ao_Name sent \<and>
     ao_UID kept = ao_UID sent \<and> ao_DeletionTimestamp kept = ao_DeletionTimestamp sent \<and>
     ao_Finalizers kept = ao_Finalizers sent \<and> ao_Annotations kept = ao_Annotations sent \<and>
     ao_Body kept = ao_Body sent"

definition write_effect :: "('w \<Rightarrow> string \<Rightarrow> 'b api_object option) \<Rightarrow> 'w \<Rightarrow> 'b api_object \<Rightarrow>
    'b api_object res \<times> 'w \<Rightarrow> bool" where
  "write_effect stored w obj out \<longleftrightarrow> (case out of (r, w') \<Rightarrow>
     (stored w' = stored w \<and> (\<forall>kept. r \<noteq> Inr kept)) \<or>
     (\<exists>kept. stored_as obj kept \<and> (\<forall>o'. r = Inr o' \<longrightarrow> o' = kept) \<and>
        (stored w' = (stored w)(ao_Name obj \<mapsto> kept) \<or>
         ao_DeletionTimestamp obj \<noteq> None \<and> ao_Finalizers obj = [] \<and> stored w' = (stored w)(ao_Name obj := None))))"

text \<open>A creation stores a new object under a free name with a UID of its own, none of \<open>used\<close>.\<close>

definition created_as :: "'b api_object \<Rightarrow> 'b api_object \<Rightarrow> bool" where
  "created_as sent kept \<longleftrightarrow> ao_Kind kept = ao_Kind sent \<and> ao_Name kept = ao_Name sent \<and>
     ao_DeletionTimestamp kept = None \<and> ao_Finalizers kept = ao_Finalizers sent \<and>
     ao_Annotations kept = ao_Annotations sent \<and> ao_Body kept = ao_Body sent"

definition client_creates :: "string set \<Rightarrow> ('w \<Rightarrow> string \<Rightarrow> 'b api_object option) \<Rightarrow> ('w, 'b) api_client \<Rightarrow> bool" where
  "client_creates used stored client \<longleftrightarrow> (\<forall>w obj r w'. api_Create client w obj = (r, w') \<longrightarrow>
     (stored w' = stored w \<and> (\<forall>kept. r \<noteq> Inr kept)) \<or>
     (\<exists>kept. created_as obj kept \<and> ao_UID kept \<notin> used \<and> (\<forall>o'. r = Inr o' \<longrightarrow> o' = kept) \<and>
        stored w (ao_Name obj) = None \<and> stored w' = (stored w)(ao_Name obj \<mapsto> kept)))"

text \<open>A deletion removes the object or marks it, or has no effect.\<close>

definition client_deletes :: "('w \<Rightarrow> string \<Rightarrow> 'b api_object option) \<Rightarrow> ('w, 'b) api_client \<Rightarrow> bool" where
  "client_deletes stored client \<longleftrightarrow> (\<forall>w n u v e w'. api_Delete client w n u v = (e, w') \<longrightarrow>
     stored w' = stored w \<or> stored w' = (stored w)(n := None) \<or>
     (\<exists>obj t kept. stored w n = Some obj \<and> stored_as (obj\<lparr>ao_DeletionTimestamp := Some t\<rparr>) kept \<and>
        stored w' = (stored w)(n \<mapsto> kept)))"

definition client_writes :: "('w \<Rightarrow> string \<Rightarrow> 'b api_object option) \<Rightarrow> ('w, 'b) api_client \<Rightarrow> bool" where
  "client_writes stored client \<longleftrightarrow>
     (\<forall>w n obj. api_Get client w n = Inr obj \<longrightarrow> stored w n = Some obj) \<and>
     (\<forall>w obj. write_effect stored w obj (api_Update client w obj)) \<and>
     (\<forall>w obj. write_effect stored w obj (api_UpdateStatus client w obj))"

inductive retry_run :: "'s closure \<Rightarrow> 's \<Rightarrow> error option \<times> 's \<Rightarrow> bool" for fn where
  last: "fn s = out \<Longrightarrow> retry_run fn s out"
| again: "fn s = (Some e, s') \<Longrightarrow> errors_is e ApiConflict \<Longrightarrow> retry_run fn s' out \<Longrightarrow> retry_run fn s out"

definition retries_on_conflict :: "('s closure \<Rightarrow> 's closure) \<Rightarrow> bool" where
  "retries_on_conflict retry \<longleftrightarrow> (\<forall>fn s. retry_run fn s (retry fn s))"

lemma retry_run_invariant:
  assumes "retry_run fn s out" and "P s" and "\<And>s. P s \<Longrightarrow> P (snd (fn s))"
  shows "P (snd out)"
  using assms(1,2)
proof (induction rule: retry_run.induct)
  case (last s out)
  then show ?case using assms(3) by blast
next
  case (again s e s' out)
  then show ?case using assms(3) [of s] by simp
qed

lemma retry_invariant:
  assumes "retries_on_conflict retry" and "P s" and "\<And>s. P s \<Longrightarrow> P (snd (fn s))"
  shows "P (snd (retry fn s))"
proof -
  have "retry_run fn s (retry fn s)" using assms(1) by (simp add: retries_on_conflict_def)
  from retry_run_invariant [where P = P, OF this assms(2,3)] show ?thesis .
qed

lemma retry_run_result:
  assumes "retry_run fn s (e, s')" and "P s" and "\<And>s. P s \<Longrightarrow> P (snd (fn s))"
  shows "\<exists>t. P t \<and> fn t = (e, s')"
  using assms(1,2)
proof (induction s "(e, s')" rule: retry_run.induct)
  case (last s)
  then show ?case by blast
next
  case (again s e' s'')
  then show ?case using assms(3) [of s] by auto
qed

section \<open>Invariants of stored objects\<close>

definition all_stored :: "('b api_object \<Rightarrow> bool) \<Rightarrow> ('w \<Rightarrow> string \<Rightarrow> 'b api_object option) \<Rightarrow> 'w \<Rightarrow> bool" where
  "all_stored good stored w \<longleftrightarrow> (\<forall>n obj. stored w n = Some obj \<longrightarrow> good obj)"

locale object_invariant =
  fixes good :: "'b api_object \<Rightarrow> bool"
  assumes good_stored: "good obj \<Longrightarrow> stored_as obj kept \<Longrightarrow> good kept"
begin

lemma write_good:
  assumes "write_effect stored w obj out" and "all_stored good stored w" and "good obj"
  shows "all_stored good stored (snd out)"
  using assms good_stored by (fastforce simp: write_effect_def all_stored_def split: prod.splits if_splits)

lemma create_good:
  assumes "client_creates used stored client" and "all_stored good stored w" and "api_Create client w obj = (r, w')"
    and "\<And>kept. created_as obj kept \<Longrightarrow> ao_UID kept \<notin> used \<Longrightarrow> good kept"
  shows "all_stored good stored w'"
proof -
  consider "stored w' = stored w" | kept where "created_as obj kept" "ao_UID kept \<notin> used" "stored w' = (stored w)(ao_Name obj \<mapsto> kept)"
    using assms(1,3) unfolding client_creates_def by blast
  then show ?thesis using assms(2,4) by cases (auto simp: all_stored_def)
qed

lemma delete_good:
  assumes "client_deletes stored client" and "all_stored good stored w" and "api_Delete client w n u v = (e, w')"
    and "\<And>obj t. good obj \<Longrightarrow> good (obj\<lparr>ao_DeletionTimestamp := Some t\<rparr>)"
  shows "all_stored good stored w'"
proof -
  consider "stored w' = stored w" | "stored w' = (stored w)(n := None)"
    | obj t kept where "stored w n = Some obj" "stored_as (obj\<lparr>ao_DeletionTimestamp := Some t\<rparr>) kept" "stored w' = (stored w)(n \<mapsto> kept)"
    using assms(1,3) unfolding client_deletes_def by blast
  then show ?thesis
  proof cases
    case (3 obj t kept)
    have "good obj" using 3(1) assms(2) by (auto simp: all_stored_def)
    then have "good kept" using good_stored [OF assms(4) 3(2)] by blast
    with 3 assms(2) show ?thesis by (auto simp: all_stored_def)
  qed (use assms(2) in \<open>auto simp: all_stored_def\<close>)
qed

lemma attempt_good:
  assumes "client_writes stored client" and "all_stored good stored w"
    and "\<And>obj obj'. good obj \<Longrightarrow> om_apply m obj = Inr obj' \<Longrightarrow> good obj'"
  shows "all_stored good stored (snd (mutate_attempt client m w))"
proof (cases "api_Get client w (om_name m)")
  case (Inl e)
  with assms(2) show ?thesis by (simp add: mutate_attempt_def)
next
  case (Inr obj)
  with assms(1) have "stored w (om_name m) = Some obj" by (auto simp: client_writes_def)
  with assms(2) have g: "good obj" by (auto simp: all_stored_def)
  show ?thesis
  proof (cases "om_apply m obj")
    case (Inl e)
    with Inr assms(2) show ?thesis by (auto simp: mutate_attempt_def)
  next
    case ok: (Inr obj')
    have u: "all_stored good stored (snd (api_Update client w obj'))"
      by (rule write_good [OF _ assms(2) assms(3) [OF g ok]]) (use assms(1) in \<open>simp add: client_writes_def\<close>)
    have v: "all_stored good stored (snd (api_UpdateStatus client w obj'))"
      by (rule write_good [OF _ assms(2) assms(3) [OF g ok]]) (use assms(1) in \<open>simp add: client_writes_def\<close>)
    obtain r1 w1 r2 w2 where o: "api_Update client w obj' = (r1, w1)" "api_UpdateStatus client w obj' = (r2, w2)"
      by (cases "api_Update client w obj'", cases "api_UpdateStatus client w obj'") auto
    with u v Inr ok assms(2) show ?thesis by (cases r1; cases r2) (auto simp: mutate_attempt_def)
  qed
qed

lemma mutateObject_good:
  assumes "client_writes stored client" and "retries_on_conflict retry" and "all_stored good stored w"
    and "\<And>obj obj'. good obj \<Longrightarrow> om_apply m obj = Inr obj' \<Longrightarrow> good obj'"
  shows "all_stored good stored (snd (mutateObject (Some client) retry m w))"
proof -
  have "all_stored good stored (snd (retry (mutate_attempt client m) w))"
    by (rule retry_invariant [OF assms(2), where P = "all_stored good stored", OF assms(3)])
      (rule attempt_good [OF assms(1) _ assms(4)])
  then show ?thesis by (simp add: mutateObject_def)
qed

lemma finalizer_attempt_good:
  assumes "client_writes stored client" and "all_stored good stored w"
    and "\<And>obj fs. good obj \<Longrightarrow> good (obj\<lparr>ao_Finalizers := fs\<rparr>)"
  shows "all_stored good stored (snd (finalizer_attempt client name uid finalizer present w))"
proof (cases "api_Get client w name")
  case (Inl e)
  with assms(2) show ?thesis by (simp add: finalizer_attempt_def)
next
  case (Inr obj)
  with assms(1) have "stored w name = Some obj" by (auto simp: client_writes_def)
  with assms(2) have g: "good obj" by (auto simp: all_stored_def)
  have u: "all_stored good stored (snd (api_Update client w (obj\<lparr>ao_Finalizers := fs\<rparr>)))" for fs
    by (rule write_good [OF _ assms(2) assms(3) [OF g, of fs]]) (use assms(1) in \<open>simp add: client_writes_def\<close>)
  from u [of "ao_Finalizers obj @ [finalizer]"] u [of "filter (\<lambda>f. f \<noteq> finalizer) (ao_Finalizers obj)"] assms(2)
  show ?thesis
    by (auto simp: finalizer_attempt_def Inr Let_def split: prod.splits sum.splits)
qed

lemma updateObjectFinalizer_good:
  assumes "client_writes stored client" and "retries_on_conflict retry" and "all_stored good stored w"
    and "\<And>obj fs. good obj \<Longrightarrow> good (obj\<lparr>ao_Finalizers := fs\<rparr>)"
  shows "all_stored good stored (snd (updateObjectFinalizer (Some client) retry name uid finalizer present w))"
proof -
  have "all_stored good stored (snd (retry (finalizer_attempt client name uid finalizer present) w))"
    by (rule retry_invariant [OF assms(2), where P = "all_stored good stored", OF assms(3)])
      (rule finalizer_attempt_good [OF assms(1) _ assms(4)])
  then show ?thesis using assms(3) by (simp add: updateObjectFinalizer_def)
qed

end

section \<open>A store in memory\<close>

text \<open>A client that behaves as relied upon, for evaluating operations on concrete objects.\<close>

type_synonym 'b memory = "string \<Rightarrow> 'b api_object option"

definition memory_write :: "int \<Rightarrow> 'b memory \<Rightarrow> 'b api_object \<Rightarrow> 'b api_object res \<times> 'b memory" where
  "memory_write step w obj = (case w (ao_Name obj) of
     None \<Rightarrow> (Inl ApiNotFound, w)
   | Some cur \<Rightarrow> if ao_ResourceVersion cur \<noteq> ao_ResourceVersion obj then (Inl ApiConflict, w)
       else let kept = obj\<lparr>ao_Generation := ao_Generation obj + step,
              ao_ResourceVersion := ao_ResourceVersion obj @ ''0''\<rparr>
         in (Inr kept, w(ao_Name obj \<mapsto> kept)))"

definition memory_client :: "('b memory, 'b) api_client" where
  "memory_client = \<lparr>
     api_Get = \<lambda>w n. case w n of None \<Rightarrow> Inl ApiNotFound | Some obj \<Rightarrow> Inr obj,
     api_List = \<lambda>w. Inl (ApiError ''unsupported''),
     api_Create = \<lambda>w obj. (let kept = obj\<lparr>ao_UID := ''uid-'' @ ao_Name obj, ao_DeletionTimestamp := None,
         ao_ResourceVersion := ''1'', ao_Generation := 1\<rparr> in
       case w (ao_Name obj) of None \<Rightarrow> (Inr kept, w(ao_Name obj \<mapsto> kept)) | Some _ \<Rightarrow> (Inl (ApiError ''exists''), w)),
     api_Update = memory_write 1,
     api_UpdateStatus = memory_write 0,
     api_Delete = \<lambda>w n uid rv. (None, w(n := None))\<rparr>"

lemma memory_client_creates: "(\<And>n. ''uid-'' @ n \<notin> used) \<Longrightarrow> client_creates used (\<lambda>w. w) memory_client"
  by (auto simp: client_creates_def memory_client_def created_as_def Let_def split: option.splits)

lemma memory_client_deletes: "client_deletes (\<lambda>w. w) memory_client"
  by (auto simp: client_deletes_def memory_client_def)

lemma memory_client_writes: "client_writes (\<lambda>w. w) memory_client"
  by (auto simp: client_writes_def memory_client_def memory_write_def write_effect_def stored_as_def Let_def
      split: option.splits)

lemma once_retries: "retries_on_conflict (\<lambda>fn. fn)"
  by (auto simp: retries_on_conflict_def intro: retry_run.last)

end
