(* ===== verification/Volume_Identity.thy ===== *)
theory Volume_Identity
  imports Go_Stdlib
begin

text \<open>
  Volume and copy identities (\<open>src/volume\<close>) and the deletion fence (\<open>src/volume/deletion\<close>).

  \<^item> \<open>IDFromName\<close>, \<open>ValidateID\<close>, \<open>Path\<close>: a volume's identifier and its directory.
  \<^item> \<open>CopyIdentity\<close>, \<open>ValidateCopy\<close>: the identity of one data-bearing directory.
  \<^item> \<open>DecideDeletion\<close>: whether an exact copy can be fenced for deletion.
\<close>

section \<open>Volume identifiers\<close>

abbreviation idPrefix :: string where "idPrefix \<equiv> ''shiftpv-''"

text \<open>The regular expression of a prefix and 32 characters of \<open>[a-f0-9]\<close>, anchored.\<close>

definition validID :: "string \<Rightarrow> bool" where
  "validID i \<longleftrightarrow> HasPrefix i idPrefix \<and> length i = length idPrefix + 32 \<and>
     list_all is_lower_hex (drop (length idPrefix) i)"

definition IDFromName :: "string \<Rightarrow> string res" where
  "IDFromName name = (if name = [] then Inl (Errorf ''volume name is required'')
     else Inr (idPrefix @ EncodeToString (take 16 (Sum256 (string_bytes name)))))"

definition ValidateID :: "string \<Rightarrow> error option" where
  "ValidateID i = require_that (validID i) (Errorf ''invalid ShiftPV volume ID'')"

definition Path :: "string \<Rightarrow> string \<Rightarrow> string res" where
  "Path poolRoot i = (if \<not> IsAbs poolRoot then Inl (Errorf ''pool root must be absolute'')
     else guard_err (ValidateID i) (Inr (Join [Clean poolRoot, ''volumes'', i])))"

section \<open>Copy identities\<close>

abbreviation DriverName :: string where "DriverName \<equiv> ''csi.shiftpv.io''"
abbreviation CreationCancellationPrefix :: string where "CreationCancellationPrefix \<equiv> ''cancel-create-''"
abbreviation RoleServing :: string where "RoleServing \<equiv> ''Serving''"
abbreviation RoleIncoming :: string where "RoleIncoming \<equiv> ''Incoming''"
abbreviation RoleRetired :: string where "RoleRetired \<equiv> ''Retired''"
abbreviation TopologyKey :: string where "TopologyKey \<equiv> ''topology.csi.shiftpv.io/node''"

record CopyIdentity =
  ci_InstallationID :: string
  ci_PoolName :: string
  ci_PoolUID :: string
  ci_VolumeID :: string
  ci_VolumeUID :: string
  ci_CopyID :: string
  ci_NodeName :: string
  ci_Role :: string

text \<open>The zero value of the struct.\<close>

definition zero_copy :: CopyIdentity where
  "zero_copy = \<lparr>ci_InstallationID = [], ci_PoolName = [], ci_PoolUID = [], ci_VolumeID = [],
     ci_VolumeUID = [], ci_CopyID = [], ci_NodeName = [], ci_Role = []\<rparr>"

definition ValidIdentityToken :: "string \<Rightarrow> bool" where
  "ValidIdentityToken v \<longleftrightarrow> v \<noteq> [] \<and> length v \<le> 128 \<and> v \<noteq> ''.'' \<and> v \<noteq> ''..'' \<and>
     \<not> ContainsAny v [slash, char_of (92 :: nat), char_of (0 :: nat)]"

definition ValidObjectName :: "string \<Rightarrow> bool" where
  "ValidObjectName v \<longleftrightarrow> ValidIdentityToken v \<and> length v \<le> 253"

definition ValidateCopy :: "CopyIdentity \<Rightarrow> error option" where
  "ValidateCopy c = (if \<not> ValidIdentityToken (ci_InstallationID c) \<or> \<not> ValidObjectName (ci_PoolName c) \<or>
       \<not> ValidIdentityToken (ci_PoolUID c) \<or> ValidateID (ci_VolumeID c) \<noteq> None \<or>
       \<not> ValidIdentityToken (ci_VolumeUID c) \<or> \<not> ValidIdentityToken (ci_CopyID c) \<or>
       \<not> ValidObjectName (ci_NodeName c)
     then Some (Errorf ''invalid copy identity'')
     else if ci_Role c \<noteq> RoleServing \<and> ci_Role c \<noteq> RoleIncoming \<and> ci_Role c \<noteq> RoleRetired
     then Some (Errorf ''invalid copy role'')
     else None)"

definition IsCreationCancellation :: "CopyIdentity \<Rightarrow> string \<Rightarrow> bool" where
  "IsCreationCancellation c operationID \<longleftrightarrow> ValidateCopy c = None \<and> ci_Role c = RoleServing \<and>
     ci_CopyID c = ''initial-'' @ ci_VolumeUID c \<and> ValidIdentityToken operationID \<and>
     operationID = CreationCancellationPrefix @ ci_VolumeUID c"

section \<open>The deletion fence\<close>

abbreviation PhaseReady :: string where "PhaseReady \<equiv> ''Ready''"
abbreviation PhaseDeleting :: string where "PhaseDeleting \<equiv> ''Deleting''"

datatype Disposition = Reject | WaitForUnpublish | Begin | Resume

record DeletionObservation =
  do_UID :: string
  do_OwnerNode :: string
  do_Phase :: string
  do_ActiveMove :: string
  do_OperationID :: string
  do_CurrentCopy :: "CopyIdentity option"
  do_PublishedNodes :: "string list"

definition DecideDeletion :: "DeletionObservation \<Rightarrow> string \<Rightarrow> string \<Rightarrow> CopyIdentity \<Rightarrow> Disposition" where
  "DecideDeletion current uid operationID c = (
     if uid = [] \<or> ValidateCopy c \<noteq> None \<or> ci_VolumeUID c \<noteq> uid \<or> operationID \<noteq> ''delete-'' @ uid \<or>
        do_UID current \<noteq> uid \<or> do_OwnerNode current \<noteq> ci_NodeName c \<or>
        do_CurrentCopy current \<noteq> Some c \<or> do_ActiveMove current \<noteq> [] then Reject
     else if do_Phase current = PhaseReady \<and> do_OperationID current = [] \<and>
        do_PublishedNodes current = [ci_NodeName c] then WaitForUnpublish
     else if do_PublishedNodes current \<noteq> [] then Reject
     else if do_Phase current = PhaseReady \<and> do_OperationID current = [] then Begin
     else if do_Phase current = PhaseDeleting \<and> do_OperationID current = operationID then Resume
     else Reject)"

section \<open>Lemmas\<close>

lemma validID_iff:
  "validID i \<longleftrightarrow> (\<exists>h. i = idPrefix @ h \<and> length h = 32 \<and> list_all is_lower_hex h)"
  by (auto simp: validID_def HasPrefix_iff)

lemma ValidateID_None [simp]: "ValidateID i = None \<longleftrightarrow> validID i"
  by (simp add: ValidateID_def)

lemma lower_hex_proper: "is_lower_hex c \<Longrightarrow> c \<noteq> slash"
  by (auto simp: is_lower_hex_def)

lemma validID_proper:
  assumes "validID i"
  shows "proper_elem i"
proof -
  obtain h where i: "i = idPrefix @ h" and h: "list_all is_lower_hex h"
    using assms by (auto simp: validID_iff)
  have "slash \<notin> set h" using h lower_hex_proper by (auto simp: list_all_iff)
  then show ?thesis by (simp add: i proper_elem_def)
qed

lemma token_proper: "ValidIdentityToken v \<Longrightarrow> proper_elem v"
  by (auto simp: ValidIdentityToken_def proper_elem_def ContainsAny_iff)

lemma volumes_proper [simp]: "proper_elem ''volumes''"
  by (simp add: proper_elem_def)

lemma Path_abs:
  assumes "Path root i = Inr p"
  obtains es where "Clean root = abs_path es" and "list_all proper_elem es" and "validID i"
    and "p = abs_path (es @ [''volumes'', i])"
proof -
  have r: "IsAbs root" and v: "validID i" and p: "p = Join [Clean root, ''volumes'', i]"
    using assms by (auto simp: Path_def err_simps split: if_splits)
  obtain es where es: "Clean root = abs_path es" "list_all proper_elem es"
    using Clean_abs [OF r] .
  with p validID_proper [OF v] Join_abs_path [OF es(2), of "[''volumes'', i]"]
  show thesis by (intro that [OF es v]) simp
qed

lemma IDFromName_valid:
  "IDFromName name = Inr i \<Longrightarrow> validID i"
  by (auto simp: IDFromName_def validID_iff EncodeToString_lower split: if_splits)

section \<open>Properties\<close>

text \<open>
  C10. A volume's directory stays inside its pool: when \<open>Path\<close> answers, the path is absolute and
  clean, its elements are those of the cleaned pool root followed by \<open>volumes\<close> and the volume's
  identifier, and two identifiers of one pool never share a directory.
\<close>

theorem volume_path_contained:
  assumes "Path root i = Inr p"
  shows "IsAbs p \<and> Clean p = p \<and> path_elems p = path_elems (Clean root) @ [''volumes'', i] \<and>
    (\<forall>j q. Path root j = Inr q \<longrightarrow> (q = p \<longleftrightarrow> j = i))"
proof -
  obtain es where es: "Clean root = abs_path es" "list_all proper_elem es" and v: "validID i"
    and p: "p = abs_path (es @ [''volumes'', i])" using assms by (rule Path_abs)
  have proper: "list_all proper_elem (es @ [''volumes'', j])" if "validID j" for j
    using es(2) validID_proper [OF that] by simp
  have "q = p \<longleftrightarrow> j = i" if q: "Path root j = Inr q" for j q
  proof -
    obtain fs where fs: "Clean root = abs_path fs" "list_all proper_elem fs" and w: "validID j"
      and "q = abs_path (fs @ [''volumes'', j])" using q by (rule Path_abs)
    moreover from fs es have "fs = es" by (metis path_elems_abs_path)
    ultimately show ?thesis using p abs_path_inject [OF proper [OF w] proper [OF v]] by simp
  qed
  then show ?thesis
    using p es proper [OF v] by (simp add: Clean_abs_path path_elems_abs_path)
qed

theorem volume_path_contained_witness:
  "Path ''/var//pool/./a/'' ''shiftpv-00112233445566778899aabbccddeeff'' =
     Inr ''/var/pool/a/volumes/shiftpv-00112233445566778899aabbccddeeff'' \<and>
   path_elems ''/var/pool/a/volumes/shiftpv-00112233445566778899aabbccddeeff'' =
     path_elems (Clean ''/var//pool/./a/'') @ [''volumes'', ''shiftpv-00112233445566778899aabbccddeeff'']"
proof -
  have "Path ''/var//pool/./a/'' ''shiftpv-00112233445566778899aabbccddeeff'' =
     Inr ''/var/pool/a/volumes/shiftpv-00112233445566778899aabbccddeeff''" by code_simp
  with volume_path_contained [OF this] show ?thesis by blast
qed

text \<open>
  Every name has a usable identifier: \<open>IDFromName\<close> fails for the empty name only, what it
  returns passes \<open>ValidateID\<close> and, in any absolute pool root, \<open>Path\<close> finds its directory.
\<close>

theorem id_from_name_usable:
  assumes "name \<noteq> []"
  shows "\<exists>i. IDFromName name = Inr i \<and> ValidateID i = None \<and> length i = 40 \<and>
    (\<forall>root. IsAbs root \<longrightarrow> (\<exists>p. Path root i = Inr p))"
proof -
  obtain i where i: "IDFromName name = Inr i" using assms by (auto simp: IDFromName_def)
  with IDFromName_valid [OF i] show ?thesis
    by (auto simp: validID_def Path_def err_simps)
qed

theorem id_from_name_usable_witness:
  "\<exists>i p. IDFromName ''pvc-1'' = Inr i \<and> Path ''/pool'' i = Inr p \<and> ValidateID i = None"
proof -
  have "IsAbs ''/pool''" by simp
  with id_from_name_usable [of "''pvc-1''"] show ?thesis by blast
qed

text \<open>
  Deletion is only ever fenced on the exact unpublished owner: the decision begins or resumes
  precisely when the request names the volume's own deletion, the recorded copy and owner are the
  requested ones, no Move is active, no node has it published, and the volume is Ready without an
  operation (begin) or already Deleting under this operation (resume).
\<close>

theorem deletion_fence_exact:
  "DecideDeletion cur uid op c \<in> {Begin, Resume} \<longleftrightarrow>
     uid \<noteq> [] \<and> ValidateCopy c = None \<and> ci_VolumeUID c = uid \<and> op = ''delete-'' @ uid \<and>
     do_UID cur = uid \<and> do_OwnerNode cur = ci_NodeName c \<and> do_CurrentCopy cur = Some c \<and>
     do_ActiveMove cur = [] \<and> do_PublishedNodes cur = [] \<and>
     (do_Phase cur = PhaseReady \<and> do_OperationID cur = [] \<or>
      do_Phase cur = PhaseDeleting \<and> do_OperationID cur = op)"
  by (auto simp: DecideDeletion_def)

text \<open>The bound of 253 bytes never decides: the token check before it already refuses more than 128.\<close>

lemma object_name_bound: "ValidObjectName v \<longleftrightarrow> ValidIdentityToken v" "ValidObjectName v \<Longrightarrow> length v \<le> 128"
  by (auto simp: ValidObjectName_def ValidIdentityToken_def)

end
