(* ===== verification/Pool_State.thy ===== *)
theory Pool_State
  imports Pool_Registration Object_Store Volume_Identity
begin

text \<open>
  The pool registry (\<open>src/kubernetes/volumeapi/pool.go\<close>, \<open>pool_capacity_unit.go\<close>,
  \<open>pool_retirement.go\<close>, \<open>pool_probe.go\<close>, \<open>pool_scan.go\<close>).

  \<^item> \<open>pool_body\<close> holds the fields of a ShiftPVPool object as the API returns them, each possibly
    missing or malformed; \<open>poolFrom\<close> decodes it to the typed \<open>Pool\<close>.
  \<^item> the readiness judgements are functions of a pool, an instant and a staleness budget; they
    return Go's pair of a verdict and a reason.
  \<^item> the operations that change a pool are mutations of \<open>Object_Store\<close>.
\<close>

section \<open>Data\<close>

abbreviation PoolConditionReady :: string where "PoolConditionReady \<equiv> ''Ready''"
abbreviation PoolConditionAccessible :: string where "PoolConditionAccessible \<equiv> ''Accessible''"
abbreviation PoolConditionWritable :: string where "PoolConditionWritable \<equiv> ''Writable''"
abbreviation PoolConditionCapacityReadable :: string where "PoolConditionCapacityReadable \<equiv> ''CapacityReadable''"
abbreviation PoolConditionMounted :: string where "PoolConditionMounted \<equiv> ''Mounted''"
abbreviation PoolConditionCapacityIndependent :: string where
  "PoolConditionCapacityIndependent \<equiv> ''CapacityIndependent''"
abbreviation PoolConditionCapacityBackingVerified :: string where
  "PoolConditionCapacityBackingVerified \<equiv> ''CapacityBackingVerified''"
abbreviation PoolProtectionFinalizer :: string where "PoolProtectionFinalizer \<equiv> ''shiftpv.io/pool-protection''"
abbreviation PoolIdentityReleaseAnnotation :: string where
  "PoolIdentityReleaseAnnotation \<equiv> ''shiftpv.io/release-pool-identity''"
abbreviation PoolRetirementRequestAnnotation :: string where
  "PoolRetirementRequestAnnotation \<equiv> ''shiftpv.io/retire-registration''"
abbreviation PoolRetirementApprovalAnnotation :: string where
  "PoolRetirementApprovalAnnotation \<equiv> ''shiftpv.io/registration-retired''"
abbreviation PoolCapacityProbeRequestAnnotation :: string where
  "PoolCapacityProbeRequestAnnotation \<equiv> ''shiftpv.io/capacity-probe-request''"
abbreviation PoolMountPolicyRequireMountPoint :: string where
  "PoolMountPolicyRequireMountPoint \<equiv> ''RequireMountPoint''"
abbreviation DefaultPoolGroup :: string where "DefaultPoolGroup \<equiv> ''default''"

text \<open>Three minutes in nanoseconds.\<close>

definition DefaultPoolReadinessStaleAfter :: int where
  "DefaultPoolReadinessStaleAfter = 180000000000"

record PoolMountIdentity =
  pm_Device :: string
  pm_Root :: string
  pm_Source :: string
  pm_Filesystem :: string

record CopyObservation =
  cob_Marker :: string
  cob_Identity :: "CopyIdentity option"
  cob_Present :: bool
  cob_Published :: bool
  cob_Problem :: string

record PoolInventory =
  iv_ObservedAt :: time
  iv_Valid :: bool
  iv_Truncated :: bool
  iv_Reason :: string
  iv_Message :: string
  iv_Copies :: "CopyObservation list"

record PoolCapacityProbeResult =
  pr_RequestID :: string
  pr_Evidence :: string
  pr_TotalBytes :: int
  pr_AvailableBytes :: int
  pr_AvailableInodes :: int
  pr_Error :: string
  pr_ObservedAt :: time

record PoolStatus =
  ps_RegistrationApproved :: bool
  ps_CapacityProbeSupported :: bool
  ps_CapacityProbe :: "PoolCapacityProbeResult option"
  ps_FilesystemTotalBytes :: int
  ps_FilesystemAvailableBytes :: "int option"
  ps_FilesystemAvailableInodes :: "int option"
  ps_ObservedGeneration :: int
  ps_LastProbeTime :: time
  ps_CapacityUnit :: "CapacityUnit option"
  ps_MountIdentity :: "PoolMountIdentity option"
  ps_Conditions :: "Condition list"
  ps_Inventory :: "PoolInventory option"

record Pool =
  pl_Name :: string
  pl_UID :: string
  pl_NodeName :: string
  pl_PoolGroup :: string
  pl_MountPath :: string
  pl_CapacityPolicy :: string
  pl_MountPolicy :: string
  pl_CapacityLimit :: string
  pl_Generation :: int
  pl_DeletionTimestamp :: time
  pl_Finalizers :: "string list"
  pl_IdentityReleaseApproval :: string
  pl_RetirementRequest :: string
  pl_RetirementApproval :: string
  pl_CapacityProbeRequest :: string
  pl_Status :: PoolStatus

section \<open>Encoding and decoding\<close>

text \<open>The keys of the status map.\<close>

record pool_status_map =
  sm_registrationApproved :: "bool api_field"
  sm_capacityProbeSupported :: "bool api_field"
  sm_capacityProbe :: "PoolCapacityProbeResult api_field"
  sm_filesystemTotalBytes :: "int api_field"
  sm_filesystemAvailableBytes :: "int api_field"
  sm_filesystemAvailableInodes :: "int api_field"
  sm_observedGeneration :: "int api_field"
  sm_lastProbeTime :: "time api_field"
  sm_capacityUnit :: "CapacityUnit api_field"
  sm_mountIdentity :: "PoolMountIdentity api_field"
  sm_conditions :: "Condition list api_field"
  sm_inventory :: "PoolInventory api_field"

record pool_body =
  pb_nodeName :: "string api_field"
  pb_poolGroup :: "string api_field"
  pb_mountPath :: "string api_field"
  pb_mountPolicy :: "string api_field"
  pb_capacityPolicy :: "string api_field"
  pb_capacityLimit :: "string api_field"
  pb_scanEpoch :: "int api_field"
  pb_status :: "pool_status_map api_field"

type_synonym pool_object = "pool_body api_object"

text \<open>
  The converter leaves a missing key at its zero value and fails on a malformed one; \<open>omitempty\<close>
  drops a zero value when encoding.
\<close>

definition decode_or :: "'a \<Rightarrow> 'a api_field \<Rightarrow> 'a res" where
  "decode_or z f = (case f of Missing \<Rightarrow> Inr z | Malformed \<Rightarrow> Inl (Errorf ''decode'') | Present v \<Rightarrow> Inr v)"

definition decode_ptr :: "'a api_field \<Rightarrow> 'a option res" where
  "decode_ptr f = (case f of Missing \<Rightarrow> Inr None | Malformed \<Rightarrow> Inl (Errorf ''decode'') | Present v \<Rightarrow> Inr (Some v))"

definition omit_zero :: "'a \<Rightarrow> 'a \<Rightarrow> 'a api_field" where
  "omit_zero z v = (if v = z then Missing else Present v)"

definition omit_nil :: "'a option \<Rightarrow> 'a api_field" where
  "omit_nil p = (case p of None \<Rightarrow> Missing | Some v \<Rightarrow> Present v)"

lemma decode_encode [simp]: "decode_or z (omit_zero z v) = Inr v" "decode_ptr (omit_nil p) = Inr p"
  "decode_or z (Present v) = Inr v" "decode_ptr (Present v) = Inr (Some v)" "decode_ptr Missing = Inr None"
  by (auto simp: decode_or_def omit_zero_def decode_ptr_def omit_nil_def split: option.splits)

text \<open>
  The status as the unstructured converter reads and writes it. The map holds the values of the
  status fields themselves, so two effects of the converter are left out: \<open>metav1.Time\<close> keeps whole
  seconds, and an extent above the largest \<open>int64\<close> fails to convert. The round trip of
  \<open>encodePoolStatus\<close> and \<open>decodePoolStatus\<close> is that of times in whole seconds and extents
  within \<open>int64\<close>.
\<close>

definition decodePoolStatus :: "pool_status_map \<Rightarrow> PoolStatus res" where
  "decodePoolStatus m =
     bind_res (decode_or False (sm_registrationApproved m)) (\<lambda>a.
     bind_res (decode_or False (sm_capacityProbeSupported m)) (\<lambda>b.
     bind_res (decode_ptr (sm_capacityProbe m)) (\<lambda>c.
     bind_res (decode_or 0 (sm_filesystemTotalBytes m)) (\<lambda>d.
     bind_res (decode_ptr (sm_filesystemAvailableBytes m)) (\<lambda>e.
     bind_res (decode_ptr (sm_filesystemAvailableInodes m)) (\<lambda>f.
     bind_res (decode_or 0 (sm_observedGeneration m)) (\<lambda>g.
     bind_res (decode_or None (sm_lastProbeTime m)) (\<lambda>h.
     bind_res (decode_ptr (sm_capacityUnit m)) (\<lambda>i.
     bind_res (decode_ptr (sm_mountIdentity m)) (\<lambda>j.
     bind_res (decode_or [] (sm_conditions m)) (\<lambda>l.
     bind_res (decode_ptr (sm_inventory m)) (\<lambda>n.
       Inr \<lparr>ps_RegistrationApproved = a, ps_CapacityProbeSupported = b, ps_CapacityProbe = c,
         ps_FilesystemTotalBytes = d, ps_FilesystemAvailableBytes = e, ps_FilesystemAvailableInodes = f,
         ps_ObservedGeneration = g, ps_LastProbeTime = h, ps_CapacityUnit = i, ps_MountIdentity = j,
         ps_Conditions = l, ps_Inventory = n\<rparr>))))))))))))"

definition encodePoolStatus :: "PoolStatus \<Rightarrow> pool_status_map" where
  "encodePoolStatus s = \<lparr>
     sm_registrationApproved = omit_zero False (ps_RegistrationApproved s),
     sm_capacityProbeSupported = omit_zero False (ps_CapacityProbeSupported s),
     sm_capacityProbe = omit_nil (ps_CapacityProbe s),
     sm_filesystemTotalBytes = omit_zero 0 (ps_FilesystemTotalBytes s),
     sm_filesystemAvailableBytes = omit_nil (ps_FilesystemAvailableBytes s),
     sm_filesystemAvailableInodes = omit_nil (ps_FilesystemAvailableInodes s),
     sm_observedGeneration = omit_zero 0 (ps_ObservedGeneration s),
     sm_lastProbeTime = Present (ps_LastProbeTime s),
     sm_capacityUnit = omit_nil (ps_CapacityUnit s),
     sm_mountIdentity = omit_nil (ps_MountIdentity s),
     sm_conditions = omit_zero [] (ps_Conditions s),
     sm_inventory = omit_nil (ps_Inventory s)\<rparr>"

definition zero_status :: PoolStatus where
  "zero_status = \<lparr>ps_RegistrationApproved = False, ps_CapacityProbeSupported = False, ps_CapacityProbe = None,
     ps_FilesystemTotalBytes = 0, ps_FilesystemAvailableBytes = None, ps_FilesystemAvailableInodes = None,
     ps_ObservedGeneration = 0, ps_LastProbeTime = None, ps_CapacityUnit = None, ps_MountIdentity = None,
     ps_Conditions = [], ps_Inventory = None\<rparr>"

definition empty_status_map :: pool_status_map where
  "empty_status_map = \<lparr>sm_registrationApproved = Missing, sm_capacityProbeSupported = Missing,
     sm_capacityProbe = Missing, sm_filesystemTotalBytes = Missing, sm_filesystemAvailableBytes = Missing,
     sm_filesystemAvailableInodes = Missing, sm_observedGeneration = Missing, sm_lastProbeTime = Missing,
     sm_capacityUnit = Missing, sm_mountIdentity = Missing, sm_conditions = Missing, sm_inventory = Missing\<rparr>"

definition poolFrom :: "pool_object \<Rightarrow> Pool res" where
  "poolFrom obj = (let body = ao_Body obj in
     bind_res (case pb_status body of
         Missing \<Rightarrow> Inr zero_status
       | Malformed \<Rightarrow> Inl (Errorf ''decode ShiftPVPool status'')
       | Present m \<Rightarrow> decodePoolStatus m) (\<lambda>status.
     Inr \<lparr>pl_Name = ao_Name obj, pl_UID = ao_UID obj, pl_NodeName = field_or [] (pb_nodeName body),
       pl_PoolGroup = field_or DefaultPoolGroup (pb_poolGroup body),
       pl_MountPath = Clean (field_or [] (pb_mountPath body)),
       pl_CapacityPolicy = field_or [] (pb_capacityPolicy body),
       pl_MountPolicy = field_or [] (pb_mountPolicy body),
       pl_CapacityLimit = field_or [] (pb_capacityLimit body),
       pl_Generation = ao_Generation obj, pl_DeletionTimestamp = ao_DeletionTimestamp obj,
       pl_Finalizers = ao_Finalizers obj,
       pl_IdentityReleaseApproval = annotation obj PoolIdentityReleaseAnnotation,
       pl_RetirementRequest = annotation obj PoolRetirementRequestAnnotation,
       pl_RetirementApproval = annotation obj PoolRetirementApprovalAnnotation,
       pl_CapacityProbeRequest = annotation obj PoolCapacityProbeRequestAnnotation,
       pl_Status = status\<rparr>))"

text \<open>\<open>PoolInventoryFrom\<close>: \<open>None\<close> when there is no inventory.\<close>

definition PoolInventoryFrom :: "pool_object \<Rightarrow> PoolInventory option res" where
  "PoolInventoryFrom obj = (case pb_status (ao_Body obj) of
     Missing \<Rightarrow> Inr None
   | Malformed \<Rightarrow> Inl (Errorf ''accessor error'')
   | Present m \<Rightarrow> decode_ptr (sm_inventory m))"

section \<open>Judgements on one pool\<close>

definition RetirementRequested :: "Pool \<Rightarrow> bool" where
  "RetirementRequested p \<longleftrightarrow> pl_UID p \<noteq> [] \<and> pl_RetirementRequest p = pl_UID p"

definition RegistrationRetired :: "Pool \<Rightarrow> bool" where
  "RegistrationRetired p \<longleftrightarrow> pl_UID p \<noteq> [] \<and> pl_RetirementApproval p = pl_UID p"

definition registrationConfiguration :: "Pool \<Rightarrow> Configuration" where
  "registrationConfiguration p = \<lparr>cf_NodeName = pl_NodeName p, cf_PoolGroup = pl_PoolGroup p,
     cf_MountPath = pl_MountPath p, cf_MountPolicy = pl_MountPolicy p,
     cf_CapacityPolicy = pl_CapacityPolicy p, cf_CapacityLimit = pl_CapacityLimit p\<rparr>"

definition find_condition :: "k8s_lib \<Rightarrow> Pool \<Rightarrow> string \<Rightarrow> Condition option" where
  "find_condition k p t = k_FindStatusCondition k (ps_Conditions (pl_Status p)) t"

definition RegistrationApproved :: "k8s_lib \<Rightarrow> Pool \<Rightarrow> bool" where
  "RegistrationApproved k p \<longleftrightarrow>
     ps_RegistrationApproved (pl_Status p) \<or> ps_CapacityUnit (pl_Status p) \<noteq> None \<or>
     ps_MountIdentity (pl_Status p) \<noteq> None \<or>
     (case (find_condition k p PoolConditionReady, ps_Inventory (pl_Status p)) of
        (Some ready, Some inventory) \<Rightarrow> cond_Status ready = ConditionTrue \<and> iv_Valid inventory \<and>
          \<not> iv_Truncated inventory \<and> iv_Message inventory = []
      | _ \<Rightarrow> False)"

definition DeletingUnapprovedFixedBlock :: "k8s_lib \<Rightarrow> Pool \<Rightarrow> bool" where
  "DeletingUnapprovedFixedBlock k p \<longleftrightarrow> pl_DeletionTimestamp p \<noteq> None \<and> pl_CapacityPolicy p = FixedBlock \<and>
     \<not> RegistrationApproved k p"

text \<open>A condition that must be true and of the given generation, and the reason when it is not.\<close>

definition current_condition :: "Condition option \<Rightarrow> int \<Rightarrow> string \<Rightarrow> bool \<times> string" where
  "current_condition c generation pending = (case c of
     None \<Rightarrow> (False, pending)
   | Some cond \<Rightarrow>
       if cond_ObservedGeneration cond \<noteq> generation \<or> cond_Status cond \<noteq> ConditionTrue
       then (False, if cond_Reason cond \<noteq> [] then cond_Reason cond else pending)
       else (True, []))"

definition capacityBackingReadyAt :: "k8s_lib \<Rightarrow> Pool \<Rightarrow> int \<Rightarrow> bool \<times> string" where
  "capacityBackingReadyAt k p generation = (
     if pl_CapacityPolicy p = [] then (True, [])
     else if pl_CapacityPolicy p \<noteq> FixedBlock \<or> ValidateUnit (ps_CapacityUnit (pl_Status p)) \<noteq> None
     then (False, ''CapacityIdentityMissing'')
     else current_condition
       (case find_condition k p PoolConditionCapacityBackingVerified of
          None \<Rightarrow> find_condition k p PoolConditionCapacityIndependent
        | c \<Rightarrow> c) generation ''CapacityProbePending'')"

definition CapacityBackingReady :: "k8s_lib \<Rightarrow> Pool \<Rightarrow> bool \<times> string" where
  "CapacityBackingReady k p = capacityBackingReadyAt k p (pl_Generation p)"

definition capacityReadyAt :: "k8s_lib \<Rightarrow> Pool \<Rightarrow> int \<Rightarrow> bool \<times> string" where
  "capacityReadyAt k p generation = (
     if \<not> fst (capacityBackingReadyAt k p generation) then capacityBackingReadyAt k p generation
     else if pl_CapacityPolicy p = [] then (True, [])
     else current_condition (find_condition k p PoolConditionCapacityIndependent) generation ''CapacityProbePending'')"

definition registrationAllocation :: "k8s_lib \<Rightarrow> Pool \<Rightarrow> Allocation" where
  "registrationAllocation k p = \<lparr>al_UID = pl_UID p, al_NodeName = pl_NodeName p, al_MountPath = pl_MountPath p,
     al_Policy = pl_CapacityPolicy p, al_Approved = RegistrationApproved k p,
     al_Deleting = (pl_DeletionTimestamp p \<noteq> None), al_Retired = RegistrationRetired p,
     al_Unit = ps_CapacityUnit (pl_Status p),
     al_Evidence = \<lparr>ck_OK = fst (CapacityBackingReady k p), ck_Known = True, ck_Reason = []\<rparr>\<rparr>"

definition PoolCapacityIndependent :: "k8s_lib \<Rightarrow> Pool \<Rightarrow> Pool list \<Rightarrow> bool \<times> string" where
  "PoolCapacityIndependent k p pools = (
     let check = Independent (registrationAllocation k p) (map (registrationAllocation k) pools)
     in (ck_OK check, ck_Reason check))"

definition mountReady :: "k8s_lib \<Rightarrow> Pool \<Rightarrow> int \<Rightarrow> bool \<times> string" where
  "mountReady k p generation = (
     if pl_MountPolicy p = PoolMountPolicyRequireMountPoint then
       (if ps_MountIdentity (pl_Status p) = None then (False, ''MountIdentityMissing'')
        else case find_condition k p PoolConditionMounted of
          None \<Rightarrow> (False, ''MountProbePending'')
        | Some mounted \<Rightarrow>
            if cond_ObservedGeneration mounted \<noteq> generation then (False, ''MountProbeOutdated'')
            else if cond_Status mounted \<noteq> ConditionTrue
            then (False, if cond_Reason mounted \<noteq> [] then cond_Reason mounted else ''MountProbePending'')
            else (True, []))
     else (True, []))"

definition readyAt :: "k8s_lib \<Rightarrow> Pool \<Rightarrow> int \<Rightarrow> int \<Rightarrow> int \<Rightarrow> bool \<times> string" where
  "readyAt k p now staleAfter generation = (
     if RegistrationRetired p then (False, ''PoolRegistrationRetired'')
     else if RetirementRequested p then (False, ''PoolRetirementPending'')
     else if pl_DeletionTimestamp p \<noteq> None then (False, ''PoolDeregistering'')
     else case find_condition k p PoolConditionReady of
       None \<Rightarrow> (False, ''ProbePending'')
     | Some cond \<Rightarrow>
         if cond_Status cond \<noteq> ConditionTrue
         then (False, if cond_Reason cond \<noteq> [] then cond_Reason cond else ''ProbePending'')
         else if ps_ObservedGeneration (pl_Status p) \<noteq> generation \<or> cond_ObservedGeneration cond \<noteq> generation
         then (False, ''ProbeOutdated'')
         else if \<not> fresh now staleAfter (ps_LastProbeTime (pl_Status p)) then (False, ''ProbeStale'')
         else if \<not> fst (mountReady k p generation) then mountReady k p generation
         else if \<not> fst (capacityReadyAt k p generation) then capacityReadyAt k p generation
         else (True, cond_Reason cond))"

definition ReadyAt :: "k8s_lib \<Rightarrow> Pool \<Rightarrow> int \<Rightarrow> int \<Rightarrow> bool \<times> string" where
  "ReadyAt k p now staleAfter = readyAt k p now staleAfter (pl_Generation p)"

definition poolInventoryReadyAt :: "Pool \<Rightarrow> int \<Rightarrow> int \<Rightarrow> bool \<times> string" where
  "poolInventoryReadyAt p now staleAfter = (case ps_Inventory (pl_Status p) of
     None \<Rightarrow> (False, ''InventoryMissing'')
   | Some inventory \<Rightarrow>
       if \<not> iv_Valid inventory \<or> iv_Message inventory \<noteq> [] then (False, ''InventoryInvalid'')
       else if iv_Truncated inventory then (False, ''InventoryTruncated'')
       else case iv_ObservedAt inventory of
         None \<Rightarrow> (False, ''InventoryStale'')
       | Some at \<Rightarrow> if now < at \<or> time_Sub now at > staleAfter then (False, ''InventoryStale'') else (True, []))"

definition poolReady :: "k8s_lib \<Rightarrow> Pool \<Rightarrow> int \<Rightarrow> int \<Rightarrow> bool \<times> string" where
  "poolReady k p now staleAfter = (
     let check = ValidateConfiguration k (registrationConfiguration p) in
     if \<not> ck_OK check then (False, ck_Reason check)
     else if \<not> fst (ReadyAt k p now staleAfter) then ReadyAt k p now staleAfter
     else if \<not> fst (poolInventoryReadyAt p now staleAfter) then poolInventoryReadyAt p now staleAfter
     else if PoolProtectionFinalizer \<notin> set (pl_Finalizers p) then (False, ''PoolProtectionMissing'')
     else (True, []))"

fun conditions_hold :: "k8s_lib \<Rightarrow> Pool \<Rightarrow> int \<Rightarrow> string list \<Rightarrow> string option" where
  "conditions_hold k p generation [] = None"
| "conditions_hold k p generation (t # ts) = (case find_condition k p t of
     None \<Rightarrow> Some ''ProbePending''
   | Some cond \<Rightarrow>
       if cond_ObservedGeneration cond \<noteq> generation then Some ''ProbeOutdated''
       else if cond_Status cond \<noteq> ConditionTrue
       then Some (if cond_Reason cond \<noteq> [] then cond_Reason cond else ''ProbeFailed'')
       else conditions_hold k p generation ts)"

definition cleanupReadyAt :: "k8s_lib \<Rightarrow> Pool \<Rightarrow> int \<Rightarrow> int \<Rightarrow> int \<Rightarrow> bool \<times> string" where
  "cleanupReadyAt k p now staleAfter generation = (
     let check = ValidateBackingConfiguration (registrationConfiguration p) in
     if \<not> ck_OK check then (False, ck_Reason check)
     else if pl_MountPolicy p = PoolMountPolicyRequireMountPoint \<and> ps_MountIdentity (pl_Status p) = None
     then (False, ''MountIdentityMissing'')
     else if ps_ObservedGeneration (pl_Status p) \<noteq> generation then (False, ''ProbeOutdated'')
     else if \<not> fst (capacityBackingReadyAt k p generation) then capacityBackingReadyAt k p generation
     else case conditions_hold k p generation ([PoolConditionAccessible, PoolConditionWritable, PoolConditionCapacityReadable]
            @ (if pl_MountPolicy p = PoolMountPolicyRequireMountPoint then [PoolConditionMounted] else [])) of
       Some reason \<Rightarrow> (False, reason)
     | None \<Rightarrow> if \<not> fresh now staleAfter (ps_LastProbeTime (pl_Status p)) then (False, ''ProbeStale'')
         else (True, ''PoolCleanupReady''))"

definition CleanupReadyAt :: "k8s_lib \<Rightarrow> Pool \<Rightarrow> int \<Rightarrow> int \<Rightarrow> bool \<times> string" where
  "CleanupReadyAt k p now staleAfter = cleanupReadyAt k p now staleAfter (pl_Generation p)"

definition InventoryReadyAt :: "k8s_lib \<Rightarrow> Pool \<Rightarrow> int \<Rightarrow> int \<Rightarrow> bool \<times> string" where
  "InventoryReadyAt k p now staleAfter = (
     if \<not> fst (CleanupReadyAt k p now staleAfter) then CleanupReadyAt k p now staleAfter
     else if \<not> fst (poolInventoryReadyAt p now staleAfter) then poolInventoryReadyAt p now staleAfter
     else if PoolProtectionFinalizer \<notin> set (pl_Finalizers p) then (False, ''PoolProtectionMissing'')
     else (True, ''PoolInventoryReady''))"

definition ExecutionReadyAt :: "k8s_lib \<Rightarrow> Pool \<Rightarrow> int \<Rightarrow> int \<Rightarrow> bool \<times> string" where
  "ExecutionReadyAt k p now staleAfter = (
     if ps_ObservedGeneration (pl_Status p) \<le> 0 \<or> ps_ObservedGeneration (pl_Status p) > pl_Generation p
     then (False, ''ProbeOutdated'')
     else cleanupReadyAt k p now staleAfter (ps_ObservedGeneration (pl_Status p)))"

text \<open>The inventory of a pool against one volume or copy.\<close>

definition inventory_copies :: "Pool \<Rightarrow> CopyObservation list" where
  "inventory_copies p = (case ps_Inventory (pl_Status p) of None \<Rightarrow> [] | Some i \<Rightarrow> iv_Copies i)"

definition PoolHasConflictingServingVolume :: "Pool \<Rightarrow> string \<Rightarrow> CopyIdentity option \<Rightarrow> bool" where
  "PoolHasConflictingServingVolume p volumeID allowed = list_ex (\<lambda>observed.
     cob_Present observed \<and> (case cob_Identity observed of None \<Rightarrow> False
       | Some c \<Rightarrow> ci_Role c = RoleServing \<and> ci_VolumeID c = volumeID \<and> allowed \<noteq> Some c)) (inventory_copies p)"

definition PoolHasServingVolume :: "Pool \<Rightarrow> string \<Rightarrow> bool" where
  "PoolHasServingVolume p volumeID = PoolHasConflictingServingVolume p volumeID None"

definition PoolHasPublishedCopy :: "Pool \<Rightarrow> CopyIdentity option \<Rightarrow> bool" where
  "PoolHasPublishedCopy p target = (case target of None \<Rightarrow> False
     | Some c \<Rightarrow>
         if ValidateCopy c \<noteq> None \<or> ci_Role c \<noteq> RoleServing \<or> ci_PoolName c \<noteq> pl_Name p \<or>
            ci_PoolUID c \<noteq> pl_UID p \<or> ci_NodeName c \<noteq> pl_NodeName p then False
         else case find (\<lambda>observed. cob_Identity observed = Some c) (inventory_copies p) of
           None \<Rightarrow> False
         | Some observed \<Rightarrow> cob_Present observed \<and> cob_Published observed \<and> cob_Problem observed = [])"

section \<open>Reading the registry\<close>

text \<open>A registry: the client of the pool resource, the configured staleness budget, the clock.\<close>

record 'w pool_registry =
  rg_Pools :: "('w, pool_body) api_client option"
  rg_PoolReadinessStaleAfter :: int
  rg_Now :: "'w \<Rightarrow> int"

definition readiness :: "'w pool_registry \<Rightarrow> 'w \<Rightarrow> int \<times> int" where
  "readiness r w = (rg_Now r w, if rg_PoolReadinessStaleAfter r \<le> 0 then DefaultPoolReadinessStaleAfter
     else rg_PoolReadinessStaleAfter r)"

fun map_res :: "('a \<Rightarrow> 'b res) \<Rightarrow> 'a list \<Rightarrow> 'b list res" where
  "map_res f [] = Inr []"
| "map_res f (x # xs) = bind_res (f x) (\<lambda>y. bind_res (map_res f xs) (\<lambda>ys. Inr (y # ys)))"

definition ListPoolRegistrations :: "'w pool_registry \<Rightarrow> 'w \<Rightarrow> Pool list res" where
  "ListPoolRegistrations r w = (case rg_Pools r of
     None \<Rightarrow> Inl (Errorf ''volume registry is not configured'')
   | Some client \<Rightarrow> (case api_List client w of
       Inl e \<Rightarrow> Inl (Wrapped e ''list ShiftPVPool'')
     | Inr objs \<Rightarrow> bind_res (map_res poolFrom objs) (\<lambda>pools. Inr (sort_key pl_Name pools))))"

definition ListPools :: "'w pool_registry \<Rightarrow> 'w \<Rightarrow> Pool list res" where
  "ListPools r w = bind_res (ListPoolRegistrations r w)
     (\<lambda>pools. Inr (sort_key (\<lambda>p. (pl_NodeName p, pl_Name p)) pools))"

definition Pools :: "'w pool_registry \<Rightarrow> 'w \<Rightarrow> Pool list res" where
  "Pools r w = bind_res (ListPools r w) (\<lambda>pools.
     if pools = [] then Inl (Wrapped ErrPoolConfiguration ''no ShiftPVPool nodes are registered'') else Inr pools)"

record PoolSnapshot =
  sn_Registered :: "Pool list"
  sn_Ready :: "Pool list"

definition ObservePools :: "k8s_lib \<Rightarrow> 'w pool_registry \<Rightarrow> 'w \<Rightarrow> PoolSnapshot res" where
  "ObservePools k r w = bind_res (ListPools r w) (\<lambda>pools. case readiness r w of (now, staleAfter) \<Rightarrow>
     Inr \<lparr>sn_Registered = pools,
          sn_Ready = filter (\<lambda>p. fst (poolReady k p now staleAfter) \<and> fst (PoolCapacityIndependent k p pools)) pools\<rparr>)"

definition ReadyPools :: "k8s_lib \<Rightarrow> 'w pool_registry \<Rightarrow> 'w \<Rightarrow> Pool list res" where
  "ReadyPools k r w = bind_res (ObservePools k r w) (\<lambda>snapshot.
     if sn_Registered snapshot = []
     then Inl (Wrapped ErrPoolConfiguration ''no ShiftPVPool nodes are registered'')
     else Inr (sn_Ready snapshot))"

definition PoolNodesForGroup :: "k8s_lib \<Rightarrow> 'w pool_registry \<Rightarrow> 'w \<Rightarrow> string \<Rightarrow> string list res" where
  "PoolNodesForGroup k r w grp = bind_res (Pools r w) (\<lambda>pools.
     Inr (sort (remdups (map pl_NodeName (filter (\<lambda>p.
       ck_OK (ValidateTopologyConfiguration k (registrationConfiguration p)) \<and>
       (grp = [] \<or> pl_PoolGroup p = grp)) pools)))))"

definition PoolNodes :: "k8s_lib \<Rightarrow> 'w pool_registry \<Rightarrow> 'w \<Rightarrow> string list res" where
  "PoolNodes k r w = PoolNodesForGroup k r w []"

definition duplicatePoolError :: error where
  "duplicatePoolError = Wrapped ErrPoolConfiguration ''multiple ShiftPVPools are registered for node''"

fun pool_for_node :: "string \<Rightarrow> Pool option \<Rightarrow> Pool list \<Rightarrow> Pool res" where
  "pool_for_node nodeName found [] = (case found of
     None \<Rightarrow> Inl (Wrapped ErrPoolNotFound ''no ShiftPVPool is registered for node'')
   | Some p \<Rightarrow> Inr p)"
| "pool_for_node nodeName found (p # ps) = (
     if pl_NodeName p \<noteq> nodeName \<or> RegistrationRetired p then pool_for_node nodeName found ps
     else if found \<noteq> None then Inl duplicatePoolError
     else pool_for_node nodeName (Some p) ps)"

definition PoolForNode :: "'w pool_registry \<Rightarrow> 'w \<Rightarrow> string \<Rightarrow> Pool res" where
  "PoolForNode r w nodeName = (
     if nodeName = [] then Inl (Wrapped ErrPoolConfiguration ''node name is required'')
     else bind_res (Pools r w) (pool_for_node nodeName None))"

definition PoolForNodeLifecycle :: "'w pool_registry \<Rightarrow> 'w \<Rightarrow> string \<Rightarrow> Pool res" where
  "PoolForNodeLifecycle r w nodeName = (
     if nodeName = [] then Inl (Wrapped ErrPoolConfiguration ''node name is required'')
     else bind_res (ListPoolRegistrations r w) (\<lambda>pools.
       let candidates = filter (\<lambda>p. pl_NodeName p = nodeName \<and>
             \<not> (RegistrationRetired p \<and> pl_DeletionTimestamp p = None)) pools;
           deleting = filter (\<lambda>p. pl_DeletionTimestamp p \<noteq> None) candidates in
       case sort_key (\<lambda>p. (case pl_DeletionTimestamp p of None \<Rightarrow> 0 | Some t \<Rightarrow> t, pl_Name p)) deleting of
         p # _ \<Rightarrow> Inr p
       | [] \<Rightarrow> (case candidates of
           [] \<Rightarrow> Inl (Wrapped ErrPoolNotFound ''no ShiftPVPool is registered for node'')
         | [p] \<Rightarrow> Inr p
         | _ \<Rightarrow> Inl duplicatePoolError)))"

definition PoolForIdentity :: "'w pool_registry \<Rightarrow> 'w \<Rightarrow> string \<Rightarrow> string \<Rightarrow> string \<Rightarrow> Pool res" where
  "PoolForIdentity r w name uid nodeName = (case rg_Pools r of
     None \<Rightarrow> Inl (Errorf ''volume registry is not configured'')
   | Some client \<Rightarrow>
       if name = [] \<or> uid = [] \<or> nodeName = []
       then Inl (Wrapped ErrPoolConfiguration ''Pool name, UID, and node name are required'')
       else case api_Get client w name of
         Inl e \<Rightarrow> if e = ApiNotFound then Inl (Wrapped ErrPoolNotFound ''ShiftPVPool'')
                   else Inl (Wrapped e ''get ShiftPVPool'')
       | Inr obj \<Rightarrow> bind_res (poolFrom obj) (\<lambda>p.
           if pl_UID p \<noteq> uid \<or> pl_NodeName p \<noteq> nodeName
           then Inl (Wrapped (Wrapped ErrStateConflict ''ShiftPV Pool identity changed'') ''ShiftPVPool'')
           else if \<not> IsAbs (pl_MountPath p) \<or> pl_MountPath p = ''/''
           then Inl (Wrapped ErrPoolConfiguration ''invalid mountPath'')
           else Inr p))"

definition ReadyPoolForNode :: "k8s_lib \<Rightarrow> 'w pool_registry \<Rightarrow> 'w \<Rightarrow> string \<Rightarrow> Pool res" where
  "ReadyPoolForNode k r w nodeName = bind_res (PoolForNode r w nodeName) (\<lambda>p.
     case readiness r w of (now, staleAfter) \<Rightarrow>
       if fst (poolReady k p now staleAfter) then Inr p
       else Inl (Wrapped ErrPoolNotReady (snd (poolReady k p now staleAfter))))"

definition CleanupPoolForIdentity :: "k8s_lib \<Rightarrow> 'w pool_registry \<Rightarrow> 'w \<Rightarrow> string \<Rightarrow> string \<Rightarrow> string \<Rightarrow> Pool res" where
  "CleanupPoolForIdentity k r w name uid nodeName = bind_res (PoolForIdentity r w name uid nodeName) (\<lambda>p.
     if PoolProtectionFinalizer \<notin> set (pl_Finalizers p)
     then Inl (Wrapped ErrStateConflict ''cleanup Pool protection is unavailable'')
     else case readiness r w of (now, staleAfter) \<Rightarrow>
       if fst (ExecutionReadyAt k p now staleAfter) then Inr p
       else Inl (Wrapped ErrPoolNotReady (snd (ExecutionReadyAt k p now staleAfter))))"

definition InventoryPoolForIdentity :: "k8s_lib \<Rightarrow> 'w pool_registry \<Rightarrow> 'w \<Rightarrow> string \<Rightarrow> string \<Rightarrow> string \<Rightarrow> Pool res" where
  "InventoryPoolForIdentity k r w name uid nodeName = bind_res (PoolForIdentity r w name uid nodeName) (\<lambda>p.
     case readiness r w of (now, staleAfter) \<Rightarrow>
       if fst (InventoryReadyAt k p now staleAfter) then Inr p
       else Inl (Wrapped ErrPoolNotReady (snd (InventoryReadyAt k p now staleAfter))))"

definition ReadyPoolForIdentity :: "k8s_lib \<Rightarrow> 'w pool_registry \<Rightarrow> 'w \<Rightarrow> string \<Rightarrow> string \<Rightarrow> string \<Rightarrow> Pool res" where
  "ReadyPoolForIdentity k r w name uid nodeName = bind_res (PoolForIdentity r w name uid nodeName) (\<lambda>_.
     bind_res (ListPoolRegistrations r w) (\<lambda>peers.
       case find (\<lambda>p. pl_Name p = name) peers of
         None \<Rightarrow> Inl (Wrapped ErrPoolNotFound ''ShiftPVPool'')
       | Some p \<Rightarrow>
           if pl_UID p \<noteq> uid \<or> pl_NodeName p \<noteq> nodeName
           then Inl (Wrapped (Wrapped ErrStateConflict ''ShiftPV Pool identity changed'') ''ShiftPVPool'')
           else case readiness r w of (now, staleAfter) \<Rightarrow>
             if \<not> fst (poolReady k p now staleAfter)
             then Inl (Wrapped ErrPoolNotReady (snd (poolReady k p now staleAfter)))
             else if \<not> fst (PoolCapacityIndependent k p peers)
             then Inl (Wrapped ErrPoolNotReady (snd (PoolCapacityIndependent k p peers)))
             else Inr p))"

section \<open>Changing a pool\<close>

text \<open>\<open>SetPoolStatus\<close> writes a whole status but keeps the probe worker's own answer.\<close>

definition setPoolStatus_apply :: "string \<Rightarrow> PoolStatus \<Rightarrow> pool_object \<Rightarrow> pool_object res" where
  "setPoolStatus_apply nodeName status obj = (
     if field_or [] (pb_nodeName (ao_Body obj)) \<noteq> nodeName
     then Inl (Wrapped ErrStateConflict ''ShiftPVPool belongs to another node'')
     else bind_res (poolFrom obj) (\<lambda>current.
       if ps_CapacityUnit (pl_Status current) \<noteq> None \<and>
          \<not> SameCapacityUnit (ps_CapacityUnit (pl_Status current)) (ps_CapacityUnit status)
       then Inl (Wrapped ErrStateConflict ''capacity identity cannot be changed or cleared'')
       else if ps_RegistrationApproved (pl_Status current) \<and> \<not> ps_RegistrationApproved status
       then Inl (Wrapped ErrStateConflict ''registration approval cannot be cleared'')
       else if ps_ObservedGeneration status \<noteq> 0 \<and> ps_ObservedGeneration status \<noteq> pl_Generation current
       then Inl (Wrapped (Wrapped ErrStateConflict ''Pool observation generation changed'') ''ShiftPVPool'')
       else guard_err (if ps_CapacityUnit status = None then None else ValidateUnit (ps_CapacityUnit status))
         (let probe = (case pb_status (ao_Body obj) of Present m \<Rightarrow> sm_capacityProbe m | _ \<Rightarrow> Missing) in
          Inr (obj\<lparr>ao_Body := (ao_Body obj)\<lparr>pb_status :=
            Present ((encodePoolStatus status)\<lparr>sm_capacityProbe := probe\<rparr>)\<rparr>\<rparr>))))"

definition SetPoolStatus :: "('w, pool_body) api_client option \<Rightarrow> ('w closure \<Rightarrow> 'w closure) \<Rightarrow>
    string \<Rightarrow> string \<Rightarrow> string \<Rightarrow> PoolStatus \<Rightarrow> 'w closure" where
  "SetPoolStatus client retry name uid nodeName status w = (case validate_client client of
     Some e \<Rightarrow> (Some e, w)
   | None \<Rightarrow> if name = [] \<or> uid = [] \<or> nodeName = []
       then (Some (Errorf ''ShiftPVPool name, UID, and node name are required''), w)
       else mutateObject client retry \<lparr>om_name = name, om_uid = uid, om_status = True,
              om_apply = setPoolStatus_apply nodeName status\<rparr> w)"

definition EnsurePoolFinalizer :: "('w, pool_body) api_client option \<Rightarrow> ('w closure \<Rightarrow> 'w closure) \<Rightarrow>
    string \<Rightarrow> string \<Rightarrow> 'w closure" where
  "EnsurePoolFinalizer client retry name uid = updateObjectFinalizer client retry name uid PoolProtectionFinalizer True"

definition RemovePoolFinalizer :: "('w, pool_body) api_client option \<Rightarrow> ('w closure \<Rightarrow> 'w closure) \<Rightarrow>
    string \<Rightarrow> string \<Rightarrow> 'w closure" where
  "RemovePoolFinalizer client retry name uid = updateObjectFinalizer client retry name uid PoolProtectionFinalizer False"

definition approveRelease_apply :: "string \<Rightarrow> pool_object \<Rightarrow> pool_object res" where
  "approveRelease_apply uid obj = (
     if ao_DeletionTimestamp obj = None then Inl (Wrapped ErrStateConflict ''ShiftPVPool is not deleting'')
     else if annotation obj PoolIdentityReleaseAnnotation = uid then Inl ErrObjectUnchanged
     else Inr (set_annotation PoolIdentityReleaseAnnotation uid obj))"

definition ApprovePoolIdentityRelease :: "('w, pool_body) api_client option \<Rightarrow> ('w closure \<Rightarrow> 'w closure) \<Rightarrow>
    string \<Rightarrow> string \<Rightarrow> 'w closure" where
  "ApprovePoolIdentityRelease client retry name uid w = (case validate_client client of
     Some e \<Rightarrow> (Some e, w)
   | None \<Rightarrow> if name = [] \<or> uid = [] then (Some (Errorf ''ShiftPVPool name and UID are required''), w)
       else mutateObject client retry \<lparr>om_name = name, om_uid = uid, om_status = False,
              om_apply = approveRelease_apply uid\<rparr> w)"

definition approveRetirement_apply :: "k8s_lib \<Rightarrow> string \<Rightarrow> pool_object \<Rightarrow> pool_object res" where
  "approveRetirement_apply k uid obj = bind_res (poolFrom obj) (\<lambda>p.
     if RegistrationRetired p then Inl ErrObjectUnchanged
     else if \<not> RetirementRequested p \<or> \<not> RegistrationApproved k p \<or> PoolProtectionFinalizer \<notin> set (pl_Finalizers p)
     then Inl (Wrapped ErrStateConflict ''retirement requires the current UID request and protected approved registration'')
     else Inr (set_annotation PoolRetirementApprovalAnnotation uid obj))"

definition ApprovePoolRetirement :: "k8s_lib \<Rightarrow> ('w, pool_body) api_client option \<Rightarrow> ('w closure \<Rightarrow> 'w closure) \<Rightarrow>
    string \<Rightarrow> string \<Rightarrow> 'w closure" where
  "ApprovePoolRetirement k client retry name uid w = (case validate_client client of
     Some e \<Rightarrow> (Some e, w)
   | None \<Rightarrow> if name = [] \<or> uid = [] then (Some (Errorf ''ShiftPVPool name and UID are required''), w)
       else mutateObject client retry \<lparr>om_name = name, om_uid = uid, om_status = False,
              om_apply = approveRetirement_apply k uid\<rparr> w)"

definition poolProbe_apply :: "Pool \<Rightarrow> (pool_object \<Rightarrow> pool_object res) \<Rightarrow> pool_object \<Rightarrow> pool_object res" where
  "poolProbe_apply expected apply obj = bind_res (poolFrom obj) (\<lambda>current.
     if pl_NodeName current \<noteq> pl_NodeName expected \<or> pl_Generation current \<noteq> pl_Generation expected \<or>
        pl_MountPath current \<noteq> pl_MountPath expected \<or> pl_DeletionTimestamp current \<noteq> None \<or>
        ps_MountIdentity (pl_Status current) \<noteq> ps_MountIdentity (pl_Status expected) \<or>
        ps_CapacityUnit (pl_Status current) \<noteq> ps_CapacityUnit (pl_Status expected)
     then Inl (Wrapped ErrStateConflict ''capacity probe Pool evidence changed'')
     else apply obj)"

definition RequestPoolCapacityProbe :: "('w, pool_body) api_client option \<Rightarrow> ('w closure \<Rightarrow> 'w closure) \<Rightarrow>
    Pool \<Rightarrow> string \<Rightarrow> 'w closure" where
  "RequestPoolCapacityProbe client retry expected request w = (
     if request = [] \<or> length request > 512
     then (Some (Errorf ''capacity probe request is missing or too large''), w)
     else mutateObject client retry \<lparr>om_name = pl_Name expected, om_uid = pl_UID expected, om_status = False,
       om_apply = poolProbe_apply expected (\<lambda>obj. Inr (set_annotation PoolCapacityProbeRequestAnnotation request obj))\<rparr> w)"

definition recordProbe_apply :: "Pool \<Rightarrow> PoolCapacityProbeResult \<Rightarrow> pool_object \<Rightarrow> pool_object res" where
  "recordProbe_apply expected result obj = (
     if pl_CapacityProbeRequest expected = [] \<or>
        annotation obj PoolCapacityProbeRequestAnnotation \<noteq> pl_CapacityProbeRequest expected
     then Inl (Wrapped ErrStateConflict ''capacity probe request changed'')
     else let m = (case pb_status (ao_Body obj) of Present m \<Rightarrow> m | _ \<Rightarrow> empty_status_map) in
       Inr (obj\<lparr>ao_Body := (ao_Body obj)\<lparr>pb_status := Present (m\<lparr>sm_capacityProbe := Present result\<rparr>)\<rparr>\<rparr>))"

definition RecordPoolCapacityProbe :: "('w, pool_body) api_client option \<Rightarrow> ('w closure \<Rightarrow> 'w closure) \<Rightarrow>
    Pool \<Rightarrow> PoolCapacityProbeResult \<Rightarrow> 'w closure" where
  "RecordPoolCapacityProbe client retry expected result =
     mutateObject client retry \<lparr>om_name = pl_Name expected, om_uid = pl_UID expected, om_status = True,
       om_apply = poolProbe_apply expected (recordProbe_apply expected result)\<rparr>"

text \<open>\<open>RequestPoolScan\<close>; the captured variable is the generation the write returned.\<close>

definition poolScan_attempt :: "('w, pool_body) api_client \<Rightarrow> CopyIdentity \<Rightarrow> (int \<times> 'w) closure" where
  "poolScan_attempt client target = (\<lambda>(generation, w). case api_Get client w (ci_PoolName target) of
     Inl e \<Rightarrow> (Some e, generation, w)
   | Inr pool \<Rightarrow>
       if ao_UID pool \<noteq> ci_PoolUID target \<or> \<not> has_finalizer pool PoolProtectionFinalizer
       then (Some (Wrapped ErrStateConflict ''Pool identity or protection changed''), generation, w)
       else if pb_nodeName (ao_Body pool) = Malformed \<or> field_or [] (pb_nodeName (ao_Body pool)) \<noteq> ci_NodeName target
       then (Some (Wrapped ErrStateConflict ''Pool node changed''), generation, w)
       else if pb_scanEpoch (ao_Body pool) = Malformed then (Some (Errorf ''accessor error''), generation, w)
       else let epoch = field_or 0 (pb_scanEpoch (ao_Body pool)) in
         if epoch < 0 \<or> epoch = max_int64
         then (Some (Wrapped ErrStateConflict ''Pool scan epoch is exhausted''), generation, w)
         else (case api_Update client w (pool\<lparr>ao_Body := (ao_Body pool)\<lparr>pb_scanEpoch := Present (epoch + 1)\<rparr>\<rparr>) of
           (Inl e, w') \<Rightarrow> (Some e, generation, w')
         | (Inr updated, w') \<Rightarrow>
             if ao_Generation updated \<le> ao_Generation pool \<or> ao_Generation updated \<le> 0
             then (Some (Wrapped ErrStateConflict ''Pool scan request did not advance generation''), generation, w')
             else (None, ao_Generation updated, w')))"

definition RequestPoolScan :: "('w, pool_body) api_client option \<Rightarrow> ((int \<times> 'w) closure \<Rightarrow> (int \<times> 'w) closure) \<Rightarrow>
    CopyIdentity \<Rightarrow> 'w \<Rightarrow> int res \<times> 'w" where
  "RequestPoolScan client retry target w = (case client of
     None \<Rightarrow> (Inl (Errorf ''volume registry is not configured''), w)
   | Some c \<Rightarrow> (case retry (poolScan_attempt c target) (0, w) of
       (Some e, _, w') \<Rightarrow> (Inl (Wrapped e ''request Pool scan''), w')
     | (None, generation, w') \<Rightarrow> (Inr generation, w')))"

end
