(* ===== verification/Pool_Properties.thy ===== *)
theory Pool_Properties
  imports Pool_State
begin

text \<open>
  What the pool registry guarantees: a pool admitted for placement is fresh, protected and
  independent; its capacity anchor and its approval survive every registry write; a scan request
  returns a later generation.
\<close>

section \<open>Lemmas\<close>

lemma decode_encode_status: "decodePoolStatus (encodePoolStatus s) = Inr s"
  by (simp add: decodePoolStatus_def encodePoolStatus_def)

lemma decode_status_probe:
  "decodePoolStatus ((encodePoolStatus s)\<lparr>sm_capacityProbe := f\<rparr>) =
     bind_res (decode_ptr f) (\<lambda>c. Inr (s\<lparr>ps_CapacityProbe := c\<rparr>))"
  by (cases "decode_ptr f") (simp_all add: decodePoolStatus_def encodePoolStatus_def)

lemma decode_update_probe:
  assumes "decodePoolStatus m = Inr s"
  shows "decodePoolStatus (m\<lparr>sm_capacityProbe := Present r\<rparr>) = Inr (s\<lparr>ps_CapacityProbe := Some r\<rparr>)"
  using assms by (auto simp: decodePoolStatus_def)

lemma decode_probe: "decodePoolStatus m = Inr s \<Longrightarrow> decode_ptr (sm_capacityProbe m) = Inr (ps_CapacityProbe s)"
  by (auto simp: decodePoolStatus_def)

text \<open>What \<open>poolFrom\<close> reads besides the status.\<close>

lemma poolFrom_status:
  "poolFrom obj = Inr p \<Longrightarrow> (case pb_status (ao_Body obj) of Missing \<Rightarrow> pl_Status p = zero_status
     | Malformed \<Rightarrow> False | Present m \<Rightarrow> decodePoolStatus m = Inr (pl_Status p))"
  by (auto simp: poolFrom_def Let_def split: api_field.splits)

lemma poolFrom_set_status:
  assumes "poolFrom obj = Inr p" and "decodePoolStatus m = Inr s"
  shows "poolFrom (obj\<lparr>ao_Body := (ao_Body obj)\<lparr>pb_status := Present m\<rparr>\<rparr>) = Inr (p\<lparr>pl_Status := s\<rparr>)"
  using assms by (auto simp: poolFrom_def Let_def annotation_def)

lemma setPoolStatus_written:
  assumes "setPoolStatus_apply nodeName status obj = Inr obj'"
  obtains p where "poolFrom obj = Inr p"
    and "poolFrom obj' = Inr (p\<lparr>pl_Status := status\<lparr>ps_CapacityProbe := ps_CapacityProbe (pl_Status p)\<rparr>\<rparr>)"
    and "ps_CapacityUnit (pl_Status p) \<noteq> None \<longrightarrow> ps_CapacityUnit status = ps_CapacityUnit (pl_Status p)"
    and "ps_RegistrationApproved (pl_Status p) \<longrightarrow> ps_RegistrationApproved status"
    and "ao_UID obj' = ao_UID obj" and "pl_NodeName p = nodeName"
proof -
  obtain p where p: "poolFrom obj = Inr p"
    using assms by (auto simp: setPoolStatus_apply_def split: if_splits)
  let ?probe = "case pb_status (ao_Body obj) of Present m \<Rightarrow> sm_capacityProbe m | _ \<Rightarrow> Missing"
  have obj': "obj' = obj\<lparr>ao_Body := (ao_Body obj)\<lparr>pb_status :=
      Present ((encodePoolStatus status)\<lparr>sm_capacityProbe := ?probe\<rparr>)\<rparr>\<rparr>"
    and unit: "ps_CapacityUnit (pl_Status p) \<noteq> None \<longrightarrow> SameCapacityUnit (ps_CapacityUnit (pl_Status p)) (ps_CapacityUnit status)"
    and app: "ps_RegistrationApproved (pl_Status p) \<longrightarrow> ps_RegistrationApproved status"
    and node: "field_or [] (pb_nodeName (ao_Body obj)) = nodeName"
    using assms p by (auto simp: setPoolStatus_apply_def Let_def err_simps split: if_splits)
  have "decode_ptr ?probe = Inr (ps_CapacityProbe (pl_Status p))"
    using poolFrom_status [OF p] by (auto simp: zero_status_def decode_probe split: api_field.splits)
  then have "decodePoolStatus ((encodePoolStatus status)\<lparr>sm_capacityProbe := ?probe\<rparr>) =
      Inr (status\<lparr>ps_CapacityProbe := ps_CapacityProbe (pl_Status p)\<rparr>)"
    by (simp add: decode_status_probe)
  from poolFrom_set_status [OF p this] obj' unit app node p show thesis
    by (intro that) (auto simp: SameCapacityUnit_def poolFrom_def Let_def)
qed

section \<open>Readiness\<close>

lemma current_condition_True:
  assumes "k8s_documented k" and "fst (current_condition (find_condition k p t) g r)"
  shows "\<exists>c \<in> set (ps_Conditions (pl_Status p)). cond_Type c = t \<and> cond_Status c = ConditionTrue \<and>
    cond_ObservedGeneration c = g"
  using assms by (auto simp: current_condition_def find_condition_def k8s_documented_def
      split: option.splits if_splits)

lemma readyAt_True:
  assumes "fst (readyAt k p now staleAfter g)"
  shows "\<not> RegistrationRetired p" "\<not> RetirementRequested p" "pl_DeletionTimestamp p = None"
    "ps_ObservedGeneration (pl_Status p) = g" "fresh now staleAfter (ps_LastProbeTime (pl_Status p))"
    "fst (mountReady k p g)" "fst (capacityReadyAt k p g)"
    "\<exists>c. find_condition k p PoolConditionReady = Some c \<and> cond_Status c = ConditionTrue \<and> cond_ObservedGeneration c = g"
  using assms by (auto simp: readyAt_def split: option.splits if_splits)

lemma poolInventoryReadyAt_True:
  assumes "fst (poolInventoryReadyAt p now staleAfter)"
  obtains i at where "ps_Inventory (pl_Status p) = Some i" and "iv_Valid i" and "\<not> iv_Truncated i"
    and "iv_Message i = []" and "iv_ObservedAt i = Some at" and "at \<le> now" and "time_Sub now at \<le> staleAfter"
  using assms by (auto simp: poolInventoryReadyAt_def split: option.splits if_splits)

text \<open>
  C15. A pool is admitted for new placement only on complete current evidence: its configuration is
  valid with a positive exact byte limit, it is neither retired nor retiring nor deleting, its
  protection finalizer is installed, the Ready condition is true at the current generation, the
  probe and a complete, untruncated inventory are not from the future and not older than the
  staleness budget, and a fixed-block pool's backing evidence validates.
\<close>

theorem poolReady_evidence:
  assumes "k8s_documented k" and "fst (poolReady k p now staleAfter)"
    and "staleAfter < max_int64"
  shows "ck_OK (ValidateConfiguration k (registrationConfiguration p)) \<and>
    (\<exists>limit > 0. ParseLimitBytes k (pl_CapacityLimit p) = Inr limit) \<and>
    \<not> RegistrationRetired p \<and> \<not> RetirementRequested p \<and> pl_DeletionTimestamp p = None \<and>
    PoolProtectionFinalizer \<in> set (pl_Finalizers p) \<and>
    (\<exists>c \<in> set (ps_Conditions (pl_Status p)). cond_Type c = PoolConditionReady \<and>
       cond_Status c = ConditionTrue \<and> cond_ObservedGeneration c = pl_Generation p) \<and>
    (\<exists>at. ps_LastProbeTime (pl_Status p) = Some at \<and> at \<le> now \<and> now - at \<le> staleAfter) \<and>
    (\<exists>i at. ps_Inventory (pl_Status p) = Some i \<and> iv_Valid i \<and> \<not> iv_Truncated i \<and> iv_Message i = [] \<and>
       iv_ObservedAt i = Some at \<and> at \<le> now \<and> now - at \<le> staleAfter) \<and>
    (pl_CapacityPolicy p \<noteq> [] \<longrightarrow> pl_CapacityPolicy p = FixedBlock \<and> ValidateUnit (ps_CapacityUnit (pl_Status p)) = None)"
proof -
  have cfg: "ck_OK (ValidateConfiguration k (registrationConfiguration p))"
    and rdy: "fst (readyAt k p now staleAfter (pl_Generation p))"
    and inv: "fst (poolInventoryReadyAt p now staleAfter)"
    and fin: "PoolProtectionFinalizer \<in> set (pl_Finalizers p)"
    using assms(2) by (auto simp: poolReady_def ReadyAt_def Let_def split: if_splits)
  have lim: "\<exists>limit > 0. ParseLimitBytes k (pl_CapacityLimit p) = Inr limit"
    using cfg by (auto simp: ValidateConfiguration_def registrationConfiguration_def ParseLimitBytes_def
        split: if_splits sum.splits)
  note r = readyAt_True [OF rdy]
  obtain at where at: "ps_LastProbeTime (pl_Status p) = Some at"
    using r(5) by (cases "ps_LastProbeTime (pl_Status p)") (auto simp: fresh_def)
  have probe: "at \<le> now \<and> now - at \<le> staleAfter" using freshD r(5) at assms(3) by simp
  obtain i at' where i: "ps_Inventory (pl_Status p) = Some i" "iv_Valid i" "\<not> iv_Truncated i" "iv_Message i = []"
    "iv_ObservedAt i = Some at'" "at' \<le> now" "time_Sub now at' \<le> staleAfter"
    using inv by (rule poolInventoryReadyAt_True)
  have "now - at' \<le> staleAfter"
    using i(6,7) assms(3) by (auto simp: time_Sub_def min_def max_def min_int64_def max_int64_def split: if_splits)
  moreover have "\<exists>c \<in> set (ps_Conditions (pl_Status p)). cond_Type c = PoolConditionReady \<and>
      cond_Status c = ConditionTrue \<and> cond_ObservedGeneration c = pl_Generation p"
    using r(8) assms(1) by (auto simp: find_condition_def k8s_documented_def)
  moreover have "pl_CapacityPolicy p \<noteq> [] \<longrightarrow>
      pl_CapacityPolicy p = FixedBlock \<and> ValidateUnit (ps_CapacityUnit (pl_Status p)) = None"
    using r(7) by (auto simp: capacityReadyAt_def capacityBackingReadyAt_def split: if_splits)
  ultimately show ?thesis using cfg lim r(1-3) fin at probe i by blast
qed

definition sample_k8s :: k8s_lib where
  "sample_k8s = \<lparr>k_IsDNS1123Label = (\<lambda>s. s \<noteq> []), k_IsDNS1123Subdomain = (\<lambda>s. s \<noteq> []),
     k_Quantity = (\<lambda>s. if s = ''1Gi'' then Inr (1073741824, True) else Inl (Errorf ''quantity'')),
     k_FindStatusCondition = (\<lambda>cs t. find (\<lambda>c. cond_Type c = t) cs)\<rparr>"

lemma sample_k8s_documented: "k8s_documented sample_k8s"
  by (auto simp: k8s_documented_def sample_k8s_def find_Some_iff is_int64_def min_int64_def max_int64_def
      split: if_splits)

definition sample_pool :: Pool where
  "sample_pool = \<lparr>pl_Name = ''pool'', pl_UID = ''uid'', pl_NodeName = ''node'', pl_PoolGroup = ''default'',
     pl_MountPath = ''/mnt/a'', pl_CapacityPolicy = [], pl_MountPolicy = [], pl_CapacityLimit = ''1Gi'',
     pl_Generation = 3, pl_DeletionTimestamp = None, pl_Finalizers = [PoolProtectionFinalizer],
     pl_IdentityReleaseApproval = [], pl_RetirementRequest = [], pl_RetirementApproval = [], pl_CapacityProbeRequest = [],
     pl_Status = zero_status\<lparr>ps_ObservedGeneration := 3, ps_LastProbeTime := Some 90,
       ps_Conditions := [\<lparr>cond_Type = PoolConditionReady, cond_Status = ConditionTrue,
         cond_ObservedGeneration = 3, cond_Reason = ''Ready''\<rparr>],
       ps_Inventory := Some \<lparr>iv_ObservedAt = Some 95, iv_Valid = True, iv_Truncated = False, iv_Reason = [],
         iv_Message = [], iv_Copies = []\<rparr>\<rparr>\<rparr>"

lemma sample_pool_ready: "fst (poolReady sample_k8s sample_pool 100 50)"
proof -
  have "Clean ''/mnt/a'' \<noteq> ''/''" by code_simp
  then show ?thesis
    by (simp add: poolReady_def sample_pool_def sample_k8s_def zero_status_def registrationConfiguration_def
        ValidateConfiguration_def ValidateTopologyConfiguration_def ValidateBackingConfiguration_def
        ParseLimitBytes_def ReadyAt_def readyAt_def RegistrationRetired_def RetirementRequested_def
        find_condition_def fresh_def time_Sub_def min_int64_def max_int64_def mountReady_def
        capacityReadyAt_def capacityBackingReadyAt_def poolInventoryReadyAt_def)
qed

theorem poolReady_evidence_witness:
  "fst (poolReady sample_k8s sample_pool 100 50) \<and> \<not> RegistrationRetired sample_pool \<and>
   PoolProtectionFinalizer \<in> set (pl_Finalizers sample_pool)"
  using poolReady_evidence [OF sample_k8s_documented sample_pool_ready] sample_pool_ready
  by (simp add: max_int64_def)

section \<open>Writes\<close>

text \<open>
  Writing a pool's status loses nothing it should keep: an accepted write decodes again to the
  very status that was sent, except for the probe worker's answer, which stays what it was; every
  other field of the pool is unchanged, a recorded capacity identity stays the same and a recorded
  approval stays.
\<close>

theorem SetPoolStatus_roundtrip:
  assumes "setPoolStatus_apply nodeName status obj = Inr obj'"
  shows "\<exists>p. poolFrom obj = Inr p \<and> pl_NodeName p = nodeName \<and>
    poolFrom obj' = Inr (p\<lparr>pl_Status := status\<lparr>ps_CapacityProbe := ps_CapacityProbe (pl_Status p)\<rparr>\<rparr>) \<and>
    (ps_CapacityUnit (pl_Status p) \<noteq> None \<longrightarrow> ps_CapacityUnit status = ps_CapacityUnit (pl_Status p)) \<and>
    (ps_RegistrationApproved (pl_Status p) \<longrightarrow> ps_RegistrationApproved status)"
  using assms by (rule setPoolStatus_written) blast

definition sample_pool_object :: pool_object where
  "sample_pool_object = \<lparr>ao_Kind = ''ShiftPVPool'', ao_Name = ''pool'', ao_UID = ''uid'', ao_ResourceVersion = ''7'',
     ao_Generation = 3, ao_DeletionTimestamp = None, ao_Finalizers = [PoolProtectionFinalizer],
     ao_Annotations = Map.empty,
     ao_Body = \<lparr>pb_nodeName = Present ''node'', pb_poolGroup = Missing, pb_mountPath = Present ''/mnt/a'',
       pb_mountPolicy = Missing, pb_capacityPolicy = Missing, pb_capacityLimit = Present ''1Gi'',
       pb_scanEpoch = Missing, pb_status = Missing\<rparr>\<rparr>"

theorem SetPoolStatus_roundtrip_witness:
  "\<exists>obj' p. setPoolStatus_apply ''node'' (zero_status\<lparr>ps_RegistrationApproved := True\<rparr>) sample_pool_object = Inr obj' \<and>
     poolFrom obj' = Inr p \<and> ps_RegistrationApproved (pl_Status p)"
proof -
  let ?s = "zero_status\<lparr>ps_RegistrationApproved := True\<rparr>"
  have "\<exists>obj'. setPoolStatus_apply ''node'' ?s sample_pool_object = Inr obj'"
    by (simp add: setPoolStatus_apply_def sample_pool_object_def poolFrom_def zero_status_def Let_def)
  then obtain obj' where w: "setPoolStatus_apply ''node'' ?s sample_pool_object = Inr obj'" ..
  from SetPoolStatus_roundtrip [OF w] obtain p
    where "poolFrom obj' = Inr (p\<lparr>pl_Status := ?s\<lparr>ps_CapacityProbe := ps_CapacityProbe (pl_Status p)\<rparr>\<rparr>)"
    by blast
  with w show ?thesis by (intro exI conjI) auto
qed

text \<open>A pool incarnation whose status carries the capacity identity \<open>u\<close>.\<close>

definition anchored :: "string \<Rightarrow> CapacityUnit \<Rightarrow> pool_object \<Rightarrow> bool" where
  "anchored uid u obj \<longleftrightarrow> (ao_UID obj = uid \<longrightarrow>
     (\<exists>p. poolFrom obj = Inr p \<and> ps_CapacityUnit (pl_Status p) = Some u))"

lemma poolFrom_stored:
  assumes "poolFrom obj = Inr p" and "stored_as obj kept"
  shows "poolFrom kept = Inr (p\<lparr>pl_Generation := ao_Generation kept\<rparr>)"
  using assms by (auto simp: poolFrom_def Let_def stored_as_def annotation_def)

lemma anchored_stored:
  assumes "anchored uid u obj" and "stored_as obj kept"
  shows "anchored uid u kept"
  using assms poolFrom_stored [OF _ assms(2)] by (fastforce simp: anchored_def stored_as_def)

interpretation anchor: object_invariant "anchored uid u" for uid u
  by unfold_locales (rule anchored_stored)

lemma anchored_same_body:
  assumes "anchored uid u obj" and "ao_UID obj' = ao_UID obj" and "pb_status (ao_Body obj') = pb_status (ao_Body obj)"
  shows "anchored uid u obj'"
  using assms by (fastforce simp: anchored_def poolFrom_def Let_def split: api_field.splits)

lemma anchored_setPoolStatus:
  assumes "anchored uid u obj" and "setPoolStatus_apply nodeName status obj = Inr obj'"
  shows "anchored uid u obj'"
  using assms(2)
proof (rule setPoolStatus_written)
  fix p
  assume "poolFrom obj = Inr p" and "poolFrom obj' = Inr (p\<lparr>pl_Status := status\<lparr>ps_CapacityProbe := ps_CapacityProbe (pl_Status p)\<rparr>\<rparr>)"
    and "ps_CapacityUnit (pl_Status p) \<noteq> None \<longrightarrow> ps_CapacityUnit status = ps_CapacityUnit (pl_Status p)"
    and "ao_UID obj' = ao_UID obj"
  with assms(1) show ?thesis by (auto simp: anchored_def)
qed

lemma anchored_recordProbe:
  assumes "anchored uid u obj" and "recordProbe_apply expected result obj = Inr obj'"
  shows "anchored uid u obj'"
proof (cases "ao_UID obj = uid")
  case True
  with assms(1) obtain p where p: "poolFrom obj = Inr p" "ps_CapacityUnit (pl_Status p) = Some u"
    by (auto simp: anchored_def)
  with poolFrom_status [OF p(1)] obtain m where m: "pb_status (ao_Body obj) = Present m" "decodePoolStatus m = Inr (pl_Status p)"
    by (auto simp: zero_status_def split: api_field.splits)
  from assms(2) m have obj': "obj' = obj\<lparr>ao_Body := (ao_Body obj)\<lparr>pb_status := Present (m\<lparr>sm_capacityProbe := Present result\<rparr>)\<rparr>\<rparr>"
    by (auto simp: recordProbe_apply_def Let_def split: if_splits)
  from poolFrom_set_status [OF p(1) decode_update_probe [OF m(2)]] p(2) show ?thesis
    by (simp add: obj' anchored_def)
next
  case False
  moreover have "ao_UID obj' = ao_UID obj"
    using assms(2) by (auto simp: recordProbe_apply_def Let_def split: if_splits)
  ultimately show ?thesis by (simp add: anchored_def)
qed

lemma anchored_annotation: "anchored uid u obj \<Longrightarrow> anchored uid u (set_annotation key v obj)"
  by (erule anchored_same_body) (simp_all add: set_annotation_def)

lemma anchored_poolScan:
  assumes "client_writes stored client" and "all_stored (anchored uid u) stored (snd s)"
  shows "all_stored (anchored uid u) stored (snd (snd (poolScan_attempt client target s)))"
proof -
  obtain g w where s: "s = (g, w)" by (cases s)
  show ?thesis
  proof (cases "api_Get client w (ci_PoolName target)")
    case (Inl e)
    with assms(2) s show ?thesis by (simp add: poolScan_attempt_def)
  next
    case (Inr pool)
    let ?pool = "pool\<lparr>ao_Body := (ao_Body pool)\<lparr>pb_scanEpoch := Present (field_or 0 (pb_scanEpoch (ao_Body pool)) + 1)\<rparr>\<rparr>"
    have "stored w (ci_PoolName target) = Some pool" using Inr assms(1) by (simp add: client_writes_def)
    with assms(2) s have "anchored uid u pool" by (simp add: all_stored_def)
    then have "anchored uid u ?pool" by (rule anchored_same_body) simp_all
    from anchor.write_good [OF _ _ this, of stored w "api_Update client w ?pool"] assms s
    have "all_stored (anchored uid u) stored (snd (api_Update client w ?pool))"
      by (simp add: client_writes_def)
    with Inr assms(2) s show ?thesis
      by (cases "api_Update client w ?pool"; cases "fst (api_Update client w ?pool)")
        (auto simp: poolScan_attempt_def Let_def)
  qed
qed

text \<open>The writes of the registry to pools, with any arguments.\<close>

inductive pool_write :: "k8s_lib \<Rightarrow> ('w, pool_body) api_client \<Rightarrow> ('w closure \<Rightarrow> 'w closure) \<Rightarrow>
    ((int \<times> 'w) closure \<Rightarrow> (int \<times> 'w) closure) \<Rightarrow> 'w \<Rightarrow> 'w \<Rightarrow> bool" for k client retry retry_scan where
  "pool_write k client retry retry_scan w (snd (SetPoolStatus (Some client) retry name uid nodeName status w))"
| "pool_write k client retry retry_scan w (snd (EnsurePoolFinalizer (Some client) retry name uid w))"
| "pool_write k client retry retry_scan w (snd (RemovePoolFinalizer (Some client) retry name uid w))"
| "pool_write k client retry retry_scan w (snd (ApprovePoolIdentityRelease (Some client) retry name uid w))"
| "pool_write k client retry retry_scan w (snd (ApprovePoolRetirement k (Some client) retry name uid w))"
| "pool_write k client retry retry_scan w (snd (RequestPoolCapacityProbe (Some client) retry expected request w))"
| "pool_write k client retry retry_scan w (snd (RecordPoolCapacityProbe (Some client) retry expected result w))"
| "pool_write k client retry retry_scan w (snd (RequestPoolScan (Some client) retry_scan target w))"

lemma pool_write_anchored:
  assumes "pool_write k client retry retry_scan w w'" and "client_writes stored client"
    and "retries_on_conflict retry" and "retries_on_conflict retry_scan"
    and "all_stored (anchored uid u) stored w"
  shows "all_stored (anchored uid u) stored w'"
proof -
  note mutate = anchor.mutateObject_good [OF assms(2,3,5)]
  note final = anchor.updateObjectFinalizer_good [OF assms(2,3,5)]
  have fin: "anchored uid u (obj\<lparr>ao_Finalizers := fs\<rparr>)" if "anchored uid u obj" for obj fs
    using that by (rule anchored_same_body) simp_all
  from assms(1) show ?thesis
  proof cases
    case (1 name uid nodeName status)
    then show ?thesis using assms(5)
      by (auto simp: SetPoolStatus_def validate_client_def intro!: mutate intro: anchored_setPoolStatus)
  next
    case (2 name uid)
    then show ?thesis by (simp add: EnsurePoolFinalizer_def final fin)
  next
    case (3 name uid)
    then show ?thesis by (simp add: RemovePoolFinalizer_def final fin)
  next
    case (4 name uid)
    then show ?thesis using assms(5)
      by (auto simp: ApprovePoolIdentityRelease_def validate_client_def approveRelease_apply_def
          intro!: mutate anchored_annotation split: if_splits)
  next
    case (5 name uid)
    then show ?thesis using assms(5)
      by (auto simp: ApprovePoolRetirement_def validate_client_def approveRetirement_apply_def
          intro!: mutate anchored_annotation split: if_splits)
  next
    case (6 expected request)
    then show ?thesis using assms(5)
      by (auto simp: RequestPoolCapacityProbe_def poolProbe_apply_def intro!: mutate anchored_annotation
          split: if_splits)
  next
    case (7 expected result)
    then show ?thesis
      by (auto simp: RecordPoolCapacityProbe_def poolProbe_apply_def intro!: mutate
          elim!: anchored_recordProbe split: if_splits)
  next
    case (8 target)
    have "all_stored (anchored uid u) stored (snd (snd (retry_scan (poolScan_attempt client target) (0, w))))"
      by (rule retry_invariant [OF assms(4), where P = "\<lambda>s. all_stored (anchored uid u) stored (snd s)"])
        (use assms(5) anchored_poolScan [OF assms(2)] in auto)
    then show ?thesis
      using 8 by (cases "retry_scan (poolScan_attempt client target) (0, w)")
        (auto simp: RequestPoolScan_def split: option.splits)
  qed
qed

text \<open>
  C16. A pool's capacity identity is an anchor: once a pool incarnation's status records a capacity
  unit, no sequence of registry writes with whatever arguments (status, finalizers, release and
  retirement approvals, probes, scan requests), with failed, ambiguous or repeated writes, ever
  changes or clears it.
\<close>

theorem capacity_anchor_kept:
  assumes "(pool_write k client retry retry_scan)\<^sup>*\<^sup>* w w'" and "client_writes stored client"
    and "retries_on_conflict retry" and "retries_on_conflict retry_scan"
    and "\<forall>n obj. stored w n = Some obj \<longrightarrow> anchored uid u obj"
  shows "\<forall>n obj. stored w' n = Some obj \<longrightarrow> anchored uid u obj"
  using assms(1,5)
proof (induction rule: rtranclp_induct)
  case (step y z)
  then show ?case using pool_write_anchored [OF step.hyps(2) assms(2-4), of uid u] by (simp add: all_stored_def)
qed

definition sample_unit :: CapacityUnit where
  "sample_unit = \<lparr>cu_Device = ''8:0'', cu_Source = ''/dev/sda'', cu_Filesystem = ''ext4'',
     cu_Extents = [\<lparr>ex_Device = ''8:0'', ex_Start = 0, ex_Sectors = 1024\<rparr>]\<rparr>"

definition anchored_object :: pool_object where
  "anchored_object = sample_pool_object\<lparr>ao_Body := (ao_Body sample_pool_object)\<lparr>pb_status :=
     Present (encodePoolStatus (zero_status\<lparr>ps_CapacityUnit := Some sample_unit\<rparr>))\<rparr>\<rparr>"

lemma anchored_object_anchored: "anchored ''uid'' sample_unit anchored_object"
proof -
  obtain p where "poolFrom sample_pool_object = Inr p"
    by (simp add: sample_pool_object_def poolFrom_def Let_def)
  from poolFrom_set_status [OF this decode_encode_status] show ?thesis
    by (simp add: anchored_def anchored_object_def)
qed

theorem capacity_anchor_kept_witness:
  "let w = (\<lambda>_. None)(''pool'' \<mapsto> anchored_object);
       w' = snd (SetPoolStatus (Some memory_client) (\<lambda>fn. fn) ''pool'' ''uid'' ''node'' zero_status w)
   in \<forall>n obj. w' n = Some obj \<longrightarrow> anchored ''uid'' sample_unit obj"
proof -
  let ?w = "(\<lambda>_. None)(''pool'' \<mapsto> anchored_object)"
  let ?w' = "snd (SetPoolStatus (Some memory_client) (\<lambda>fn. fn) ''pool'' ''uid'' ''node'' zero_status ?w)"
  have "(pool_write sample_k8s memory_client (\<lambda>fn. fn) (\<lambda>fn. fn))\<^sup>*\<^sup>* ?w ?w'"
    by (rule r_into_rtranclp) (rule pool_write.intros)
  moreover have "\<forall>n obj. (\<lambda>w. w) ?w n = Some obj \<longrightarrow> anchored ''uid'' sample_unit obj"
    using anchored_object_anchored by simp
  ultimately have "\<forall>n obj. (\<lambda>w. w) ?w' n = Some obj \<longrightarrow> anchored ''uid'' sample_unit obj"
    by (rule capacity_anchor_kept [OF _ memory_client_writes once_retries once_retries])
  then show ?thesis by (simp only: Let_def)
qed

text \<open>
  A scan request returns a later generation: when \<open>RequestPoolScan\<close> answers, its last attempt
  read the exact protected pool incarnation of the target on the target's node, stored its scan
  epoch incremented by one within the 64-bit range, and the answer is the positive generation of
  that write, above the generation it read.
\<close>

theorem RequestPoolScan_advances:
  assumes "RequestPoolScan (Some client) retry target w = (Inr g, w')" and "retries_on_conflict retry"
  shows "\<exists>w0 pool updated epoch. api_Get client w0 (ci_PoolName target) = Inr pool \<and>
    ao_UID pool = ci_PoolUID target \<and> has_finalizer pool PoolProtectionFinalizer \<and>
    field_or [] (pb_nodeName (ao_Body pool)) = ci_NodeName target \<and>
    epoch = field_or 0 (pb_scanEpoch (ao_Body pool)) + 1 \<and> 0 < epoch \<and>
    api_Update client w0 (pool\<lparr>ao_Body := (ao_Body pool)\<lparr>pb_scanEpoch := Present epoch\<rparr>\<rparr>) = (Inr updated, w') \<and>
    g = ao_Generation updated \<and> ao_Generation pool < g \<and> 0 < g"
proof -
  obtain g' where r: "retry (poolScan_attempt client target) (0, w) = (None, g', w')" "g' = g"
    using assms(1) by (auto simp: RequestPoolScan_def split: prod.splits option.splits)
  then have "retry_run (poolScan_attempt client target) (0, w) (None, (g, w'))"
    using assms(2) unfolding retries_on_conflict_def by metis
  from retry_run_result [OF this, where P = "\<lambda>_. True"] obtain g0 w0 where
    a: "poolScan_attempt client target (g0, w0) = (None, g, w')" by auto
  then obtain pool where p: "api_Get client w0 (ci_PoolName target) = Inr pool"
    by (auto simp: poolScan_attempt_def split: sum.splits)
  let ?e = "field_or 0 (pb_scanEpoch (ao_Body pool))"
  let ?new = "pool\<lparr>ao_Body := (ao_Body pool)\<lparr>pb_scanEpoch := Present (?e + 1)\<rparr>\<rparr>"
  obtain res w1 where u: "api_Update client w0 ?new = (res, w1)" by force
  with a p obtain updated where up: "res = Inr updated"
    by (cases res) (auto simp: poolScan_attempt_def Let_def split: if_splits)
  from a p u up show ?thesis
    by (intro exI [of _ w0] exI [of _ pool] exI [of _ updated] exI [of _ "?e + 1"])
      (auto simp: poolScan_attempt_def Let_def split: if_splits)
qed

definition scan_target :: CopyIdentity where
  "scan_target = zero_copy\<lparr>ci_PoolName := ''pool'', ci_PoolUID := ''uid'', ci_NodeName := ''node''\<rparr>"

theorem RequestPoolScan_advances_witness:
  "\<exists>w'. RequestPoolScan (Some memory_client) (\<lambda>fn. fn) scan_target ((\<lambda>_. None)(''pool'' \<mapsto> sample_pool_object)) = (Inr 4, w') \<and>
     ao_Generation sample_pool_object < 4"
proof -
  let ?w = "(\<lambda>_. None)(''pool'' \<mapsto> sample_pool_object)"
  have "\<exists>w'. RequestPoolScan (Some memory_client) (\<lambda>fn. fn) scan_target ?w = (Inr 4, w')"
    by (simp add: RequestPoolScan_def poolScan_attempt_def memory_client_def memory_write_def Let_def
        scan_target_def zero_copy_def sample_pool_object_def has_finalizer_def max_int64_def)
  then obtain w' where r: "RequestPoolScan (Some memory_client) (\<lambda>fn. fn) scan_target ?w = (Inr 4, w')" ..
  from RequestPoolScan_advances [OF r once_retries] r show ?thesis by (simp add: sample_pool_object_def)
qed













lemma pool_for_node_unique:
  "pool_for_node n found ps = Inr p \<longleftrightarrow>
     (case found of None \<Rightarrow> [] | Some q \<Rightarrow> [q]) @ filter (\<lambda>q. pl_NodeName q = n \<and> \<not> RegistrationRetired q) ps = [p]"
  by (induction n found ps rule: pool_for_node.induct)
    (auto simp: duplicatePoolError_def filter_empty_conv split: option.splits)

text \<open>
  A node's pool is unambiguous: when \<open>PoolForNode\<close> answers, the answer is the one registration
  on that node that is not retired; with two or more such registrations it fails.
\<close>

theorem PoolForNode_unique:
  "PoolForNode r w n = Inr p \<longleftrightarrow> n \<noteq> [] \<and>
     (\<exists>pools. Pools r w = Inr pools \<and> filter (\<lambda>q. pl_NodeName q = n \<and> \<not> RegistrationRetired q) pools = [p])"
  by (simp add: PoolForNode_def bind_res_Inr pool_for_node_unique)

end
