(* ===== verification/Go_Encoding.thy ===== *)
theory Go_Encoding
  imports Go_Stdlib
begin

text \<open>
  Two encodings of Go's standard library the durable records use.

  \<^item> \<open>time.Parse(time.RFC3339Nano, s)\<close> and \<open>t.UTC().Format(time.RFC3339Nano)\<close> on civil times, with
    the round trip: every time the code formats is one the code accepts when it reads it back.
    The parser follows the layout \<open>2006-01-02T15:04:05.999999999Z07:00\<close> chunk by chunk.
  \<^item> \<open>encoding/json\<close> of a struct of strings, with the escapes of \<open>json.Marshal\<close>: control
    characters, quotes, the HTML characters, the two line separators and bytes that are not UTF-8.
\<close>

section \<open>Package time\<close>

record civil =
  tm_year :: nat
  tm_month :: nat
  tm_day :: nat
  tm_hour :: nat
  tm_min :: nat
  tm_sec :: nat
  tm_nsec :: nat
  tm_offset :: int

definition is_leap :: "nat \<Rightarrow> bool" where
  "is_leap y \<longleftrightarrow> y mod 4 = 0 \<and> (y mod 100 \<noteq> 0 \<or> y mod 400 = 0)"

definition days_in :: "nat \<Rightarrow> nat \<Rightarrow> nat" where
  "days_in y m = (if m = 2 then (if is_leap y then 29 else 28) else if m \<in> {4, 6, 9, 11} then 30 else 31)"

definition valid_civil :: "civil \<Rightarrow> bool" where
  "valid_civil t \<longleftrightarrow> tm_year t < 10000 \<and> 1 \<le> tm_month t \<and> tm_month t \<le> 12 \<and>
     1 \<le> tm_day t \<and> tm_day t \<le> days_in (tm_year t) (tm_month t) \<and>
     tm_hour t < 24 \<and> tm_min t < 60 \<and> tm_sec t < 60 \<and> tm_nsec t < 10 ^ 9"

text \<open>\<open>appendInt(b, n, width)\<close> for a number of at most \<open>width\<close> digits.\<close>

fun fixed_digits :: "nat \<Rightarrow> nat \<Rightarrow> string" where
  "fixed_digits 0 n = []"
| "fixed_digits (Suc w) n = fixed_digits w (n div 10) @ [digit_char (n mod 10)]"

definition append_int :: "nat \<Rightarrow> nat \<Rightarrow> string" where
  "append_int w n = (if n < 10 ^ w then fixed_digits w n else print_nat n)"

definition trim_zeros :: "string \<Rightarrow> string" where
  "trim_zeros s = rev (dropWhile (\<lambda>c. c = CHR ''0'') (rev s))"

definition append_nano :: "nat \<Rightarrow> string" where
  "append_nano n = (let ds = trim_zeros (fixed_digits 9 n) in if ds = [] then [] else CHR ''.'' # ds)"

definition FormatUTC :: "civil \<Rightarrow> string" where
  "FormatUTC t = append_int 4 (tm_year t) @ ''-'' @ append_int 2 (tm_month t) @ ''-'' @ append_int 2 (tm_day t) @
     ''T'' @ append_int 2 (tm_hour t) @ '':'' @ append_int 2 (tm_min t) @ '':'' @ append_int 2 (tm_sec t) @
     append_nano (tm_nsec t) @ ''Z''"

text \<open>\<open>getnum\<close>: two digits, or one where the layout does not fix the width.\<close>

definition getnum :: "bool \<Rightarrow> string \<Rightarrow> (nat \<times> string) option" where
  "getnum fixed s = (case s of
     [] \<Rightarrow> None
   | a # r \<Rightarrow> if \<not> is_digit a then None
       else (case r of
           b # r' \<Rightarrow> if is_digit b then Some (10 * digit_value a + digit_value b, r')
             else if fixed then None else Some (digit_value a, r)
         | [] \<Rightarrow> if fixed then None else Some (digit_value a, [])))"

definition skip_char :: "char \<Rightarrow> string \<Rightarrow> string option" where
  "skip_char c s = (case s of a # r \<Rightarrow> if a = c then Some r else None | [] \<Rightarrow> None)"

definition parse_year :: "string \<Rightarrow> (nat \<times> string) option" where
  "parse_year s = (if 4 \<le> length s \<and> list_all is_digit (take 4 s)
     then Some (decimal_value (take 4 s), drop 4 s) else None)"

definition parse_fraction :: "string \<Rightarrow> nat \<times> string" where
  "parse_fraction s = (case s of
     c # d # r \<Rightarrow> if (c = CHR ''.'' \<or> c = CHR '','') \<and> is_digit d
       then (let ds = takeWhile is_digit (d # r); kept = take 9 ds in
         (decimal_value kept * 10 ^ (9 - length kept), dropWhile is_digit (d # r)))
       else (0, s)
   | _ \<Rightarrow> (0, s))"

text \<open>\<open>Z07:00\<close>: a letter Z, or a sign, two digits, a colon and two digits.\<close>

definition parse_zone :: "string \<Rightarrow> (int \<times> string) option" where
  "parse_zone s = (case s of
     [] \<Rightarrow> None
   | c # r \<Rightarrow> if c = CHR ''Z'' then Some (0, r)
       else if c = CHR ''+'' \<or> c = CHR ''-'' then
         (case getnum True r of
            Some (hh, q) \<Rightarrow> (case skip_char CHR '':'' q of
                Some q' \<Rightarrow> (case getnum True q' of
                    Some (mm, rest) \<Rightarrow> if hh \<le> 24 \<and> mm \<le> 60
                      then Some ((if c = CHR ''-'' then - 1 else 1) * int (60 * hh + mm), rest) else None
                  | None \<Rightarrow> None)
              | None \<Rightarrow> None)
          | None \<Rightarrow> None)
       else None)"

definition bind_opt :: "'a option \<Rightarrow> ('a \<Rightarrow> 'b option) \<Rightarrow> 'b option" where
  "bind_opt x f = (case x of None \<Rightarrow> None | Some v \<Rightarrow> f v)"

definition ParseTime :: "string \<Rightarrow> civil option" where
  "ParseTime s =
     bind_opt (parse_year s) (\<lambda>(y, s1). bind_opt (skip_char CHR ''-'' s1) (\<lambda>s2.
     bind_opt (getnum True s2) (\<lambda>(mo, s3). bind_opt (skip_char CHR ''-'' s3) (\<lambda>s4.
     bind_opt (getnum True s4) (\<lambda>(d, s5). bind_opt (skip_char CHR ''T'' s5) (\<lambda>s6.
     bind_opt (getnum False s6) (\<lambda>(h, s7). bind_opt (skip_char CHR '':'' s7) (\<lambda>s8.
     bind_opt (getnum True s8) (\<lambda>(mi, s9). bind_opt (skip_char CHR '':'' s9) (\<lambda>s10.
     bind_opt (getnum True s10) (\<lambda>(se, s11). case parse_fraction s11 of (ns, s12) \<Rightarrow>
     bind_opt (parse_zone s12) (\<lambda>(off, rest).
       let t = \<lparr>tm_year = y, tm_month = mo, tm_day = d, tm_hour = h, tm_min = mi, tm_sec = se,
                tm_nsec = ns, tm_offset = off\<rparr> in
       if rest = [] \<and> valid_civil t then Some t else None))))))))))))"

lemma bind_opt_simps [simp]: "bind_opt None f = None" "bind_opt (Some v) f = f v"
  by (simp_all add: bind_opt_def)

lemma skip_char_Cons [simp]: "skip_char c (c # s) = Some s"
  by (simp add: skip_char_def)

lemma fixed_digits_length [simp]: "length (fixed_digits w n) = w"
  by (induction w arbitrary: n) simp_all

lemma fixed_digits_digits: "list_all is_digit (fixed_digits w n)"
  by (induction w arbitrary: n) simp_all

lemma decimal_value_fixed: "n < 10 ^ w \<Longrightarrow> decimal_value (fixed_digits w n) = n"
proof (induction w arbitrary: n)
  case (Suc w)
  then have "n div 10 < 10 ^ w" by (simp add: less_mult_imp_div_less)
  with Suc.IH show ?case by simp
qed simp

lemma getnum_fixed: "n < 100 \<Longrightarrow> getnum f (append_int 2 n @ r) = Some (n, r)"
proof -
  assume n: "n < 100"
  then have "append_int 2 n = [digit_char (n div 10), digit_char (n mod 10)]"
    by (simp add: append_int_def numeral_2_eq_2)
  moreover have "n div 10 < 10" using n by simp
  ultimately show ?thesis by (simp add: getnum_def)
qed

lemma parse_year_fixed: "n < 10000 \<Longrightarrow> parse_year (append_int 4 n @ r) = Some (n, r)"
  using fixed_digits_digits [of 4 n] decimal_value_fixed [of n 4]
  by (simp add: parse_year_def append_int_def)

lemma decimal_value_zeros: "decimal_value (s @ replicate k CHR ''0'') = decimal_value s * 10 ^ k"
proof (induction k)
  case (Suc k)
  have "s @ replicate (Suc k) CHR ''0'' = (s @ replicate k CHR ''0'') @ [CHR ''0'']"
    by (simp add: replicate_append_same [symmetric])
  then show ?case using Suc by (simp only: decimal_value_snoc) (simp add: digit_value_def)
qed simp

lemma trim_zeros_snoc: "trim_zeros (s @ [c]) = (if c = CHR ''0'' then trim_zeros s else s @ [c])"
  by (simp add: trim_zeros_def)

lemma trim_zeros_split: "\<exists>k. trim_zeros s @ replicate k CHR ''0'' = s"
proof (induction s rule: rev_induct)
  case Nil
  show ?case by (simp add: trim_zeros_def)
next
  case (snoc c s)
  then obtain k where k: "trim_zeros s @ replicate k CHR ''0'' = s" by blast
  show ?case
  proof (cases "c = CHR ''0''")
    case True
    have "trim_zeros s @ replicate (Suc k) CHR ''0'' = (trim_zeros s @ replicate k CHR ''0'') @ [CHR ''0'']"
      by (simp add: replicate_append_same [symmetric])
    then show ?thesis using True k by (metis trim_zeros_snoc)
  next
    case False
    then have "trim_zeros (s @ [c]) @ replicate 0 CHR ''0'' = s @ [c]" by (simp add: trim_zeros_snoc)
    then show ?thesis ..
  qed
qed

lemma parse_fraction_nano: "n < 10 ^ 9 \<Longrightarrow> parse_fraction (append_nano n @ ''Z'') = (n, ''Z'')"
proof -
  assume n: "n < 10 ^ 9"
  define ds where "ds = trim_zeros (fixed_digits 9 n)"
  obtain k where split: "ds @ replicate k CHR ''0'' = fixed_digits 9 n"
    using trim_zeros_split [of "fixed_digits 9 n"] by (auto simp: ds_def)
  then have len: "length ds + k = 9" by (metis fixed_digits_length length_append length_replicate)
  have val: "decimal_value ds * 10 ^ k = n"
    using decimal_value_zeros [of ds k] decimal_value_fixed [OF n] split by simp
  have dig: "list_all is_digit ds"
    using fixed_digits_digits [of 9 n] unfolding split [symmetric] by simp
  have z: "\<not> is_digit CHR ''Z''" by (simp add: is_digit_def)
  show ?thesis
  proof (cases ds)
    case Nil
    then have "append_nano n = []" by (simp add: append_nano_def ds_def [symmetric])
    moreover have "n = 0" using val Nil by simp
    ultimately show ?thesis by (simp add: parse_fraction_def)
  next
    case (Cons d r)
    then have a: "append_nano n = CHR ''.'' # d # r" by (simp add: append_nano_def ds_def [symmetric])
    have tw: "takeWhile is_digit (d # r @ ''Z'') = d # r" "dropWhile is_digit (d # r @ ''Z'') = ''Z''"
      using dig Cons z by (simp_all add: takeWhile_append dropWhile_append list_all_iff)
    have "is_digit d" using dig Cons by simp
    moreover have "9 - length ds = k" "length ds \<le> 9" using len by simp_all
    ultimately show ?thesis using a tw val Cons
      by (simp add: parse_fraction_def Let_def)
  qed
qed

lemma parse_zone_Z [simp]: "parse_zone ''Z'' = Some (0, [])"
  by (simp add: parse_zone_def)

lemma ParseTime_Format:
  assumes "valid_civil t" and "tm_offset t = 0"
  shows "ParseTime (FormatUTC t) = Some t"
proof -
  have b: "tm_month t < 100" "tm_day t < 100" "tm_hour t < 100" "tm_min t < 100" "tm_sec t < 100"
    "tm_year t < 10000" "tm_nsec t < 10 ^ 9"
    using assms(1) by (auto simp: valid_civil_def days_in_def split: if_splits)
  have "\<lparr>tm_year = tm_year t, tm_month = tm_month t, tm_day = tm_day t, tm_hour = tm_hour t, tm_min = tm_min t,
      tm_sec = tm_sec t, tm_nsec = tm_nsec t, tm_offset = 0\<rparr> = t"
    using assms(2) by (cases t) simp
  with assms(1) show ?thesis
    by (simp add: ParseTime_def FormatUTC_def parse_year_fixed getnum_fixed
        parse_fraction_nano [simplified] b [simplified])
qed

definition sample_time :: civil where
  "sample_time = \<lparr>tm_year = 2026, tm_month = 2, tm_day = 3, tm_hour = 4, tm_min = 5, tm_sec = 6,
     tm_nsec = 70, tm_offset = 0\<rparr>"

lemma sample_time_valid [simp]: "valid_civil sample_time" "tm_offset sample_time = 0"
  by (simp_all add: sample_time_def valid_civil_def days_in_def)

lemma FormatUTC_nonempty [simp]: "FormatUTC t \<noteq> []"
  by (simp add: FormatUTC_def)

section \<open>Package encoding/json\<close>

definition byte_at :: "string \<Rightarrow> nat \<Rightarrow> nat" where
  "byte_at s i = (if i < length s then of_char (s ! i) else 0)"

text \<open>\<open>utf8.DecodeRune\<close>: the length of the well-formed encoding \<open>s\<close> starts with, or 0.\<close>

definition rune_length :: "string \<Rightarrow> nat" where
  "rune_length s = (let a = byte_at s 0; b = byte_at s 1; tail = (\<lambda>i. 0x80 \<le> byte_at s i \<and> byte_at s i \<le> 0xBF) in
     if s = [] then 0
     else if a < 0x80 then 1
     else if 0xC2 \<le> a \<and> a \<le> 0xDF then (if tail 1 then 2 else 0)
     else if 0xE0 \<le> a \<and> a \<le> 0xEF then
       (if tail 1 \<and> tail 2 \<and> (a = 0xE0 \<longrightarrow> 0xA0 \<le> b) \<and> (a = 0xED \<longrightarrow> b \<le> 0x9F) then 3 else 0)
     else if 0xF0 \<le> a \<and> a \<le> 0xF4 then
       (if tail 1 \<and> tail 2 \<and> tail 3 \<and> (a = 0xF0 \<longrightarrow> 0x90 \<le> b) \<and> (a = 0xF4 \<longrightarrow> b \<le> 0x8F) then 4 else 0)
     else 0)"

definition json_byte :: "char \<Rightarrow> string" where
  "json_byte c = (let n = of_char c :: nat; back = char_of (92 :: nat) in
     if n = 34 \<or> n = 92 then [back, c]
     else if n = 8 then [back, CHR ''b''] else if n = 12 then [back, CHR ''f'']
     else if n = 10 then [back, CHR ''n''] else if n = 13 then [back, CHR ''r'']
     else if n = 9 then [back, CHR ''t'']
     else if n < 32 \<or> n = 60 \<or> n = 62 \<or> n = 38
     then back # ''u00'' @ [hex_digit (n div 16), hex_digit (n mod 16)]
     else [c])"

definition json_rune :: "string \<Rightarrow> string" where
  "json_rune r = (if r = byte_string [0xE2, 0x80, 0xA8] then char_of (92 :: nat) # ''u2028''
     else if r = byte_string [0xE2, 0x80, 0xA9] then char_of (92 :: nat) # ''u2029'' else r)"

function json_chars :: "string \<Rightarrow> string" where
  "json_chars [] = []"
| "json_chars (c # cs) = (let n = rune_length (c # cs) in
     if n = 0 then char_of (92 :: nat) # ''ufffd'' @ json_chars cs
     else if n = 1 then json_byte c @ json_chars cs
     else json_rune (take n (c # cs)) @ json_chars (drop n (c # cs)))"
  by pat_completeness auto
termination by (relation "measure length") auto

definition json_string :: "string \<Rightarrow> string" where
  "json_string s = CHR 0x22 # json_chars s @ [CHR 0x22]"

text \<open>An object whose members are all strings, in the order of the struct.\<close>

definition json_object :: "(string \<times> string) list \<Rightarrow> string" where
  "json_object kvs = CHR ''{'' # join_with CHR '','' (map (\<lambda>(k, v). json_string k @ CHR '':'' # json_string v) kvs) @ ''}''"

section \<open>Package fmt\<close>

definition print_int :: "int \<Rightarrow> string" where
  "print_int n = (if n < 0 then CHR ''-'' # print_nat (nat (- n)) else print_nat (nat n))"

end
