(* ===== verification/Cleanup_Journal.thy ===== *)
theory Cleanup_Journal
  imports Go_Encoding Pool_State
begin

text \<open>
  The cleanup journal (\<open>src/kubernetes/cleanupapi\<close>): the record on a volume or a Move that proves
  the removal of one copy.

  \<^item> the records and their validation (\<open>journal.go\<close>, \<open>executor.go\<close>);
  \<^item> \<open>transitionRules\<close>: the ordered rules on every write of a status (\<open>transition.go\<close>), an
    instance of \<open>rule_chain\<close>;
  \<^item> the store (\<open>store.go\<close>): \<open>Ensure\<close>, the reads, and \<open>UpdateStatus\<close> with the variable \<open>next\<close> that
    its retried closure captures;
  \<^item> the absence proof (\<open>absence.go\<close>): a scan of the pool that was requested after the receipt.

  A parent's body is any record that extends \<open>journal_body\<close>. The clock yields civil times and
  moves on with each reading.
\<close>

section \<open>Records\<close>

abbreviation CleanupPending :: string where "CleanupPending \<equiv> ''Pending''"
abbreviation PhaseRunning :: string where "PhaseRunning \<equiv> ''Running''"
abbreviation PhaseVerifying :: string where "PhaseVerifying \<equiv> ''Verifying''"
abbreviation PhaseConfirmingAbsence :: string where "PhaseConfirmingAbsence \<equiv> ''ConfirmingAbsence''"
abbreviation PhaseCompleted :: string where "PhaseCompleted \<equiv> ''Completed''"
abbreviation PhaseNeedsReview :: string where "PhaseNeedsReview \<equiv> ''NeedsReview''"
abbreviation ExecutorNode :: string where "ExecutorNode \<equiv> ''Node''"
abbreviation KindVolume :: string where "KindVolume \<equiv> ''ShiftPVVolume''"
abbreviation KindMove :: string where "KindMove \<equiv> ''ShiftPVMove''"
abbreviation VolumeProtectionFinalizer :: string where "VolumeProtectionFinalizer \<equiv> ''shiftpv.io/volume-protection''"
abbreviation MoveProtectionFinalizer :: string where "MoveProtectionFinalizer \<equiv> ''shiftpv.io/move-protection''"

record Authority =
  au_Kind :: string
  au_Name :: string
  au_UID :: string

record Spec =
  sp_OperationID :: string
  sp_Target :: CopyIdentity
  sp_Reason :: string
  sp_Authority :: Authority

record Executor =
  er_Kind :: string
  er_Namespace :: string
  er_PodName :: string
  er_JobName :: string
  er_JobUID :: string
  er_PodUID :: string
  er_NodeName :: string

record Receipt =
  rc_OperationID :: string
  rc_ExecutorUID :: string
  rc_ObservedAt :: string
  rc_Retired :: bool
  rc_Purged :: bool
  rc_LocalReceiptDigest :: string

record AbsenceProof =
  ap_RequestID :: string
  ap_PoolName :: string
  ap_PoolUID :: string
  ap_RequiredGeneration :: int
  ap_ObservedGeneration :: int
  ap_Valid :: bool
  ap_Complete :: bool
  ap_Absent :: bool
  ap_ConfirmedAt :: string

record Status =
  st_Phase :: string
  st_ObservedGeneration :: int
  st_Reason :: string
  st_Message :: string
  st_LastTransitionTime :: string
  st_Executor :: "Executor option"
  st_Receipt :: "Receipt option"
  st_AbsenceProof :: "AbsenceProof option"
  st_SettledAt :: string

record Cleanup =
  cl_Name :: string
  cl_UID :: string
  cl_Spec :: Spec
  cl_Status :: Status

record journal =
  jn_Spec :: Spec
  jn_Status :: Status

definition cleanupName :: "CopyIdentity \<Rightarrow> string" where
  "cleanupName target = (let encoded = json_object
       [(''installationID'', ci_InstallationID target), (''poolName'', ci_PoolName target),
        (''poolUID'', ci_PoolUID target), (''volumeID'', ci_VolumeID target),
        (''volumeUID'', ci_VolumeUID target), (''copyID'', ci_CopyID target),
        (''nodeName'', ci_NodeName target), (''role'', ci_Role target)]
     in ''shiftpv-cleanup-'' @ EncodeToString (take 16 (Sum256 (string_bytes encoded))))"

definition ExecutionUID :: "Executor \<Rightarrow> string" where
  "ExecutionUID e = (if er_Kind e = ExecutorNode then er_PodUID e else er_JobUID e)"

definition ValidExecutor :: "Executor \<Rightarrow> bool" where
  "ValidExecutor e = (if \<not> ValidObjectName (er_NodeName e) then False
     else if er_Kind e = ExecutorNode
     then er_JobName e = [] \<and> er_JobUID e = [] \<and> ValidObjectName (er_Namespace e) \<and>
       ValidObjectName (er_PodName e) \<and> ValidIdentityToken (er_PodUID e)
     else er_Kind e = [] \<and> er_Namespace e = [] \<and> er_PodName e = [] \<and>
       ValidObjectName (er_JobName e) \<and> ValidIdentityToken (er_JobUID e))"

definition ValidateAuthority :: "Authority \<Rightarrow> error option" where
  "ValidateAuthority a = (if \<not> ValidObjectName (au_Name a) \<or> \<not> ValidIdentityToken (au_UID a)
     then Some (Errorf ''invalid cleanup parent identity'')
     else if au_Kind a = KindVolume \<or> au_Kind a = KindMove then None
     else Some (Errorf ''invalid cleanup authority''))"

definition ValidateSpec :: "Spec \<Rightarrow> error option" where
  "ValidateSpec s = (let a = sp_Authority s; target = sp_Target s in
     if \<not> ValidIdentityToken (sp_OperationID s) \<or> ValidateCopy target \<noteq> None
     then Some (Errorf ''invalid cleanup identity'')
     else case ValidateAuthority a of
       Some e \<Rightarrow> Some e
     | None \<Rightarrow>
         if sp_Reason s = ''VolumeDelete'' \<or> sp_Reason s = ''CreationCancelled'' then
           if au_Kind a \<noteq> KindVolume \<or> au_Name a \<noteq> ci_VolumeID target \<or> au_UID a \<noteq> ci_VolumeUID target
           then Some (Errorf ''volume cleanup authority does not match the target'')
           else if sp_Reason s = ''CreationCancelled'' \<and> \<not> IsCreationCancellation target (sp_OperationID s)
           then Some (Errorf ''creation cancellation must identify the original initial copy'')
           else if sp_Reason s = ''VolumeDelete'' \<and> sp_OperationID s = CreationCancellationPrefix @ ci_VolumeUID target
           then Some (Errorf ''creation cancellation requires its own cleanup reason'')
           else None
         else if sp_Reason s = ''MoveSource'' \<or> sp_Reason s = ''MoveRollback'' then
           if au_Kind a \<noteq> KindMove then Some (Errorf ''move cleanup requires ShiftPVMove authority'') else None
         else Some (Errorf ''invalid cleanup reason''))"

section \<open>The journal on its parent\<close>

text \<open>\<open>status.cleanup\<close> of a volume or a Move; the other fields are the record's extension.\<close>

record journal_body =
  jb_cleanup :: "journal api_field"

type_synonym 'b parent_object = "'b journal_body_scheme api_object"

definition validateParentIdentity :: "'b parent_object \<Rightarrow> Authority \<Rightarrow> error option" where
  "validateParentIdentity obj a = (if ao_UID obj \<noteq> au_UID a \<or> ao_Name obj \<noteq> au_Name a
     then Some (Wrapped ErrConflict ''cleanup parent identity changed'') else None)"

definition validateParent :: "'b parent_object \<Rightarrow> Authority \<Rightarrow> string \<Rightarrow> error option" where
  "validateParent obj a finalizer = (case validateParentIdentity obj a of
     Some e \<Rightarrow> Some e
   | None \<Rightarrow> if has_finalizer obj finalizer then None
       else Some (Wrapped ErrConflict ''cleanup parent lacks its protection''))"

definition journalFromParent :: "'b parent_object \<Rightarrow> Cleanup option res" where
  "journalFromParent obj = (case jb_cleanup (ao_Body obj) of
     Missing \<Rightarrow> Inr None
   | Malformed \<Rightarrow> Inl (Errorf ''decode cleanup journal'')
   | Present j \<Rightarrow>
       guard_err (ValidateSpec (jn_Spec j))
         (let a = sp_Authority (jn_Spec j) in
          if au_Kind a \<noteq> ao_Kind obj \<or> au_Name a \<noteq> ao_Name obj \<or> au_UID a \<noteq> ao_UID obj
          then Inl (Wrapped ErrConflict ''embedded cleanup authority does not match its parent'')
          else Inr (Some \<lparr>cl_Name = cleanupName (sp_Target (jn_Spec j)), cl_UID = ao_UID obj,
                 cl_Spec = jn_Spec j, cl_Status = jn_Status j\<rparr>)))"

definition setJournal :: "'b parent_object \<Rightarrow> journal \<Rightarrow> 'b parent_object" where
  "setJournal obj stored = obj\<lparr>ao_Body := (ao_Body obj)\<lparr>jb_cleanup := Present stored\<rparr>\<rparr>"

section \<open>The transition rules\<close>

type_synonym transition_request = "Cleanup \<times> string \<times> Status"
type_synonym transition_rule = "transition_request \<Rightarrow> error option"

definition parses_time :: "string \<Rightarrow> bool" where
  "parses_time s \<longleftrightarrow> ParseTime s \<noteq> None"

definition allowed_edges :: "string \<Rightarrow> string list" where
  "allowed_edges phase = (
     if phase = CleanupPending then [CleanupPending, PhaseRunning, PhaseNeedsReview]
     else if phase = PhaseRunning then [PhaseRunning, PhaseVerifying, PhaseNeedsReview]
     else if phase = PhaseVerifying then [PhaseVerifying, PhaseConfirmingAbsence, PhaseNeedsReview]
     else if phase = PhaseConfirmingAbsence then [PhaseConfirmingAbsence, PhaseCompleted, PhaseNeedsReview]
     else if phase = PhaseCompleted then [PhaseCompleted]
     else if phase = PhaseNeedsReview then [PhaseNeedsReview]
     else [])"

definition validatePhaseEdge :: transition_rule where
  "validatePhaseEdge = (\<lambda>(current, phase, new).
     if st_Phase new \<notin> set (allowed_edges phase)
     then Some (Wrapped ErrConflict ''phase cannot transition'') else None)"

definition executorTransitionAllowed :: "string \<Rightarrow> string \<Rightarrow> Executor option \<Rightarrow> Executor option \<Rightarrow>
    Receipt option \<Rightarrow> Receipt option \<Rightarrow> bool" where
  "executorTransitionAllowed currentPhase nextPhase current new currentReceipt nextReceipt = (
     if current = new then True
     else currentPhase = PhaseRunning \<and> nextPhase = PhaseRunning \<and> currentReceipt = None \<and> nextReceipt = None \<and>
       (case (current, new) of
          (Some c, Some n) \<Rightarrow> ValidIdentityToken (er_PodUID n) \<and> ValidExecutor n \<and> er_Kind c = er_Kind n \<and>
            er_Namespace c = er_Namespace n \<and> er_JobName c = er_JobName n \<and> er_JobUID c = er_JobUID n \<and>
            er_NodeName c = er_NodeName n
        | _ \<Rightarrow> False))"

definition validateExecutorRule :: transition_rule where
  "validateExecutorRule = (\<lambda>(current, phase, new).
     if st_Executor (cl_Status current) \<noteq> None \<and>
        \<not> executorTransitionAllowed phase (st_Phase new) (st_Executor (cl_Status current)) (st_Executor new)
            (st_Receipt (cl_Status current)) (st_Receipt new)
     then Some (Wrapped ErrConflict ''executor identity is immutable'')
     else if st_Phase new = PhaseRunning \<and> (case st_Executor new of None \<Rightarrow> True | Some e \<Rightarrow> \<not> ValidExecutor e)
     then Some (Wrapped ErrConflict ''Running requires an executor'')
     else None)"

definition validateReceiptRule :: transition_rule where
  "validateReceiptRule = (\<lambda>(current, phase, new).
     if st_Receipt (cl_Status current) \<noteq> None \<and> st_Receipt (cl_Status current) \<noteq> st_Receipt new
     then Some (Wrapped ErrConflict ''receipt is immutable'')
     else case st_Receipt new of
       None \<Rightarrow> None
     | Some r \<Rightarrow>
         if (case st_Executor new of None \<Rightarrow> True
             | Some e \<Rightarrow> rc_OperationID r \<noteq> sp_OperationID (cl_Spec current) \<or> rc_ExecutorUID r \<noteq> ExecutionUID e)
         then Some (Wrapped ErrConflict ''receipt identity does not match intent and executor'')
         else if \<not> parses_time (rc_ObservedAt r) then Some (Wrapped ErrConflict ''invalid receipt time'')
         else None)"

definition validSHA256Digest :: "string \<Rightarrow> bool" where
  "validSHA256Digest v = (case DecodeString v of
     None \<Rightarrow> False
   | Some decoded \<Rightarrow> length decoded = 32 \<and> EncodeToString decoded = v)"

definition validPurgedReceipt :: "Cleanup \<Rightarrow> Status \<Rightarrow> bool" where
  "validPurgedReceipt cleanup status = (case (st_Executor status, st_Receipt status) of
     (Some e, Some r) \<Rightarrow> ValidExecutor e \<and> ValidIdentityToken (er_PodUID e) \<and>
       er_NodeName e = ci_NodeName (sp_Target (cl_Spec cleanup)) \<and>
       rc_OperationID r = sp_OperationID (cl_Spec cleanup) \<and> rc_ExecutorUID r = ExecutionUID e \<and>
       rc_Retired r \<and> rc_Purged r \<and> validSHA256Digest (rc_LocalReceiptDigest r) \<and> parses_time (rc_ObservedAt r)
   | _ \<Rightarrow> False)"

definition validateVerifyingRule :: transition_rule where
  "validateVerifyingRule = (\<lambda>(current, phase, new).
     if st_Phase new = PhaseVerifying \<and> (\<not> validPurgedReceipt current new \<or> st_AbsenceProof new \<noteq> None)
     then Some (Wrapped ErrConflict ''Verifying requires a Pod-bound executor and only the API receipt'')
     else None)"

definition sameAbsenceFence :: "AbsenceProof \<Rightarrow> AbsenceProof \<Rightarrow> bool" where
  "sameAbsenceFence current new \<longleftrightarrow> ap_RequestID current = ap_RequestID new \<and> ap_PoolName current = ap_PoolName new \<and>
     ap_PoolUID current = ap_PoolUID new \<and> ap_RequiredGeneration current = ap_RequiredGeneration new"

definition validateFenceIdentityRule :: transition_rule where
  "validateFenceIdentityRule = (\<lambda>(current, phase, new).
     case st_AbsenceProof (cl_Status current) of
       None \<Rightarrow> None
     | Some p \<Rightarrow>
         if (case st_AbsenceProof new of None \<Rightarrow> True | Some q \<Rightarrow> \<not> sameAbsenceFence p q)
         then Some (Wrapped ErrConflict ''absence fence identity is immutable'')
         else if ap_ConfirmedAt p \<noteq> [] \<and> st_AbsenceProof new \<noteq> Some p
         then Some (Wrapped ErrConflict ''confirmed absence proof is immutable'')
         else None)"

definition validAbsenceFence :: "CopyIdentity \<Rightarrow> AbsenceProof option \<Rightarrow> bool" where
  "validAbsenceFence target proof = (case proof of
     None \<Rightarrow> False
   | Some p \<Rightarrow> ValidIdentityToken (ap_RequestID p) \<and> ap_PoolName p = ci_PoolName target \<and>
       ap_PoolUID p = ci_PoolUID target \<and> 0 < ap_RequiredGeneration p)"

definition validateConfirmationRule :: transition_rule where
  "validateConfirmationRule = (\<lambda>(current, phase, new).
     if st_Phase new \<noteq> PhaseConfirmingAbsence \<and> st_Phase new \<noteq> PhaseCompleted then None
     else if \<not> validPurgedReceipt current new \<or> \<not> validAbsenceFence (sp_Target (cl_Spec current)) (st_AbsenceProof new)
     then Some (Wrapped ErrConflict ''cleanup confirmation requires a post-receipt absence fence'')
     else None)"

definition confirmedAbsence :: "AbsenceProof option \<Rightarrow> bool" where
  "confirmedAbsence proof = (case proof of
     None \<Rightarrow> False
   | Some p \<Rightarrow> ap_Valid p \<and> ap_Complete p \<and> ap_Absent p \<and> ap_RequiredGeneration p \<le> ap_ObservedGeneration p \<and>
       ap_ConfirmedAt p \<noteq> [] \<and> parses_time (ap_ConfirmedAt p))"

definition validateCompletedRule :: transition_rule where
  "validateCompletedRule = (\<lambda>(current, phase, new).
     if st_Phase new \<noteq> PhaseCompleted then None
     else if \<not> confirmedAbsence (st_AbsenceProof new) \<or> st_SettledAt new = []
     then Some (Wrapped ErrConflict ''Completed requires a purged receipt and later complete exact absence proof'')
     else if \<not> parses_time (st_SettledAt new) then Some (Wrapped ErrConflict ''invalid settlement time'')
     else None)"

definition transitionRules :: "transition_rule list" where
  "transitionRules = [validatePhaseEdge, validateExecutorRule, validateReceiptRule, validateVerifyingRule,
     validateFenceIdentityRule, validateConfirmationRule, validateCompletedRule]"

fun apply_rules :: "transition_rule list \<Rightarrow> transition_rule" where
  "apply_rules [] x = None"
| "apply_rules (r # rs) x = (case r x of Some e \<Rightarrow> Some e | None \<Rightarrow> apply_rules rs x)"

definition effective_phase :: "Cleanup \<Rightarrow> string" where
  "effective_phase current = (if st_Phase (cl_Status current) = [] then CleanupPending else st_Phase (cl_Status current))"

definition validateTransition :: "Cleanup \<Rightarrow> Status \<Rightarrow> error option" where
  "validateTransition current new = apply_rules transitionRules (current, effective_phase current, new)"

interpretation tr: rule_chain transitionRules "apply_rules transitionRules"
proof
  show "apply_rules transitionRules x = first_error (map (\<lambda>r. r x) transitionRules)" for x
  proof -
    have "apply_rules rs x = first_error (map (\<lambda>r. r x) rs)" for rs
      by (induction rs) (auto split: option.splits)
    then show ?thesis .
  qed
qed

end
