(* ===== verification/Cleanup_Store.thy ===== *)
theory Cleanup_Store
  imports Cleanup_Journal
begin

text \<open>
  The store of cleanup journals (\<open>src/kubernetes/cleanupapi/store.go\<close> and \<open>absence.go\<close>).

  A \<open>Store\<close> holds the clients of the three resources, the clock, and \<open>retry.RetryOnConflict\<close> at
  the types of the variables its three closures capture: the result of \<open>Ensure\<close>, the status
  \<open>next\<close> of \<open>UpdateStatus\<close>, the generation of a requested scan. A missing store or client is
  \<open>None\<close>.
\<close>

record ('w, 'b) Store =
  sr_Volumes :: "('w, 'b journal_body_scheme) api_client"
  sr_Moves :: "('w, 'b journal_body_scheme) api_client"
  sr_Pools :: "('w, pool_body) api_client"
  sr_Now :: "'w \<Rightarrow> civil \<times> 'w"
  sr_RetryEnsure :: "(Cleanup \<times> 'w) closure \<Rightarrow> (Cleanup \<times> 'w) closure"
  sr_RetryUpdate :: "(Status \<times> 'w) closure \<Rightarrow> (Status \<times> 'w) closure"
  sr_RetryScan :: "(int \<times> 'w) closure \<Rightarrow> (int \<times> 'w) closure"

abbreviation errNoClient :: error where "errNoClient \<equiv> Errorf ''Kubernetes dynamic client is required''"

definition zero_journal_status :: Status where
  "zero_journal_status = \<lparr>st_Phase = [], st_ObservedGeneration = 0, st_Reason = [], st_Message = [],
     st_LastTransitionTime = [], st_Executor = None, st_Receipt = None, st_AbsenceProof = None, st_SettledAt = []\<rparr>"

definition zero_cleanup :: Cleanup where
  "zero_cleanup = \<lparr>cl_Name = [], cl_UID = [],
     cl_Spec = \<lparr>sp_OperationID = [], sp_Target = zero_copy, sp_Reason = [],
       sp_Authority = \<lparr>au_Kind = [], au_Name = [], au_UID = []\<rparr>\<rparr>,
     cl_Status = zero_journal_status\<rparr>"

definition parentResource :: "('w, 'b) Store \<Rightarrow> Authority \<Rightarrow> (('w, 'b journal_body_scheme) api_client \<times> string) res" where
  "parentResource s a = guard_err (ValidateAuthority a)
     (if au_Kind a = KindVolume then Inr (sr_Volumes s, VolumeProtectionFinalizer)
      else if au_Kind a = KindMove then Inr (sr_Moves s, MoveProtectionFinalizer)
      else Inl (Errorf ''invalid cleanup authority''))"

section \<open>Creating and reading a journal\<close>

definition ensure_attempt :: "('w, 'b) Store \<Rightarrow> Spec \<Rightarrow> (Cleanup \<times> 'w) closure" where
  "ensure_attempt s spec = (\<lambda>(result, w).
     case parentResource s (sp_Authority spec) of
       Inl e \<Rightarrow> (Some e, (result, w))
     | Inr (resource, finalizer) \<Rightarrow> (case api_Get resource w (au_Name (sp_Authority spec)) of
         Inl e \<Rightarrow> (Some e, (result, w))
       | Inr obj \<Rightarrow> (case validateParent obj (sp_Authority spec) finalizer of
           Some e \<Rightarrow> (Some e, (result, w))
         | None \<Rightarrow> (case journalFromParent obj of
             Inl e \<Rightarrow> (Some e, (result, w))
           | Inr (Some current) \<Rightarrow>
               if cl_Spec current \<noteq> spec
               then (Some (Wrapped ErrConflict ''parent cleanup slot is bound to another intent''), (result, w))
               else (None, (current, w))
           | Inr None \<Rightarrow>
               (case sr_Now s w of (now, w1) \<Rightarrow>
                let status = zero_journal_status\<lparr>st_Phase := CleanupPending,
                      st_ObservedGeneration := ao_Generation obj, st_LastTransitionTime := FormatUTC now\<rparr> in
                (case api_UpdateStatus resource w1 (setJournal obj \<lparr>jn_Spec = spec, jn_Status = status\<rparr>) of
                   (Inl e, w2) \<Rightarrow> (Some e, (result, w2))
                 | (Inr updated, w2) \<Rightarrow> (case journalFromParent updated of
                       Inl e \<Rightarrow> (Some e, (zero_cleanup, w2))
                     | Inr None \<Rightarrow> (None, (zero_cleanup, w2))
                     | Inr (Some c) \<Rightarrow> (None, (c, w2)))))))))"

definition Ensure :: "('w, 'b) Store option \<Rightarrow> Spec \<Rightarrow> 'w \<Rightarrow> Cleanup res \<times> 'w" where
  "Ensure store spec w = (case store of
     None \<Rightarrow> (Inl errNoClient, w)
   | Some s \<Rightarrow> (case ValidateSpec spec of
       Some e \<Rightarrow> (Inl e, w)
     | None \<Rightarrow> (case sr_RetryEnsure s (ensure_attempt s spec) (zero_cleanup, w) of
           (Some e, (_, w')) \<Rightarrow> (Inl (Wrapped e ''ensure parent cleanup journal''), w')
         | (None, (result, w')) \<Rightarrow> (Inr result, w'))))"

definition get_journal :: "('w, 'b) Store option \<Rightarrow> Authority \<Rightarrow> bool \<Rightarrow> 'w \<Rightarrow> Cleanup res" where
  "get_journal store a protected w = (case store of
     None \<Rightarrow> Inl errNoClient
   | Some s \<Rightarrow>
       bind_res (parentResource s a) (\<lambda>(resource, finalizer).
       bind_res (api_Get resource w (au_Name a)) (\<lambda>obj.
       guard_err (validateParentIdentity obj a)
       (guard_err (if protected then validateParent obj a finalizer else None)
       (bind_res (journalFromParent obj) (\<lambda>c. case c of
          None \<Rightarrow> Inl (Wrapped ErrNoJournal ''no journal'')
        | Some cleanup \<Rightarrow> Inr cleanup))))))"

definition GetJournal :: "('w, 'b) Store option \<Rightarrow> Authority \<Rightarrow> 'w \<Rightarrow> Cleanup res" where
  "GetJournal store a w = get_journal store a True w"

definition GetHistory :: "('w, 'b) Store option \<Rightarrow> Authority \<Rightarrow> 'w \<Rightarrow> Cleanup res" where
  "GetHistory store a w = get_journal store a False w"

fun select_journals :: "string \<Rightarrow> 'b parent_object list \<Rightarrow> Cleanup list res" where
  "select_journals volumeID [] = Inr []"
| "select_journals volumeID (obj # objs) = bind_res (journalFromParent obj) (\<lambda>found.
     bind_res (select_journals volumeID objs) (\<lambda>rest.
     Inr (case found of
            None \<Rightarrow> rest
          | Some c \<Rightarrow> if volumeID = [] \<or> ci_VolumeID (sp_Target (cl_Spec c)) = volumeID then c # rest else rest)))"

definition list_journals :: "('w, 'b) Store option \<Rightarrow> string \<Rightarrow> 'w \<Rightarrow> Cleanup list res" where
  "list_journals store volumeID w = (case store of
     None \<Rightarrow> Inl errNoClient
   | Some s \<Rightarrow>
       bind_res (bind_res (api_List (sr_Volumes s) w) (select_journals volumeID)) (\<lambda>vs.
       bind_res (bind_res (api_List (sr_Moves s) w) (select_journals volumeID)) (\<lambda>ms.
       Inr (vs @ ms))))"

definition ListJournals :: "('w, 'b) Store option \<Rightarrow> 'w \<Rightarrow> Cleanup list res" where
  "ListJournals store w = list_journals store [] w"

definition ListForVolume :: "('w, 'b) Store option \<Rightarrow> string \<Rightarrow> 'w \<Rightarrow> Cleanup list res" where
  "ListForVolume store volumeID w = guard_err (ValidateID volumeID) (list_journals store volumeID w)"

section \<open>Writing a status\<close>

definition boundStatusIntent :: "Cleanup \<Rightarrow> bool" where
  "boundStatusIntent expected \<longleftrightarrow> cl_UID expected \<noteq> [] \<and> cl_Name expected = cleanupName (sp_Target (cl_Spec expected)) \<and>
     cl_UID expected = au_UID (sp_Authority (cl_Spec expected)) \<and> ValidateSpec (cl_Spec expected) = None"

definition loadBoundJournal :: "('w, 'b) Store \<Rightarrow> Cleanup \<Rightarrow> 'w \<Rightarrow>
    (('w, 'b journal_body_scheme) api_client \<times> 'b parent_object \<times> Cleanup) res" where
  "loadBoundJournal s expected w = (let a = sp_Authority (cl_Spec expected) in
     bind_res (parentResource s a) (\<lambda>(resource, finalizer).
     bind_res (api_Get resource w (au_Name a)) (\<lambda>obj.
     guard_err (validateParent obj a finalizer)
     (bind_res (journalFromParent obj) (\<lambda>found. case found of
        None \<Rightarrow> Inl ErrConflict
      | Some current \<Rightarrow>
          if cl_UID current \<noteq> cl_UID expected \<or> cl_Name current \<noteq> cl_Name expected \<or> cl_Spec current \<noteq> cl_Spec expected
          then Inl ErrConflict else Inr (resource, obj, current))))))"

definition resolveStatusDefaults :: "('w, 'b) Store \<Rightarrow> Cleanup \<Rightarrow> Status \<Rightarrow> int \<Rightarrow> 'w \<Rightarrow> Status \<times> 'w" where
  "resolveStatusDefaults s current new generation w = (
     let new1 = (if st_ObservedGeneration new = 0 then new\<lparr>st_ObservedGeneration := generation\<rparr> else new) in
     if st_LastTransitionTime new1 = [] then
       if st_Phase new1 = st_Phase (cl_Status current) \<and> st_LastTransitionTime (cl_Status current) \<noteq> []
       then (new1\<lparr>st_LastTransitionTime := st_LastTransitionTime (cl_Status current)\<rparr>, w)
       else (case sr_Now s w of (now, w') \<Rightarrow> (new1\<lparr>st_LastTransitionTime := FormatUTC now\<rparr>, w'))
     else (new1, w))"

definition update_attempt :: "('w, 'b) Store \<Rightarrow> Cleanup \<Rightarrow> (Status \<times> 'w) closure" where
  "update_attempt s expected = (\<lambda>(new, w).
     case loadBoundJournal s expected w of
       Inl e \<Rightarrow> (Some e, (new, w))
     | Inr (resource, obj, current) \<Rightarrow>
         (case resolveStatusDefaults s current new (ao_Generation obj) w of (new', w1) \<Rightarrow>
          if cl_Status current = new' then (None, (new', w1))
          else case validateTransition current new' of
            Some e \<Rightarrow> (Some e, (new', w1))
          | None \<Rightarrow> (case api_UpdateStatus resource w1
                (setJournal obj \<lparr>jn_Spec = cl_Spec current, jn_Status = new'\<rparr>) of
                (Inl e, w2) \<Rightarrow> (Some e, (new', w2))
              | (Inr _, w2) \<Rightarrow> (None, (new', w2)))))"

definition UpdateJournal :: "('w, 'b) Store option \<Rightarrow> Cleanup \<Rightarrow> Status \<Rightarrow> 'w closure" where
  "UpdateJournal store expected new w = (case store of
     None \<Rightarrow> (Some errNoClient, w)
   | Some s \<Rightarrow> if \<not> boundStatusIntent expected then (Some ErrConflict, w)
       else case sr_RetryUpdate s (update_attempt s expected) (new, w) of (e, (_, w')) \<Rightarrow> (e, w'))"

section \<open>The absence proof\<close>

definition ValidateSettled :: "Cleanup \<Rightarrow> error option" where
  "ValidateSettled current = (case ValidateSpec (cl_Spec current) of
     Some e \<Rightarrow> Some (Wrapped ErrConflict ''invalid completed cleanup intent'')
   | None \<Rightarrow>
       if cl_UID current \<noteq> au_UID (sp_Authority (cl_Spec current)) \<or> st_Phase (cl_Status current) \<noteq> PhaseCompleted \<or>
          \<not> validPurgedReceipt current (cl_Status current) \<or>
          \<not> validAbsenceFence (sp_Target (cl_Spec current)) (st_AbsenceProof (cl_Status current)) \<or>
          \<not> confirmedAbsence (st_AbsenceProof (cl_Status current))
       then Some (Wrapped ErrConflict ''completed cleanup proof is invalid'')
       else validateCompletedRule (current, PhaseCompleted, cl_Status current))"

definition settledAbsence :: "Cleanup \<Rightarrow> (Cleanup \<times> bool) res" where
  "settledAbsence current = guard_err (ValidateSettled current) (Inr (current, True))"

definition absenceRequestID :: "Cleanup \<Rightarrow> int \<Rightarrow> string" where
  "absenceRequestID cleanup generation = (let encoded = au_UID (sp_Authority (cl_Spec cleanup)) @ [char_of (0 :: nat)] @
       sp_OperationID (cl_Spec cleanup) @ [char_of (0 :: nat)] @ print_int generation
     in ''scan-'' @ EncodeToString (take 16 (Sum256 (string_bytes encoded))))"

definition requestPoolScan :: "('w, 'b) Store \<Rightarrow> CopyIdentity \<Rightarrow> 'w \<Rightarrow> int res \<times> 'w" where
  "requestPoolScan s target w = (case RequestPoolScan (Some (sr_Pools s)) (sr_RetryScan s) target w of
     (Inl e, w') \<Rightarrow> (Inl (if errors_is e ErrStateConflict then Wrapped ErrConflict ''pool scan'' else e), w')
   | (Inr g, w') \<Rightarrow> (Inr g, w'))"

definition openAbsenceFence :: "('w, 'b) Store \<Rightarrow> Cleanup \<Rightarrow> 'w \<Rightarrow> (Cleanup \<times> bool) res \<times> 'w" where
  "openAbsenceFence s current w = (
     if \<not> validPurgedReceipt current (cl_Status current)
     then (Inl (Wrapped ErrConflict ''absence scan requires a purged API receipt''), w)
     else case requestPoolScan s (sp_Target (cl_Spec current)) w of
       (Inl e, w1) \<Rightarrow> (Inl e, w1)
     | (Inr generation, w1) \<Rightarrow>
         let new = (cl_Status current)\<lparr>st_Phase := PhaseConfirmingAbsence,
               st_AbsenceProof := Some \<lparr>ap_RequestID = absenceRequestID current generation,
                 ap_PoolName = ci_PoolName (sp_Target (cl_Spec current)),
                 ap_PoolUID = ci_PoolUID (sp_Target (cl_Spec current)),
                 ap_RequiredGeneration = generation, ap_ObservedGeneration = 0, ap_Valid = False,
                 ap_Complete = False, ap_Absent = False, ap_ConfirmedAt = []\<rparr>\<rparr> in
         (case UpdateJournal (Some s) current new w1 of
            (Some e, w2) \<Rightarrow> (Inl e, w2)
          | (None, w2) \<Rightarrow> (bind_res (GetJournal (Some s) (sp_Authority (cl_Spec current)) w2) (\<lambda>c. Inr (c, False)), w2)))"

definition copy_consistent :: "string \<Rightarrow> string \<Rightarrow> string \<Rightarrow> CopyIdentity \<Rightarrow> CopyObservation \<Rightarrow> bool" where
  "copy_consistent poolName poolUID nodeName target observed = (
     if cob_Marker observed = [] \<or> cob_Problem observed \<noteq> [] then False
     else case cob_Identity observed of
       None \<Rightarrow> False
     | Some identity \<Rightarrow>
         if ValidateCopy identity \<noteq> None then False
         else if ci_InstallationID identity \<noteq> ci_InstallationID target \<or> ci_PoolName identity \<noteq> poolName \<or>
            ci_PoolUID identity \<noteq> poolUID \<or> ci_NodeName identity \<noteq> nodeName \<or>
            cob_Marker observed \<noteq> ''placement-'' @ ci_CopyID identity @ ''.json'' \<or>
            (cob_Published observed \<and> \<not> cob_Present observed)
         then False
         else \<not> (identity = target \<and> (cob_Present observed \<or> cob_Published observed)))"

definition inventoryProvesAbsence :: "PoolInventory \<Rightarrow> string \<Rightarrow> string \<Rightarrow> string \<Rightarrow> CopyIdentity \<Rightarrow> bool" where
  "inventoryProvesAbsence inventory poolName poolUID nodeName target =
     list_all (copy_consistent poolName poolUID nodeName target) (iv_Copies inventory)"

text \<open>\<open>unstructured.NestedInt64(pool.Object, "status", "observedGeneration")\<close>.\<close>

definition pool_observed_generation :: "pool_object \<Rightarrow> int res" where
  "pool_observed_generation pool = (case pb_status (ao_Body pool) of
     Missing \<Rightarrow> Inr 0
   | Malformed \<Rightarrow> Inl (Errorf ''accessor error'')
   | Present m \<Rightarrow> decode_or 0 (sm_observedGeneration m))"

definition scanProvesAbsence :: "('w, 'b) Store \<Rightarrow> Cleanup \<Rightarrow> 'w \<Rightarrow> (int \<times> bool) res" where
  "scanProvesAbsence s current w = (let target = sp_Target (cl_Spec current) in
     bind_res (api_Get (sr_Pools s) w (ci_PoolName target)) (\<lambda>pool.
     if ao_UID pool \<noteq> ci_PoolUID target \<or> \<not> has_finalizer pool PoolProtectionFinalizer
     then Inl (Wrapped ErrConflict ''cleanup Pool identity or protection changed'')
     else if \<not> validAbsenceFence target (st_AbsenceProof (cl_Status current))
     then Inl (Wrapped ErrConflict ''cleanup absence fence is invalid'')
     else
       bind_res (pool_observed_generation pool) (\<lambda>observedGeneration.
       if observedGeneration \<noteq> ao_Generation pool \<or>
          observedGeneration < ap_RequiredGeneration (the (st_AbsenceProof (cl_Status current)))
       then Inr (0, False)
       else bind_res (PoolInventoryFrom pool) (\<lambda>found. case found of
         None \<Rightarrow> Inr (0, False)
       | Some inventory \<Rightarrow>
           if \<not> iv_Valid inventory \<or> iv_Truncated inventory \<or> iv_Message inventory \<noteq> [] then Inr (0, False)
           else case pb_nodeName (ao_Body pool) of
             Malformed \<Rightarrow> Inl (Errorf ''spec.nodeName'')
           | Missing \<Rightarrow> Inr (0, False)
           | Present node \<Rightarrow>
               if \<not> inventoryProvesAbsence inventory (ao_Name pool) (ao_UID pool) node target then Inr (0, False)
               else Inr (observedGeneration, True)))))"

definition settleAbsence :: "('w, 'b) Store \<Rightarrow> Cleanup \<Rightarrow> int \<Rightarrow> 'w \<Rightarrow> (Cleanup \<times> bool) res \<times> 'w" where
  "settleAbsence s current observedGeneration w = (case sr_Now s w of (confirmed, w1) \<Rightarrow> (case sr_Now s w1 of (settled, w2) \<Rightarrow>
     let proof = the (st_AbsenceProof (cl_Status current));
         new = (cl_Status current)\<lparr>st_Phase := PhaseCompleted,
           st_AbsenceProof := Some \<lparr>ap_RequestID = ap_RequestID proof, ap_PoolName = ap_PoolName proof,
             ap_PoolUID = ap_PoolUID proof, ap_RequiredGeneration = ap_RequiredGeneration proof,
             ap_ObservedGeneration = observedGeneration, ap_Valid = True, ap_Complete = True, ap_Absent = True,
             ap_ConfirmedAt = FormatUTC confirmed\<rparr>,
           st_SettledAt := FormatUTC settled\<rparr> in
     (case UpdateJournal (Some s) current new w2 of
        (Some e, w3) \<Rightarrow> (Inl e, w3)
      | (None, w3) \<Rightarrow> (bind_res (GetJournal (Some s) (sp_Authority (cl_Spec current)) w3)
            (\<lambda>c. Inr (c, st_Phase (cl_Status c) = PhaseCompleted)), w3))))"

definition ReconcileAbsence :: "('w, 'b) Store option \<Rightarrow> Cleanup \<Rightarrow> 'w \<Rightarrow> (Cleanup \<times> bool) res \<times> 'w" where
  "ReconcileAbsence store expected w = (case GetJournal store (sp_Authority (cl_Spec expected)) w of
     Inl e \<Rightarrow> (Inl e, w)
   | Inr current \<Rightarrow>
       if cl_UID current \<noteq> cl_UID expected \<or> cl_Name current \<noteq> cl_Name expected \<or> cl_Spec current \<noteq> cl_Spec expected
       then (Inl ErrConflict, w)
       else if st_Phase (cl_Status current) = PhaseCompleted then (settledAbsence current, w)
       else if st_Phase (cl_Status current) = PhaseVerifying then openAbsenceFence (the store) current w
       else if st_Phase (cl_Status current) = PhaseConfirmingAbsence then
         if \<not> validPurgedReceipt current (cl_Status current)
         then (Inl (Wrapped ErrConflict ''absence confirmation requires a purged API receipt''), w)
         else (case scanProvesAbsence (the store) current w of
             Inl e \<Rightarrow> (Inl e, w)
           | Inr (observedGeneration, proven) \<Rightarrow>
               if \<not> proven then (Inr (current, False), w)
               else settleAbsence (the store) current observedGeneration w)
       else (Inl (Wrapped ErrConflict ''cleanup phase''), w))"

text \<open>
  \<open>WaitForAbsence\<close>: \<open>poll\<close> is \<open>wait.PollUntilContextTimeout\<close>, which runs a condition over the
  captured variables, and \<open>ctxErr\<close> the caller's \<open>ctx.Err()\<close>. The code returns a value beside the
  error.
\<close>

definition wait_condition :: "('w, 'b) Store option \<Rightarrow> Cleanup \<times> bool \<times> 'w \<Rightarrow> (bool \<times> error option) \<times> Cleanup \<times> bool \<times> 'w" where
  "wait_condition store = (\<lambda>(current, settled, w). case ReconcileAbsence store current w of
     (Inl e, w') \<Rightarrow> ((settled, Some e), current, settled, w')
   | (Inr (new, complete), w') \<Rightarrow> ((complete, None), new, complete, w'))"

definition WaitForAbsence :: "('w, 'b) Store option \<Rightarrow>
    ((Cleanup \<times> bool \<times> 'w \<Rightarrow> (bool \<times> error option) \<times> Cleanup \<times> bool \<times> 'w) \<Rightarrow> Cleanup \<times> bool \<times> 'w \<Rightarrow> error option \<times> Cleanup \<times> bool \<times> 'w) \<Rightarrow>
    ('w \<Rightarrow> error option) \<Rightarrow> Cleanup \<Rightarrow> int \<Rightarrow> 'w \<Rightarrow> Cleanup \<times> bool \<times> error option \<times> 'w" where
  "WaitForAbsence store poll ctxErr expected timeout w = (
     if timeout \<le> 0 then (expected, False, None, w)
     else case poll (wait_condition store) (expected, False, w) of (err, current, settled, w') \<Rightarrow>
       (case ctxErr w' of
          Some e \<Rightarrow> (current, False, Some e, w')
        | None \<Rightarrow> (case err of
            Some e \<Rightarrow> if errors_is e DeadlineExceeded then (current, False, None, w') else (current, settled, Some e, w')
          | None \<Rightarrow> (current, settled, None, w'))))"

end
