(* ===== verification/Cleanup_Properties.thy ===== *)
theory Cleanup_Properties
  imports Cleanup_Store
begin

text \<open>
  What the cleanup journal guarantees.

  The locale \<open>journal_invariant\<close> carries a property of single parents through every operation of
  the store, with failed, ambiguous and repeated writes. It is interpreted twice: for the soundness
  of the recorded phase, and for what a journal may never lose once it is recorded. The phases are
  an instance of \<open>ranked_steps\<close>.
\<close>

section \<open>Single transitions\<close>

lemma journalFromParent_Some:
  assumes "journalFromParent obj = Inr (Some c)"
  shows "ValidateSpec (cl_Spec c) = None" and "au_Kind (sp_Authority (cl_Spec c)) = ao_Kind obj"
    and "au_Name (sp_Authority (cl_Spec c)) = ao_Name obj" and "au_UID (sp_Authority (cl_Spec c)) = ao_UID obj"
    and "cl_UID c = ao_UID obj" and "cl_Name c = cleanupName (sp_Target (cl_Spec c))"
    and "jb_cleanup (ao_Body obj) = Present \<lparr>jn_Spec = cl_Spec c, jn_Status = cl_Status c\<rparr>"
  using assms by (auto simp: journalFromParent_def guard_err_Inr Let_def split: api_field.splits if_splits)

lemma journal_written:
  assumes "journalFromParent obj = Inr (Some c)"
  shows "journalFromParent (setJournal obj \<lparr>jn_Spec = cl_Spec c, jn_Status = new\<rparr>) = Inr (Some (c\<lparr>cl_Status := new\<rparr>))"
  using journalFromParent_Some [OF assms] by (simp add: journalFromParent_def setJournal_def)

lemma journal_begun:
  assumes "journalFromParent (setJournal obj \<lparr>jn_Spec = spec, jn_Status = st\<rparr>) = Inr (Some c)"
  shows "cl_Status c = st" and "cl_Spec c = spec" and "cl_UID c = ao_UID obj"
  using assms by (auto simp: journalFromParent_def setJournal_def guard_err_Inr Let_def split: if_splits)

lemma journalFromParent_stored: "stored_as obj kept \<Longrightarrow> journalFromParent kept = journalFromParent obj"
  by (auto simp: stored_as_def journalFromParent_def Let_def split: api_field.splits)

lemma validPurgedReceipt_spec [simp]:
  "validPurgedReceipt (c\<lparr>cl_Status := s\<rparr>) t = validPurgedReceipt c t"
  by (auto simp: validPurgedReceipt_def split: option.splits)

lemma transition_accepted:
  assumes "validateTransition c new = None" and "r \<in> set transitionRules"
  shows "r (c, effective_phase c, new) = None"
  using tr.accepted_rule [OF assms(1) [unfolded validateTransition_def] assms(2)] .

lemma transition_facts:
  assumes "validateTransition c new = None"
  shows edge_allowed: "st_Phase new \<in> set (allowed_edges (effective_phase c))"
    and receipt_immutable: "st_Receipt (cl_Status c) \<noteq> None \<Longrightarrow> st_Receipt new = st_Receipt (cl_Status c)"
    and verifying_receipt: "st_Phase new = PhaseVerifying \<Longrightarrow> validPurgedReceipt c new \<and> st_AbsenceProof new = None"
    and fence_immutable: "st_AbsenceProof (cl_Status c) = Some p \<Longrightarrow> \<exists>q. st_AbsenceProof new = Some q \<and> sameAbsenceFence p q \<and>
          (ap_ConfirmedAt p \<noteq> [] \<longrightarrow> q = p)"
    and confirmation_fence: "st_Phase new \<in> {PhaseConfirmingAbsence, PhaseCompleted} \<Longrightarrow>
          validPurgedReceipt c new \<and> validAbsenceFence (sp_Target (cl_Spec c)) (st_AbsenceProof new)"
    and completed_proof: "st_Phase new = PhaseCompleted \<Longrightarrow> confirmedAbsence (st_AbsenceProof new) \<and>
          st_SettledAt new \<noteq> [] \<and> parses_time (st_SettledAt new)"
  using transition_accepted [OF assms, of validatePhaseEdge] transition_accepted [OF assms, of validateReceiptRule]
    transition_accepted [OF assms, of validateVerifyingRule] transition_accepted [OF assms, of validateFenceIdentityRule]
    transition_accepted [OF assms, of validateConfirmationRule] transition_accepted [OF assms, of validateCompletedRule]
  by (auto simp: transitionRules_def validatePhaseEdge_def validateReceiptRule_def validateVerifyingRule_def
      validateFenceIdentityRule_def validateConfirmationRule_def validateCompletedRule_def split: if_splits option.splits)

lemma executor_immutable:
  assumes "validateTransition c new = None" and "st_Executor (cl_Status c) \<noteq> None" and "st_Receipt (cl_Status c) \<noteq> None"
  shows "st_Executor new = st_Executor (cl_Status c)"
  using transition_accepted [OF assms(1), of validateExecutorRule] assms(2,3)
  by (auto simp: transitionRules_def validateExecutorRule_def executorTransitionAllowed_def split: if_splits)

text \<open>Every refusal wraps the journal's own conflict, which the retry loop does not repeat.\<close>

lemma refusal_is_conflict:
  assumes "validateTransition c new = Some e"
  shows "errors_is e ErrConflict \<and> \<not> errors_is e ApiConflict"
proof -
  obtain r where "r \<in> set transitionRules" and "r (c, effective_phase c, new) = Some e"
    using assms tr.refused_by_some_rule unfolding validateTransition_def by blast
  then show ?thesis
    by (auto simp: transitionRules_def validatePhaseEdge_def validateExecutorRule_def validateReceiptRule_def
        validateVerifyingRule_def validateFenceIdentityRule_def validateConfirmationRule_def
        validateCompletedRule_def split: if_splits option.splits)
qed

section \<open>The phases go forward\<close>

definition phase_rank :: "string \<Rightarrow> nat" where
  "phase_rank p = (if p = PhaseRunning then 1 else if p = PhaseVerifying then 2
     else if p = PhaseConfirmingAbsence then 3 else if p = PhaseCompleted \<or> p = PhaseNeedsReview then 4 else 0)"

interpretation jp: ranked_steps "\<lambda>p q. q = p \<or> q \<in> set (allowed_edges p)" phase_rank 4
  by unfold_locales (auto simp: allowed_edges_def phase_rank_def split: if_splits)

lemma edge_nonempty: "q \<in> set (allowed_edges p) \<Longrightarrow> q \<noteq> []"
  by (auto simp: allowed_edges_def split: if_splits)

lemma effective_phase_written:
  "validateTransition c new = None \<Longrightarrow> effective_phase (c\<lparr>cl_Status := new\<rparr>) = st_Phase new"
  using edge_nonempty [OF edge_allowed] by (auto simp: effective_phase_def)

section \<open>Invariants of parents\<close>

definition pending_status :: "int \<Rightarrow> string \<Rightarrow> Status" where
  "pending_status g t = zero_journal_status\<lparr>st_Phase := CleanupPending, st_ObservedGeneration := g, st_LastTransitionTime := t\<rparr>"

definition keeps :: "('w \<Rightarrow> 'x) \<Rightarrow> ('w, 'b) api_client \<Rightarrow> bool" where
  "keeps stored client \<longleftrightarrow> (\<forall>w obj. stored (snd (api_Update client w obj)) = stored w \<and>
     stored (snd (api_UpdateStatus client w obj)) = stored w)"

text \<open>
  What the store relies on: its clients write as \<open>client_writes\<close> says, each resource apart from the
  others; reading the clock writes nothing; the loops retry on conflicts.
\<close>

definition store_relied :: "('w \<Rightarrow> string \<Rightarrow> 'b parent_object option) \<Rightarrow> ('w \<Rightarrow> string \<Rightarrow> 'b parent_object option) \<Rightarrow>
    ('w, 'b) Store \<Rightarrow> bool" where
  "store_relied volumes moves s \<longleftrightarrow>
     client_writes volumes (sr_Volumes s) \<and> client_writes moves (sr_Moves s) \<and>
     keeps moves (sr_Volumes s) \<and> keeps volumes (sr_Moves s) \<and> keeps volumes (sr_Pools s) \<and> keeps moves (sr_Pools s) \<and>
     (\<forall>w. volumes (snd (sr_Now s w)) = volumes w \<and> moves (snd (sr_Now s w)) = moves w) \<and>
     retries_on_conflict (sr_RetryEnsure s) \<and> retries_on_conflict (sr_RetryUpdate s) \<and>
     retries_on_conflict (sr_RetryScan s)"

definition parents_good :: "('b parent_object \<Rightarrow> bool) \<Rightarrow> ('w \<Rightarrow> string \<Rightarrow> 'b parent_object option) \<Rightarrow>
    ('w \<Rightarrow> string \<Rightarrow> 'b parent_object option) \<Rightarrow> 'w \<Rightarrow> bool" where
  "parents_good good volumes moves w \<longleftrightarrow> all_stored good volumes w \<and> all_stored good moves w"

lemma parents_good_clock:
  "store_relied volumes moves s \<Longrightarrow> parents_good good volumes moves (snd (sr_Now s w)) = parents_good good volumes moves w"
  by (simp add: store_relied_def parents_good_def all_stored_def)

lemma parentResource_client:
  "parentResource s a = Inr (r, f) \<Longrightarrow> r = sr_Volumes s \<or> r = sr_Moves s"
  by (auto simp: parentResource_def guard_err_Inr split: if_splits)

lemma parent_read:
  assumes "store_relied volumes moves s" and "parents_good good volumes moves w"
    and "parentResource s a = Inr (r, f)" and "api_Get r w n = Inr obj"
  shows "good obj"
proof -
  have "volumes w n = Some obj \<or> moves w n = Some obj"
    using parentResource_client [OF assms(3)] assms(1,4) by (auto simp: store_relied_def client_writes_def)
  with assms(2) show ?thesis by (auto simp: parents_good_def all_stored_def)
qed

locale journal_invariant = object_invariant good
  for good :: "'b parent_object \<Rightarrow> bool" +
  assumes begin_good: "good obj \<Longrightarrow> journalFromParent obj = Inr None \<Longrightarrow> ValidateSpec spec = None \<Longrightarrow>
      good (setJournal obj \<lparr>jn_Spec = spec, jn_Status = pending_status g t\<rparr>)"
    and step_good: "good obj \<Longrightarrow> journalFromParent obj = Inr (Some c) \<Longrightarrow> validateTransition c new = None \<Longrightarrow>
      good (setJournal obj \<lparr>jn_Spec = cl_Spec c, jn_Status = new\<rparr>)"
begin

lemma parent_write:
  assumes "store_relied volumes moves s" and "parents_good good volumes moves w"
    and "parentResource s a = Inr (r, f)" and "good obj"
  shows "parents_good good volumes moves (snd (api_UpdateStatus r w obj))"
proof -
  from parentResource_client [OF assms(3)] show ?thesis
  proof
    assume r: "r = sr_Volumes s"
    have "write_effect volumes w obj (api_UpdateStatus r w obj)"
      using assms(1) r by (simp add: store_relied_def client_writes_def)
    then have "all_stored good volumes (snd (api_UpdateStatus r w obj))"
      using assms(2,4) by (auto intro: write_good simp: parents_good_def)
    moreover have "moves (snd (api_UpdateStatus r w obj)) = moves w"
      using assms(1) r by (simp add: store_relied_def keeps_def)
    ultimately show ?thesis using assms(2) by (simp add: parents_good_def all_stored_def)
  next
    assume r: "r = sr_Moves s"
    have "write_effect moves w obj (api_UpdateStatus r w obj)"
      using assms(1) r by (simp add: store_relied_def client_writes_def)
    then have "all_stored good moves (snd (api_UpdateStatus r w obj))"
      using assms(2,4) by (auto intro: write_good simp: parents_good_def)
    moreover have "volumes (snd (api_UpdateStatus r w obj)) = volumes w"
      using assms(1) r by (simp add: store_relied_def keeps_def)
    ultimately show ?thesis using assms(2) by (simp add: parents_good_def all_stored_def)
  qed
qed

lemma ensure_attempt_good:
  assumes "store_relied volumes moves s" and "ValidateSpec spec = None"
    and "parents_good good volumes moves (snd x)"
  shows "parents_good good volumes moves (snd (snd (ensure_attempt s spec x)))"
proof -
  obtain res w where x: "x = (res, w)" by (cases x)
  show ?thesis
  proof (cases "\<exists>r f obj. parentResource s (sp_Authority spec) = Inr (r, f) \<and> api_Get r w (au_Name (sp_Authority spec)) = Inr obj \<and>
      validateParent obj (sp_Authority spec) f = None \<and> journalFromParent obj = Inr None")
    case False
    then show ?thesis using assms(3) by (auto simp: ensure_attempt_def x split: sum.splits option.splits)
  next
    case True
    then obtain r f obj where h: "parentResource s (sp_Authority spec) = Inr (r, f)" "api_Get r w (au_Name (sp_Authority spec)) = Inr obj"
      "validateParent obj (sp_Authority spec) f = None" "journalFromParent obj = Inr None" by blast
    obtain now w1 where n: "sr_Now s w = (now, w1)" by (cases "sr_Now s w")
    have w1: "parents_good good volumes moves w1"
      using parents_good_clock [OF assms(1), of good w] assms(3) n x by simp
    have "good obj" using parent_read [OF assms(1) assms(3) [unfolded x snd_conv] h(1,2)] .
    then have "good (setJournal obj \<lparr>jn_Spec = spec, jn_Status = pending_status (ao_Generation obj) (FormatUTC now)\<rparr>)"
      using begin_good h(4) assms(2) by blast
    from parent_write [OF assms(1) w1 h(1) this] show ?thesis
      by (auto simp: ensure_attempt_def x h n Let_def pending_status_def split: sum.splits option.splits prod.splits)
  qed
qed

lemma Ensure_good:
  assumes "store_relied volumes moves s" and "parents_good good volumes moves w"
  shows "parents_good good volumes moves (snd (Ensure (Some s) spec w))"
proof (cases "ValidateSpec spec")
  case None
  have "parents_good good volumes moves (snd (snd (sr_RetryEnsure s (ensure_attempt s spec) (zero_cleanup, w))))"
    by (rule retry_invariant [where P = "\<lambda>x. parents_good good volumes moves (snd x)"])
      (use assms None in \<open>simp_all add: store_relied_def [of volumes moves s] ensure_attempt_good\<close>)
  with None show ?thesis by (auto simp: Ensure_def split: prod.splits option.splits)
qed (use assms in \<open>simp add: Ensure_def\<close>)

lemma loadBoundJournal_parts:
  assumes "loadBoundJournal s expected w = Inr (r, obj, c)"
  obtains f where "parentResource s (sp_Authority (cl_Spec expected)) = Inr (r, f)"
    and "api_Get r w (au_Name (sp_Authority (cl_Spec expected))) = Inr obj" and "journalFromParent obj = Inr (Some c)"
  using assms by (auto simp: loadBoundJournal_def Let_def guard_err_Inr split: option.splits if_splits)

lemma update_attempt_good:
  assumes "store_relied volumes moves s" and "parents_good good volumes moves (snd x)"
  shows "parents_good good volumes moves (snd (snd (update_attempt s expected x)))"
proof -
  obtain new w where x: "x = (new, w)" by (cases x)
  show ?thesis
  proof (cases "loadBoundJournal s expected w")
    case (Inl e)
    then show ?thesis using assms(2) by (simp add: update_attempt_def x)
  next
    case (Inr l)
    obtain r obj c where l: "loadBoundJournal s expected w = Inr (r, obj, c)" using Inr by (cases l) auto
    obtain new' w1 where n: "resolveStatusDefaults s c new (ao_Generation obj) w = (new', w1)" by fastforce
    obtain f where h: "parentResource s (sp_Authority (cl_Spec expected)) = Inr (r, f)"
      "api_Get r w (au_Name (sp_Authority (cl_Spec expected))) = Inr obj" "journalFromParent obj = Inr (Some c)"
      using l by (rule loadBoundJournal_parts)
    have "w1 = w \<or> w1 = snd (sr_Now s w)"
      using n by (auto simp: resolveStatusDefaults_def Let_def split: if_splits prod.splits)
    then have w1: "parents_good good volumes moves w1"
      using parents_good_clock [OF assms(1), of good w] assms(2) x by auto
    have "good obj" using parent_read [OF assms(1) assms(2) [unfolded x snd_conv] h(1,2)] .
    then have "validateTransition c new' = None \<Longrightarrow>
        parents_good good volumes moves (snd (api_UpdateStatus r w1 (setJournal obj \<lparr>jn_Spec = cl_Spec c, jn_Status = new'\<rparr>)))"
      using parent_write [OF assms(1) w1 h(1) step_good [OF _ h(3)]] by blast
    then show ?thesis using w1
      by (auto simp: update_attempt_def x l n split: option.splits sum.splits prod.splits)
  qed
qed

lemma UpdateJournal_good:
  assumes "store_relied volumes moves s" and "parents_good good volumes moves w"
  shows "parents_good good volumes moves (snd (UpdateJournal (Some s) expected new w))"
proof -
  have "parents_good good volumes moves (snd (snd (sr_RetryUpdate s (update_attempt s expected) (new, w))))"
    by (rule retry_invariant [where P = "\<lambda>x. parents_good good volumes moves (snd x)"])
      (use assms in \<open>simp_all add: store_relied_def [of volumes moves s] update_attempt_good\<close>)
  with assms(2) show ?thesis by (auto simp: UpdateJournal_def split: prod.splits)
qed

lemma scan_good:
  assumes "store_relied volumes moves s" and "parents_good good volumes moves w"
  shows "parents_good good volumes moves (snd (requestPoolScan s target w))"
proof -
  have k: "parents_good good volumes moves w'" if "api_Update (sr_Pools s) w obj = (r, w')" "parents_good good volumes moves w" for w obj r w'
  proof -
    have "volumes w' = volumes w" "moves w' = moves w"
      using assms(1) that(1) unfolding store_relied_def keeps_def by (metis snd_conv)+
    then show ?thesis using that(2) by (simp add: parents_good_def all_stored_def)
  qed
  have step: "parents_good good volumes moves (snd (snd (poolScan_attempt (sr_Pools s) target x)))"
    if "parents_good good volumes moves (snd x)" for x :: "int \<times> _"
    using that by (cases x) (auto simp: poolScan_attempt_def Let_def split: sum.splits prod.splits elim!: k)
  have "parents_good good volumes moves (snd (snd (sr_RetryScan s (poolScan_attempt (sr_Pools s) target) (0, w))))"
    by (rule retry_invariant [where P = "\<lambda>x. parents_good good volumes moves (snd x)"])
      (use assms step in \<open>simp_all add: store_relied_def\<close>)
  then show ?thesis by (auto simp: requestPoolScan_def RequestPoolScan_def split: prod.splits option.splits sum.splits)
qed

lemma openAbsenceFence_good:
  assumes "store_relied volumes moves s" and "parents_good good volumes moves w"
  shows "parents_good good volumes moves (snd (openAbsenceFence s c w))"
proof -
  obtain r w1 where q: "requestPoolScan s (sp_Target (cl_Spec c)) w = (r, w1)" by fastforce
  have "parents_good good volumes moves w1" using scan_good [OF assms, of "sp_Target (cl_Spec c)"] q by simp
  then have "parents_good good volumes moves (snd (UpdateJournal (Some s) c new w1))" for new
    by (rule UpdateJournal_good [OF assms(1)])
  moreover have "parents_good good volumes moves w1" using scan_good [OF assms, of "sp_Target (cl_Spec c)"] q by simp
  ultimately show ?thesis using assms(2)
    by (auto simp: openAbsenceFence_def q Let_def split: sum.splits prod.splits option.splits)
      (metis snd_conv)+
qed

lemma settleAbsence_good:
  assumes "store_relied volumes moves s" and "parents_good good volumes moves w"
  shows "parents_good good volumes moves (snd (settleAbsence s c g w))"
proof -
  obtain t1 w1 t2 w2 where n: "sr_Now s w = (t1, w1)" "sr_Now s w1 = (t2, w2)" by fastforce
  have "parents_good good volumes moves w2"
    using parents_good_clock [OF assms(1), of good w] parents_good_clock [OF assms(1), of good w1] assms(2) n by simp
  then have u: "parents_good good volumes moves (snd (UpdateJournal (Some s) c new w2))" for new
    by (rule UpdateJournal_good [OF assms(1)])
  show ?thesis
    by (auto simp: settleAbsence_def n Let_def split: prod.splits option.splits) (metis u snd_conv)+
qed

lemma ReconcileAbsence_good:
  assumes "store_relied volumes moves s" and "parents_good good volumes moves w"
  shows "parents_good good volumes moves (snd (ReconcileAbsence (Some s) expected w))"
  using openAbsenceFence_good [OF assms] settleAbsence_good [OF assms] assms(2)
  by (auto simp: ReconcileAbsence_def split: sum.splits)

end

section \<open>The recorded phase is backed by evidence\<close>

definition journal_sound :: "Cleanup \<Rightarrow> bool" where
  "journal_sound c \<longleftrightarrow>
     (st_Phase (cl_Status c) = PhaseVerifying \<longrightarrow> validPurgedReceipt c (cl_Status c)) \<and>
     (st_Phase (cl_Status c) = PhaseConfirmingAbsence \<longrightarrow> validPurgedReceipt c (cl_Status c) \<and>
        validAbsenceFence (sp_Target (cl_Spec c)) (st_AbsenceProof (cl_Status c))) \<and>
     (st_Phase (cl_Status c) = PhaseCompleted \<longrightarrow> ValidateSettled c = None)"

definition parent_sound :: "'b parent_object \<Rightarrow> bool" where
  "parent_sound obj \<longleftrightarrow> (\<forall>c. journalFromParent obj = Inr (Some c) \<longrightarrow> journal_sound c)"

lemma settled_written:
  assumes "journalFromParent obj = Inr (Some c)" and "validateTransition c new = None" and "st_Phase new = PhaseCompleted"
  shows "ValidateSettled (c\<lparr>cl_Status := new\<rparr>) = None"
  using journalFromParent_Some [OF assms(1)] confirmation_fence [OF assms(2)] completed_proof [OF assms(2)] assms(3)
  by (simp add: ValidateSettled_def validateCompletedRule_def)

lemma step_sound:
  assumes "journalFromParent obj = Inr (Some c)" and "validateTransition c new = None"
  shows "journal_sound (c\<lparr>cl_Status := new\<rparr>)"
  using settled_written [OF assms] verifying_receipt [OF assms(2)] confirmation_fence [OF assms(2)]
  by (auto simp: journal_sound_def)

interpretation ps: journal_invariant parent_sound
proof
  show "parent_sound obj \<Longrightarrow> stored_as obj kept \<Longrightarrow> parent_sound kept" for obj kept :: "'b parent_object"
    by (simp add: parent_sound_def journalFromParent_stored)
  show "parent_sound (setJournal obj \<lparr>jn_Spec = spec, jn_Status = pending_status g t\<rparr>)" for obj :: "'b parent_object" and spec g t
    by (auto simp: parent_sound_def journal_sound_def pending_status_def dest: journal_begun(1))
  show "journalFromParent obj = Inr (Some c) \<Longrightarrow> validateTransition c new = None \<Longrightarrow>
      parent_sound (setJournal obj \<lparr>jn_Spec = cl_Spec c, jn_Status = new\<rparr>)" for obj :: "'b parent_object" and c new
    by (simp add: parent_sound_def journal_written step_sound)
qed

section \<open>What a journal never loses\<close>

text \<open>
  Against an earlier state \<open>c0\<close> of the journal of the parent with this UID: the intent is the same,
  the phase is not earlier, a receipt is unchanged and so is an executor recorded beside one, and the
  fence of an absence proof is the same. Without a receipt the executor may change: a retry binds a new
  Pod.
\<close>

definition journal_extends :: "Cleanup \<Rightarrow> Cleanup \<Rightarrow> bool" where
  "journal_extends c0 c \<longleftrightarrow> cl_Spec c = cl_Spec c0 \<and> phase_rank (effective_phase c0) \<le> phase_rank (effective_phase c) \<and>
     (st_Receipt (cl_Status c0) \<noteq> None \<longrightarrow> st_Receipt (cl_Status c) = st_Receipt (cl_Status c0)) \<and>
     (st_Receipt (cl_Status c0) \<noteq> None \<and> st_Executor (cl_Status c0) \<noteq> None \<longrightarrow>
        st_Executor (cl_Status c) = st_Executor (cl_Status c0)) \<and>
     (\<forall>p. st_AbsenceProof (cl_Status c0) = Some p \<longrightarrow>
        (\<exists>q. st_AbsenceProof (cl_Status c) = Some q \<and> sameAbsenceFence p q \<and> (ap_ConfirmedAt p \<noteq> [] \<longrightarrow> q = p)))"

lemma journal_extends_refl: "journal_extends c c"
  by (auto simp: journal_extends_def sameAbsenceFence_def)

lemma journal_extends_step:
  assumes "journal_extends c0 c" and "validateTransition c new = None"
  shows "journal_extends c0 (c\<lparr>cl_Status := new\<rparr>)"
proof -
  have "phase_rank (effective_phase c) \<le> phase_rank (st_Phase new)"
    using jp.rank_mono [OF disjI2 [OF edge_allowed [OF assms(2)]]] by (cases "effective_phase c = st_Phase new") auto
  then have "phase_rank (effective_phase c0) \<le> phase_rank (effective_phase (c\<lparr>cl_Status := new\<rparr>))"
    using assms(1) by (simp add: effective_phase_written [OF assms(2)] journal_extends_def)
  moreover have "\<exists>q. st_AbsenceProof new = Some q \<and> sameAbsenceFence p q \<and> (ap_ConfirmedAt p \<noteq> [] \<longrightarrow> q = p)"
    if p: "st_AbsenceProof (cl_Status c0) = Some p" for p
  proof -
    obtain r where r: "st_AbsenceProof (cl_Status c) = Some r" "sameAbsenceFence p r" "ap_ConfirmedAt p \<noteq> [] \<longrightarrow> r = p"
      using assms(1) p by (auto simp: journal_extends_def)
    obtain q where q: "st_AbsenceProof new = Some q" "sameAbsenceFence r q" "ap_ConfirmedAt r \<noteq> [] \<longrightarrow> q = r"
      using fence_immutable [OF assms(2) r(1)] by blast
    have "sameAbsenceFence p q" using r(2) q(2) unfolding sameAbsenceFence_def by simp
    moreover have "q = p" if "ap_ConfirmedAt p \<noteq> []"
    proof -
      have "r = p" using r(3) that by blast
      with q(3) that show ?thesis by blast
    qed
    ultimately show ?thesis using q(1) by blast
  qed
  moreover have "st_Receipt new = st_Receipt (cl_Status c0)" if "st_Receipt (cl_Status c0) \<noteq> None"
    using that assms(1) receipt_immutable [OF assms(2)] by (simp add: journal_extends_def)
  moreover have "st_Executor new = st_Executor (cl_Status c0)"
    if "st_Receipt (cl_Status c0) \<noteq> None" "st_Executor (cl_Status c0) \<noteq> None"
    using that assms(1) executor_immutable [OF assms(2)] by (simp add: journal_extends_def)
  ultimately show ?thesis
    using assms(1) by (simp add: journal_extends_def)
qed

definition journal_kept :: "string \<Rightarrow> Cleanup \<Rightarrow> 'b parent_object \<Rightarrow> bool" where
  "journal_kept uid c0 obj \<longleftrightarrow> (ao_UID obj = uid \<longrightarrow> (\<exists>c. journalFromParent obj = Inr (Some c) \<and> journal_extends c0 c))"

interpretation jk: journal_invariant "journal_kept uid c0" for uid c0
proof
  show "journal_kept uid c0 obj \<Longrightarrow> stored_as obj kept \<Longrightarrow> journal_kept uid c0 kept" for obj kept :: "'b parent_object"
    using journalFromParent_stored [of obj kept] by (auto simp: journal_kept_def stored_as_def)
  show "journal_kept uid c0 obj \<Longrightarrow> journalFromParent obj = Inr None \<Longrightarrow>
      journal_kept uid c0 (setJournal obj \<lparr>jn_Spec = spec, jn_Status = pending_status g t\<rparr>)" for obj :: "'b parent_object" and spec g t
    by (simp add: journal_kept_def setJournal_def)
  show "journal_kept uid c0 obj \<Longrightarrow> journalFromParent obj = Inr (Some c) \<Longrightarrow> validateTransition c new = None \<Longrightarrow>
      journal_kept uid c0 (setJournal obj \<lparr>jn_Spec = cl_Spec c, jn_Status = new\<rparr>)" for obj :: "'b parent_object" and c new
    by (auto simp: journal_kept_def journal_written) (auto simp: setJournal_def intro: journal_extends_step)
qed

section \<open>Runs of the store\<close>

inductive journal_op :: "('w, 'b) Store \<Rightarrow> 'w \<Rightarrow> 'w \<Rightarrow> bool" for s where
  ensured: "Ensure (Some s) spec w = (r, w') \<Longrightarrow> journal_op s w w'"
| updated: "UpdateJournal (Some s) expected new w = (e, w') \<Longrightarrow> journal_op s w w'"
| reconciled: "ReconcileAbsence (Some s) expected w = (r2, w') \<Longrightarrow> journal_op s w w'"

lemma journal_op_sound:
  assumes "journal_op s w w'" and "store_relied volumes moves s" and "parents_good parent_sound volumes moves w"
  shows "parents_good parent_sound volumes moves w'"
  using assms(1) ps.Ensure_good [OF assms(2,3)] ps.UpdateJournal_good [OF assms(2,3)] ps.ReconcileAbsence_good [OF assms(2,3)]
  by (cases rule: journal_op.cases) (metis snd_conv)+

lemma journal_op_kept:
  assumes "journal_op s w w'" and "store_relied volumes moves s" and "parents_good (journal_kept uid c0) volumes moves w"
  shows "parents_good (journal_kept uid c0) volumes moves w'"
  using assms(1) jk.Ensure_good [OF assms(2,3)] jk.UpdateJournal_good [OF assms(2,3)] jk.ReconcileAbsence_good [OF assms(2,3)]
  by (cases rule: journal_op.cases) (metis snd_conv)+

lemma journal_run_good:
  assumes "(journal_op s)\<^sup>*\<^sup>* w w'" and "store_relied volumes moves s"
  shows journal_run_sound: "parents_good parent_sound volumes moves w \<Longrightarrow> parents_good parent_sound volumes moves w'"
    and journal_run_kept: "parents_good (journal_kept uid c0) volumes moves w \<Longrightarrow> parents_good (journal_kept uid c0) volumes moves w'"
  using assms(1) by (induction rule: rtranclp_induct) (auto dest: journal_op_sound [OF _ assms(2)] journal_op_kept [OF _ assms(2)])

lemma settled_facts:
  assumes "ValidateSettled c = None"
  obtains e r p where "st_Executor (cl_Status c) = Some e" "st_Receipt (cl_Status c) = Some r" "st_AbsenceProof (cl_Status c) = Some p"
    "er_NodeName e = ci_NodeName (sp_Target (cl_Spec c))" "rc_OperationID r = sp_OperationID (cl_Spec c)"
    "rc_ExecutorUID r = ExecutionUID e" "rc_Retired r" "rc_Purged r" "ap_PoolUID p = ci_PoolUID (sp_Target (cl_Spec c))"
    "0 < ap_RequiredGeneration p" "ap_RequiredGeneration p \<le> ap_ObservedGeneration p" "ap_Absent p"
  using assms by (auto simp: ValidateSettled_def validPurgedReceipt_def validAbsenceFence_def confirmedAbsence_def
      split: option.splits if_splits)

section \<open>A store in memory\<close>

text \<open>Three resources side by side, for evaluating the store on concrete parents.\<close>

type_synonym 'b journal_world = "'b journal_body_scheme memory \<times> 'b journal_body_scheme memory \<times> pool_body memory"

definition lift_client :: "('w \<Rightarrow> 'm) \<Rightarrow> ('m \<Rightarrow> 'w \<Rightarrow> 'w) \<Rightarrow> ('m, 'b) api_client \<Rightarrow> ('w, 'b) api_client" where
  "lift_client get put c = \<lparr>
     api_Get = \<lambda>w n. api_Get c (get w) n,
     api_List = \<lambda>w. api_List c (get w),
     api_Create = \<lambda>w obj. (case api_Create c (get w) obj of (r, m) \<Rightarrow> (r, put m w)),
     api_Update = \<lambda>w obj. (case api_Update c (get w) obj of (r, m) \<Rightarrow> (r, put m w)),
     api_UpdateStatus = \<lambda>w obj. (case api_UpdateStatus c (get w) obj of (r, m) \<Rightarrow> (r, put m w)),
     api_Delete = \<lambda>w n u v. (case api_Delete c (get w) n u v of (r, m) \<Rightarrow> (r, put m w))\<rparr>"

lemma lift_client_writes:
  assumes "client_writes (\<lambda>w. w) c" and "\<And>m w. get (put m w) = m"
  shows "client_writes get (lift_client get put c)"
proof -
  have lifted: "write_effect get w obj (case out of (r, m) \<Rightarrow> (r, put m w))" if "write_effect (\<lambda>w. w) (get w) obj out" for w obj out
    using that assms(2) by (cases out) (simp add: write_effect_def)
  show ?thesis
    using assms(1) lifted by (simp add: client_writes_def lift_client_def)
qed

lemma lift_client_keeps: "(\<And>m w. other (put m w) = other w) \<Longrightarrow> keeps other (lift_client get put c)"
  by (auto simp: keeps_def lift_client_def split: prod.splits)

definition memory_store :: "('b journal_world, 'b) Store" where
  "memory_store = \<lparr>
     sr_Volumes = lift_client fst (\<lambda>m (v, r). (m, r)) memory_client,
     sr_Moves = lift_client (\<lambda>(v, m, p). m) (\<lambda>n (v, m, p). (v, n, p)) memory_client,
     sr_Pools = lift_client (\<lambda>(v, m, p). p) (\<lambda>q (v, m, p). (v, m, q)) memory_client,
     sr_Now = \<lambda>w. (sample_time, w),
     sr_RetryEnsure = \<lambda>fn. fn, sr_RetryUpdate = \<lambda>fn. fn, sr_RetryScan = \<lambda>fn. fn\<rparr>"

lemma memory_store_relied: "store_relied fst (\<lambda>(v, m, p). m) memory_store"
proof -
  have "client_writes fst (sr_Volumes memory_store)" "client_writes (\<lambda>(v, m, p). m) (sr_Moves memory_store)"
    by (auto simp: memory_store_def intro!: lift_client_writes memory_client_writes split: prod.splits)
  moreover have "keeps (\<lambda>(v, m, p). m) (sr_Volumes memory_store)" "keeps fst (sr_Moves memory_store)"
    "keeps fst (sr_Pools memory_store)" "keeps (\<lambda>(v, m, p). m) (sr_Pools memory_store)"
    by (auto simp: memory_store_def intro!: lift_client_keeps split: prod.splits)
  ultimately show ?thesis by (simp add: store_relied_def) (simp add: memory_store_def once_retries)
qed

definition sample_spec :: Spec where
  "sample_spec = \<lparr>sp_OperationID = ''delete-u'',
     sp_Target = \<lparr>ci_InstallationID = ''i'', ci_PoolName = ''pool'', ci_PoolUID = ''pu'',
       ci_VolumeID = ''shiftpv-00112233445566778899aabbccddeeff'', ci_VolumeUID = ''u'', ci_CopyID = ''c'',
       ci_NodeName = ''node'', ci_Role = RoleServing\<rparr>,
     sp_Reason = ''VolumeDelete'',
     sp_Authority = \<lparr>au_Kind = KindVolume, au_Name = ''shiftpv-00112233445566778899aabbccddeeff'', au_UID = ''u''\<rparr>\<rparr>"

lemma sample_spec_valid: "ValidateSpec sample_spec = None"
  by code_simp

definition sample_executor :: Executor where
  "sample_executor = \<lparr>er_Kind = ExecutorNode, er_Namespace = ''ns'', er_PodName = ''pod'', er_JobName = [], er_JobUID = [],
     er_PodUID = ''p1'', er_NodeName = ''node''\<rparr>"

definition sample_receipt :: Receipt where
  "sample_receipt = \<lparr>rc_OperationID = ''delete-u'', rc_ExecutorUID = ''p1'', rc_ObservedAt = FormatUTC sample_time,
     rc_Retired = True, rc_Purged = True, rc_LocalReceiptDigest = EncodeToString (replicate 32 0)\<rparr>"

lemma parses_sample_time [simp]: "parses_time (FormatUTC sample_time)"
  by (simp add: parses_time_def ParseTime_Format)

lemma digest_encoded [simp]: "length bs = 32 \<Longrightarrow> validSHA256Digest (EncodeToString bs)"
  by (simp add: validSHA256Digest_def DecodeString_Encode)

definition sample_parent :: "unit parent_object" where
  "sample_parent = \<lparr>ao_Kind = KindVolume, ao_Name = ''shiftpv-00112233445566778899aabbccddeeff'', ao_UID = ''u'',
     ao_ResourceVersion = ''1'', ao_Generation = 1, ao_DeletionTimestamp = None,
     ao_Finalizers = [VolumeProtectionFinalizer], ao_Annotations = Map.empty, ao_Body = \<lparr>jb_cleanup = Missing\<rparr>\<rparr>"

end
