(* ===== verification/Cleanup_Evidence.thy ===== *)
theory Cleanup_Evidence
  imports Cleanup_Properties
begin

text \<open>
  The claims on the cleanup journal: a completed cleanup is proven, recorded evidence stays, absence
  is only concluded from a fresh complete scan, refused writes change nothing, the cooperative run
  is accepted and a journal changes phase at most four times.
\<close>

section \<open>A cooperative run\<close>

definition running_status :: "Status \<Rightarrow> Executor \<Rightarrow> Status" where
  "running_status st e = st\<lparr>st_Phase := PhaseRunning, st_Executor := Some e\<rparr>"

definition verifying_status :: "Status \<Rightarrow> Receipt \<Rightarrow> Status" where
  "verifying_status st r = st\<lparr>st_Phase := PhaseVerifying, st_Receipt := Some r\<rparr>"

definition open_proof :: "Cleanup \<Rightarrow> int \<Rightarrow> AbsenceProof" where
  "open_proof c g = \<lparr>ap_RequestID = absenceRequestID c g, ap_PoolName = ci_PoolName (sp_Target (cl_Spec c)),
     ap_PoolUID = ci_PoolUID (sp_Target (cl_Spec c)), ap_RequiredGeneration = g, ap_ObservedGeneration = 0,
     ap_Valid = False, ap_Complete = False, ap_Absent = False, ap_ConfirmedAt = []\<rparr>"

definition closed_proof :: "AbsenceProof \<Rightarrow> int \<Rightarrow> string \<Rightarrow> AbsenceProof" where
  "closed_proof p g t = p\<lparr>ap_ObservedGeneration := g, ap_Valid := True, ap_Complete := True, ap_Absent := True,
     ap_ConfirmedAt := t\<rparr>"

definition confirming_status :: "Status \<Rightarrow> AbsenceProof \<Rightarrow> Status" where
  "confirming_status st p = st\<lparr>st_Phase := PhaseConfirmingAbsence, st_AbsenceProof := Some p\<rparr>"

definition completed_status :: "Status \<Rightarrow> AbsenceProof \<Rightarrow> string \<Rightarrow> Status" where
  "completed_status st p t = st\<lparr>st_Phase := PhaseCompleted, st_AbsenceProof := Some p, st_SettledAt := t\<rparr>"

lemma lower_hex_token_char: "is_lower_hex c \<Longrightarrow> c \<notin> {slash, char_of (92 :: nat), char_of (0 :: nat)}"
  by (auto simp: is_lower_hex_def Let_def)

lemma absenceRequestID_token: "ValidIdentityToken (absenceRequestID c g)"
proof -
  define h where "h bs = EncodeToString (take 16 (Sum256 bs))" for bs
  have "set (h bs) \<inter> {slash, char_of (92 :: nat), char_of (0 :: nat)} = {}" for bs
    using EncodeToString_lower [of "take 16 (Sum256 bs)"] lower_hex_token_char by (auto simp: list_all_iff h_def)
  moreover have "set ''scan-'' \<inter> {slash, char_of (92 :: nat), char_of (0 :: nat)} = {}" by code_simp
  ultimately have "\<not> ContainsAny (''scan-'' @ h bs) [slash, char_of (92 :: nat), char_of (0 :: nat)]" for bs
    by (simp only: ContainsAny_iff set_append list.set Int_Un_distrib2 Un_empty simp_thms)
  moreover have "length (h bs) = 32" for bs by (simp add: h_def)
  ultimately have "ValidIdentityToken (''scan-'' @ h bs)" for bs by (simp add: ValidIdentityToken_def)
  then show ?thesis unfolding absenceRequestID_def Let_def h_def .
qed

lemma apply_rules_None: "apply_rules rs x = None \<longleftrightarrow> (\<forall>r \<in> set rs. r x = None)"
  by (induction rs) (auto split: option.splits)

lemma validateTransition_None:
  "validateTransition c new = None \<longleftrightarrow> (\<forall>r \<in> set transitionRules. r (c, effective_phase c, new) = None)"
  by (simp add: validateTransition_def apply_rules_None)

lemmas rule_defs = transitionRules_def validatePhaseEdge_def validateExecutorRule_def validateReceiptRule_def
  validateVerifyingRule_def validateFenceIdentityRule_def validateConfirmationRule_def validateCompletedRule_def
  effective_phase_def allowed_edges_def executorTransitionAllowed_def

lemmas status_defs = pending_status_def zero_journal_status_def running_status_def verifying_status_def
  confirming_status_def completed_status_def

lemma cooperative_statuses:
  assumes "ValidateSpec (cl_Spec c) = None" and "cl_UID c = au_UID (sp_Authority (cl_Spec c))"
    and "cl_Status c = pending_status g0 t0"
    and "ValidExecutor e" and "ValidIdentityToken (er_PodUID e)" and "er_NodeName e = ci_NodeName (sp_Target (cl_Spec c))"
    and "rc_OperationID r = sp_OperationID (cl_Spec c)" and "rc_ExecutorUID r = ExecutionUID e" and "rc_Retired r"
    and "rc_Purged r" and "validSHA256Digest (rc_LocalReceiptDigest r)" and "parses_time (rc_ObservedAt r)"
    and "0 < g" and "g \<le> observed" and "valid_civil now" and "tm_offset now = 0"
  shows "let s1 = running_status (cl_Status c) e; s2 = verifying_status s1 r; p = open_proof c g;
             s3 = confirming_status s2 p; s4 = completed_status s3 (closed_proof p observed (FormatUTC now)) (FormatUTC now)
         in validateTransition c s1 = None \<and> validateTransition (c\<lparr>cl_Status := s1\<rparr>) s2 = None \<and>
            validateTransition (c\<lparr>cl_Status := s2\<rparr>) s3 = None \<and> validateTransition (c\<lparr>cl_Status := s3\<rparr>) s4 = None \<and>
            ValidateSettled (c\<lparr>cl_Status := s4\<rparr>) = None"
proof -
  have now: "parses_time (FormatUTC now)" using assms(15,16) by (simp add: parses_time_def ParseTime_Format)
  let ?s1 = "running_status (cl_Status c) e" let ?s2 = "verifying_status ?s1 r" let ?s3 = "confirming_status ?s2 (open_proof c g)"
  let ?s4 = "completed_status ?s3 (closed_proof (open_proof c g) observed (FormatUTC now)) (FormatUTC now)"
  have receipt: "validPurgedReceipt c s" if "st_Executor s = Some e" "st_Receipt s = Some r" for s
    using that assms by (simp add: validPurgedReceipt_def)
  have fence: "validAbsenceFence (sp_Target (cl_Spec c)) (Some (open_proof c g))"
    "validAbsenceFence (sp_Target (cl_Spec c)) (Some (closed_proof (open_proof c g) observed t))" for t
    using assms(13) absenceRequestID_token by (simp_all add: validAbsenceFence_def open_proof_def closed_proof_def)
  have confirmed: "confirmedAbsence (Some (closed_proof (open_proof c g) observed (FormatUTC now)))"
    using assms(14) now by (simp add: confirmedAbsence_def open_proof_def closed_proof_def)
  have same: "sameAbsenceFence (open_proof c g) (closed_proof (open_proof c g) observed t)" "ap_ConfirmedAt (open_proof c g) = []" for t
    by (simp_all add: sameAbsenceFence_def open_proof_def closed_proof_def)
  have "validateTransition c ?s1 = None"
    using assms(3,4) by (simp add: validateTransition_None rule_defs status_defs)
  moreover have "validateTransition (c\<lparr>cl_Status := ?s1\<rparr>) ?s2 = None"
    using assms(3,7,8,12) receipt [of ?s2] by (simp add: validateTransition_None rule_defs status_defs)
  moreover have "validateTransition (c\<lparr>cl_Status := ?s2\<rparr>) ?s3 = None"
    using assms(3,7,8,12) receipt [of ?s3] fence(1) by (simp add: validateTransition_None rule_defs status_defs)
  moreover have "validateTransition (c\<lparr>cl_Status := ?s3\<rparr>) ?s4 = None"
    using assms(3,7,8,12) receipt [of ?s4] fence(2) confirmed same now by (simp add: validateTransition_None rule_defs status_defs)
  moreover have "ValidateSettled (c\<lparr>cl_Status := ?s4\<rparr>) = None"
    using assms(1,2,3) receipt [of ?s4] fence(2) confirmed now by (simp add: ValidateSettled_def rule_defs status_defs)
  ultimately show ?thesis by (simp add: Let_def)
qed

text \<open>
  C22. The rules leave a way to the end: for every valid intent, with a valid executor pinned to a Pod
  on the target's node, its matching receipt of retirement and purge, a scan generation and a later
  observation, the statuses the code writes are accepted one after the other, Pending, Running,
  Verifying, ConfirmingAbsence with the code's own fence, Completed, and the end passes
  \<open>ValidateSettled\<close>.
\<close>

theorem cleanup_can_complete:
  assumes "ValidateSpec (cl_Spec c) = None" and "cl_UID c = au_UID (sp_Authority (cl_Spec c))"
    and "cl_Status c = pending_status g0 t0"
    and "ValidExecutor e" and "ValidIdentityToken (er_PodUID e)" and "er_NodeName e = ci_NodeName (sp_Target (cl_Spec c))"
    and "rc_OperationID r = sp_OperationID (cl_Spec c)" and "rc_ExecutorUID r = ExecutionUID e" and "rc_Retired r"
    and "rc_Purged r" and "validSHA256Digest (rc_LocalReceiptDigest r)" and "parses_time (rc_ObservedAt r)"
    and "0 < g" and "g \<le> observed" and "valid_civil now" and "tm_offset now = 0"
  shows "let s1 = running_status (cl_Status c) e; s2 = verifying_status s1 r; p = open_proof c g;
             s3 = confirming_status s2 p; s4 = completed_status s3 (closed_proof p observed (FormatUTC now)) (FormatUTC now)
         in validateTransition c s1 = None \<and> validateTransition (c\<lparr>cl_Status := s1\<rparr>) s2 = None \<and>
            validateTransition (c\<lparr>cl_Status := s2\<rparr>) s3 = None \<and> validateTransition (c\<lparr>cl_Status := s3\<rparr>) s4 = None \<and>
            ValidateSettled (c\<lparr>cl_Status := s4\<rparr>) = None"
  using assms by (rule cooperative_statuses)

definition sample_cleanup :: Cleanup where
  "sample_cleanup = \<lparr>cl_Name = cleanupName (sp_Target sample_spec), cl_UID = ''u'', cl_Spec = sample_spec,
     cl_Status = pending_status 1 (FormatUTC sample_time)\<rparr>"

lemma sample_executor_valid: "ValidExecutor sample_executor" "ValidIdentityToken ''p1''"
  by code_simp+

lemma sample_cleanup_sel: "cl_Spec sample_cleanup = sample_spec" "cl_UID sample_cleanup = ''u''"
  "cl_Status sample_cleanup = pending_status 1 (FormatUTC sample_time)"
  by (simp_all add: sample_cleanup_def)

lemma sample_spec_sel: "sp_OperationID sample_spec = ''delete-u''" "au_UID (sp_Authority sample_spec) = ''u''"
  "ci_NodeName (sp_Target sample_spec) = ''node''" "au_Kind (sp_Authority sample_spec) = KindVolume"
  "au_Name (sp_Authority sample_spec) = ''shiftpv-00112233445566778899aabbccddeeff''"
  "ci_PoolName (sp_Target sample_spec) = ''pool''" "ci_PoolUID (sp_Target sample_spec) = ''pu''"
  by (simp_all add: sample_spec_def)

lemma sample_receipt_sel: "rc_OperationID sample_receipt = ''delete-u''" "rc_ExecutorUID sample_receipt = ExecutionUID sample_executor"
  "rc_Retired sample_receipt" "rc_Purged sample_receipt" "validSHA256Digest (rc_LocalReceiptDigest sample_receipt)"
  "parses_time (rc_ObservedAt sample_receipt)"
  by (simp_all add: sample_receipt_def sample_executor_def ExecutionUID_def)

lemma sample_executor_sel: "er_PodUID sample_executor = ''p1''" "er_NodeName sample_executor = ''node''"
  by (simp_all add: sample_executor_def)

theorem cleanup_can_complete_witness:
  "\<exists>s4. st_Phase s4 = PhaseCompleted \<and> ValidateSettled (sample_cleanup\<lparr>cl_Status := s4\<rparr>) = None"
proof -
  let ?s3 = "confirming_status (verifying_status (running_status (cl_Status sample_cleanup) sample_executor) sample_receipt) (open_proof sample_cleanup 4)"
  let ?s4 = "completed_status ?s3 (closed_proof (open_proof sample_cleanup 4) 4 (FormatUTC sample_time)) (FormatUTC sample_time)"
  have "ValidateSettled (sample_cleanup\<lparr>cl_Status := ?s4\<rparr>) = None"
    using cleanup_can_complete [of sample_cleanup 1 "FormatUTC sample_time" sample_executor sample_receipt 4 4 sample_time]
    unfolding Let_def sample_cleanup_sel sample_spec_sel sample_executor_sel
    using sample_spec_valid sample_executor_valid sample_receipt_sel sample_time_valid by simp
  moreover have "st_Phase ?s4 = PhaseCompleted" by (simp add: completed_status_def)
  ultimately show ?thesis by blast
qed

section \<open>A concrete run\<close>

definition confirming_journal :: Status where
  "confirming_journal = confirming_status (verifying_status (running_status (cl_Status sample_cleanup) sample_executor) sample_receipt)
     (open_proof sample_cleanup 4)"

definition confirming_cleanup :: Cleanup where
  "confirming_cleanup = sample_cleanup\<lparr>cl_Status := confirming_journal\<rparr>"

definition completed_journal :: Status where
  "completed_journal = completed_status confirming_journal
     (closed_proof (open_proof sample_cleanup 4) 4 (FormatUTC sample_time)) (FormatUTC sample_time)"

definition confirming_parent :: "unit parent_object" where
  "confirming_parent = setJournal sample_parent \<lparr>jn_Spec = sample_spec, jn_Status = confirming_journal\<rparr>"

definition completed_parent :: "unit parent_object" where
  "completed_parent = (setJournal sample_parent \<lparr>jn_Spec = sample_spec, jn_Status = completed_journal\<rparr>)\<lparr>ao_ResourceVersion := ''10''\<rparr>"

definition scanned_pool :: pool_object where
  "scanned_pool = \<lparr>ao_Kind = ''ShiftPVPool'', ao_Name = ''pool'', ao_UID = ''pu'', ao_ResourceVersion = ''7'',
     ao_Generation = 4, ao_DeletionTimestamp = None, ao_Finalizers = [PoolProtectionFinalizer], ao_Annotations = Map.empty,
     ao_Body = \<lparr>pb_nodeName = Present ''node'', pb_poolGroup = Missing, pb_mountPath = Missing, pb_mountPolicy = Missing,
       pb_capacityPolicy = Missing, pb_capacityLimit = Missing, pb_scanEpoch = Present 3,
       pb_status = Present (empty_status_map\<lparr>sm_observedGeneration := Present 4,
         sm_inventory := Present \<lparr>iv_ObservedAt = None, iv_Valid = True, iv_Truncated = False, iv_Reason = [], iv_Message = [], iv_Copies = []\<rparr>\<rparr>)\<rparr>\<rparr>"

abbreviation parent_name :: string where "parent_name \<equiv> ''shiftpv-00112233445566778899aabbccddeeff''"

definition confirming_world :: "unit journal_world" where
  "confirming_world = ([parent_name \<mapsto> confirming_parent], Map.empty, [''pool'' \<mapsto> scanned_pool])"

definition completed_world :: "unit journal_world" where
  "completed_world = ([parent_name \<mapsto> completed_parent], Map.empty, [''pool'' \<mapsto> scanned_pool])"

lemma sample_journal:
  "journalFromParent (setJournal sample_parent \<lparr>jn_Spec = sample_spec, jn_Status = st\<rparr>) = Inr (Some (sample_cleanup\<lparr>cl_Status := st\<rparr>))"
proof -
  have "ao_Kind sample_parent = KindVolume" "ao_Name sample_parent = parent_name" "ao_UID sample_parent = ''u''"
    by (simp_all add: sample_parent_def)
  then show ?thesis
    using sample_spec_valid by (simp add: journalFromParent_def setJournal_def sample_spec_sel sample_cleanup_def)
qed

lemma confirming_parent_journal: "journalFromParent confirming_parent = Inr (Some confirming_cleanup)"
  by (simp add: confirming_parent_def sample_journal confirming_cleanup_def)

lemma completed_parent_journal: "journalFromParent completed_parent = Inr (Some (sample_cleanup\<lparr>cl_Status := completed_journal\<rparr>))"
proof -
  have "journalFromParent (obj\<lparr>ao_ResourceVersion := v\<rparr>) = journalFromParent obj" for obj :: "unit parent_object" and v
    by (simp add: journalFromParent_def Let_def split: api_field.split)
  then show ?thesis by (simp add: completed_parent_def sample_journal)
qed

lemma sample_transition:
  "validateTransition confirming_cleanup completed_journal = None"
  "ValidateSettled (sample_cleanup\<lparr>cl_Status := completed_journal\<rparr>) = None"
  "validPurgedReceipt confirming_cleanup confirming_journal"
proof -
  note c = cooperative_statuses [of sample_cleanup 1 "FormatUTC sample_time" sample_executor sample_receipt 4 4 sample_time,
      unfolded Let_def sample_cleanup_sel sample_spec_sel sample_executor_sel]
  show "validateTransition confirming_cleanup completed_journal = None"
    "ValidateSettled (sample_cleanup\<lparr>cl_Status := completed_journal\<rparr>) = None"
    using c sample_spec_valid sample_executor_valid sample_receipt_sel sample_time_valid
    by (simp_all add: confirming_cleanup_def confirming_journal_def completed_journal_def sample_cleanup_sel)
  show "validPurgedReceipt confirming_cleanup confirming_journal"
    using sample_executor_valid sample_receipt_sel
    by (simp add: validPurgedReceipt_def confirming_cleanup_def confirming_journal_def status_defs sample_cleanup_sel
        sample_spec_sel sample_executor_sel)
qed

lemma memory_store_resource:
  "parentResource memory_store (sp_Authority sample_spec) = Inr (sr_Volumes memory_store, VolumeProtectionFinalizer)"
proof -
  have "ValidateAuthority (sp_Authority sample_spec) = None" by code_simp
  then show ?thesis by (simp add: parentResource_def sample_spec_sel)
qed

lemma memory_store_get:
  "api_Get (sr_Volumes memory_store) (v, r) n = (case v n of None \<Rightarrow> Inl ApiNotFound | Some obj \<Rightarrow> Inr obj)"
  "api_Get (sr_Pools memory_store) (v, m, p) n = (case p n of None \<Rightarrow> Inl ApiNotFound | Some obj \<Rightarrow> Inr obj)"
  by (simp_all add: memory_store_def lift_client_def memory_client_def)

lemma sample_parents_valid:
  "validateParentIdentity confirming_parent (sp_Authority sample_spec) = None"
  "validateParent confirming_parent (sp_Authority sample_spec) VolumeProtectionFinalizer = None"
  "validateParentIdentity completed_parent (sp_Authority sample_spec) = None"
  "validateParent completed_parent (sp_Authority sample_spec) VolumeProtectionFinalizer = None"
  by (simp_all add: validateParent_def validateParentIdentity_def sample_spec_sel confirming_parent_def completed_parent_def
      setJournal_def sample_parent_def has_finalizer_def)

lemma sample_get:
  "GetJournal (Some memory_store) (sp_Authority sample_spec) confirming_world = Inr confirming_cleanup"
  "GetJournal (Some memory_store) (sp_Authority sample_spec) completed_world = Inr (sample_cleanup\<lparr>cl_Status := completed_journal\<rparr>)"
  by (simp_all add: GetJournal_def get_journal_def memory_store_resource confirming_world_def completed_world_def
      memory_store_get sample_spec_sel sample_parents_valid confirming_parent_journal completed_parent_journal)

lemma confirming_sel:
  "cl_Spec confirming_cleanup = sample_spec" "cl_Status confirming_cleanup = confirming_journal"
  "cl_UID confirming_cleanup = ''u''" "cl_Name confirming_cleanup = cleanupName (sp_Target sample_spec)"
  "st_Phase confirming_journal = PhaseConfirmingAbsence" "st_AbsenceProof confirming_journal = Some (open_proof sample_cleanup 4)"
  "st_ObservedGeneration confirming_journal = 1" "st_LastTransitionTime confirming_journal = FormatUTC sample_time"
  by (simp_all add: confirming_cleanup_def sample_cleanup_def confirming_journal_def status_defs)

lemma sample_scan: "scanProvesAbsence memory_store confirming_cleanup confirming_world = Inr (4, True)"
proof -
  have "validAbsenceFence (sp_Target sample_spec) (Some (open_proof sample_cleanup 4))"
    using absenceRequestID_token by (simp add: validAbsenceFence_def open_proof_def sample_cleanup_sel)
  moreover have "ap_RequiredGeneration (open_proof sample_cleanup 4) = 4" by (simp add: open_proof_def)
  ultimately show ?thesis
    by (simp add: scanProvesAbsence_def confirming_sel confirming_world_def memory_store_get sample_spec_sel Let_def)
      (simp add: scanned_pool_def has_finalizer_def pool_observed_generation_def PoolInventoryFrom_def inventoryProvesAbsence_def)
qed

lemma sample_load:
  "loadBoundJournal memory_store confirming_cleanup confirming_world =
     Inr (sr_Volumes memory_store, confirming_parent, confirming_cleanup)"
  by (simp add: loadBoundJournal_def confirming_sel memory_store_resource confirming_world_def memory_store_get
      sample_spec_sel sample_parents_valid confirming_parent_journal)

lemma sample_update:
  "UpdateJournal (Some memory_store) confirming_cleanup completed_journal confirming_world = (None, completed_world)"
proof -
  have b: "boundStatusIntent confirming_cleanup"
    using sample_spec_valid by (simp add: boundStatusIntent_def confirming_sel sample_spec_sel)
  have sel: "st_ObservedGeneration completed_journal = 1" "st_LastTransitionTime completed_journal = FormatUTC sample_time"
    "st_Phase completed_journal = PhaseCompleted"
    by (simp_all add: completed_journal_def completed_status_def confirming_sel)
  have ne: "confirming_journal \<noteq> completed_journal" using sel(3) confirming_sel(5) by fastforce
  have r: "resolveStatusDefaults memory_store confirming_cleanup completed_journal g w = (completed_journal, w)" for g w
    by (simp add: resolveStatusDefaults_def sel)
  have u: "api_UpdateStatus (sr_Volumes memory_store) confirming_world
      (setJournal confirming_parent \<lparr>jn_Spec = sample_spec, jn_Status = completed_journal\<rparr>) = (Inr completed_parent, completed_world)"
    by (simp add: memory_store_def lift_client_def memory_client_def memory_write_def confirming_world_def completed_world_def
        confirming_parent_def completed_parent_def setJournal_def sample_parent_def Let_def)
  show ?thesis
    by (simp add: UpdateJournal_def b) (simp add: memory_store_def [THEN arg_cong [where f = sr_RetryUpdate]]
        update_attempt_def sample_load r u ne confirming_sel sample_transition(1))
qed

lemma sample_reconcile:
  "ReconcileAbsence (Some memory_store) confirming_cleanup confirming_world =
     (Inr (sample_cleanup\<lparr>cl_Status := completed_journal\<rparr>, True), completed_world)"
proof -
  have clock: "sr_Now memory_store w = (sample_time, w)" for w :: "unit journal_world" by (simp add: memory_store_def)
  have new: "confirming_journal\<lparr>st_Phase := PhaseCompleted,
      st_AbsenceProof := Some (closed_proof (open_proof sample_cleanup 4) 4 (FormatUTC sample_time)),
      st_SettledAt := FormatUTC sample_time\<rparr> = completed_journal"
    by (simp add: completed_journal_def completed_status_def)
  have closed: "\<lparr>ap_RequestID = ap_RequestID p, ap_PoolName = ap_PoolName p, ap_PoolUID = ap_PoolUID p,
      ap_RequiredGeneration = ap_RequiredGeneration p, ap_ObservedGeneration = g, ap_Valid = True, ap_Complete = True,
      ap_Absent = True, ap_ConfirmedAt = t\<rparr> = closed_proof p g t" for p g t
    by (simp add: closed_proof_def)
  have "settleAbsence memory_store confirming_cleanup 4 confirming_world =
      (Inr (sample_cleanup\<lparr>cl_Status := completed_journal\<rparr>, True), completed_world)"
    unfolding settleAbsence_def clock prod.case Let_def confirming_sel option.sel closed new
    by (simp add: sample_update sample_get) (simp add: completed_journal_def completed_status_def)
  then show ?thesis
    using sample_transition(3) by (simp add: ReconcileAbsence_def confirming_sel sample_get sample_scan)
qed

lemma sample_run: "(journal_op memory_store)\<^sup>*\<^sup>* confirming_world completed_world"
  using journal_op.reconciled [OF sample_reconcile] by blast

lemma sample_parents_sound: "parents_good parent_sound fst (\<lambda>(v, m, p). m) confirming_world"
proof -
  have "journal_sound confirming_cleanup"
    using sample_transition(3) absenceRequestID_token
    by (simp add: journal_sound_def confirming_sel validAbsenceFence_def open_proof_def sample_cleanup_sel)
  then show ?thesis
    by (simp add: parents_good_def all_stored_def confirming_world_def parent_sound_def confirming_parent_journal)
qed

section \<open>Claims\<close>

text \<open>
  C18. A completed cleanup is proven. Whatever sequence of \<open>Ensure\<close>, \<open>UpdateStatus\<close> and
  \<open>ReconcileAbsence\<close> calls runs, with failed, ambiguous or repeated writes, a journal that any
  parent then shows as Completed passes \<open>ValidateSettled\<close>: an executor on the target's node, its
  receipt of retirement and purge for this operation, and an absence proof of the target's own pool
  whose observed generation is not before the positive fence.
\<close>

theorem completed_cleanup_is_proven:
  assumes "(journal_op s)\<^sup>*\<^sup>* w w'" and "store_relied volumes moves s"
    and "parents_good parent_sound volumes moves w"
    and "volumes w' n = Some obj \<or> moves w' n = Some obj" and "journalFromParent obj = Inr (Some c)"
    and "st_Phase (cl_Status c) = PhaseCompleted"
  shows "ValidateSettled c = None \<and> (\<exists>e r p. st_Executor (cl_Status c) = Some e \<and> st_Receipt (cl_Status c) = Some r \<and>
     st_AbsenceProof (cl_Status c) = Some p \<and> er_NodeName e = ci_NodeName (sp_Target (cl_Spec c)) \<and>
     rc_OperationID r = sp_OperationID (cl_Spec c) \<and> rc_ExecutorUID r = ExecutionUID e \<and> rc_Retired r \<and> rc_Purged r \<and>
     ap_PoolUID p = ci_PoolUID (sp_Target (cl_Spec c)) \<and> 0 < ap_RequiredGeneration p \<and>
     ap_RequiredGeneration p \<le> ap_ObservedGeneration p \<and> ap_Absent p)"
proof -
  have "parent_sound obj"
    using journal_run_sound [OF assms(1,2,3)] assms(4) by (auto simp: parents_good_def all_stored_def)
  then have "ValidateSettled c = None"
    using assms(5,6) by (simp add: parent_sound_def journal_sound_def)
  then show ?thesis by (blast elim: settled_facts)
qed

theorem completed_cleanup_is_proven_witness:
  "\<exists>obj c p. fst completed_world parent_name = Some obj \<and> journalFromParent obj = Inr (Some c) \<and>
     st_Phase (cl_Status c) = PhaseCompleted \<and> st_AbsenceProof (cl_Status c) = Some p \<and> ap_Absent p"
proof -
  have o: "fst completed_world parent_name = Some completed_parent" by (simp add: completed_world_def)
  have ph: "st_Phase (cl_Status (sample_cleanup\<lparr>cl_Status := completed_journal\<rparr>)) = PhaseCompleted"
    by (simp add: completed_journal_def completed_status_def)
  from completed_cleanup_is_proven [OF sample_run memory_store_relied, OF sample_parents_sound, OF disjI1 [OF o] completed_parent_journal ph]
  have "\<exists>p. st_AbsenceProof (cl_Status (sample_cleanup\<lparr>cl_Status := completed_journal\<rparr>)) = Some p \<and> ap_Absent p" by metis
  with o completed_parent_journal ph show ?thesis by metis
qed

text \<open>
  C19. Recorded evidence stays. From a state in which the parent with this UID carries the journal
  \<open>c0\<close>, after any run of the store that parent still carries a journal, of the same intent, at the
  same or a later phase, with the same receipt once there was one, with the same executor once there
  was a receipt beside it (before a receipt a retry may bind a new executor), and with the same
  absence fence (and the same proof, once confirmed) once there was one.
\<close>

theorem journal_history_kept:
  assumes "(journal_op s)\<^sup>*\<^sup>* w w'" and "store_relied volumes moves s"
    and "\<forall>n obj. (volumes w n = Some obj \<or> moves w n = Some obj) \<longrightarrow> ao_UID obj = uid \<longrightarrow> journalFromParent obj = Inr (Some c0)"
    and "volumes w' n = Some obj \<or> moves w' n = Some obj" and "ao_UID obj = uid"
  shows "\<exists>c. journalFromParent obj = Inr (Some c) \<and> journal_extends c0 c"
proof -
  have "parents_good (journal_kept uid c0) volumes moves w"
    using assms(3) journal_extends_refl by (fastforce simp: parents_good_def all_stored_def journal_kept_def)
  from journal_run_kept [OF assms(1,2) this] have "journal_kept uid c0 obj"
    using assms(4) by (auto simp: parents_good_def all_stored_def)
  with assms(5) show ?thesis by (simp add: journal_kept_def)
qed

theorem journal_history_kept_witness:
  "journal_extends confirming_cleanup (sample_cleanup\<lparr>cl_Status := completed_journal\<rparr>) \<and>
   st_Receipt completed_journal = Some sample_receipt"
proof -
  have o: "fst completed_world parent_name = Some completed_parent" "ao_UID completed_parent = ''u''"
    by (simp_all add: completed_world_def completed_parent_def setJournal_def sample_parent_def)
  have start: "\<forall>n obj. (fst confirming_world n = Some obj \<or> (case confirming_world of (v, m, p) \<Rightarrow> m) n = Some obj) \<longrightarrow>
      ao_UID obj = ''u'' \<longrightarrow> journalFromParent obj = Inr (Some confirming_cleanup)"
    by (simp add: confirming_world_def confirming_parent_journal)
  from journal_history_kept [OF sample_run memory_store_relied, OF start, OF disjI1 [OF o(1)] o(2)]
  have "journal_extends confirming_cleanup (sample_cleanup\<lparr>cl_Status := completed_journal\<rparr>)"
    using completed_parent_journal by (metis sum.inject(2) option.inject)
  moreover have "st_Receipt completed_journal = Some sample_receipt"
    by (simp add: completed_journal_def confirming_journal_def verifying_status_def confirming_status_def completed_status_def)
  ultimately show ?thesis ..
qed

lemma settle_result:
  assumes "settleAbsence s current g w = (Inr (c, True), w')"
  shows "st_Phase (cl_Status c) = PhaseCompleted"
  using assms by (auto simp: settleAbsence_def Let_def bind_res_Inr split: prod.splits option.splits)

lemma fence_result: "openAbsenceFence s current w \<noteq> (Inr (c, True), w')"
  by (auto simp: openAbsenceFence_def Let_def bind_res_Inr split: prod.splits option.splits sum.splits)

lemma inventory_absent:
  assumes "inventoryProvesAbsence found name uid node target" and "seen \<in> set (iv_Copies found)" and "cob_Identity seen = Some target"
  shows "\<not> cob_Present seen \<and> \<not> cob_Published seen"
proof -
  have "copy_consistent name uid node target seen"
    using assms(1,2) by (simp add: inventoryProvesAbsence_def list_all_iff)
  then show ?thesis using assms(3) by (auto simp: copy_consistent_def split: if_splits)
qed

lemma scan_proof:
  assumes "scanProvesAbsence s current w = Inr (g, True)"
  obtains pool p found where "api_Get (sr_Pools s) w (ci_PoolName (sp_Target (cl_Spec current))) = Inr pool"
    "ao_UID pool = ci_PoolUID (sp_Target (cl_Spec current))" "has_finalizer pool PoolProtectionFinalizer"
    "st_AbsenceProof (cl_Status current) = Some p" "pool_observed_generation pool = Inr g"
    "g = ao_Generation pool" "ap_RequiredGeneration p \<le> g"
    "PoolInventoryFrom pool = Inr (Some found)" "iv_Valid found" "\<not> iv_Truncated found" "iv_Message found = []"
    "\<forall>seen \<in> set (iv_Copies found). cob_Identity seen = Some (sp_Target (cl_Spec current)) \<longrightarrow> \<not> cob_Present seen \<and> \<not> cob_Published seen"
proof -
  obtain pool where pool: "api_Get (sr_Pools s) w (ci_PoolName (sp_Target (cl_Spec current))) = Inr pool"
    using assms by (auto simp: scanProvesAbsence_def Let_def)
  have id: "ao_UID pool = ci_PoolUID (sp_Target (cl_Spec current))" "has_finalizer pool PoolProtectionFinalizer"
    and fence: "validAbsenceFence (sp_Target (cl_Spec current)) (st_AbsenceProof (cl_Status current))"
    using assms by (auto simp: scanProvesAbsence_def Let_def pool split: if_splits)
  obtain p where p: "st_AbsenceProof (cl_Status current) = Some p" using fence by (auto simp: validAbsenceFence_def split: option.splits)
  obtain gen where gen: "pool_observed_generation pool = Inr gen"
    using assms fence p by (auto simp: scanProvesAbsence_def Let_def pool id)
  have cur: "gen = ao_Generation pool" "ap_RequiredGeneration p \<le> gen"
    using assms fence by (auto simp: scanProvesAbsence_def Let_def pool id p gen split: if_splits)
  obtain found where found: "PoolInventoryFrom pool = Inr (Some found)"
    using assms fence cur by (auto simp: scanProvesAbsence_def Let_def pool id p gen split: option.splits)
  have ok: "iv_Valid found" "\<not> iv_Truncated found" "iv_Message found = []"
    using assms fence cur by (auto simp: scanProvesAbsence_def Let_def pool id p gen found split: if_splits)
  obtain node where node: "pb_nodeName (ao_Body pool) = Present node"
    using assms fence cur ok by (auto simp: scanProvesAbsence_def Let_def pool id p gen found split: api_field.splits)
  have "gen = g" "inventoryProvesAbsence found (ao_Name pool) (ao_UID pool) node (sp_Target (cl_Spec current))"
    using assms fence cur ok by (auto simp: scanProvesAbsence_def Let_def pool id p gen found node split: if_splits)
  with that [OF pool id p _ _ _ found ok] gen cur show ?thesis by (auto dest: inventory_absent)
qed

text \<open>
  C20. Absence is only concluded from a fresh and complete scan. When \<open>ReconcileAbsence\<close> reports a
  cleanup as settled, its result is Completed, and either the journal was already Completed with
  valid evidence, or the exact protected pool of the target has a valid, untruncated inventory with no
  message in which no entry of the target is present or published, and that inventory is fresh: the
  generation its status observed is the current generation of the pool and not below the generation
  the fence requires.
\<close>

theorem absence_needs_fresh_scan:
  assumes "ReconcileAbsence (Some s) expected w = (Inr (c, True), w')"
  shows "st_Phase (cl_Status c) = PhaseCompleted \<and>
    (\<exists>current. GetJournal (Some s) (sp_Authority (cl_Spec expected)) w = Inr current \<and> cl_Spec current = cl_Spec expected \<and>
      (st_Phase (cl_Status current) = PhaseCompleted \<and> ValidateSettled current = None \<or>
       (\<exists>pool p g found. api_Get (sr_Pools s) w (ci_PoolName (sp_Target (cl_Spec expected))) = Inr pool \<and>
          ao_UID pool = ci_PoolUID (sp_Target (cl_Spec expected)) \<and> has_finalizer pool PoolProtectionFinalizer \<and>
          st_AbsenceProof (cl_Status current) = Some p \<and>
          pool_observed_generation pool = Inr g \<and> g = ao_Generation pool \<and> ap_RequiredGeneration p \<le> g \<and>
          PoolInventoryFrom pool = Inr (Some found) \<and> iv_Valid found \<and> \<not> iv_Truncated found \<and>
          iv_Message found = [] \<and>
          (\<forall>seen \<in> set (iv_Copies found). cob_Identity seen = Some (sp_Target (cl_Spec expected)) \<longrightarrow>
             \<not> cob_Present seen \<and> \<not> cob_Published seen))))"
proof -
  obtain current where cur: "GetJournal (Some s) (sp_Authority (cl_Spec expected)) w = Inr current" "cl_Spec current = cl_Spec expected"
    using assms by (auto simp: ReconcileAbsence_def split: sum.splits if_splits)
  consider "settledAbsence current = Inr (c, True)" "st_Phase (cl_Status current) = PhaseCompleted"
    | g where "scanProvesAbsence s current w = Inr (g, True)" "settleAbsence s current g w = (Inr (c, True), w')"
    using assms cur fence_result [of s current w c w']
    by (auto simp: ReconcileAbsence_def split: if_splits sum.splits)
  then show ?thesis
  proof cases
    case 1
    then show ?thesis using cur by (auto simp: settledAbsence_def guard_err_Inr)
  next
    case 2
    from 2(1) show ?thesis
      by (rule scan_proof) (use settle_result [OF 2(2)] cur in \<open>auto simp: cur(2)\<close>)
  qed
qed

theorem absence_needs_fresh_scan_witness:
  "\<exists>pool. api_Get (sr_Pools memory_store) confirming_world ''pool'' = Inr pool \<and> ao_UID pool = ''pu'' \<and>
     (\<exists>g. pool_observed_generation pool = Inr g \<and> g = ao_Generation pool \<and> 4 \<le> g)"
proof -
  have "st_Phase (cl_Status confirming_cleanup) \<noteq> PhaseCompleted" by (simp add: confirming_sel)
  with absence_needs_fresh_scan [OF sample_reconcile] sample_get(1) show ?thesis
    by (auto simp: confirming_sel sample_spec_sel open_proof_def)
qed

text \<open>
  C21. A refused write changes nothing. When the rules refuse the resolved status for the journal that
  is stored, \<open>UpdateStatus\<close> returns the error of the first refusing rule, which is a conflict of the
  journal and not one the loop retries, and no volume and no Move has changed.
\<close>

theorem refused_update_changes_nothing:
  assumes "store_relied volumes moves s" and "boundStatusIntent expected"
    and "loadBoundJournal s expected w = Inr (resource, obj, c)"
    and "cl_Status c \<noteq> fst (resolveStatusDefaults s c new (ao_Generation obj) w)"
    and "validateTransition c (fst (resolveStatusDefaults s c new (ao_Generation obj) w)) = Some e"
  shows "\<exists>w'. UpdateJournal (Some s) expected new w = (Some e, w') \<and> volumes w' = volumes w \<and> moves w' = moves w \<and>
    errors_is e ErrConflict \<and> \<not> errors_is e ApiConflict"
proof -
  obtain new' w1 where n: "resolveStatusDefaults s c new (ao_Generation obj) w = (new', w1)" by fastforce
  have conflict: "errors_is e ErrConflict \<and> \<not> errors_is e ApiConflict" using refusal_is_conflict [OF assms(5)] .
  have "update_attempt s expected (new, w) = (Some e, (new', w1))"
    using assms(3,4,5) by (simp add: update_attempt_def n)
  moreover have "retry_run (update_attempt s expected) (new, w) (sr_RetryUpdate s (update_attempt s expected) (new, w))"
    using assms(1) by (simp add: store_relied_def retries_on_conflict_def)
  ultimately have "sr_RetryUpdate s (update_attempt s expected) (new, w) = (Some e, (new', w1))"
    using conflict by (auto elim: retry_run.cases)
  moreover have "volumes w1 = volumes w \<and> moves w1 = moves w"
  proof -
    have "w1 = w \<or> w1 = snd (sr_Now s w)"
      using n by (auto simp: resolveStatusDefaults_def Let_def split: if_splits prod.splits)
    then show ?thesis using assms(1) by (auto simp: store_relied_def)
  qed
  ultimately show ?thesis using assms(2) conflict by (simp add: UpdateJournal_def)
qed

theorem refused_update_changes_nothing_witness:
  "\<exists>e w'. UpdateJournal (Some memory_store) confirming_cleanup (pending_status 1 (FormatUTC sample_time)) confirming_world = (Some e, w') \<and>
     fst w' = fst confirming_world \<and> errors_is e ErrConflict"
proof -
  let ?new = "pending_status 1 (FormatUTC sample_time)"
  have b: "boundStatusIntent confirming_cleanup"
    using sample_spec_valid by (simp add: boundStatusIntent_def confirming_sel sample_spec_sel)
  have r: "resolveStatusDefaults memory_store confirming_cleanup ?new (ao_Generation confirming_parent) confirming_world = (?new, confirming_world)"
    by (simp add: resolveStatusDefaults_def pending_status_def zero_journal_status_def)
  have ph: "st_Phase ?new = CleanupPending" by (simp add: pending_status_def)
  have ne: "cl_Status confirming_cleanup \<noteq> fst (?new, confirming_world)" using ph confirming_sel(2,5) by fastforce
  have "CleanupPending \<notin> set (allowed_edges PhaseConfirmingAbsence)" by (simp add: allowed_edges_def)
  then have "validateTransition confirming_cleanup ?new \<noteq> None"
    using ph edge_allowed [of confirming_cleanup ?new] by (auto simp: effective_phase_def confirming_sel)
  then obtain e where "validateTransition confirming_cleanup (fst (?new, confirming_world)) = Some e" by auto
  with ne have "\<exists>w'. UpdateJournal (Some memory_store) confirming_cleanup ?new confirming_world = (Some e, w') \<and> fst w' = fst confirming_world \<and>
      (case w' of (v, m, p) \<Rightarrow> m) = (case confirming_world of (v, m, p) \<Rightarrow> m) \<and> errors_is e ErrConflict \<and> \<not> errors_is e ApiConflict"
    by (intro refused_update_changes_nothing [OF memory_store_relied b sample_load]) (simp_all add: r)
  then show ?thesis by blast
qed

text \<open>
  A journal settles or stops: whatever statuses are written to it in sequence under the rules,
  rewriting the current one included, its phase changes at most four times.
\<close>

theorem journal_phase_changes_bounded:
  assumes "successively (\<lambda>c d. d = c \<or> validateTransition c (cl_Status d) = None \<and> d = c\<lparr>cl_Status := cl_Status d\<rparr>) cs"
  shows "changes (map effective_phase cs) \<le> 4"
proof (cases cs)
  case (Cons c ds)
  have "successively (\<lambda>p q. q = p \<or> q \<in> set (allowed_edges p)) (map effective_phase cs)"
    using assms unfolding successively_map
  proof (rule successively_mono)
    fix c d :: Cleanup
    assume "d = c \<or> validateTransition c (cl_Status d) = None \<and> d = c\<lparr>cl_Status := cl_Status d\<rparr>"
    then show "effective_phase d = effective_phase c \<or> effective_phase d \<in> set (allowed_edges (effective_phase c))"
      using edge_allowed effective_phase_written by metis
  qed
  moreover have "phase_rank p \<le> 4" for p by (simp add: phase_rank_def)
  ultimately have "phase_rank (effective_phase c) + changes (map effective_phase cs) \<le> 4"
    using jp.changes_bounded [of "map effective_phase cs"] by (simp add: Cons)
  then show ?thesis by simp
qed simp

theorem journal_phase_changes_bounded_witness:
  "changes (map effective_phase [confirming_cleanup, sample_cleanup\<lparr>cl_Status := completed_journal\<rparr>]) \<le> 4"
proof (rule journal_phase_changes_bounded)
  show "successively (\<lambda>c d. d = c \<or> validateTransition c (cl_Status d) = None \<and> d = c\<lparr>cl_Status := cl_Status d\<rparr>)
      [confirming_cleanup, sample_cleanup\<lparr>cl_Status := completed_journal\<rparr>]"
    using sample_transition(1) by (simp add: confirming_cleanup_def)
qed

end
