(* ===== verification/Volume_State.thy ===== *)
theory Volume_State
  imports Cleanup_Store
begin

text \<open>
  The volume registry (\<open>src/kubernetes/volumeapi/volume.go\<close>, \<open>creation_claim.go\<close>,
  \<open>creation_executor.go\<close>, \<open>creation_cancellation.go\<close>, \<open>creation_intent.go\<close>, \<open>installation.go\<close>).

  \<^item> \<open>State\<close> and the fields of the volume object (\<open>volume_body\<close>, which extends the body that carries
    the cleanup journal), with \<open>stateFrom\<close> and \<open>setState\<close>.
  \<^item> for every operation a pure step on \<open>State\<close> (\<open>..._mutate\<close>, the closure the source passes to
    \<open>mutateState\<close>) and the operation itself over the clients.
  \<^item> \<open>BeginCreate\<close> and \<open>initializeCreate\<close> call each other; \<open>begin_create\<close> takes the number of
    nested calls as fuel and two are enough.
\<close>

section \<open>States\<close>

abbreviation PhasePending :: string where "PhasePending \<equiv> ''Pending''"
abbreviation PhaseNodeCreating :: string where "PhaseNodeCreating \<equiv> ''NodeCreating''"
abbreviation PhaseMoving :: string where "PhaseMoving \<equiv> ''Moving''"
abbreviation PhaseBlocked :: string where "PhaseBlocked \<equiv> ''Blocked''"

record PoolReference =
  pr_Name :: string
  pr_UID :: string

record ClaimReference =
  cr_Namespace :: string
  cr_Name :: string
  cr_UID :: string

record NodeExecutor =
  ne_Namespace :: string
  ne_PodName :: string
  ne_PodUID :: string
  ne_NodeName :: string

record CreationReceipt =
  rt_OperationID :: string
  rt_ExecutorUID :: string
  rt_ObservedAt :: string
  rt_LocalReceiptDigest :: string

record State =
  vs_UID :: string
  vs_Finalizers :: "string list"
  vs_RequestName :: string
  vs_CapacityBytes :: int
  vs_InitialNode :: string
  vs_InitialPool :: "PoolReference option"
  vs_CreationClaim :: "ClaimReference option"
  vs_HasCleanup :: bool
  vs_Deleting :: bool
  vs_Phase :: string
  vs_OwnerNode :: string
  vs_ActiveMove :: string
  vs_PublishedNodes :: "string list"
  vs_CreationOperationID :: string
  vs_DeletionOperationID :: string
  vs_CurrentCopy :: "CopyIdentity option"
  vs_CreationExecutor :: "NodeExecutor option"
  vs_CreationReceipt :: "CreationReceipt option"

text \<open>The map \<open>spec.initialPool\<close>, whose two strings are read one by one.\<close>

record initial_pool_map =
  ip_name :: "string api_field"
  ip_uid :: "string api_field"

record volume_body = journal_body +
  vb_volumeID :: "string api_field"
  vb_requestName :: "string api_field"
  vb_initialNode :: "string api_field"
  vb_capacityBytes :: "int api_field"
  vb_initialPool :: "initial_pool_map api_field"
  vb_creationClaim :: "ClaimReference api_field"
  vb_phase :: "string api_field"
  vb_ownerNode :: "string api_field"
  vb_activeMove :: "string api_field"
  vb_publishedNodes :: "string list api_field"
  vb_creationOperationID :: "string api_field"
  vb_deletionOperationID :: "string api_field"
  vb_creationExecutor :: "NodeExecutor api_field"
  vb_creationReceipt :: "CreationReceipt api_field"
  vb_currentCopy :: "CopyIdentity api_field"

type_synonym volume_object = "volume_body api_object"

section \<open>Claims, executors and receipts\<close>

definition claim_uid_char :: "char \<Rightarrow> bool" where
  "claim_uid_char c \<longleftrightarrow> (let n = of_char c :: nat in
     (48 \<le> n \<and> n \<le> 57) \<or> (65 \<le> n \<and> n \<le> 90) \<or> (97 \<le> n \<and> n \<le> 122))"

text \<open>The regular expression \<open>^[A-Za-z0-9][A-Za-z0-9._-]*$\<close>.\<close>

definition claimUID :: "string \<Rightarrow> bool" where
  "claimUID s = (case s of [] \<Rightarrow> False
     | c # r \<Rightarrow> claim_uid_char c \<and> list_all (\<lambda>d. claim_uid_char d \<or> d \<in> set ''._-'') r)"

definition ValidClaim :: "k8s_lib \<Rightarrow> ClaimReference \<Rightarrow> bool" where
  "ValidClaim k c \<longleftrightarrow> k_IsDNS1123Label k (cr_Namespace c) \<and> k_IsDNS1123Subdomain k (cr_Name c) \<and>
     ValidIdentityToken (cr_UID c) \<and> claimUID (cr_UID c)"

record CreationRequest =
  rq_VolumeID :: string
  rq_RequestName :: string
  rq_NodeName :: string
  rq_CapacityBytes :: int
  rq_Pool :: "PoolReference option"
  rq_Claim :: "ClaimReference option"

definition validateRequest :: "k8s_lib \<Rightarrow> CreationRequest \<Rightarrow> error option" where
  "validateRequest k r = (
     if ValidateID (rq_VolumeID r) \<noteq> None \<or> rq_RequestName r = [] \<or> rq_NodeName r = [] \<or> rq_CapacityBytes r \<le> 0
     then Some ErrStateConflict
     else if (case rq_Pool r of None \<Rightarrow> False | Some p \<Rightarrow> pr_Name p = [] \<or> pr_UID p = []) then Some ErrPoolConfiguration
     else if (case rq_Claim r of None \<Rightarrow> False
              | Some c \<Rightarrow> \<not> ValidClaim k c \<or> rq_RequestName r \<noteq> ''pvc-'' @ cr_UID c) then Some ErrStateConflict
     else None)"

definition claimFrom :: "k8s_lib \<Rightarrow> volume_object \<Rightarrow> ClaimReference option res" where
  "claimFrom k obj = (case vb_creationClaim (ao_Body obj) of
     Missing \<Rightarrow> Inr None
   | Malformed \<Rightarrow> Inl (Errorf ''decode creationClaim'')
   | Present claim \<Rightarrow>
       if \<not> ValidClaim k claim \<or> field_or [] (vb_requestName (ao_Body obj)) \<noteq> ''pvc-'' @ cr_UID claim
       then Inl (Wrapped ErrStateConflict ''invalid original creation claim'')
       else Inr (Some claim))"

definition sameClaim :: "ClaimReference option \<Rightarrow> ClaimReference option \<Rightarrow> bool" where
  "sameClaim a b \<longleftrightarrow> (a = None \<or> b = None) \<and> a = b \<or> (a \<noteq> None \<and> b \<noteq> None \<and> the a = the b)"

definition initialPoolFrom :: "volume_object \<Rightarrow> PoolReference option res" where
  "initialPoolFrom obj = (case vb_initialPool (ao_Body obj) of
     Missing \<Rightarrow> Inr None
   | Malformed \<Rightarrow> Inl (Errorf ''accessor error'')
   | Present m \<Rightarrow> let name = field_or [] (ip_name m); uid = field_or [] (ip_uid m) in
       if \<not> ValidIdentityToken name \<or> \<not> ValidIdentityToken uid
       then Inl (Wrapped ErrStateConflict ''invalid initial Pool reservation'')
       else Inr (Some \<lparr>pr_Name = name, pr_UID = uid\<rparr>))"

definition ValidNodeExecutor :: "NodeExecutor \<Rightarrow> bool" where
  "ValidNodeExecutor e \<longleftrightarrow> ValidObjectName (ne_Namespace e) \<and> ValidObjectName (ne_PodName e) \<and>
     ValidIdentityToken (ne_PodUID e) \<and> ValidObjectName (ne_NodeName e)"

definition CreationOperationID :: "string \<Rightarrow> string res" where
  "CreationOperationID volumeUID = (let operationID = ''create-'' @ volumeUID in
     if \<not> ValidIdentityToken volumeUID \<or> \<not> ValidIdentityToken operationID
     then Inl (Errorf ''invalid volume creation operation identity'') else Inr operationID)"

definition ValidCreationReceipt :: "State \<Rightarrow> bool" where
  "ValidCreationReceipt s = (case (vs_CreationExecutor s, vs_CreationReceipt s, vs_CurrentCopy s) of
     (Some e, Some receipt, Some c) \<Rightarrow>
       ValidNodeExecutor e \<and> ValidateCopy c = None \<and> ci_VolumeUID c = vs_UID s \<and> ci_Role c = RoleServing \<and>
       validSHA256Digest (rt_LocalReceiptDigest receipt) \<and> parses_time (rt_ObservedAt receipt) \<and>
       CreationOperationID (vs_UID s) = Inr (rt_OperationID receipt) \<and> rt_OperationID receipt = vs_CreationOperationID s \<and>
       rt_ExecutorUID receipt = ne_PodUID e \<and> ne_NodeName e = ci_NodeName c
   | _ \<Rightarrow> False)"

definition ValidReadyCreationHistory :: "State \<Rightarrow> bool" where
  "ValidReadyCreationHistory s = (case vs_CurrentCopy s of
     None \<Rightarrow> False
   | Some c \<Rightarrow>
       if vs_Phase s \<noteq> PhaseReady \<or> vs_Deleting s \<or> vs_DeletionOperationID s \<noteq> [] \<or> vs_HasCleanup s \<or>
          ValidateCopy c \<noteq> None \<or> ci_Role c \<noteq> RoleServing \<or> ci_VolumeUID c \<noteq> vs_UID s \<or> ci_NodeName c \<noteq> vs_OwnerNode s
       then False
       else case vs_CreationExecutor s of
         None \<Rightarrow> vs_CreationReceipt s = None
       | Some e \<Rightarrow> ValidCreationReceipt (s\<lparr>vs_CurrentCopy := Some (c\<lparr>ci_NodeName := ne_NodeName e\<rparr>)\<rparr>))"

section \<open>Reading and writing a volume object\<close>

definition stateFrom :: "k8s_lib \<Rightarrow> volume_object \<Rightarrow> State res" where
  "stateFrom k obj = (let body = ao_Body obj in
     bind_res (claimFrom k obj) (\<lambda>claim.
     bind_res (initialPoolFrom obj) (\<lambda>initialPool.
     bind_res (decode_or [] (vb_publishedNodes body)) (\<lambda>publishedNodes.
     bind_res (decode_ptr (vb_creationExecutor body)) (\<lambda>executor.
     bind_res (decode_ptr (vb_creationReceipt body)) (\<lambda>receipt.
     bind_res (case vb_currentCopy body of
         Missing \<Rightarrow> Inr None
       | Malformed \<Rightarrow> Inl (Errorf ''decode current copy'')
       | Present c \<Rightarrow> guard_err (ValidateCopy c) (Inr (Some c))) (\<lambda>currentCopy.
     Inr \<lparr>vs_UID = ao_UID obj, vs_Finalizers = ao_Finalizers obj,
       vs_RequestName = field_or [] (vb_requestName body), vs_CapacityBytes = field_or 0 (vb_capacityBytes body),
       vs_InitialNode = field_or [] (vb_initialNode body), vs_InitialPool = initialPool, vs_CreationClaim = claim,
       vs_HasCleanup = (jb_cleanup body \<noteq> Missing), vs_Deleting = (ao_DeletionTimestamp obj \<noteq> None),
       vs_Phase = field_or [] (vb_phase body), vs_OwnerNode = field_or [] (vb_ownerNode body),
       vs_ActiveMove = field_or [] (vb_activeMove body), vs_PublishedNodes = publishedNodes,
       vs_CreationOperationID = field_or [] (vb_creationOperationID body),
       vs_DeletionOperationID = field_or [] (vb_deletionOperationID body),
       vs_CurrentCopy = currentCopy, vs_CreationExecutor = executor, vs_CreationReceipt = receipt\<rparr>)))))))"

definition setState :: "volume_object \<Rightarrow> State \<Rightarrow> volume_object" where
  "setState obj s = obj\<lparr>ao_Body := (ao_Body obj)\<lparr>
     vb_phase := Present (vs_Phase s), vb_ownerNode := Present (vs_OwnerNode s), vb_activeMove := Present (vs_ActiveMove s),
     vb_publishedNodes := Present (vs_PublishedNodes s),
     vb_creationOperationID := omit_zero [] (vs_CreationOperationID s),
     vb_deletionOperationID := omit_zero [] (vs_DeletionOperationID s),
     vb_creationExecutor := omit_nil (vs_CreationExecutor s), vb_creationReceipt := omit_nil (vs_CreationReceipt s),
     vb_currentCopy := omit_nil (vs_CurrentCopy s)\<rparr>\<rparr>"

text \<open>The fields a step leaves open keep their recorded values.\<close>

definition merge_state :: "State \<Rightarrow> State \<Rightarrow> State" where
  "merge_state current new = new\<lparr>
     vs_CreationOperationID := (if vs_CreationOperationID new = [] then vs_CreationOperationID current else vs_CreationOperationID new),
     vs_DeletionOperationID := (if vs_DeletionOperationID new = [] then vs_DeletionOperationID current else vs_DeletionOperationID new),
     vs_CurrentCopy := (if vs_CurrentCopy new = None then vs_CurrentCopy current else vs_CurrentCopy new),
     vs_CreationExecutor := (if vs_CreationExecutor new = None then vs_CreationExecutor current else vs_CreationExecutor new),
     vs_CreationReceipt := (if vs_CreationReceipt new = None then vs_CreationReceipt current else vs_CreationReceipt new)\<rparr>"

definition volume_apply :: "k8s_lib \<Rightarrow> (State \<Rightarrow> State res) \<Rightarrow> volume_object \<Rightarrow> volume_object res" where
  "volume_apply k mutate obj = bind_res (stateFrom k obj) (\<lambda>current. bind_res (mutate current) (\<lambda>new.
     Inr (setState obj (merge_state current new))))"

end
