(* ===== verification/Volume_Registry.thy ===== *)
theory Volume_Registry
  imports Volume_State
begin

text \<open>
  The operations of the volume registry. Each mutation of a volume is a pure step on its \<open>State\<close>
  (the closure of the source) run by \<open>mutateState\<close>; the predicates a step asks stand before it.
\<close>

section \<open>Judgements on a state\<close>

definition UnstartedCreation :: "State \<Rightarrow> bool" where
  "UnstartedCreation s \<longleftrightarrow> ValidIdentityToken (vs_UID s) \<and> vs_RequestName s \<noteq> [] \<and> vs_InitialNode s \<noteq> [] \<and>
     0 < vs_CapacityBytes s \<and> VolumeProtectionFinalizer \<in> set (vs_Finalizers s) \<and> \<not> vs_HasCleanup s \<and>
     vs_Phase s = [] \<and> vs_OwnerNode s = [] \<and> vs_ActiveMove s = [] \<and> vs_PublishedNodes s = [] \<and>
     vs_CurrentCopy s = None \<and> vs_CreationOperationID s = [] \<and> vs_DeletionOperationID s = [] \<and>
     vs_CreationExecutor s = None \<and> vs_CreationReceipt s = None"

definition Initializing :: "State \<Rightarrow> bool" where
  "Initializing s \<longleftrightarrow> \<not> vs_Deleting s \<and> UnstartedCreation s"

definition HasInitialReservation :: "State \<Rightarrow> bool" where
  "HasInitialReservation s = (case vs_InitialPool s of
     None \<Rightarrow> False
   | Some p \<Rightarrow> ValidIdentityToken (pr_Name p) \<and> ValidIdentityToken (pr_UID p) \<and> UnstartedCreation s)"

definition initialCreationHistory :: "State \<Rightarrow> CopyIdentity \<Rightarrow> bool" where
  "initialCreationHistory s c = (
     if (case vs_InitialPool s of None \<Rightarrow> False | Some p \<Rightarrow> pr_Name p \<noteq> ci_PoolName c \<or> pr_UID p \<noteq> ci_PoolUID c) then False
     else case vs_CreationExecutor s of
       None \<Rightarrow> vs_CreationReceipt s = None
     | Some e \<Rightarrow> ValidNodeExecutor e \<and> ne_NodeName e = vs_OwnerNode s \<and>
         (vs_CreationReceipt s = None \<or> ValidCreationReceipt s))"

definition initialCreationIdentity :: "State \<Rightarrow> bool" where
  "initialCreationIdentity s = (case vs_CurrentCopy s of
     None \<Rightarrow> False
   | Some c \<Rightarrow>
       if vs_UID s = [] \<or> vs_CapacityBytes s \<le> 0 \<or> vs_RequestName s = [] \<or> vs_InitialNode s = [] \<or>
          vs_OwnerNode s \<noteq> vs_InitialNode s \<or> ci_VolumeUID c \<noteq> vs_UID s \<or> ci_NodeName c \<noteq> vs_OwnerNode s \<or>
          \<not> IsCreationCancellation c (CreationCancellationPrefix @ vs_UID s) \<or>
          vs_CreationOperationID s \<noteq> ''create-'' @ vs_UID s \<or> vs_ActiveMove s \<noteq> [] \<or> vs_PublishedNodes s \<noteq> [] \<or>
          VolumeProtectionFinalizer \<notin> set (vs_Finalizers s)
       then False else initialCreationHistory s c)"

definition CancellableCreation :: "State \<Rightarrow> bool" where
  "CancellableCreation s = (if vs_HasCleanup s \<or> vs_DeletionOperationID s \<noteq> [] \<or> \<not> initialCreationIdentity s then False
     else vs_Phase s = PhasePending \<and> vs_CreationExecutor s = None \<and> vs_CreationReceipt s = None \<or>
       vs_Phase s = PhaseNodeCreating \<and> vs_CreationExecutor s \<noteq> None)"

definition CancellingCreation :: "State \<Rightarrow> bool" where
  "CancellingCreation s \<longleftrightarrow> vs_Phase s = PhaseDeleting \<and> initialCreationIdentity s \<and>
     (case vs_CurrentCopy s of None \<Rightarrow> False | Some c \<Rightarrow> IsCreationCancellation c (vs_DeletionOperationID s))"

definition servingCopyFor :: "CopyIdentity option \<Rightarrow> string \<Rightarrow> string \<Rightarrow> string \<Rightarrow> bool" where
  "servingCopyFor cp volumeID volumeUID nodeName = (case cp of
     None \<Rightarrow> False
   | Some c \<Rightarrow> ValidateCopy c = None \<and> ci_VolumeID c = volumeID \<and> ci_VolumeUID c = volumeUID \<and>
       ci_NodeName c = nodeName \<and> ci_Role c = RoleServing)"

definition sameCreationIntent :: "volume_object \<Rightarrow> State \<Rightarrow> string \<Rightarrow> string \<Rightarrow> string \<Rightarrow> int \<Rightarrow> bool" where
  "sameCreationIntent obj s volumeID requestName ownerNode capacityBytes = (
     if ao_UID obj = [] \<or> vs_UID s \<noteq> ao_UID obj then False
     else if vs_OwnerNode s \<noteq> ownerNode \<or> vs_RequestName s \<noteq> requestName \<or> vs_InitialNode s \<noteq> ownerNode \<or>
       vs_CapacityBytes s \<noteq> capacityBytes then False
     else if vs_Phase s \<noteq> PhasePending \<and> vs_Phase s \<noteq> PhaseNodeCreating \<and> vs_Phase s \<noteq> PhaseReady then False
     else servingCopyFor (vs_CurrentCopy s) volumeID (vs_UID s) ownerNode)"

definition sameNodeCreation :: "State \<Rightarrow> State \<Rightarrow> bool" where
  "sameNodeCreation current expected = (case (vs_CurrentCopy current, vs_CurrentCopy expected) of
     (Some c, Some e) \<Rightarrow> vs_UID current \<noteq> [] \<and> vs_UID current = vs_UID expected \<and>
       vs_CreationOperationID current = vs_CreationOperationID expected \<and> c = e \<and>
       vs_OwnerNode current = vs_OwnerNode expected \<and> ci_VolumeUID c = vs_UID current \<and> ci_NodeName c = vs_OwnerNode current \<and>
       vs_CreationOperationID current = ''create-'' @ vs_UID current \<and> vs_ActiveMove current = [] \<and>
       vs_PublishedNodes current = [] \<and> VolumeProtectionFinalizer \<in> set (vs_Finalizers current)
   | _ \<Rightarrow> False)"

section \<open>Steps\<close>

definition recordIntent_mutate :: "State \<Rightarrow> State \<Rightarrow> State res" where
  "recordIntent_mutate new current = (
     if vs_UID current \<noteq> vs_UID new then Inl (Wrapped ErrStateConflict ''UID changed'')
     else if vs_Phase current \<noteq> [] then Inr current
     else if \<not> Initializing current \<or> vs_InitialPool current = None \<or> vs_InitialPool new = None \<or>
        vs_InitialPool current \<noteq> vs_InitialPool new \<or> vs_RequestName current \<noteq> vs_RequestName new \<or>
        vs_InitialNode current \<noteq> vs_InitialNode new \<or> vs_CapacityBytes current \<noteq> vs_CapacityBytes new \<or>
        \<not> sameClaim (vs_CreationClaim current) (vs_CreationClaim new)
     then Inl ErrStateConflict
     else Inr new)"

definition completeCreate_mutate :: "string \<Rightarrow> CopyIdentity \<Rightarrow> string \<Rightarrow> State \<Rightarrow> State res" where
  "completeCreate_mutate uid c operationID current = (
     if uid = [] \<or> vs_UID current \<noteq> uid \<or> vs_CurrentCopy current \<noteq> Some c \<or>
        vs_CreationOperationID current \<noteq> operationID \<or> vs_OwnerNode current \<noteq> ci_NodeName c
     then Inl ErrStateConflict
     else if vs_Phase current = PhaseReady then Inr current
     else if vs_Phase current \<noteq> PhasePending \<and> vs_Phase current \<noteq> PhaseNodeCreating then Inl ErrStateConflict
     else if vs_Phase current = PhaseNodeCreating \<and> \<not> ValidCreationReceipt current then Inl ErrStateConflict
     else Inr (current\<lparr>vs_Phase := PhaseReady\<rparr>))"

definition fenceForDeletion :: "string \<Rightarrow> string \<Rightarrow> CopyIdentity \<Rightarrow> State \<Rightarrow> State res" where
  "fenceForDeletion uid operationID c current = (
     case DecideDeletion \<lparr>do_UID = vs_UID current, do_OwnerNode = vs_OwnerNode current, do_Phase = vs_Phase current,
       do_ActiveMove = vs_ActiveMove current, do_OperationID = vs_DeletionOperationID current,
       do_CurrentCopy = vs_CurrentCopy current, do_PublishedNodes = vs_PublishedNodes current\<rparr> uid operationID c of
       WaitForUnpublish \<Rightarrow> Inl (Joined ErrStateConflict ErrVolumePublished)
     | Begin \<Rightarrow> Inr (current\<lparr>vs_Phase := PhaseDeleting, vs_DeletionOperationID := operationID\<rparr>)
     | Resume \<Rightarrow> Inr current
     | Reject \<Rightarrow> Inl ErrStateConflict)"

definition cancelCreation_mutate :: "string \<Rightarrow> CopyIdentity \<Rightarrow> State \<Rightarrow> State res" where
  "cancelCreation_mutate uid c current = (
     if vs_UID current \<noteq> uid \<or> vs_CurrentCopy current \<noteq> Some c then Inl ErrStateConflict
     else if CancellingCreation current then Inr current
     else if \<not> CancellableCreation current then Inl ErrStateConflict
     else Inr (current\<lparr>vs_Phase := PhaseDeleting, vs_DeletionOperationID := CreationCancellationPrefix @ uid\<rparr>))"

definition compareAndSet_mutate :: "string \<Rightarrow> string \<Rightarrow> string \<Rightarrow> CopyIdentity option \<Rightarrow> State \<Rightarrow> State \<Rightarrow> State res" where
  "compareAndSet_mutate expectedPhase expectedActiveMove expectedOwner expectedCopy new current = (
     if vs_UID new = [] \<or> vs_UID current \<noteq> vs_UID new \<or> vs_Phase current \<noteq> expectedPhase \<or>
        vs_ActiveMove current \<noteq> expectedActiveMove \<or> vs_OwnerNode current \<noteq> expectedOwner
     then Inl (Wrapped ErrStateConflict ''volume state'')
     else if expectedCopy \<noteq> None \<and> vs_CurrentCopy current \<noteq> expectedCopy
     then Inl (Wrapped ErrStateConflict ''source copy changed'')
     else if expectedCopy \<noteq> None \<and> expectedActiveMove = [] \<and> vs_ActiveMove new \<noteq> [] \<and> (vs_Deleting current \<or> vs_HasCleanup current)
     then Inl (Wrapped ErrStateConflict ''source is being deleted'')
     else if vs_Phase new = PhaseReady \<and> (\<exists>node \<in> set (vs_PublishedNodes current). node \<noteq> vs_OwnerNode new)
     then Inl (Wrapped ErrStateConflict ''node is still published'')
     else Inr (new\<lparr>vs_PublishedNodes := vs_PublishedNodes current\<rparr>))"

definition beginPublish_mutate :: "string \<Rightarrow> CopyIdentity \<Rightarrow> State \<Rightarrow> State res" where
  "beginPublish_mutate nodeName c s = (
     if vs_Phase s \<noteq> PhaseReady \<or> vs_OwnerNode s \<noteq> nodeName \<or> vs_CurrentCopy s \<noteq> Some c
     then Inl (Wrapped ErrStateConflict ''volume is not publishable by this copy'')
     else Inr (s\<lparr>vs_PublishedNodes := sorted_list_of_set (insert nodeName (set (vs_PublishedNodes s)))\<rparr>))"

definition reconcilePublished_mutate :: "string \<Rightarrow> string \<Rightarrow> CopyIdentity \<Rightarrow> bool \<Rightarrow> State \<Rightarrow> State res" where
  "reconcilePublished_mutate volumeID nodeName c published s = (
     if ValidateCopy c \<noteq> None \<or> ci_Role c \<noteq> RoleServing \<or> ci_VolumeID c \<noteq> volumeID \<or> ci_NodeName c \<noteq> nodeName \<or>
        vs_UID s \<noteq> ci_VolumeUID c \<or> vs_OwnerNode s \<noteq> nodeName \<or> vs_CurrentCopy s \<noteq> Some c
     then Inl (Wrapped ErrStateConflict ''publication copy identity changed'')
     else if published \<and> vs_Phase s \<noteq> PhaseReady then Inl (Wrapped ErrStateConflict ''volume is not publishable'')
     else Inr (s\<lparr>vs_PublishedNodes := sorted_list_of_set
       (if published then insert nodeName (set (vs_PublishedNodes s)) else set (vs_PublishedNodes s) - {nodeName})\<rparr>))"

definition bindCreation_mutate :: "State \<Rightarrow> NodeExecutor \<Rightarrow> State \<Rightarrow> State res" where
  "bindCreation_mutate expected executor current = (
     if \<not> sameNodeCreation current expected \<or> vs_CreationReceipt current \<noteq> None \<or>
        (vs_Phase current \<noteq> PhasePending \<and> vs_Phase current \<noteq> PhaseNodeCreating) \<or>
        vs_CreationExecutor current \<noteq> vs_CreationExecutor expected
     then Inl ErrStateConflict
     else Inr (current\<lparr>vs_Phase := PhaseNodeCreating, vs_CreationExecutor := Some executor\<rparr>))"

definition recordReceipt_mutate :: "State \<Rightarrow> CreationReceipt \<Rightarrow> State \<Rightarrow> State res" where
  "recordReceipt_mutate expected receipt current = (
     if \<not> sameNodeCreation current expected \<or> vs_Phase current \<noteq> PhaseNodeCreating \<or>
        vs_CreationExecutor current \<noteq> vs_CreationExecutor expected
     then Inl ErrStateConflict
     else if vs_CreationReceipt current \<noteq> None then
       (if vs_CreationReceipt current \<noteq> Some receipt then Inl ErrStateConflict else Inr current)
     else let new = current\<lparr>vs_CreationReceipt := Some receipt\<rparr> in
       if \<not> ValidCreationReceipt new then Inl ErrStateConflict else Inr new)"

section \<open>The registry\<close>

text \<open>
  The clients of volumes and pools, the read of the \<open>kube-system\<close> namespace, and
  \<open>retry.RetryOnConflict\<close>.
\<close>

record 'w volume_registry =
  vr_Volumes :: "('w, volume_body) api_client option"
  vr_Pools :: "'w pool_registry"
  vr_Namespace :: "'w \<Rightarrow> unit api_object res"
  vr_Retry :: "'w closure \<Rightarrow> 'w closure"

definition mutateState :: "k8s_lib \<Rightarrow> 'w volume_registry \<Rightarrow> string \<Rightarrow> (State \<Rightarrow> State res) \<Rightarrow> 'w closure" where
  "mutateState k r volumeID mutate = mutateObject (vr_Volumes r) (vr_Retry r)
     \<lparr>om_name = volumeID, om_uid = [], om_status = True, om_apply = volume_apply k mutate\<rparr>"

definition getVolume :: "'w volume_registry \<Rightarrow> string \<Rightarrow> 'w \<Rightarrow> volume_object res" where
  "getVolume r volumeID w = (case vr_Volumes r of
     None \<Rightarrow> Inl (Errorf ''volume registry is not configured'')
   | Some client \<Rightarrow> (case api_Get client w volumeID of
       Inl e \<Rightarrow> Inl (Wrapped e ''get ShiftPVVolume'') | Inr obj \<Rightarrow> Inr obj))"

definition GetVolume :: "k8s_lib \<Rightarrow> 'w volume_registry \<Rightarrow> string \<Rightarrow> 'w \<Rightarrow> State res" where
  "GetVolume k r volumeID w = bind_res (getVolume r volumeID w) (stateFrom k)"

text \<open>The map is built in the order of the list: a later object of the same name wins.\<close>

definition ListVolumes :: "k8s_lib \<Rightarrow> 'w volume_registry \<Rightarrow> 'w \<Rightarrow> (string \<rightharpoonup> State) res" where
  "ListVolumes k r w = (case vr_Volumes r of
     None \<Rightarrow> Inl (Errorf ''volume registry is not configured'')
   | Some client \<Rightarrow> (case api_List client w of
       Inl e \<Rightarrow> Inl (Wrapped e ''list ShiftPVVolume'')
     | Inr objs \<Rightarrow> bind_res (map_res (\<lambda>obj. case stateFrom k obj of
             Inl e \<Rightarrow> Inl (Wrapped e ''decode ShiftPVVolume'') | Inr s \<Rightarrow> Inr (ao_Name obj, s)) objs)
           (\<lambda>kvs. Inr (map_of (rev kvs)))))"

definition DeleteVolume :: "'w volume_registry \<Rightarrow> string \<Rightarrow> string \<Rightarrow> 'w closure" where
  "DeleteVolume r volumeID uid w = (case vr_Volumes r of
     None \<Rightarrow> (Some (Errorf ''volume registry is not configured''), w)
   | Some client \<Rightarrow>
       if uid = [] then (Some (Errorf ''ShiftPVVolume UID is required for deletion''), w)
       else (case api_Delete client w volumeID uid None of
           (Some e, w') \<Rightarrow> if errors_is e ApiNotFound then (None, w') else (Some (Wrapped e ''delete ShiftPVVolume''), w')
         | (None, w') \<Rightarrow> (None, w')))"

definition RemoveVolumeFinalizer :: "'w volume_registry \<Rightarrow> string \<Rightarrow> string \<Rightarrow> 'w closure" where
  "RemoveVolumeFinalizer r volumeID uid =
     updateObjectFinalizer (vr_Volumes r) (vr_Retry r) volumeID uid VolumeProtectionFinalizer False"

definition InstallationID :: "'w volume_registry \<Rightarrow> 'w \<Rightarrow> string res" where
  "InstallationID r w = (case vr_Volumes r of
     None \<Rightarrow> Inl (Errorf ''volume registry is not configured'')
   | Some _ \<Rightarrow> (case vr_Namespace r w of
       Inl e \<Rightarrow> Inl (Wrapped e ''read ShiftPV installation identity'')
     | Inr ns \<Rightarrow> if ao_UID ns = [] \<or> ao_DeletionTimestamp ns \<noteq> None
         then Inl (Wrapped ErrStateConflict ''cluster identity is missing or terminating'') else Inr (ao_UID ns)))"

section \<open>Deleting, moving and publishing\<close>

definition BeginDelete :: "k8s_lib \<Rightarrow> 'w volume_registry \<Rightarrow> string \<Rightarrow> string \<Rightarrow> CopyIdentity \<Rightarrow> 'w \<Rightarrow> State res \<times> 'w" where
  "BeginDelete k r volumeID uid c w = (let operationID = ''delete-'' @ uid in
     if uid = [] \<or> ValidateCopy c \<noteq> None \<or> ci_VolumeID c \<noteq> volumeID \<or> ci_VolumeUID c \<noteq> uid then (Inl ErrStateConflict, w)
     else case mutateState k r volumeID (fenceForDeletion uid operationID c) w of
       (Some e, w') \<Rightarrow> (Inl e, w')
     | (None, w') \<Rightarrow> (bind_res (GetVolume k r volumeID w') (\<lambda>s.
           if vs_Phase s \<noteq> PhaseDeleting \<or> vs_DeletionOperationID s \<noteq> operationID \<or> vs_UID s \<noteq> uid \<or> vs_CurrentCopy s \<noteq> Some c
           then Inl ErrStateConflict else Inr s), w'))"

definition compareAndSetState :: "k8s_lib \<Rightarrow> 'w volume_registry \<Rightarrow> string \<Rightarrow> string \<Rightarrow> string \<Rightarrow> string \<Rightarrow>
    CopyIdentity option \<Rightarrow> State \<Rightarrow> 'w closure" where
  "compareAndSetState k r volumeID expectedPhase expectedActiveMove expectedOwner expectedCopy new =
     mutateState k r volumeID (compareAndSet_mutate expectedPhase expectedActiveMove expectedOwner expectedCopy new)"

definition CompareAndSetState :: "k8s_lib \<Rightarrow> 'w volume_registry \<Rightarrow> string \<Rightarrow> string \<Rightarrow> string \<Rightarrow> string \<Rightarrow> State \<Rightarrow> 'w closure" where
  "CompareAndSetState k r volumeID expectedPhase expectedActiveMove expectedOwner new =
     compareAndSetState k r volumeID expectedPhase expectedActiveMove expectedOwner None new"

definition CompareAndSetSourceState :: "k8s_lib \<Rightarrow> 'w volume_registry \<Rightarrow> string \<Rightarrow> State \<Rightarrow> State \<Rightarrow> 'w closure" where
  "CompareAndSetSourceState k r volumeID expected new w = (case vs_CurrentCopy expected of
     None \<Rightarrow> (Some (Wrapped ErrStateConflict ''source transition must preserve the exact serving copy''), w)
   | Some c \<Rightarrow>
       if ValidateCopy c \<noteq> None \<or> ci_Role c \<noteq> RoleServing \<or> ci_VolumeID c \<noteq> volumeID \<or> ci_VolumeUID c \<noteq> vs_UID expected \<or>
          ci_NodeName c \<noteq> vs_OwnerNode expected \<or> vs_UID new \<noteq> vs_UID expected \<or> vs_OwnerNode new \<noteq> vs_OwnerNode expected \<or>
          (vs_CurrentCopy new \<noteq> None \<and> vs_CurrentCopy new \<noteq> Some c)
       then (Some (Wrapped ErrStateConflict ''source transition must preserve the exact serving copy''), w)
       else compareAndSetState k r volumeID (vs_Phase expected) (vs_ActiveMove expected) (vs_OwnerNode expected) (Some c)
         (new\<lparr>vs_CurrentCopy := Some c\<rparr>) w)"

definition BeginPublish :: "k8s_lib \<Rightarrow> 'w volume_registry \<Rightarrow> string \<Rightarrow> string \<Rightarrow> CopyIdentity \<Rightarrow> 'w closure" where
  "BeginPublish k r volumeID nodeName c = mutateState k r volumeID (beginPublish_mutate nodeName c)"

definition ReconcilePublished :: "k8s_lib \<Rightarrow> 'w volume_registry \<Rightarrow> string \<Rightarrow> string \<Rightarrow> CopyIdentity \<Rightarrow> bool \<Rightarrow> 'w closure" where
  "ReconcilePublished k r volumeID nodeName c published =
     mutateState k r volumeID (reconcilePublished_mutate volumeID nodeName c published)"

section \<open>Creating\<close>

definition freshCreationPlacement :: "k8s_lib \<Rightarrow> 'w volume_registry \<Rightarrow> 'w \<Rightarrow> string \<Rightarrow> string \<Rightarrow> string \<Rightarrow> string \<Rightarrow>
    (string \<times> Pool) res" where
  "freshCreationPlacement k r w volumeID ownerNode poolName poolUID =
     bind_res (InstallationID r w) (\<lambda>installationID.
     bind_res (if poolName = [] then ReadyPoolForNode k (vr_Pools r) w ownerNode
       else ReadyPoolForIdentity k (vr_Pools r) w poolName poolUID ownerNode) (\<lambda>pool.
     if PoolHasServingVolume pool volumeID then Inl (Wrapped ErrPoolCopyConflict ''Pool already contains volume'')
     else Inr (installationID, pool)))"

definition newVolumeObject :: "CreationRequest \<Rightarrow> Pool \<Rightarrow> volume_object" where
  "newVolumeObject request pool = \<lparr>ao_Kind = KindVolume, ao_Name = rq_VolumeID request, ao_UID = [], ao_ResourceVersion = [],
     ao_Generation = 0, ao_DeletionTimestamp = None, ao_Finalizers = [VolumeProtectionFinalizer], ao_Annotations = Map.empty,
     ao_Body = \<lparr>jb_cleanup = Missing, vb_volumeID = Present (rq_VolumeID request), vb_requestName = Present (rq_RequestName request),
       vb_initialNode = Present (rq_NodeName request), vb_capacityBytes = Present (rq_CapacityBytes request),
       vb_initialPool = Present \<lparr>ip_name = Present (pl_Name pool), ip_uid = Present (pl_UID pool)\<rparr>,
       vb_creationClaim = omit_nil (rq_Claim request), vb_phase = Missing, vb_ownerNode = Missing, vb_activeMove = Missing,
       vb_publishedNodes = Missing, vb_creationOperationID = Missing, vb_deletionOperationID = Missing,
       vb_creationExecutor = Missing, vb_creationReceipt = Missing, vb_currentCopy = Missing\<rparr>\<rparr>"

definition initialServingCopy :: "volume_object \<Rightarrow> Pool \<Rightarrow> string \<Rightarrow> string \<Rightarrow> string \<Rightarrow> (CopyIdentity \<times> string) res" where
  "initialServingCopy obj pool installationID volumeID ownerNode = (
     if ao_UID obj = [] \<or> pl_UID pool = [] then Inl (Wrapped ErrStateConflict ''Kubernetes object identity is missing'')
     else case CreationOperationID (ao_UID obj) of
       Inl e \<Rightarrow> Inl (Wrapped ErrStateConflict ''invalid creation operation'')
     | Inr operationID \<Rightarrow>
         let c = \<lparr>ci_InstallationID = installationID, ci_PoolName = pl_Name pool, ci_PoolUID = pl_UID pool, ci_VolumeID = volumeID,
               ci_VolumeUID = ao_UID obj, ci_CopyID = ''initial-'' @ ao_UID obj, ci_NodeName = ownerNode, ci_Role = RoleServing\<rparr> in
         (case ValidateCopy c of Some e \<Rightarrow> Inl (Wrapped e ''build creation identity'') | None \<Rightarrow> Inr (c, operationID)))"

definition recordCreationIntent :: "k8s_lib \<Rightarrow> 'w volume_registry \<Rightarrow> string \<Rightarrow> State \<Rightarrow> 'w \<Rightarrow> State res \<times> 'w" where
  "recordCreationIntent k r volumeID new w = (case mutateState k r volumeID (recordIntent_mutate new) w of
     (Some e, w') \<Rightarrow> (Inl e, w')
   | (None, w') \<Rightarrow> (GetVolume k r volumeID w', w'))"

definition protectedCreationPool :: "'w volume_registry \<Rightarrow> 'w \<Rightarrow> CopyIdentity \<Rightarrow> Pool res" where
  "protectedCreationPool r w c =
     bind_res (PoolForIdentity (vr_Pools r) w (ci_PoolName c) (ci_PoolUID c) (ci_NodeName c)) (\<lambda>pool.
     if pl_DeletionTimestamp pool \<noteq> None \<or> PoolProtectionFinalizer \<notin> set (pl_Finalizers pool)
     then Inl (Wrapped ErrPoolNotReady ''creation Pool protection is unavailable'') else Inr pool)"

definition CreationPoolForIdentity :: "k8s_lib \<Rightarrow> 'w volume_registry \<Rightarrow> 'w \<Rightarrow> CopyIdentity \<Rightarrow> Pool res" where
  "CreationPoolForIdentity k r w c = (
     if ValidateCopy c \<noteq> None \<or> ci_Role c \<noteq> RoleServing then Inl ErrStateConflict
     else bind_res (protectedCreationPool r w c) (\<lambda>pool.
       if \<not> ck_OK (ValidateBackingConfiguration (registrationConfiguration pool)) then Inl (Wrapped ErrPoolNotReady ''creation Pool'')
       else (case readiness (vr_Pools r) w of (now, staleAfter) \<Rightarrow>
         if \<not> fst (ExecutionReadyAt k pool now staleAfter) then Inl (Wrapped ErrPoolNotReady ''creation Pool'')
         else Inr pool)))"

definition resumeCreate :: "'w volume_registry \<Rightarrow> 'w \<Rightarrow> volume_object \<Rightarrow> State \<Rightarrow> string \<Rightarrow> string \<Rightarrow> string \<Rightarrow> int \<Rightarrow> string \<Rightarrow> string \<Rightarrow>
    State res" where
  "resumeCreate r w obj s volumeID requestName ownerNode capacityBytes poolName poolUID = (
     if \<not> sameCreationIntent obj s volumeID requestName ownerNode capacityBytes
     then Inl (Wrapped ErrStateConflict ''volume creation identity changed'')
     else if CreationOperationID (vs_UID s) \<noteq> Inr (vs_CreationOperationID s)
     then Inl (Wrapped ErrStateConflict ''volume creation operation changed'')
     else bind_res (InstallationID r w) (\<lambda>installationID.
       let c = the (vs_CurrentCopy s) in
       if poolName \<noteq> [] \<and> (ci_PoolName c \<noteq> poolName \<or> ci_PoolUID c \<noteq> poolUID)
       then Inl (Wrapped ErrStateConflict ''volume creation Pool differs from selected Pool'')
       else bind_res (protectedCreationPool r w c) (\<lambda>pool.
         if ci_InstallationID c \<noteq> installationID \<or> ci_PoolName c \<noteq> pl_Name pool \<or> ci_PoolUID c \<noteq> pl_UID pool
         then Inl (Wrapped ErrStateConflict ''volume creation Pool identity changed'')
         else Inr s)))"

definition completeInitialization :: "k8s_lib \<Rightarrow> 'w volume_registry \<Rightarrow> volume_object \<Rightarrow> State \<Rightarrow> Pool \<Rightarrow> string \<Rightarrow> string \<Rightarrow> 'w \<Rightarrow>
    State res \<times> 'w" where
  "completeInitialization k r obj s pool installationID i w = (
     if \<not> Initializing s \<or> ao_DeletionTimestamp obj \<noteq> None then (Inl ErrStateConflict, w)
     else case initialServingCopy obj pool installationID i (vs_InitialNode s) of
       Inl e \<Rightarrow> (Inl e, w)
     | Inr (c, operationID) \<Rightarrow>
         (case recordCreationIntent k r i (s\<lparr>vs_Phase := PhasePending, vs_OwnerNode := vs_InitialNode s,
             vs_CreationOperationID := operationID, vs_CurrentCopy := Some c\<rparr>) w of
            (Inl e, w') \<Rightarrow> (Inl e, w')
          | (Inr s', w') \<Rightarrow> (resumeCreate r w' obj s' i (vs_RequestName s') (vs_InitialNode s') (vs_CapacityBytes s')
                (pl_Name pool) (pl_UID pool), w')))"

definition bindInitialPool_apply :: "k8s_lib \<Rightarrow> State \<Rightarrow> Pool \<Rightarrow> volume_object \<Rightarrow> volume_object res" where
  "bindInitialPool_apply k expected pool obj = bind_res (stateFrom k obj) (\<lambda>current.
     if vs_UID current \<noteq> vs_UID expected \<or> \<not> Initializing current \<or> vs_RequestName current \<noteq> vs_RequestName expected \<or>
        vs_InitialNode current \<noteq> vs_InitialNode expected \<or> vs_CapacityBytes current \<noteq> vs_CapacityBytes expected
     then Inl ErrStateConflict
     else if vs_InitialPool current \<noteq> None \<and> vs_InitialPool current \<noteq> Some \<lparr>pr_Name = pl_Name pool, pr_UID = pl_UID pool\<rparr>
     then Inl ErrStateConflict
     else Inr (obj\<lparr>ao_Body := (ao_Body obj)\<lparr>vb_initialPool :=
       Present \<lparr>ip_name = Present (pl_Name pool), ip_uid = Present (pl_UID pool)\<rparr>\<rparr>\<rparr>))"

definition bindInitialPool :: "k8s_lib \<Rightarrow> 'w volume_registry \<Rightarrow> string \<Rightarrow> State \<Rightarrow> Pool \<Rightarrow> 'w closure" where
  "bindInitialPool k r i expected pool w = (
     case mutateObject (vr_Volumes r) (vr_Retry r)
       \<lparr>om_name = i, om_uid = [], om_status = False, om_apply = bindInitialPool_apply k expected pool\<rparr> w of
       (Some e, w') \<Rightarrow> (Some e, w')
     | (None, w') \<Rightarrow> (case GetVolume k r i w' of
           Inl e \<Rightarrow> (Some e, w')
         | Inr bound \<Rightarrow> if vs_UID bound \<noteq> vs_UID expected \<or> vs_InitialPool bound \<noteq> Some \<lparr>pr_Name = pl_Name pool, pr_UID = pl_UID pool\<rparr>
             then (Some (Wrapped ErrStateConflict ''initial Pool reservation was not stored''), w') else (None, w')))"

text \<open>\<open>initializeCreate\<close>; \<open>again\<close> is its nested call of \<open>BeginCreate\<close>.\<close>

definition initializeCreate :: "k8s_lib \<Rightarrow> 'w volume_registry \<Rightarrow> (CreationRequest \<Rightarrow> 'w \<Rightarrow> (State res \<times> 'w) option) \<Rightarrow>
    volume_object \<Rightarrow> State \<Rightarrow> string \<Rightarrow> string \<Rightarrow> string \<Rightarrow> 'w \<Rightarrow> (State res \<times> 'w) option" where
  "initializeCreate k r again obj s i poolName poolUID w = (case vs_InitialPool s of
     None \<Rightarrow> (case freshCreationPlacement k r w i (vs_InitialNode s) poolName poolUID of
         Inl e \<Rightarrow> Some (Inl e, w)
       | Inr (_, pool) \<Rightarrow> (case bindInitialPool k r i s pool w of
           (Some e, w') \<Rightarrow> Some (Inl e, w')
         | (None, w') \<Rightarrow> again \<lparr>rq_VolumeID = i, rq_RequestName = vs_RequestName s, rq_NodeName = vs_InitialNode s,
             rq_CapacityBytes = vs_CapacityBytes s, rq_Pool = Some \<lparr>pr_Name = pl_Name pool, pr_UID = pl_UID pool\<rparr>,
             rq_Claim = vs_CreationClaim s\<rparr> w'))
   | Some p \<Rightarrow>
       if poolName \<noteq> [] \<and> (pr_Name p \<noteq> poolName \<or> pr_UID p \<noteq> poolUID)
       then Some (Inl (Wrapped ErrStateConflict ''initial Pool reservation changed''), w)
       else (case PoolForIdentity (vr_Pools r) w (pr_Name p) (pr_UID p) (vs_InitialNode s) of
           Inl e \<Rightarrow> Some (Inl e, w)
         | Inr pool \<Rightarrow>
             if pl_DeletionTimestamp pool \<noteq> None \<or> PoolProtectionFinalizer \<notin> set (pl_Finalizers pool)
             then Some (Inl (Wrapped ErrPoolNotReady ''creation Pool protection is unavailable''), w)
             else (case InstallationID r w of
                 Inl e \<Rightarrow> Some (Inl e, w)
               | Inr installationID \<Rightarrow> Some (completeInitialization k r obj s pool installationID i w))))"

definition createFresh :: "k8s_lib \<Rightarrow> 'w volume_registry \<Rightarrow> ('w, volume_body) api_client \<Rightarrow> CreationRequest \<Rightarrow> string \<Rightarrow> string \<Rightarrow> 'w \<Rightarrow>
    State res \<times> 'w" where
  "createFresh k r client request poolName poolUID w = (
     case freshCreationPlacement k r w (rq_VolumeID request) (rq_NodeName request) poolName poolUID of
       Inl e \<Rightarrow> (Inl e, w)
     | Inr (installationID, pool) \<Rightarrow> (case api_Create client w (newVolumeObject request pool) of
         (Inl e, w') \<Rightarrow> (Inl (Wrapped e ''begin ShiftPVVolume creation''), w')
       | (Inr obj, w') \<Rightarrow> (case stateFrom k obj of
           Inl e \<Rightarrow> (Inl e, w')
         | Inr s \<Rightarrow>
             if vs_InitialPool s \<noteq> Some \<lparr>pr_Name = pl_Name pool, pr_UID = pl_UID pool\<rparr>
             then (Inl (Wrapped ErrStateConflict ''initial Pool reservation was not stored''), w')
             else if \<not> sameClaim (vs_CreationClaim s) (rq_Claim request)
             then (Inl (Wrapped ErrStateConflict ''original claim was not stored''), w')
             else completeInitialization k r obj s pool installationID (rq_VolumeID request) w')))"

fun begin_create :: "nat \<Rightarrow> k8s_lib \<Rightarrow> 'w volume_registry \<Rightarrow> CreationRequest \<Rightarrow> 'w \<Rightarrow> (State res \<times> 'w) option" where
  "begin_create 0 k r request w = None"
| "begin_create (Suc n) k r request w = (case vr_Volumes r of
     None \<Rightarrow> Some (Inl (Errorf ''volume registry is not configured''), w)
   | Some client \<Rightarrow> (case validateRequest k request of
       Some e \<Rightarrow> Some (Inl e, w)
     | None \<Rightarrow>
         let poolName = (case rq_Pool request of None \<Rightarrow> [] | Some p \<Rightarrow> pr_Name p);
             poolUID = (case rq_Pool request of None \<Rightarrow> [] | Some p \<Rightarrow> pr_UID p) in
         (case api_Get client w (rq_VolumeID request) of
            Inr obj \<Rightarrow> (case stateFrom k obj of
              Inl e \<Rightarrow> Some (Inl e, w)
            | Inr s \<Rightarrow>
                if rq_Claim request \<noteq> None \<and> \<not> sameClaim (vs_CreationClaim s) (rq_Claim request) then Some (Inl ErrStateConflict, w)
                else if vs_Phase s \<noteq> [] then
                  Some (resumeCreate r w obj s (rq_VolumeID request) (rq_RequestName request) (rq_NodeName request)
                    (rq_CapacityBytes request) poolName poolUID, w)
                else if \<not> Initializing s \<or> vs_RequestName s \<noteq> rq_RequestName request \<or> vs_InitialNode s \<noteq> rq_NodeName request \<or>
                  vs_CapacityBytes s \<noteq> rq_CapacityBytes request then Some (Inl ErrStateConflict, w)
                else initializeCreate k r (begin_create n k r) obj s (rq_VolumeID request) poolName poolUID w)
          | Inl e \<Rightarrow>
              if \<not> errors_is e ApiNotFound then Some (Inl (Wrapped e ''read ShiftPVVolume creation intent''), w)
              else Some (createFresh k r client request poolName poolUID w))))"

declare begin_create.simps(2) [simp del]

definition BeginCreate :: "k8s_lib \<Rightarrow> 'w volume_registry \<Rightarrow> CreationRequest \<Rightarrow> 'w \<Rightarrow> State res \<times> 'w" where
  "BeginCreate k r request w = (case begin_create 2 k r request w of Some out \<Rightarrow> out | None \<Rightarrow> (Inl GoPanic, w))"

definition CompleteCreate :: "k8s_lib \<Rightarrow> 'w volume_registry \<Rightarrow> string \<Rightarrow> string \<Rightarrow> CopyIdentity \<Rightarrow> 'w closure" where
  "CompleteCreate k r volumeID uid c w = (case CreationOperationID uid of
     Inl e \<Rightarrow> (Some ErrStateConflict, w)
   | Inr operationID \<Rightarrow> mutateState k r volumeID (completeCreate_mutate uid c operationID) w)"

definition BindCreation :: "k8s_lib \<Rightarrow> 'w volume_registry \<Rightarrow> State \<Rightarrow> NodeExecutor \<Rightarrow> 'w closure" where
  "BindCreation k r expected executor w = (case vs_CurrentCopy expected of
     None \<Rightarrow> (Some ErrStateConflict, w)
   | Some c \<Rightarrow>
       if \<not> ValidNodeExecutor executor \<or> ne_NodeName executor \<noteq> ci_NodeName c then (Some ErrStateConflict, w)
       else mutateState k r (ci_VolumeID c) (bindCreation_mutate expected executor) w)"

definition RecordCreationReceipt :: "k8s_lib \<Rightarrow> 'w volume_registry \<Rightarrow> State \<Rightarrow> CreationReceipt \<Rightarrow> 'w closure" where
  "RecordCreationReceipt k r expected receipt w = (case vs_CurrentCopy expected of
     None \<Rightarrow> (Some ErrStateConflict, w)
   | Some c \<Rightarrow> mutateState k r (ci_VolumeID c) (recordReceipt_mutate expected receipt) w)"

section \<open>Cancelling a creation\<close>

definition BeginCreationCancellation :: "k8s_lib \<Rightarrow> 'w volume_registry \<Rightarrow> string \<Rightarrow> string \<Rightarrow> CopyIdentity \<Rightarrow> 'w \<Rightarrow> State res \<times> 'w" where
  "BeginCreationCancellation k r i uid c w = (
     if ci_VolumeID c \<noteq> i \<or> ci_VolumeUID c \<noteq> uid \<or> \<not> IsCreationCancellation c (CreationCancellationPrefix @ uid)
     then (Inl ErrStateConflict, w)
     else case mutateState k r i (cancelCreation_mutate uid c) w of
       (Some e, w') \<Rightarrow> (Inl e, w')
     | (None, w') \<Rightarrow> (bind_res (GetVolume k r i w') (\<lambda>current.
           if vs_UID current \<noteq> uid \<or> vs_CurrentCopy current \<noteq> Some c \<or> \<not> CancellingCreation current
           then Inl ErrStateConflict else Inr current), w'))"

definition finalizeUnstarted_apply :: "k8s_lib \<Rightarrow> volume_object \<Rightarrow> volume_object res" where
  "finalizeUnstarted_apply k obj = bind_res (stateFrom k obj) (\<lambda>current.
     if \<not> vs_Deleting current \<or> \<not> UnstartedCreation current then Inl ErrStateConflict
     else if length (vs_Finalizers current) \<noteq> 1 then Inl ErrVolumeFinalizersPending
     else Inr (obj\<lparr>ao_Finalizers := []\<rparr>))"

definition finalizeUnstartedCreation :: "k8s_lib \<Rightarrow> 'w volume_registry \<Rightarrow> string \<Rightarrow> string \<Rightarrow> 'w closure" where
  "finalizeUnstartedCreation k r i uid w = (
     case mutateObject (vr_Volumes r) (vr_Retry r)
       \<lparr>om_name = i, om_uid = uid, om_status = False, om_apply = finalizeUnstarted_apply k\<rparr> w of
       (Some e, w') \<Rightarrow> if errors_is e ApiNotFound then (None, w') else (Some e, w')
     | (None, w') \<Rightarrow> (None, w'))"

definition CancelUnstartedCreation :: "k8s_lib \<Rightarrow> 'w volume_registry \<Rightarrow> string \<Rightarrow> string \<Rightarrow> 'w closure" where
  "CancelUnstartedCreation k r i uid w = (case getVolume r i w of
     Inl e \<Rightarrow> if errors_is e ApiNotFound then (None, w) else (Some e, w)
   | Inr obj \<Rightarrow> (case stateFrom k obj of
       Inl e \<Rightarrow> (Some e, w)
     | Inr s \<Rightarrow>
         if uid = [] \<or> vs_UID s \<noteq> uid \<or> \<not> UnstartedCreation s then (Some ErrStateConflict, w)
         else if vs_Deleting s then finalizeUnstartedCreation k r i uid w
         else if ao_ResourceVersion obj = [] then (Some ErrStateConflict, w)
         else (case api_Delete (the (vr_Volumes r)) w i uid (Some (ao_ResourceVersion obj)) of
             (Some e, w') \<Rightarrow> if errors_is e ApiNotFound then finalizeUnstartedCreation k r i uid w' else (Some e, w')
           | (None, w') \<Rightarrow> finalizeUnstartedCreation k r i uid w')))"

record CreationReference =
  cf_Name :: string
  cf_UID :: string

definition creation_intent :: "volume_object \<Rightarrow> bool" where
  "creation_intent obj \<longleftrightarrow> (let known = (vb_creationClaim (ao_Body obj) \<noteq> Missing); phase = field_or [] (vb_phase (ao_Body obj));
       operation = field_or [] (vb_deletionOperationID (ao_Body obj));
       cancelled = (phase = PhaseDeleting \<and> operation = CreationCancellationPrefix @ ao_UID obj) in
     (known \<or> cancelled) \<and> phase \<noteq> PhaseReady \<and> ao_Name obj \<noteq> [] \<and> ao_UID obj \<noteq> [])"

definition ListCreationIntents :: "'w volume_registry \<Rightarrow> 'w \<Rightarrow> CreationReference list res" where
  "ListCreationIntents r w = (case vr_Volumes r of
     None \<Rightarrow> Inl (Errorf ''volume registry is not configured'')
   | Some client \<Rightarrow> bind_res (api_List client w) (\<lambda>objs.
       Inr (map (\<lambda>obj. \<lparr>cf_Name = ao_Name obj, cf_UID = ao_UID obj\<rparr>) (filter creation_intent objs))))"

end
