(* ===== verification/Volume_Properties.thy ===== *)
theory Volume_Properties
  imports Volume_Registry Cleanup_Properties
begin

text \<open>
  The library on the volume registry: the round trip of the state, the relation \<open>volume_write\<close> of
  all steps on a state, and the locale \<open>volume_invariant\<close>, which carries a property of single volume
  objects through every operation of the registry.
\<close>

section \<open>Reading back what was written\<close>

definition api_part :: "State \<Rightarrow> State \<Rightarrow> State" where
  "api_part current new = new\<lparr>vs_UID := vs_UID current, vs_Finalizers := vs_Finalizers current,
     vs_RequestName := vs_RequestName current, vs_CapacityBytes := vs_CapacityBytes current,
     vs_InitialNode := vs_InitialNode current, vs_InitialPool := vs_InitialPool current,
     vs_CreationClaim := vs_CreationClaim current, vs_HasCleanup := vs_HasCleanup current, vs_Deleting := vs_Deleting current\<rparr>"

definition copy_valid :: "State \<Rightarrow> bool" where
  "copy_valid s \<longleftrightarrow> (\<forall>c. vs_CurrentCopy s = Some c \<longrightarrow> ValidateCopy c = None)"

lemma field_omit_zero [simp]: "field_or z (omit_zero z v) = v"
  by (simp add: omit_zero_def)

lemma claimFrom_setState [simp]: "claimFrom k (setState obj s) = claimFrom k obj"
  by (simp add: claimFrom_def setState_def split: api_field.split)

lemma initialPoolFrom_setState [simp]: "initialPoolFrom (setState obj s) = initialPoolFrom obj"
  by (simp add: initialPoolFrom_def setState_def)

lemma stateFrom_copy_valid: "stateFrom k obj = Inr s \<Longrightarrow> copy_valid s"
  by (auto simp: stateFrom_def Let_def copy_valid_def guard_err_Inr split: api_field.splits)

lemma stateFrom_Inr:
  assumes "stateFrom k obj = Inr s"
  shows "vs_UID s = ao_UID obj" "vs_Finalizers s = ao_Finalizers obj" "vs_Deleting s = (ao_DeletionTimestamp obj \<noteq> None)"
    "vs_HasCleanup s = (jb_cleanup (ao_Body obj) \<noteq> Missing)" "vs_Phase s = field_or [] (vb_phase (ao_Body obj))"
    "claimFrom k obj = Inr (vs_CreationClaim s)" "initialPoolFrom obj = Inr (vs_InitialPool s)"
    "vs_RequestName s = field_or [] (vb_requestName (ao_Body obj))" "vs_CapacityBytes s = field_or 0 (vb_capacityBytes (ao_Body obj))"
    "vs_InitialNode s = field_or [] (vb_initialNode (ao_Body obj))"
  using assms by (auto simp: stateFrom_def Let_def)

lemma currentCopy_written: "copy_valid s \<Longrightarrow>
  (case omit_nil (vs_CurrentCopy s) of Missing \<Rightarrow> Inr None | Malformed \<Rightarrow> Inl e
   | Present c \<Rightarrow> guard_err (ValidateCopy c) (Inr (Some c))) = Inr (vs_CurrentCopy s)"
  by (cases "vs_CurrentCopy s") (auto simp: omit_nil_def copy_valid_def)

lemma stateFrom_setState:
  assumes "stateFrom k obj = Inr current" and "copy_valid new"
  shows "stateFrom k (setState obj new) = Inr (api_part current new)"
proof -
  have body: "ao_UID (setState obj new) = ao_UID obj" "ao_Finalizers (setState obj new) = ao_Finalizers obj"
    "ao_DeletionTimestamp (setState obj new) = ao_DeletionTimestamp obj"
    by (simp_all add: setState_def)
  have fields: "ao_Body (setState obj new) = (ao_Body obj)\<lparr>
     vb_phase := Present (vs_Phase new), vb_ownerNode := Present (vs_OwnerNode new), vb_activeMove := Present (vs_ActiveMove new),
     vb_publishedNodes := Present (vs_PublishedNodes new),
     vb_creationOperationID := omit_zero [] (vs_CreationOperationID new),
     vb_deletionOperationID := omit_zero [] (vs_DeletionOperationID new),
     vb_creationExecutor := omit_nil (vs_CreationExecutor new), vb_creationReceipt := omit_nil (vs_CreationReceipt new),
     vb_currentCopy := omit_nil (vs_CurrentCopy new)\<rparr>"
    by (simp add: setState_def)
  show ?thesis
    using stateFrom_Inr [OF assms(1)] currentCopy_written [OF assms(2)]
    by (simp add: stateFrom_def Let_def body fields api_part_def)
qed

lemma merge_copy_valid: "copy_valid current \<Longrightarrow> copy_valid new \<Longrightarrow> copy_valid (merge_state current new)"
  by (simp add: copy_valid_def merge_state_def)

section \<open>All steps on a state\<close>

definition moving_phase :: "string \<Rightarrow> bool" where
  "moving_phase p \<longleftrightarrow> p = PhaseReady \<or> p = PhaseMoving \<or> p = PhaseBlocked"

text \<open>
  The steps the registry's operations run. The intent of a creation is the one
  \<open>completeInitialization\<close> builds; the comparisons of the mobility controller name the phases
  Ready, Moving and Blocked on both sides.
\<close>

inductive volume_write :: "State \<Rightarrow> State \<Rightarrow> bool" where
  intent: "recordIntent_mutate new s = Inr s' \<Longrightarrow> vs_Phase new = PhasePending \<Longrightarrow> vs_PublishedNodes new = [] \<Longrightarrow>
     vs_DeletionOperationID new = [] \<Longrightarrow> copy_valid new \<Longrightarrow> volume_write s s'"
| complete: "completeCreate_mutate uid c op s = Inr s' \<Longrightarrow> volume_write s s'"
| fence: "fenceForDeletion uid op c s = Inr s' \<Longrightarrow> volume_write s s'"
| cancel: "cancelCreation_mutate uid c s = Inr s' \<Longrightarrow> volume_write s s'"
| compare: "compareAndSet_mutate p m n cp new s = Inr s' \<Longrightarrow> moving_phase p \<Longrightarrow> moving_phase (vs_Phase new) \<Longrightarrow>
     copy_valid new \<Longrightarrow> volume_write s s'"
| publish: "beginPublish_mutate node c s = Inr s' \<Longrightarrow> volume_write s s'"
| reconcile: "reconcilePublished_mutate i node c b s = Inr s' \<Longrightarrow> volume_write s s'"
| bind: "bindCreation_mutate expected e s = Inr s' \<Longrightarrow> volume_write s s'"
| receipt: "recordReceipt_mutate expected rt s = Inr s' \<Longrightarrow> volume_write s s'"

text \<open>The rules in the shape the invariants below take.\<close>

lemma step_rules:
  shows complete_step: "\<forall>s s'. completeCreate_mutate uid c op s = Inr s' \<longrightarrow> volume_write s s'"
    and fence_step: "\<forall>s s'. fenceForDeletion uid op c s = Inr s' \<longrightarrow> volume_write s s'"
    and cancel_step: "\<forall>s s'. cancelCreation_mutate uid c s = Inr s' \<longrightarrow> volume_write s s'"
    and compare_step: "moving_phase p \<Longrightarrow> moving_phase (vs_Phase new) \<Longrightarrow> copy_valid new \<Longrightarrow>
      \<forall>s s'. compareAndSet_mutate p m n cp new s = Inr s' \<longrightarrow> volume_write s s'"
    and publish_step: "\<forall>s s'. beginPublish_mutate node c s = Inr s' \<longrightarrow> volume_write s s'"
    and reconcile_step: "\<forall>s s'. reconcilePublished_mutate i node c b s = Inr s' \<longrightarrow> volume_write s s'"
    and bind_step: "\<forall>s s'. bindCreation_mutate expected e s = Inr s' \<longrightarrow> volume_write s s'"
    and receipt_step: "\<forall>s s'. recordReceipt_mutate expected rt s = Inr s' \<longrightarrow> volume_write s s'"
  by (blast intro: volume_write.intros)+

lemmas mutate_defs = recordIntent_mutate_def completeCreate_mutate_def cancelCreation_mutate_def
  compareAndSet_mutate_def beginPublish_mutate_def reconcilePublished_mutate_def bindCreation_mutate_def recordReceipt_mutate_def

lemma fenceForDeletion_Inr:
  assumes "fenceForDeletion uid op c s = Inr s'"
  shows "vs_PublishedNodes s = [] \<and> vs_ActiveMove s = [] \<and> vs_CurrentCopy s = Some c \<and>
    (vs_Phase s = PhaseReady \<and> vs_DeletionOperationID s = [] \<and> s' = s\<lparr>vs_Phase := PhaseDeleting, vs_DeletionOperationID := op\<rparr> \<or>
     vs_Phase s = PhaseDeleting \<and> vs_DeletionOperationID s = op \<and> s' = s)"
  using assms by (auto simp: fenceForDeletion_def DecideDeletion_def split: if_splits)

section \<open>All operations\<close>

inductive volume_op :: "k8s_lib \<Rightarrow> 'w volume_registry \<Rightarrow> 'w \<Rightarrow> 'w \<Rightarrow> bool" for k r where
  begin_creation: "BeginCreate k r request w = (out, w') \<Longrightarrow> volume_op k r w w'"
| complete_creation: "CompleteCreate k r i uid c w = (e, w') \<Longrightarrow> volume_op k r w w'"
| bind_creation: "BindCreation k r expected ex w = (e, w') \<Longrightarrow> volume_op k r w w'"
| record_receipt: "RecordCreationReceipt k r expected rt w = (e, w') \<Longrightarrow> volume_op k r w w'"
| begin_cancellation: "BeginCreationCancellation k r i uid c w = (out, w') \<Longrightarrow> volume_op k r w w'"
| cancel_unstarted: "CancelUnstartedCreation k r i uid w = (e, w') \<Longrightarrow> volume_op k r w w'"
| begin_deletion: "BeginDelete k r i uid c w = (out, w') \<Longrightarrow> volume_op k r w w'"
| deletion: "DeleteVolume r i uid w = (e, w') \<Longrightarrow> volume_op k r w w'"
| release: "RemoveVolumeFinalizer r i uid w = (e, w') \<Longrightarrow> volume_op k r w w'"
| compare_state: "CompareAndSetState k r i p m n new w = (e, w') \<Longrightarrow> moving_phase p \<Longrightarrow> moving_phase (vs_Phase new) \<Longrightarrow>
    copy_valid new \<Longrightarrow> volume_op k r w w'"
| compare_source: "CompareAndSetSourceState k r i expected new w = (e, w') \<Longrightarrow> moving_phase (vs_Phase expected) \<Longrightarrow>
    moving_phase (vs_Phase new) \<Longrightarrow> volume_op k r w w'"
| begin_publication: "BeginPublish k r i node c w = (e, w') \<Longrightarrow> volume_op k r w w'"
| reconcile_publication: "ReconcilePublished k r i node c b w = (e, w') \<Longrightarrow> volume_op k r w w'"

section \<open>Invariants of volume objects\<close>

definition registry_relied :: "string set \<Rightarrow> ('w \<Rightarrow> string \<Rightarrow> volume_object option) \<Rightarrow> 'w volume_registry \<Rightarrow> bool" where
  "registry_relied used stored r \<longleftrightarrow> retries_on_conflict (vr_Retry r) \<and>
     (\<forall>client. vr_Volumes r = Some client \<longrightarrow> client_writes stored client \<and> client_creates used stored client \<and> client_deletes stored client)"

locale volume_invariant = object_invariant good
  for good :: "volume_object \<Rightarrow> bool" +
  fixes k :: k8s_lib and used :: "string set"
  assumes step_good: "good obj \<Longrightarrow> stateFrom k obj = Inr s \<Longrightarrow> volume_write s s' \<Longrightarrow> good (setState obj (merge_state s s'))"
    and reservation_good: "good obj \<Longrightarrow> good (obj\<lparr>ao_Body := (ao_Body obj)\<lparr>vb_initialPool := Present m\<rparr>\<rparr>)"
    and finalizers_good: "good obj \<Longrightarrow> good (obj\<lparr>ao_Finalizers := fs\<rparr>)"
    and marked_good: "good obj \<Longrightarrow> good (obj\<lparr>ao_DeletionTimestamp := Some t\<rparr>)"
    and new_good: "created_as (newVolumeObject request pool) kept \<Longrightarrow> ao_UID kept \<notin> used \<Longrightarrow> good kept"
begin

lemma object_good:
  assumes "registry_relied used stored r" and "all_stored good stored w"
    and "\<And>obj obj'. good obj \<Longrightarrow> om_apply m obj = Inr obj' \<Longrightarrow> good obj'"
  shows "all_stored good stored (snd (mutateObject (vr_Volumes r) (vr_Retry r) m w))"
proof (cases "vr_Volumes r")
  case None
  then show ?thesis using assms(2) by (simp add: mutateObject_def validate_client_def)
next
  case (Some client)
  then have "client_writes stored client" "retries_on_conflict (vr_Retry r)" using assms(1) by (simp_all add: registry_relied_def)
  then show ?thesis unfolding Some using assms(2,3) by (rule mutateObject_good)
qed

lemma mutateState_good:
  assumes "registry_relied used stored r" and "all_stored good stored w" and "\<And>s s'. mutate s = Inr s' \<Longrightarrow> volume_write s s'"
  shows "all_stored good stored (snd (mutateState k r i mutate w))"
  unfolding mutateState_def using assms(1,2)
proof (rule object_good)
  fix obj obj'
  assume "good obj" "om_apply \<lparr>om_name = i, om_uid = [], om_status = True, om_apply = volume_apply k mutate\<rparr> obj = Inr obj'"
  then show "good obj'" using step_good assms(3) by (auto simp: volume_apply_def bind_res_Inr)
qed

lemma mutateState_good': "mutateState k r i mutate w = (e, w') \<Longrightarrow> registry_relied used stored r \<Longrightarrow> all_stored good stored w \<Longrightarrow>
    (\<And>s s'. mutate s = Inr s' \<Longrightarrow> volume_write s s') \<Longrightarrow> all_stored good stored w'"
  using mutateState_good [of stored r w mutate i] by simp

lemma mutateState_step:
  assumes "registry_relied used stored r" and "all_stored good stored w" and "\<forall>s s'. mutate s = Inr s' \<longrightarrow> volume_write s s'"
  shows "all_stored good stored (snd (mutateState k r i mutate w))"
  using assms(3) by (intro mutateState_good [OF assms(1,2)]) blast

lemma bindInitialPool_good:
  assumes "registry_relied used stored r" and "all_stored good stored w"
  shows "all_stored good stored (snd (bindInitialPool k r i s pool w))"
proof -
  have "all_stored good stored (snd (mutateObject (vr_Volumes r) (vr_Retry r)
      \<lparr>om_name = i, om_uid = [], om_status = False, om_apply = bindInitialPool_apply k s pool\<rparr> w))"
    using assms reservation_good by (intro object_good) (auto simp: bindInitialPool_apply_def bind_res_Inr split: if_splits)
  then show ?thesis by (auto simp: bindInitialPool_def split: prod.splits option.splits sum.splits)
qed

lemma completeInitialization_good:
  assumes "registry_relied used stored r" and "all_stored good stored w"
  shows "all_stored good stored (snd (completeInitialization k r obj s pool inst i w))"
proof (cases "Initializing s \<and> ao_DeletionTimestamp obj = None")
  case False
  then show ?thesis using assms(2) by (auto simp: completeInitialization_def)
next
  case True
  show ?thesis
  proof (cases "initialServingCopy obj pool inst i (vs_InitialNode s)")
    case (Inl e)
    then show ?thesis using assms(2) by (auto simp: completeInitialization_def)
  next
    case (Inr x)
    obtain c op where x: "x = (c, op)" by (cases x)
    let ?new = "s\<lparr>vs_Phase := PhasePending, vs_OwnerNode := vs_InitialNode s, vs_CreationOperationID := op, vs_CurrentCopy := Some c\<rparr>"
    have "ValidateCopy c = None" using Inr x by (auto simp: initialServingCopy_def Let_def split: if_splits sum.splits option.splits)
    then have "copy_valid ?new" by (simp add: copy_valid_def)
    moreover have "vs_PublishedNodes ?new = []" "vs_DeletionOperationID ?new = []"
      using True by (simp_all add: Initializing_def UnstartedCreation_def)
    ultimately have "all_stored good stored (snd (mutateState k r i (recordIntent_mutate ?new) w))"
      using assms by (intro mutateState_good) (auto intro: volume_write.intent)
    then show ?thesis using True
      by (auto simp: completeInitialization_def Inr x recordCreationIntent_def split: prod.splits option.splits sum.splits)
  qed
qed

lemma createFresh_good:
  assumes "registry_relied used stored r" and "all_stored good stored w" and "vr_Volumes r = Some client"
  shows "all_stored good stored (snd (createFresh k r client request pn pu w))"
proof (cases "freshCreationPlacement k r w (rq_VolumeID request) (rq_NodeName request) pn pu")
  case (Inl e)
  then show ?thesis using assms(2) by (simp add: createFresh_def)
next
  case (Inr x)
  obtain inst pool where x: "x = (inst, pool)" by (cases x)
  obtain res w1 where c: "api_Create client w (newVolumeObject request pool) = (res, w1)" by fastforce
  have "all_stored good stored w1"
    using assms(1,3) by (intro create_good [OF _ assms(2) c]) (auto simp: registry_relied_def intro: new_good)
  then show ?thesis using completeInitialization_good [OF assms(1)]
    by (auto simp: createFresh_def Inr x c split: sum.splits)
qed

lemma initializeCreate_good:
  assumes "registry_relied used stored r" and "all_stored good stored w" and "initializeCreate k r again obj s i pn pu w = Some out"
    and "\<And>request w out. all_stored good stored w \<Longrightarrow> again request w = Some out \<Longrightarrow> all_stored good stored (snd out)"
  shows "all_stored good stored (snd out)"
proof -
  have bound: "all_stored good stored w'" if "bindInitialPool k r i s pool w = (e, w')" for pool e w'
    using bindInitialPool_good [OF assms(1,2), of i s pool] that by simp
  consider "snd out = w"
    | pool e w' where "bindInitialPool k r i s pool w = (e, w')" "snd out = w'"
    | pool e w' request where "bindInitialPool k r i s pool w = (e, w')" "again request w' = Some out"
    | pool inst where "out = completeInitialization k r obj s pool inst i w"
    using assms(3) unfolding initializeCreate_def
    by (auto split: option.splits sum.splits prod.splits if_splits)
  then show ?thesis
  proof cases
    case (3 pool e w' request)
    then show ?thesis using assms(4) [OF bound [OF 3(1)] 3(2)] by simp
  qed (use bound completeInitialization_good [OF assms(1,2)] assms(2) in simp_all)
qed

lemma begin_create_good:
  assumes "registry_relied used stored r" and "all_stored good stored w" and "begin_create n k r request w = Some out"
  shows "all_stored good stored (snd out)"
  using assms(2,3)
proof (induction n arbitrary: request w out)
  case (Suc n)
  consider "snd out = w"
    | client pn pu where "vr_Volumes r = Some client" "out = createFresh k r client request pn pu w"
    | obj s pn pu where "initializeCreate k r (begin_create n k r) obj s (rq_VolumeID request) pn pu w = Some out"
    using Suc.prems(2)
    by (auto simp: begin_create.simps(2) Let_def split: option.splits sum.splits if_splits)
  then show ?case
  proof cases
    case 1
    with Suc.prems(1) show ?thesis by simp
  next
    case 2
    with createFresh_good [OF assms(1) Suc.prems(1)] show ?thesis by simp
  next
    case 3
    show ?thesis by (rule initializeCreate_good [OF assms(1) Suc.prems(1) 3 Suc.IH])
  qed
qed simp

lemma BeginCreate_good:
  assumes "registry_relied used stored r" and "all_stored good stored w"
  shows "all_stored good stored (snd (BeginCreate k r request w))"
  using begin_create_good [OF assms, of 2 request] assms(2) by (auto simp: BeginCreate_def split: option.splits)

lemma BeginDelete_good:
  assumes "registry_relied used stored r" and "all_stored good stored w"
  shows "all_stored good stored (snd (BeginDelete k r i uid c w))"
  using mutateState_step [OF assms fence_step [of uid "''delete-'' @ uid" c], of i] assms(2)
  by (auto simp: BeginDelete_def Let_def split: prod.splits option.splits)

lemma BeginCreationCancellation_good:
  assumes "registry_relied used stored r" and "all_stored good stored w"
  shows "all_stored good stored (snd (BeginCreationCancellation k r i uid c w))"
  using mutateState_step [OF assms cancel_step [of uid c], of i] assms(2)
  by (auto simp: BeginCreationCancellation_def split: prod.splits option.splits)

lemma compareAndSetState_good:
  assumes "registry_relied used stored r" and "all_stored good stored w" and "moving_phase p" and "moving_phase (vs_Phase new)"
    and "copy_valid new"
  shows "all_stored good stored (snd (compareAndSetState k r i p m n cp new w))"
  using mutateState_step [OF assms(1,2) compare_step [OF assms(3-5)]] by (simp add: compareAndSetState_def)

lemma CompareAndSetSourceState_good:
  assumes "registry_relied used stored r" and "all_stored good stored w" and "moving_phase (vs_Phase expected)" and "moving_phase (vs_Phase new)"
  shows "all_stored good stored (snd (CompareAndSetSourceState k r i expected new w))"
proof (cases "vs_CurrentCopy expected")
  case (Some c)
  have "all_stored good stored (snd (compareAndSetState k r i (vs_Phase expected) (vs_ActiveMove expected) (vs_OwnerNode expected) (Some c)
      (new\<lparr>vs_CurrentCopy := Some c\<rparr>) w))" if "ValidateCopy c = None"
    using that assms by (intro compareAndSetState_good) (simp_all add: copy_valid_def)
  with Some assms(2) show ?thesis by (simp add: CompareAndSetSourceState_def)
qed (use assms(2) in \<open>simp add: CompareAndSetSourceState_def\<close>)

lemma finalizeUnstartedCreation_good:
  assumes "registry_relied used stored r" and "all_stored good stored w"
  shows "all_stored good stored (snd (finalizeUnstartedCreation k r i uid w))"
proof -
  have "all_stored good stored (snd (mutateObject (vr_Volumes r) (vr_Retry r)
      \<lparr>om_name = i, om_uid = uid, om_status = False, om_apply = finalizeUnstarted_apply k\<rparr> w))"
    using assms finalizers_good by (intro object_good) (auto simp: finalizeUnstarted_apply_def bind_res_Inr split: if_splits)
  then show ?thesis by (auto simp: finalizeUnstartedCreation_def split: prod.splits option.splits)
qed

lemma api_Delete_good:
  assumes "registry_relied used stored r" and "all_stored good stored w" and "vr_Volumes r = Some client" and "api_Delete client w n u v = (e, w')"
  shows "all_stored good stored w'"
  using assms(1,3) by (intro delete_good [OF _ assms(2,4)]) (auto simp: registry_relied_def intro: marked_good)

lemma CancelUnstartedCreation_good:
  assumes "registry_relied used stored r" and "all_stored good stored w"
  shows "all_stored good stored (snd (CancelUnstartedCreation k r i uid w))"
proof (cases "getVolume r i w")
  case (Inl e)
  then show ?thesis using assms(2) by (simp add: CancelUnstartedCreation_def)
next
  case (Inr obj)
  then obtain client where c: "vr_Volumes r = Some client" by (auto simp: getVolume_def split: option.splits)
  obtain e w1 where d: "api_Delete client w i uid (Some (ao_ResourceVersion obj)) = (e, w1)" by fastforce
  show ?thesis
    using assms(2) finalizeUnstartedCreation_good [OF assms] api_Delete_good [OF assms c d]
      finalizeUnstartedCreation_good [OF assms(1) api_Delete_good [OF assms c d]]
    by (auto simp: CancelUnstartedCreation_def Inr c d split: sum.splits option.splits)
qed

lemma RemoveVolumeFinalizer_good:
  assumes "registry_relied used stored r" and "all_stored good stored w"
  shows "all_stored good stored (snd (RemoveVolumeFinalizer r i uid w))"
proof (cases "vr_Volumes r")
  case None
  then show ?thesis using assms(2) by (simp add: RemoveVolumeFinalizer_def updateObjectFinalizer_def validate_client_def)
next
  case (Some client)
  then have "client_writes stored client" "retries_on_conflict (vr_Retry r)" using assms(1) by (simp_all add: registry_relied_def)
  then show ?thesis unfolding RemoveVolumeFinalizer_def Some using assms(2) finalizers_good by (rule updateObjectFinalizer_good)
qed

lemma volume_op_good:
  assumes "volume_op k r w w'" and rel: "registry_relied used stored r" and inv: "all_stored good stored w"
  shows "all_stored good stored w'"
  using assms(1)
proof cases
  case (complete_creation i uid c e)
  show ?thesis
  proof (cases "CreationOperationID uid")
    case (Inr op)
    then show ?thesis using complete_creation mutateState_step [OF rel inv complete_step [of uid c op], of i] by (simp add: CompleteCreate_def)
  qed (use complete_creation inv in \<open>simp add: CompleteCreate_def\<close>)
next
  case (bind_creation expected ex e)
  have "all_stored good stored (snd (mutateState k r j (bindCreation_mutate expected ex) w))" for j
    by (rule mutateState_step [OF rel inv bind_step])
  with bind_creation inv show ?thesis
    by (auto simp: BindCreation_def split: option.splits if_splits) (metis snd_conv)
next
  case (record_receipt expected rt e)
  have "all_stored good stored (snd (mutateState k r j (recordReceipt_mutate expected rt) w))" for j
    by (rule mutateState_step [OF rel inv receipt_step])
  with record_receipt inv show ?thesis
    by (auto simp: RecordCreationReceipt_def split: option.splits) (metis snd_conv)
next
  case (deletion i uid e)
  show ?thesis
  proof (cases "vr_Volumes r")
    case None
    then show ?thesis using deletion inv by (simp add: DeleteVolume_def)
  next
    case (Some client)
    obtain e1 w1 where d: "api_Delete client w i uid None = (e1, w1)" by fastforce
    show ?thesis using deletion Some d inv api_Delete_good [OF rel inv Some d]
      by (auto simp: DeleteVolume_def split: if_splits option.splits)
  qed
next
  case (begin_publication i node c e)
  then show ?thesis using mutateState_step [OF rel inv publish_step [of node c], of i] by (simp add: BeginPublish_def)
next
  case (reconcile_publication i node c b e)
  then show ?thesis using mutateState_step [OF rel inv reconcile_step [of i node c b], of i] by (simp add: ReconcilePublished_def)
next
  case (compare_state i p m n new e)
  then show ?thesis using compareAndSetState_good [OF rel inv, of p new i m n None] by (simp add: CompareAndSetState_def)
next
  case (begin_creation request out)
  then show ?thesis using BeginCreate_good [OF rel inv, of request] by simp
next
  case (begin_cancellation i uid c out)
  then show ?thesis using BeginCreationCancellation_good [OF rel inv, of i uid c] by simp
next
  case (cancel_unstarted i uid e)
  then show ?thesis using CancelUnstartedCreation_good [OF rel inv, of i uid] by simp
next
  case (begin_deletion i uid c out)
  then show ?thesis using BeginDelete_good [OF rel inv, of i uid c] by simp
next
  case (release i uid e)
  then show ?thesis using RemoveVolumeFinalizer_good [OF rel inv, of i uid] by simp
next
  case (compare_source i expected new e)
  then show ?thesis using CompareAndSetSourceState_good [OF rel inv, of expected new i] by simp
qed

end

end
