(* ===== verification/Volume_Lifecycle.thy ===== *)
theory Volume_Lifecycle
  imports Volume_Properties
begin

text \<open>
  The abstract lifecycle of a volume and the refinement of the registry to it. The abstract state
  is the phase, the owner, the set of nodes that have the volume published, the deletion operation
  and the copy; the abstract steps are admission, binding, completion, the deletion fence, the
  moves of the mobility controller, and publication by the owner. Safety is proved on the abstract
  machine and carried to every run of the registry.
\<close>

section \<open>The specification\<close>

record lifecycle_state =
  lc_phase :: string
  lc_owner :: string
  lc_published :: "string set"
  lc_deletion :: string
  lc_copy :: "CopyIdentity option"

abbreviation creating :: "string \<Rightarrow> bool" where
  "creating p \<equiv> p = PhasePending \<or> p = PhaseNodeCreating"

inductive lifecycle :: "lifecycle_state \<Rightarrow> lifecycle_state \<Rightarrow> bool" where
  admitted: "lc_phase a = [] \<Longrightarrow> lc_published a = {} \<Longrightarrow> lc_deletion a = [] \<Longrightarrow>
     lifecycle a (a\<lparr>lc_phase := PhasePending, lc_owner := n, lc_copy := c\<rparr>)"
| bound: "creating (lc_phase a) \<Longrightarrow> lifecycle a (a\<lparr>lc_phase := PhaseNodeCreating\<rparr>)"
| completed: "creating (lc_phase a) \<Longrightarrow> lifecycle a (a\<lparr>lc_phase := PhaseReady\<rparr>)"
| fenced: "creating (lc_phase a) \<or> lc_phase a = PhaseReady \<Longrightarrow> lc_published a = {} \<Longrightarrow> lc_deletion a = [] \<Longrightarrow> op \<noteq> [] \<Longrightarrow>
     lifecycle a (a\<lparr>lc_phase := PhaseDeleting, lc_deletion := op\<rparr>)"
| moved: "moving_phase (lc_phase a) \<Longrightarrow> moving_phase p \<Longrightarrow> (p = PhaseReady \<Longrightarrow> lc_published a \<subseteq> {n}) \<Longrightarrow>
     lifecycle a (a\<lparr>lc_phase := p, lc_owner := n, lc_copy := c, lc_deletion := op\<rparr>)"
| published: "lc_phase a = PhaseReady \<Longrightarrow> lifecycle a (a\<lparr>lc_published := insert (lc_owner a) (lc_published a)\<rparr>)"
| unpublished: "lifecycle a (a\<lparr>lc_published := lc_published a - {lc_owner a}\<rparr>)"

definition lifecycle_inv :: "lifecycle_state \<Rightarrow> bool" where
  "lifecycle_inv a \<longleftrightarrow> (lc_phase a = PhaseReady \<longrightarrow> lc_published a \<subseteq> {lc_owner a}) \<and>
     (lc_phase a = [] \<or> creating (lc_phase a) \<or> lc_phase a = PhaseDeleting \<longrightarrow> lc_published a = {})"

lemma lifecycle_inv_step: "lifecycle a b \<Longrightarrow> lifecycle_inv a \<Longrightarrow> lifecycle_inv b"
  by (induction rule: lifecycle.induct) (auto simp: lifecycle_inv_def moving_phase_def)

lemma lifecycle_fence_step: "lifecycle a b \<Longrightarrow> lc_phase a = PhaseDeleting \<Longrightarrow> lc_published a = {} \<Longrightarrow> b = a"
  by (induction rule: lifecycle.induct) (auto simp: moving_phase_def)

lemma lifecycle_fenced:
  assumes "lifecycle\<^sup>*\<^sup>* a b" and "lc_phase a = PhaseDeleting" and "lc_published a = {}"
  shows "b = a"
  using assms(1)
proof (induction rule: rtranclp_induct)
  case (step y z)
  with lifecycle_fence_step [of a z] assms(2,3) show ?case by simp
qed simp

section \<open>The abstraction\<close>

definition abs_state :: "State \<Rightarrow> lifecycle_state" where
  "abs_state s = \<lparr>lc_phase = vs_Phase s, lc_owner = vs_OwnerNode s, lc_published = set (vs_PublishedNodes s),
     lc_deletion = vs_DeletionOperationID s, lc_copy = vs_CurrentCopy s\<rparr>"

text \<open>The same, read from an object's fields.\<close>

definition abs_volume :: "volume_object \<Rightarrow> lifecycle_state" where
  "abs_volume obj = (let body = ao_Body obj in \<lparr>lc_phase = field_or [] (vb_phase body), lc_owner = field_or [] (vb_ownerNode body),
     lc_published = set (field_or [] (vb_publishedNodes body)), lc_deletion = field_or [] (vb_deletionOperationID body),
     lc_copy = (case vb_currentCopy body of Present c \<Rightarrow> Some c | _ \<Rightarrow> None)\<rparr>)"

lemma decode_or_Inr: "decode_or z f = Inr v \<Longrightarrow> field_or z f = v"
  by (cases f) (simp_all add: decode_or_def)

lemma abs_volume_state: "stateFrom k obj = Inr s \<Longrightarrow> abs_volume obj = abs_state s"
  by (auto simp: stateFrom_def Let_def abs_volume_def abs_state_def guard_err_Inr dest!: decode_or_Inr split: api_field.splits)

lemma abs_setState: "abs_volume (setState obj s) = abs_state s"
  by (auto simp: abs_volume_def abs_state_def setState_def omit_nil_def omit_zero_def split: option.splits)

lemma merge_same: "abs_state (merge_state s s) = abs_state s"
  by (simp add: abs_state_def merge_state_def)

lemma abs_merge:
  "abs_state (merge_state s s') = \<lparr>lc_phase = vs_Phase s', lc_owner = vs_OwnerNode s', lc_published = set (vs_PublishedNodes s'),
     lc_deletion = (if vs_DeletionOperationID s' = [] then vs_DeletionOperationID s else vs_DeletionOperationID s'),
     lc_copy = (if vs_CurrentCopy s' = None then vs_CurrentCopy s else vs_CurrentCopy s')\<rparr>"
  by (simp add: abs_state_def merge_state_def)

lemma abs_same: "s' = s \<Longrightarrow> abs_state (merge_state s s') = abs_state s"
  by (simp add: merge_same)

section \<open>Every step refines an abstract step\<close>

text \<open>A step of the code either leaves the abstract state or is one abstract step.\<close>

definition refines_step :: "State \<Rightarrow> State \<Rightarrow> bool" where
  "refines_step s s' \<longleftrightarrow> lifecycle\<^sup>*\<^sup>* (abs_state s) (abs_state (merge_state s s'))"

lemma refines_same: "refines_step s s"
  by (simp add: refines_step_def merge_same)

lemma refines_by:
  assumes "lifecycle (abs_state s) b" and "lc_phase b = vs_Phase s'" and "lc_owner b = vs_OwnerNode s'"
    and "lc_published b = set (vs_PublishedNodes s')"
    and "lc_deletion b = (if vs_DeletionOperationID s' = [] then vs_DeletionOperationID s else vs_DeletionOperationID s')"
    and "lc_copy b = (if vs_CurrentCopy s' = None then vs_CurrentCopy s else vs_CurrentCopy s')"
  shows "refines_step s s'"
proof -
  have "abs_state (merge_state s s') = b" unfolding abs_merge using assms(2-6) by (intro lifecycle_state.equality) simp_all
  with assms(1) show ?thesis by (simp add: refines_step_def r_into_rtranclp)
qed

lemma intent_refines:
  assumes "recordIntent_mutate new s = Inr s'" and "vs_Phase new = PhasePending" and "vs_PublishedNodes new = []"
    and "vs_DeletionOperationID new = []"
  shows "refines_step s s'"
proof (cases "vs_Phase s = []")
  case False
  then have "s' = s" using assms(1) by (simp add: recordIntent_mutate_def split: if_splits)
  then show ?thesis by (simp add: refines_same)
next
  case True
  then have s': "s' = new" and u: "vs_PublishedNodes s = []" "vs_DeletionOperationID s = []"
    using assms(1) by (auto simp: recordIntent_mutate_def Initializing_def UnstartedCreation_def split: if_splits)
  show ?thesis
    by (rule refines_by, rule lifecycle.admitted [where n = "vs_OwnerNode new" and c = "if vs_CurrentCopy new = None then vs_CurrentCopy s else vs_CurrentCopy new"])
      (simp_all add: abs_state_def True u s' assms(2-4))
qed

lemma complete_refines: "completeCreate_mutate uid c op s = Inr s' \<Longrightarrow> refines_step s s'"
proof (cases "vs_Phase s = PhaseReady")
  assume m: "completeCreate_mutate uid c op s = Inr s'"
  { case True
    then have "s' = s" using m by (simp add: completeCreate_mutate_def split: if_splits)
    then show ?thesis by (simp add: refines_same)
  next
    case False
    then have s': "s' = s\<lparr>vs_Phase := PhaseReady\<rparr>" and "creating (vs_Phase s)"
      using m by (auto simp: completeCreate_mutate_def split: if_splits)
    then show ?thesis
      by (intro refines_by [OF lifecycle.completed]) (simp_all add: abs_state_def) }
qed

lemma fence_refines:
  assumes "fenceForDeletion uid op c s = Inr s'"
  shows "refines_step s s'"
proof -
  have op: "op \<noteq> []" using assms by (auto simp: fenceForDeletion_def DecideDeletion_def split: if_splits)
  consider "s' = s" | "s' = s\<lparr>vs_Phase := PhaseDeleting, vs_DeletionOperationID := op\<rparr>"
      "vs_Phase s = PhaseReady" "vs_PublishedNodes s = []" "vs_DeletionOperationID s = []"
    using fenceForDeletion_Inr [OF assms] by auto
  then show ?thesis
  proof cases
    case 2
    then show ?thesis
      by (intro refines_by [OF lifecycle.fenced [where op = op]]) (simp_all add: abs_state_def op)
  qed (simp add: refines_same)
qed

lemma cancel_refines:
  assumes "cancelCreation_mutate uid c s = Inr s'"
  shows "refines_step s s'"
proof (cases "CancellingCreation s")
  case True
  then have "s' = s" using assms by (simp add: cancelCreation_mutate_def split: if_splits)
  then show ?thesis by (simp add: refines_same)
next
  case False
  then have s': "s' = s\<lparr>vs_Phase := PhaseDeleting, vs_DeletionOperationID := CreationCancellationPrefix @ uid\<rparr>" and c: "CancellableCreation s"
    using assms by (auto simp: cancelCreation_mutate_def split: if_splits)
  have "creating (vs_Phase s)" "vs_PublishedNodes s = []" "vs_DeletionOperationID s = []"
    using c by (auto simp: CancellableCreation_def initialCreationIdentity_def split: if_splits option.splits)
  then show ?thesis
    by (intro refines_by [OF lifecycle.fenced [where op = "CreationCancellationPrefix @ uid"]]) (simp_all add: s' abs_state_def)
qed

lemma compare_refines:
  assumes "compareAndSet_mutate p m n cp new s = Inr s'" and "moving_phase p" and "moving_phase (vs_Phase new)"
  shows "refines_step s s'"
proof -
  have s': "s' = new\<lparr>vs_PublishedNodes := vs_PublishedNodes s\<rparr>" and p: "vs_Phase s = p"
    and pub: "vs_Phase new = PhaseReady \<Longrightarrow> set (vs_PublishedNodes s) \<subseteq> {vs_OwnerNode new}"
    using assms(1) by (auto simp: compareAndSet_mutate_def split: if_splits)
  show ?thesis
    by (rule refines_by, rule lifecycle.moved [where p = "vs_Phase new" and n = "vs_OwnerNode new" and
          c = "if vs_CurrentCopy new = None then vs_CurrentCopy s else vs_CurrentCopy new" and op = "if vs_DeletionOperationID new = [] then vs_DeletionOperationID s else vs_DeletionOperationID new"])
      (use assms(2,3) p pub in \<open>simp_all add: s' abs_state_def\<close>)
qed

lemma publish_refines: "beginPublish_mutate node c s = Inr s' \<Longrightarrow> refines_step s s'"
  by (rule refines_by, rule lifecycle.published)
    (auto simp: beginPublish_mutate_def abs_state_def simp del: sorted_list_of_set_insert_remove split: if_split_asm)

lemma reconcile_refines: "reconcilePublished_mutate i node c b s = Inr s' \<Longrightarrow> refines_step s s'"
proof (cases b)
  assume m: "reconcilePublished_mutate i node c b s = Inr s'"
  { case True
    with m show ?thesis
      by (intro refines_by [OF lifecycle.published]) (auto simp: reconcilePublished_mutate_def abs_state_def simp del: sorted_list_of_set_insert_remove split: if_split_asm)
  next
    case False
    with m show ?thesis
      by (intro refines_by [OF lifecycle.unpublished]) (auto simp: reconcilePublished_mutate_def abs_state_def split: if_split_asm) }
qed

lemma bind_refines: "bindCreation_mutate expected e s = Inr s' \<Longrightarrow> refines_step s s'"
  by (rule refines_by, rule lifecycle.bound) (auto simp: bindCreation_mutate_def abs_state_def split: if_split_asm)

lemma receipt_refines: "recordReceipt_mutate expected rt s = Inr s' \<Longrightarrow> refines_step s s'"
proof -
  assume "recordReceipt_mutate expected rt s = Inr s'"
  then have "s' = s \<or> s' = s\<lparr>vs_CreationReceipt := Some rt\<rparr>"
    by (simp add: recordReceipt_mutate_def Let_def split: if_split_asm)
  moreover have "refines_step s (s\<lparr>vs_CreationReceipt := Some rt\<rparr>)"
    unfolding refines_step_def abs_merge by (simp add: abs_state_def)
  ultimately show ?thesis using refines_same by auto
qed

lemmas write_refines = intent_refines complete_refines fence_refines cancel_refines compare_refines publish_refines
  reconcile_refines bind_refines receipt_refines

lemma volume_write_refines: "volume_write s s' \<Longrightarrow> refines_step s s'"
  by (induction rule: volume_write.induct) (blast intro: write_refines)+

section \<open>Every operation refines abstract steps\<close>

context volume_invariant
begin

lemma volume_ops_good:
  assumes "(volume_op k r)\<^sup>*\<^sup>* w w'" and "registry_relied used stored r" and "all_stored good stored w"
  shows "all_stored good stored w'"
  using assms(1,3) by (induction rule: rtranclp_induct) (use volume_op_good [OF _ assms(2)] in blast)+

end

lemma abs_volume_stored: "stored_as obj kept \<Longrightarrow> abs_volume kept = abs_volume obj \<and> ao_UID kept = ao_UID obj"
  by (simp add: stored_as_def abs_volume_def)

lemma abs_volume_untouched:
  "abs_volume (obj\<lparr>ao_Body := (ao_Body obj)\<lparr>vb_initialPool := m\<rparr>\<rparr>) = abs_volume obj"
  "abs_volume (obj\<lparr>ao_Finalizers := fs\<rparr>) = abs_volume obj"
  "abs_volume (obj\<lparr>ao_DeletionTimestamp := t\<rparr>) = abs_volume obj"
  by (simp_all add: abs_volume_def Let_def)

lemma setState_UID: "ao_UID (setState obj s) = ao_UID obj"
  by (simp add: setState_def)

definition fresh_state :: lifecycle_state where
  "fresh_state = \<lparr>lc_phase = [], lc_owner = [], lc_published = {}, lc_deletion = [], lc_copy = None\<rparr>"

lemma abs_volume_new: "created_as (newVolumeObject request pool) kept \<Longrightarrow> abs_volume kept = fresh_state"
  by (simp add: created_as_def abs_volume_def newVolumeObject_def fresh_state_def)

lemma abs_step:
  assumes "stateFrom k obj = Inr s" and "volume_write s s'"
  shows "lifecycle\<^sup>*\<^sup>* (abs_volume obj) (abs_volume (setState obj (merge_state s s')))"
  using volume_write_refines [OF assms(2)] by (simp add: refines_step_def abs_setState abs_volume_state [OF assms(1)])

text \<open>The object with one UID, followed from an abstract state.\<close>

definition tracked :: "string \<Rightarrow> lifecycle_state \<Rightarrow> volume_object \<Rightarrow> bool" where
  "tracked uid a obj \<longleftrightarrow> (ao_UID obj = uid \<longrightarrow> lifecycle\<^sup>*\<^sup>* a (abs_volume obj))"

interpretation tk: volume_invariant "tracked uid a" k "{uid}" for uid a k
proof
  show "tracked uid a obj \<Longrightarrow> stateFrom k obj = Inr s \<Longrightarrow> volume_write s s' \<Longrightarrow> tracked uid a (setState obj (merge_state s s'))" for obj s s'
    using abs_step [of k obj s s'] by (auto simp: tracked_def setState_UID)
qed (auto simp: tracked_def abs_volume_untouched dest: abs_volume_stored)

text \<open>The invariant of the specification, on every object.\<close>

definition publication_sound :: "volume_object \<Rightarrow> bool" where
  "publication_sound obj \<longleftrightarrow> lifecycle_inv (abs_volume obj)"

lemma lifecycle_inv_run: "lifecycle\<^sup>*\<^sup>* a b \<Longrightarrow> lifecycle_inv a \<Longrightarrow> lifecycle_inv b"
  by (induction rule: rtranclp_induct) (auto dest: lifecycle_inv_step)

interpretation pb: volume_invariant publication_sound k "{}" for k
proof
  show "publication_sound obj \<Longrightarrow> stateFrom k obj = Inr s \<Longrightarrow> volume_write s s' \<Longrightarrow> publication_sound (setState obj (merge_state s s'))"
    for obj s s'
    using abs_step [of k obj s s'] lifecycle_inv_run by (auto simp: publication_sound_def)
  show "created_as (newVolumeObject request pool) kept \<Longrightarrow> publication_sound kept" for request pool kept
    by (simp add: publication_sound_def abs_volume_new) (simp add: lifecycle_inv_def fresh_state_def)
qed (auto simp: publication_sound_def abs_volume_untouched dest: abs_volume_stored)

end
