(* ===== verification/Volume_Evidence.thy ===== *)
theory Volume_Evidence
  imports Volume_Lifecycle Pool_Properties
begin

text \<open>
  The claims on the volume registry: it refines the abstract lifecycle, a ready volume is published
  only by its owner, the deletion fence is final, what a step writes is read back, and creation
  ends with a bound identity after at most two nested calls.
\<close>

section \<open>A registry in memory\<close>

definition memory_registry :: "volume_body memory volume_registry" where
  "memory_registry = \<lparr>vr_Volumes = Some memory_client,
     vr_Pools = \<lparr>rg_Pools = None, rg_PoolReadinessStaleAfter = 0, rg_Now = \<lambda>_. 0\<rparr>,
     vr_Namespace = \<lambda>_. Inl ApiNotFound, vr_Retry = \<lambda>fn. fn\<rparr>"

lemma memory_registry_relied: "(\<And>n. ''uid-'' @ n \<notin> used) \<Longrightarrow> registry_relied used (\<lambda>w. w) memory_registry"
  by (simp add: registry_relied_def memory_registry_def once_retries memory_client_writes memory_client_creates memory_client_deletes)

abbreviation sample_volume :: string where "sample_volume \<equiv> ''shiftpv-00112233445566778899aabbccddeeff''"

definition sample_copy :: CopyIdentity where
  "sample_copy = \<lparr>ci_InstallationID = ''i'', ci_PoolName = ''pool'', ci_PoolUID = ''pu'', ci_VolumeID = sample_volume,
     ci_VolumeUID = ''u'', ci_CopyID = ''initial-u'', ci_NodeName = ''node'', ci_Role = RoleServing\<rparr>"

definition volume_in :: "string \<Rightarrow> string list \<Rightarrow> string \<Rightarrow> volume_object" where
  "volume_in phase nodes deletion = \<lparr>ao_Kind = KindVolume, ao_Name = sample_volume, ao_UID = ''u'', ao_ResourceVersion = ''1'',
     ao_Generation = 1, ao_DeletionTimestamp = None, ao_Finalizers = [VolumeProtectionFinalizer], ao_Annotations = Map.empty,
     ao_Body = \<lparr>jb_cleanup = Missing, vb_volumeID = Present sample_volume, vb_requestName = Present ''pvc-1'',
       vb_initialNode = Present ''node'', vb_capacityBytes = Present 1024,
       vb_initialPool = Present \<lparr>ip_name = Present ''pool'', ip_uid = Present ''pu''\<rparr>, vb_creationClaim = Missing,
       vb_phase = Present phase, vb_ownerNode = Present ''node'', vb_activeMove = Present [],
       vb_publishedNodes = Present nodes, vb_creationOperationID = Present ''create-u'',
       vb_deletionOperationID = omit_zero [] deletion, vb_creationExecutor = Missing, vb_creationReceipt = Missing,
       vb_currentCopy = Present sample_copy\<rparr>\<rparr>"

definition world_in :: "string \<Rightarrow> string list \<Rightarrow> string \<Rightarrow> volume_body memory" where
  "world_in phase nodes deletion = (\<lambda>_. None)(sample_volume \<mapsto> volume_in phase nodes deletion)"

section \<open>The registry refines the lifecycle\<close>

text \<open>
  C23. The registry refines the abstract lifecycle: whatever operations run, in whatever order, with
  failed, repeated or conflicting writes, the stored object of one volume goes from an abstract state
  only to states that admission, binding, completion, the deletion fence, moves, publication by
  the owner and unpublication reach.
\<close>

theorem registry_refines_lifecycle:
  assumes "(volume_op k r)\<^sup>*\<^sup>* w w'" and "registry_relied {uid} stored r"
    and "\<forall>n obj. stored w n = Some obj \<longrightarrow> ao_UID obj = uid \<longrightarrow> abs_volume obj = a"
    and "stored w' n = Some obj" and "ao_UID obj = uid"
  shows "lifecycle\<^sup>*\<^sup>* a (abs_volume obj)"
proof -
  have "all_stored (tracked uid a) stored w" using assms(3) by (auto simp: all_stored_def tracked_def)
  then have "all_stored (tracked uid a) stored w'" by (rule tk.volume_ops_good [OF assms(1,2)])
  with assms(4,5) show ?thesis by (simp add: all_stored_def tracked_def)
qed

definition published_world :: "volume_body memory" where
  "published_world = snd (BeginPublish sample_k8s memory_registry sample_volume ''node'' sample_copy (world_in PhaseReady [] []))"

lemma published_run: "(volume_op sample_k8s memory_registry)\<^sup>*\<^sup>* (world_in PhaseReady [] []) published_world"
  unfolding published_world_def by (rule r_into_rtranclp, rule volume_op.begin_publication, rule prod.collapse [symmetric])

lemma world_in_only: "world_in p ns d n = Some obj \<longleftrightarrow> n = sample_volume \<and> obj = volume_in p ns d"
  by (auto simp: world_in_def)

definition published_volume :: volume_object where
  "published_volume = the (published_world sample_volume)"

lemma published_object:
  shows "published_world sample_volume = Some published_volume" and "ao_UID published_volume = ''u''"
    and "vb_publishedNodes (ao_Body published_volume) = Present [''node'']" and "vb_phase (ao_Body published_volume) = Present PhaseReady"
proof -
  have "published_world sample_volume \<noteq> None" by code_simp
  then show "published_world sample_volume = Some published_volume" by (auto simp: published_volume_def)
qed code_simp+

theorem registry_refines_lifecycle_witness:
  "lifecycle\<^sup>*\<^sup>* (abs_volume (volume_in PhaseReady [] [])) (abs_volume published_volume) \<and> lc_published (abs_volume published_volume) = {''node''}"
proof -
  have "registry_relied {''u''} (\<lambda>w. w) memory_registry" by (rule memory_registry_relied) simp
  from registry_refines_lifecycle [OF published_run this, of "abs_volume (volume_in PhaseReady [] [])" sample_volume published_volume]
  show ?thesis using published_object by (simp add: world_in_only abs_volume_def Let_def)
qed

section \<open>Publication\<close>

text \<open>
  C24. Data is published only by its owner: from a world whose volumes satisfy it, after any run of
  registry operations every stored volume satisfies it again, new ones included: a ready volume is
  published at most on its owner node, and a volume that is being created or deleted is published
  nowhere.
\<close>

theorem published_only_by_owner:
  assumes "(volume_op k r)\<^sup>*\<^sup>* w w'" and "registry_relied {} stored r"
    and "\<forall>n obj. stored w n = Some obj \<longrightarrow> lifecycle_inv (abs_volume obj)"
    and "stored w' n = Some obj" and "stateFrom k obj = Inr s"
  shows "(vs_Phase s = PhaseReady \<longrightarrow> set (vs_PublishedNodes s) \<subseteq> {vs_OwnerNode s}) \<and>
    (vs_Phase s \<in> {[], PhasePending, PhaseNodeCreating, PhaseDeleting} \<longrightarrow> vs_PublishedNodes s = [])"
proof -
  have "all_stored publication_sound stored w" using assms(3) by (auto simp: all_stored_def publication_sound_def)
  then have "all_stored publication_sound stored w'" by (rule pb.volume_ops_good [OF assms(1,2)])
  then have "lifecycle_inv (abs_state s)" using assms(4)
    unfolding abs_volume_state [OF assms(5), symmetric] by (simp add: all_stored_def publication_sound_def)
  then show ?thesis by (simp add: lifecycle_inv_def abs_state_def)
qed

lemma ready_world_sound: "\<forall>n obj. (\<lambda>w. w) (world_in PhaseReady [] []) n = Some obj \<longrightarrow> lifecycle_inv (abs_volume obj)"
  by (simp add: world_in_only lifecycle_inv_def abs_volume_def volume_in_def Let_def)

theorem published_only_by_owner_witness:
  "\<exists>s. stateFrom sample_k8s published_volume = Inr s \<and> vs_Phase s = PhaseReady \<and> vs_PublishedNodes s = [''node''] \<and> vs_OwnerNode s = ''node''"
proof -
  have "\<not> isl (stateFrom sample_k8s published_volume)" by code_simp
  then obtain s where s: "stateFrom sample_k8s published_volume = Inr s" by (cases "stateFrom sample_k8s published_volume") auto
  have "vs_Phase (projr (stateFrom sample_k8s published_volume)) = PhaseReady" by code_simp
  moreover have "vs_PublishedNodes (projr (stateFrom sample_k8s published_volume)) = [''node'']" by code_simp
  moreover have "registry_relied {} (\<lambda>w. w) memory_registry" by (rule memory_registry_relied) simp
  from published_only_by_owner [OF published_run this, OF ready_world_sound published_object(1) s] 
  have "vs_Phase s = PhaseReady \<longrightarrow> set (vs_PublishedNodes s) \<subseteq> {vs_OwnerNode s}" ..
  ultimately show ?thesis using s by auto
qed

section \<open>Deletion\<close>

text \<open>
  C25. The deletion fence is final: once a volume is in phase Deleting and published nowhere, no
  operation, cancellation, move, publication or repeated creation included, takes it out of that
  phase or changes its deletion operation, owner or copy, or publishes it again.
\<close>

theorem deletion_fence_final:
  assumes "(volume_op k r)\<^sup>*\<^sup>* w w'" and "registry_relied {vs_UID s} stored r"
    and "\<forall>n obj. stored w n = Some obj \<longrightarrow> ao_UID obj = vs_UID s \<longrightarrow> stateFrom k obj = Inr s"
    and "vs_Phase s = PhaseDeleting" and "vs_PublishedNodes s = []"
    and "stored w' n = Some obj" and "ao_UID obj = vs_UID s" and "stateFrom k obj = Inr s'"
  shows "vs_Phase s' = PhaseDeleting \<and> vs_DeletionOperationID s' = vs_DeletionOperationID s \<and> vs_PublishedNodes s' = [] \<and>
    vs_OwnerNode s' = vs_OwnerNode s \<and> vs_CurrentCopy s' = vs_CurrentCopy s"
proof -
  have "all_stored (tracked (vs_UID s) (abs_state s)) stored w"
    using assms(3) abs_volume_state by (fastforce simp: all_stored_def tracked_def)
  then have "all_stored (tracked (vs_UID s) (abs_state s)) stored w'" by (rule tk.volume_ops_good [OF assms(1,2)])
  then have "lifecycle\<^sup>*\<^sup>* (abs_state s) (abs_state s')"
    using assms(6,7) unfolding abs_volume_state [OF assms(8), symmetric] by (simp add: all_stored_def tracked_def)
  then have "abs_state s' = abs_state s"
    by (rule lifecycle_fenced) (simp_all add: abs_state_def assms(4,5))
  with assms(4,5) show ?thesis by (simp add: abs_state_def)
qed

definition fenced_volume :: volume_object where
  "fenced_volume = volume_in PhaseDeleting [] ''delete-u''"

definition fenced_state :: State where
  "fenced_state = projr (stateFrom sample_k8s fenced_volume)"

definition unpublished_world :: "volume_body memory" where
  "unpublished_world = snd (ReconcilePublished sample_k8s memory_registry sample_volume ''node'' sample_copy False
     (world_in PhaseDeleting [] ''delete-u''))"

theorem deletion_fence_final_witness:
  "\<exists>obj s'. unpublished_world sample_volume = Some obj \<and> ao_ResourceVersion obj = ''10'' \<and> stateFrom sample_k8s obj = Inr s' \<and>
     vs_Phase s' = PhaseDeleting \<and> vs_DeletionOperationID s' = ''delete-u''"
proof -
  let ?obj = "the (unpublished_world sample_volume)"
  have run: "(volume_op sample_k8s memory_registry)\<^sup>*\<^sup>* (world_in PhaseDeleting [] ''delete-u'') unpublished_world"
    unfolding unpublished_world_def by (rule r_into_rtranclp, rule volume_op.reconcile_publication, rule prod.collapse [symmetric])
  have "unpublished_world sample_volume \<noteq> None" by code_simp
  then have obj: "unpublished_world sample_volume = Some ?obj" by auto
  have u: "ao_UID ?obj = ''u''" "vs_UID fenced_state = ''u''" "ao_ResourceVersion ?obj = ''10''" by code_simp+
  have f: "vs_Phase fenced_state = PhaseDeleting" "vs_PublishedNodes fenced_state = []" "vs_DeletionOperationID fenced_state = ''delete-u''"
    by code_simp+
  have "\<not> isl (stateFrom sample_k8s fenced_volume)" "\<not> isl (stateFrom sample_k8s ?obj)" by code_simp+
  then obtain s' where s: "stateFrom sample_k8s fenced_volume = Inr fenced_state" "stateFrom sample_k8s ?obj = Inr s'"
    by (cases "stateFrom sample_k8s ?obj") (auto simp: fenced_state_def)
  have rel: "registry_relied {vs_UID fenced_state} (\<lambda>w. w) memory_registry" unfolding u by (rule memory_registry_relied) simp
  have start: "\<forall>n obj. (\<lambda>w. w) (world_in PhaseDeleting [] ''delete-u'') n = Some obj \<longrightarrow> ao_UID obj = vs_UID fenced_state \<longrightarrow>
      stateFrom sample_k8s obj = Inr fenced_state"
    using s(1) by (simp add: world_in_only fenced_volume_def)
  from deletion_fence_final [OF run rel, OF start f(1) f(2), of sample_volume ?obj s'] obj u s f
  show ?thesis by (intro exI [of _ ?obj] exI [of _ s']) simp
qed

section \<open>The round trip of a step\<close>

text \<open>
  C26. What a step writes is read back: when the closure of \<open>mutateState\<close> answers with a valid copy,
  decoding the written object gives the answered state, with the recorded values where the answer
  leaves the operation identities, copy, executor or receipt open, and the identity, the request and
  the metadata of the object it read.
\<close>

theorem volume_step_round_trip:
  assumes "volume_apply k mutate obj = Inr obj'" and "\<forall>s s'. mutate s = Inr s' \<longrightarrow> copy_valid s'"
  shows "\<exists>s s'. stateFrom k obj = Inr s \<and> mutate s = Inr s' \<and>
    stateFrom k obj' = Inr ((merge_state s s')\<lparr>vs_UID := vs_UID s, vs_Finalizers := vs_Finalizers s,
      vs_RequestName := vs_RequestName s, vs_CapacityBytes := vs_CapacityBytes s, vs_InitialNode := vs_InitialNode s,
      vs_InitialPool := vs_InitialPool s, vs_CreationClaim := vs_CreationClaim s, vs_HasCleanup := vs_HasCleanup s,
      vs_Deleting := vs_Deleting s\<rparr>)"
proof -
  obtain s s' where s: "stateFrom k obj = Inr s" "mutate s = Inr s'" "obj' = setState obj (merge_state s s')"
    using assms(1) by (auto simp: volume_apply_def bind_res_Inr)
  have "copy_valid (merge_state s s')" using s assms(2) stateFrom_copy_valid by (blast intro: merge_copy_valid)
  from stateFrom_setState [OF s(1) this] s show ?thesis by (auto simp: api_part_def)
qed

theorem volume_step_round_trip_witness:
  "\<exists>obj' s'. volume_apply sample_k8s (\<lambda>s. Inr (s\<lparr>vs_Phase := PhaseMoving, vs_CurrentCopy := None\<rparr>)) (volume_in PhaseReady [] []) = Inr obj' \<and>
     stateFrom sample_k8s obj' = Inr s' \<and> vs_Phase s' = PhaseMoving \<and> vs_CurrentCopy s' = Some sample_copy"
proof -
  let ?f = "\<lambda>s. Inr (s\<lparr>vs_Phase := PhaseMoving, vs_CurrentCopy := None\<rparr>)"
  have "\<not> isl (stateFrom sample_k8s (volume_in PhaseReady [] []))"
    and c: "vs_CurrentCopy (projr (stateFrom sample_k8s (volume_in PhaseReady [] []))) = Some sample_copy" by code_simp+
  then obtain s where s: "stateFrom sample_k8s (volume_in PhaseReady [] []) = Inr s"
    by (cases "stateFrom sample_k8s (volume_in PhaseReady [] [])") auto
  then have a: "volume_apply sample_k8s ?f (volume_in PhaseReady [] []) =
      Inr (setState (volume_in PhaseReady [] []) (merge_state s (s\<lparr>vs_Phase := PhaseMoving, vs_CurrentCopy := None\<rparr>)))"
    by (simp add: volume_apply_def bind_res_def)
  have "\<forall>s s'. ?f s = Inr s' \<longrightarrow> copy_valid s'" by (auto simp: copy_valid_def)
  from volume_step_round_trip [OF a this] a show ?thesis using s c by (auto simp: merge_state_def)
qed


section \<open>Creation\<close>

lemma bindInitialPool_bound:
  assumes "bindInitialPool k r i s pool w = (None, w')"
  obtains client obj t where "vr_Volumes r = Some client" "api_Get client w' i = Inr obj" "stateFrom k obj = Inr t"
    "vs_InitialPool t = Some \<lparr>pr_Name = pl_Name pool, pr_UID = pl_UID pool\<rparr>"
proof -
  obtain t where t: "GetVolume k r i w' = Inr t" "vs_InitialPool t = Some \<lparr>pr_Name = pl_Name pool, pr_UID = pl_UID pool\<rparr>"
    using assms by (auto simp: bindInitialPool_def split: prod.splits option.splits sum.splits if_splits)
  then obtain obj where o: "getVolume r i w' = Inr obj" "stateFrom k obj = Inr t" by (auto simp: GetVolume_def bind_res_Inr)
  then show thesis using t that by (auto simp: getVolume_def split: option.splits sum.splits)
qed

lemma initializeCreate_reserved:
  "vs_InitialPool s \<noteq> None \<Longrightarrow> initializeCreate k r again obj s i pn pu w = initializeCreate k r again' obj s i pn pu w"
  "vs_InitialPool s \<noteq> None \<Longrightarrow> initializeCreate k r again obj s i pn pu w \<noteq> None"
  by (auto simp: initializeCreate_def split: option.splits sum.splits if_splits)

lemma begin_create_reserved:
  assumes "vr_Volumes r = Some client" and "api_Get client w (rq_VolumeID request) = Inr obj" and "stateFrom k obj = Inr t"
    and "vs_InitialPool t \<noteq> None"
  shows "begin_create (Suc n) k r request w = begin_create (Suc m) k r request w" and "begin_create (Suc n) k r request w \<noteq> None"
proof -
  note init = initializeCreate_reserved [OF assms(4)]
  show "begin_create (Suc n) k r request w = begin_create (Suc m) k r request w"
    unfolding begin_create.simps(2) using assms(1-3) init(1) [of k r "begin_create n k r" _ _ _ _ _ "begin_create m k r"]
    by (simp add: Let_def split: option.split)
  show "begin_create (Suc n) k r request w \<noteq> None"
    unfolding begin_create.simps(2) using assms(1-3) init(2) [of k r] by (simp add: Let_def del: not_None_eq split: option.split)
qed

lemma initializeCreate_nested:
  assumes "\<And>request w client obj t. vr_Volumes r = Some client \<Longrightarrow> api_Get client w (rq_VolumeID request) = Inr obj \<Longrightarrow>
      stateFrom k obj = Inr t \<Longrightarrow> vs_InitialPool t \<noteq> None \<Longrightarrow> again request w = again' request w \<and> again request w \<noteq> None"
  shows "initializeCreate k r again obj s i pn pu w = initializeCreate k r again' obj s i pn pu w"
    and "initializeCreate k r again obj s i pn pu w \<noteq> None"
proof -
  have nested: "again request w' = again' request w' \<and> again request w' \<noteq> None"
    if "bindInitialPool k r i s pool w = (None, w')" "rq_VolumeID request = i" for pool w' request
    using bindInitialPool_bound [OF that(1)] that(2) assms by (metis option.distinct(1))
  have "initializeCreate k r again obj s i pn pu w = initializeCreate k r again' obj s i pn pu w \<and>
    initializeCreate k r again obj s i pn pu w \<noteq> None"
  proof (cases "vs_InitialPool s")
    case None
    show ?thesis
    proof (cases "freshCreationPlacement k r w i (vs_InitialNode s) pn pu")
      case (Inr x)
      obtain inst pool where x: "x = (inst, pool)" by (cases x)
      obtain e w' where b: "bindInitialPool k r i s pool w = (e, w')" by fastforce
      show ?thesis
      proof (cases e)
        case None
        with b show ?thesis using nested [of pool w'] \<open>vs_InitialPool s = None\<close>
          unfolding initializeCreate_def by (simp add: Inr x del: not_None_eq) (metis CreationRequest.select_convs(1))
      qed (simp add: initializeCreate_def \<open>vs_InitialPool s = None\<close> Inr x b)
    qed (simp add: initializeCreate_def None)
  qed (use initializeCreate_reserved in \<open>metis option.distinct(1)\<close>)
  then show "initializeCreate k r again obj s i pn pu w = initializeCreate k r again' obj s i pn pu w"
    "initializeCreate k r again obj s i pn pu w \<noteq> None" by blast+
qed

lemma begin_create_fuel:
  "begin_create (Suc (Suc n)) k r request w = begin_create 2 k r request w"
  "begin_create (Suc (Suc n)) k r request w \<noteq> None"
proof -
  have i: "initializeCreate k r (begin_create (Suc n) k r) obj s i pn pu w = initializeCreate k r (begin_create (Suc 0) k r) obj s i pn pu w"
    for obj s i pn pu w
    by (rule initializeCreate_nested(1)) (use begin_create_reserved in metis)
  have j: "initializeCreate k r (begin_create (Suc n) k r) obj s i pn pu w \<noteq> None" for obj s i pn pu w
    by (rule initializeCreate_nested(2) [where again' = "begin_create (Suc n) k r"]) (use begin_create_reserved(2) in metis)
  show "begin_create (Suc (Suc n)) k r request w = begin_create 2 k r request w"
    unfolding numeral_2_eq_2 begin_create.simps(2) [of "Suc n"] begin_create.simps(2) [of "Suc 0"] i ..
  show "begin_create (Suc (Suc n)) k r request w \<noteq> None"
    unfolding begin_create.simps(2) [of "Suc n"] using j by (simp add: Let_def del: not_None_eq split: option.split sum.split)
qed

text \<open>
  C27. Creation ends: \<open>BeginCreate\<close> and \<open>initializeCreate\<close> call each other, and whatever the clients
  answer a second nested call never asks for a third, so every fuel from two on gives the same
  answer, which is the one of \<open>BeginCreate\<close>.
\<close>

theorem BeginCreate_terminates:
  "begin_create (Suc (Suc n)) k r request w = Some (BeginCreate k r request w)"
  using begin_create_fuel [of 0 k r request w] begin_create_fuel(1) [of n k r request w]
  by (auto simp: BeginCreate_def numeral_2_eq_2)

text \<open>What a successful creation has bound.\<close>

definition creation_bound :: "'w volume_registry \<Rightarrow> 'w \<Rightarrow> string \<Rightarrow> State \<Rightarrow> bool" where
  "creation_bound r w i s \<longleftrightarrow> (\<exists>c pool. vs_CurrentCopy s = Some c \<and> ValidateCopy c = None \<and> ci_VolumeID c = i \<and>
     ci_VolumeUID c = vs_UID s \<and> ci_NodeName c = vs_OwnerNode s \<and> vs_OwnerNode s = vs_InitialNode s \<and> ci_Role c = RoleServing \<and>
     vs_CreationOperationID s = ''create-'' @ vs_UID s \<and> InstallationID r w = Inr (ci_InstallationID c) \<and>
     protectedCreationPool r w c = Inr pool)"

lemma resumeCreate_bound:
  assumes "resumeCreate r w obj s i rn n cap pn pu = Inr s'"
  shows "s' = s \<and> creation_bound r w i s \<and> vs_Phase s \<in> {PhasePending, PhaseNodeCreating, PhaseReady} \<and>
    (pn \<noteq> [] \<longrightarrow> map_option (\<lambda>c. (ci_PoolName c, ci_PoolUID c)) (vs_CurrentCopy s) = Some (pn, pu))"
proof -
  have intent: "sameCreationIntent obj s i rn n cap" and op: "CreationOperationID (vs_UID s) = Inr (vs_CreationOperationID s)"
    using assms by (auto simp: resumeCreate_def split: if_splits)
  from intent obtain c where c: "vs_CurrentCopy s = Some c" "ValidateCopy c = None" "ci_VolumeID c = i" "ci_VolumeUID c = vs_UID s"
    "ci_NodeName c = n" "ci_Role c = RoleServing" "vs_OwnerNode s = n" "vs_InitialNode s = n"
    "vs_Phase s \<in> {PhasePending, PhaseNodeCreating, PhaseReady}"
    by (auto simp: sameCreationIntent_def servingCopyFor_def split: if_splits option.splits)
  have "vs_CreationOperationID s = ''create-'' @ vs_UID s" using op by (auto simp: CreationOperationID_def Let_def split: if_splits)
  moreover from assms intent op c obtain pool where "InstallationID r w = Inr (ci_InstallationID c)" "protectedCreationPool r w c = Inr pool"
    "s' = s" "pn \<noteq> [] \<longrightarrow> ci_PoolName c = pn \<and> ci_PoolUID c = pu"
    by (auto simp: resumeCreate_def bind_res_Inr split: if_splits)
  ultimately show ?thesis using c by (auto simp: creation_bound_def)
qed

text \<open>The answer of one call, with the pool the request selects.\<close>

definition creates :: "'w volume_registry \<Rightarrow> string \<Rightarrow> PoolReference option \<Rightarrow> State res \<times> 'w \<Rightarrow> bool" where
  "creates r i sel out \<longleftrightarrow> (\<forall>s. fst out = Inr s \<longrightarrow> creation_bound r (snd out) i s \<and>
     vs_Phase s \<in> {PhasePending, PhaseNodeCreating, PhaseReady} \<and>
     (\<forall>p. sel = Some p \<longrightarrow> map_option (\<lambda>c. (ci_PoolName c, ci_PoolUID c)) (vs_CurrentCopy s) = Some (pr_Name p, pr_UID p)))"

lemma creates_Inl [simp]: "creates r i sel (Inl e, w)"
  by (simp add: creates_def)

lemma resumeCreate_creates: "\<forall>p. sel = Some p \<longrightarrow> pn = pr_Name p \<and> pu = pr_UID p \<and> pn \<noteq> [] \<Longrightarrow>
  creates r i sel (resumeCreate r w obj s i rn n cap pn pu, w)"
  unfolding creates_def using resumeCreate_bound [of r w obj s i rn n cap pn pu] by auto

lemma completeInitialization_creates:
  assumes "\<forall>p. sel = Some p \<longrightarrow> pl_Name pool = pr_Name p \<and> pl_UID pool = pr_UID p \<and> pr_Name p \<noteq> []"
  shows "creates r i sel (completeInitialization k r obj s pool inst i w)"
  using resumeCreate_creates [of sel "pl_Name pool" "pl_UID pool"] assms
  by (auto simp: completeInitialization_def split: sum.splits prod.splits)

lemma ready_pool_selected:
  assumes "ReadyPoolForIdentity k r w name uid n = Inr pool"
  shows "pl_Name pool = name \<and> pl_UID pool = uid"
proof -
  obtain peers where peers: "ListPoolRegistrations r w = Inr peers" using assms by (auto simp: ReadyPoolForIdentity_def bind_res_Inr)
  show ?thesis
  proof (cases "find (\<lambda>p. pl_Name p = name) peers")
    case (Some p)
    then have "pl_Name p = name" by (auto simp: find_Some_iff)
    with assms peers Some show ?thesis
      by (auto simp: ReadyPoolForIdentity_def bind_res_Inr split: prod.splits if_splits)
  qed (use assms peers in \<open>auto simp: ReadyPoolForIdentity_def bind_res_Inr\<close>)
qed

lemma placement_selected:
  assumes "freshCreationPlacement k r w i n pn pu = Inr (inst, pool)" and "pn \<noteq> []"
  shows "pl_Name pool = pn \<and> pl_UID pool = pu"
proof -
  have "ReadyPoolForIdentity k (vr_Pools r) w pn pu n = Inr pool"
    using assms by (auto simp: freshCreationPlacement_def bind_res_Inr split: if_splits)
  then show ?thesis by (rule ready_pool_selected)
qed

text \<open>The API server answers a read by name with the object of that name.\<close>

definition pools_named :: "'w volume_registry \<Rightarrow> bool" where
  "pools_named r \<longleftrightarrow> (\<forall>client w n obj. rg_Pools (vr_Pools r) = Some client \<longrightarrow> api_Get client w n = Inr obj \<longrightarrow> ao_Name obj = n)"

lemma reserved_pool:
  assumes "pools_named r" and "PoolForIdentity (vr_Pools r) w name uid n = Inr pool"
  shows "pl_Name pool = name \<and> pl_UID pool = uid"
  using assms by (auto simp: PoolForIdentity_def pools_named_def bind_res_Inr poolFrom_def Let_def split: option.splits if_splits sum.splits)

lemma createFresh_creates:
  assumes "\<forall>p. rq_Pool request = Some p \<longrightarrow> pn = pr_Name p \<and> pu = pr_UID p \<and> pn \<noteq> []"
  shows "creates r (rq_VolumeID request) (rq_Pool request) (createFresh k r client request pn pu w)"
proof (cases "freshCreationPlacement k r w (rq_VolumeID request) (rq_NodeName request) pn pu")
  case (Inr x)
  obtain inst pool where x: "x = (inst, pool)" by (cases x)
  have "\<forall>p. rq_Pool request = Some p \<longrightarrow> pl_Name pool = pr_Name p \<and> pl_UID pool = pr_UID p \<and> pr_Name p \<noteq> []"
    using assms placement_selected [OF Inr [unfolded x]] by auto
  note c = completeInitialization_creates [OF this]
  show ?thesis using c by (auto simp: createFresh_def Inr x split: sum.splits prod.splits)
qed (simp add: createFresh_def)

lemma initializeCreate_creates:
  assumes "pools_named r" and "\<forall>p. sel = Some p \<longrightarrow> pn = pr_Name p \<and> pu = pr_UID p \<and> pn \<noteq> []"
    and "\<And>request w out. again request w = Some out \<Longrightarrow> creates r (rq_VolumeID request) (rq_Pool request) out"
    and "initializeCreate k r again obj s i pn pu w = Some out"
  shows "creates r i sel out"
proof (cases "vs_InitialPool s")
  case None
  consider e w' where "out = (Inl e, w')"
    | inst pool request w' where "freshCreationPlacement k r w i (vs_InitialNode s) pn pu = Inr (inst, pool)"
        "again request w' = Some out" "rq_VolumeID request = i" "rq_Pool request = Some \<lparr>pr_Name = pl_Name pool, pr_UID = pl_UID pool\<rparr>"
    using assms(4) None by (auto simp: initializeCreate_def split: sum.splits prod.splits option.splits)
  then show ?thesis
  proof cases
    case (2 inst pool request w')
    with assms(3) [OF 2(2)] placement_selected [OF 2(1)] assms(2) show ?thesis by (auto simp: creates_def)
  qed simp
next
  case (Some q)
  consider e w' where "out = (Inl e, w')"
    | pool inst where "pn \<noteq> [] \<longrightarrow> pr_Name q = pn \<and> pr_UID q = pu"
        "PoolForIdentity (vr_Pools r) w (pr_Name q) (pr_UID q) (vs_InitialNode s) = Inr pool"
        "out = completeInitialization k r obj s pool inst i w"
    using assms(4) Some by (auto simp: initializeCreate_def split: sum.splits if_splits)
  then show ?thesis
  proof cases
    case (2 pool inst)
    with reserved_pool [OF assms(1) 2(2)] assms(2) show ?thesis by (auto intro!: completeInitialization_creates)
  qed simp
qed

lemma begin_create_creates:
  assumes "pools_named r" and "begin_create n k r request w = Some out"
  shows "creates r (rq_VolumeID request) (rq_Pool request) out"
  using assms(2)
proof (induction n arbitrary: request w out)
  case (Suc n)
  let ?pn = "case rq_Pool request of None \<Rightarrow> [] | Some p \<Rightarrow> pr_Name p" and ?pu = "case rq_Pool request of None \<Rightarrow> [] | Some p \<Rightarrow> pr_UID p"
  have sel: "\<forall>p. rq_Pool request = Some p \<longrightarrow> ?pn = pr_Name p \<and> ?pu = pr_UID p \<and> ?pn \<noteq> []" if "validateRequest k request = None"
    using that by (auto simp: validateRequest_def split: if_splits)
  consider e w' where "out = (Inl e, w')"
    | obj s where "validateRequest k request = None" "out = (resumeCreate r w obj s (rq_VolumeID request) (rq_RequestName request)
        (rq_NodeName request) (rq_CapacityBytes request) ?pn ?pu, w)"
    | client where "validateRequest k request = None" "out = createFresh k r client request ?pn ?pu w"
    | obj s where "validateRequest k request = None"
        "initializeCreate k r (begin_create n k r) obj s (rq_VolumeID request) ?pn ?pu w = Some out"
    using Suc.prems unfolding begin_create.simps(2) Let_def by (auto split: option.splits sum.splits if_splits)
  then show ?case
  proof cases
    case 2
    then show ?thesis using resumeCreate_creates [OF sel] by simp
  next
    case 3
    then show ?thesis using createFresh_creates [OF sel] by simp
  next
    case (4 obj s)
    show ?thesis by (rule initializeCreate_creates [OF assms(1) sel [OF 4(1)] Suc.IH 4(2)])
  qed simp
qed simp

text \<open>
  C28. A creation that answers has bound its identity: the returned state is pending, creating on the
  node or ready; its copy is a valid serving copy of the requested volume and of this object's UID
  on the volume's initial node; the operation identity is the one of the UID; the installation is
  the live one; the copy's pool exists, unchanged and protected; and a pool the request selects is
  the pool of the copy.
\<close>

theorem BeginCreate_binds_identity:
  assumes "BeginCreate k r request w = (Inr s, w')" and "pools_named r"
  shows "vs_Phase s \<in> {PhasePending, PhaseNodeCreating, PhaseReady} \<and>
    (\<exists>c pool. vs_CurrentCopy s = Some c \<and> ValidateCopy c = None \<and> ci_VolumeID c = rq_VolumeID request \<and>
     ci_VolumeUID c = vs_UID s \<and> ci_NodeName c = vs_OwnerNode s \<and> vs_OwnerNode s = vs_InitialNode s \<and> ci_Role c = RoleServing \<and>
     vs_CreationOperationID s = ''create-'' @ vs_UID s \<and> InstallationID r w' = Inr (ci_InstallationID c) \<and>
     protectedCreationPool r w' c = Inr pool \<and>
     (\<forall>p. rq_Pool request = Some p \<longrightarrow> ci_PoolName c = pr_Name p \<and> ci_PoolUID c = pr_UID p))"
proof -
  obtain out where "begin_create 2 k r request w = Some out" using begin_create_fuel(2) [of 0 k r request w] by (auto simp: numeral_2_eq_2)
  with assms(1) have "begin_create 2 k r request w = Some (Inr s, w')" by (simp add: BeginCreate_def)
  from begin_create_creates [OF assms(2) this] show ?thesis by (auto simp: creates_def creation_bound_def)
qed

text \<open>A volume whose pool is reserved and whose creation has not started.\<close>

definition reserved_volume :: volume_object where
  "reserved_volume = (volume_in [] [] [])\<lparr>ao_Body := (ao_Body (volume_in [] [] []))\<lparr>vb_ownerNode := Missing,
     vb_creationOperationID := Missing, vb_currentCopy := Missing\<rparr>\<rparr>"

definition pool_client :: "(volume_body memory, pool_body) api_client" where
  "pool_client = \<lparr>
     api_Get = \<lambda>w n. if n = ''pool'' then Inr (sample_pool_object\<lparr>ao_UID := ''pu''\<rparr>) else Inl ApiNotFound,
     api_List = \<lambda>w. Inr [sample_pool_object\<lparr>ao_UID := ''pu''\<rparr>],
     api_Create = \<lambda>w obj. (Inl ApiConflict, w), api_Update = \<lambda>w obj. (Inl ApiConflict, w),
     api_UpdateStatus = \<lambda>w obj. (Inl ApiConflict, w), api_Delete = \<lambda>w n u v. (Some ApiConflict, w)\<rparr>"

definition serving_registry :: "volume_body memory volume_registry" where
  "serving_registry = memory_registry\<lparr>vr_Pools := \<lparr>rg_Pools = Some pool_client, rg_PoolReadinessStaleAfter = 0, rg_Now = \<lambda>_. 0\<rparr>,
     vr_Namespace := \<lambda>_. Inr \<lparr>ao_Kind = ''Namespace'', ao_Name = ''kube-system'', ao_UID = ''i'', ao_ResourceVersion = ''1'',
       ao_Generation = 0, ao_DeletionTimestamp = None, ao_Finalizers = [], ao_Annotations = Map.empty, ao_Body = ()\<rparr>\<rparr>"

definition sample_request :: CreationRequest where
  "sample_request = \<lparr>rq_VolumeID = sample_volume, rq_RequestName = ''pvc-1'', rq_NodeName = ''node'', rq_CapacityBytes = 1024,
     rq_Pool = Some \<lparr>pr_Name = ''pool'', pr_UID = ''pu''\<rparr>, rq_Claim = None\<rparr>"

definition reserved_answer :: "State res \<times> volume_body memory" where
  "reserved_answer = BeginCreate sample_k8s serving_registry sample_request ((\<lambda>_. None)(sample_volume \<mapsto> reserved_volume))"

theorem BeginCreate_binds_identity_witness:
  "\<exists>s c. fst reserved_answer = Inr s \<and> vs_Phase s = PhasePending \<and> vs_CurrentCopy s = Some c \<and>
     ci_PoolUID c = ''pu'' \<and> ci_NodeName c = vs_OwnerNode s \<and> vs_CreationOperationID s = ''create-u''"
proof -
  let ?s = "projr (fst reserved_answer)"
  have a: "\<not> isl (fst reserved_answer)" "vs_Phase ?s = PhasePending" "vs_UID ?s = ''u''" by code_simp+
  then have "fst reserved_answer = Inr ?s" by simp
  then have r: "BeginCreate sample_k8s serving_registry sample_request ((\<lambda>_. None)(sample_volume \<mapsto> reserved_volume)) = (Inr ?s, snd reserved_answer)"
    by (metis prod.collapse reserved_answer_def)
  have "pools_named serving_registry"
    by (auto simp: pools_named_def serving_registry_def pool_client_def sample_pool_object_def split: if_splits)
  from BeginCreate_binds_identity [OF r this] a show ?thesis
    by (intro exI [of _ ?s] exI [of _ "the (vs_CurrentCopy ?s)"]) (auto simp: sample_request_def)
qed

end
