(* ===== verification/Move_State.thy ===== *)
theory Move_State
  imports Volume_Registry
begin

text \<open>
  Moves of the volume registry (\<open>src/kubernetes/volumeapi/move.go\<close>, \<open>move_identity.go\<close>,
  \<open>move_preparation.go\<close>, \<open>move_settlement.go\<close>): the records of a Move, decoding and encoding of its
  object, the identities of its transaction, and the rules a status write has to pass.
\<close>

section \<open>Records\<close>

abbreviation MoveProtocolPreparedV1 :: string where "MoveProtocolPreparedV1 \<equiv> ''prepared-v1''"

record MoveSpec =
  ms_ProtocolVersion :: string
  ms_VolumeID :: string
  ms_SourceNode :: string
  ms_Recovery :: string

record MovePreparation =
  mp_Pool :: PoolReference
  mp_NodeName :: string
  mp_ReservedBytes :: int

record MoveStatus =
  mt_Preparation :: "MovePreparation option"
  mt_PersistentVolumeUID :: string
  mt_ClaimUID :: string
  mt_PlacementPodUID :: string
  mt_Phase :: string
  mt_Reason :: string
  mt_Message :: string
  mt_LastTransitionTime :: string
  mt_LastProgressTime :: string
  mt_PersistentVolumeName :: string
  mt_ClaimNamespace :: string
  mt_ClaimName :: string
  mt_ConsumerName :: string
  mt_ConsumerUID :: string
  mt_ReplacementName :: string
  mt_ReplacementUID :: string
  mt_DestinationNode :: string
  mt_DestinationPoolUID :: string
  mt_SourceBytes :: int
  mt_CapacityApproved :: bool
  mt_CapacityReason :: string
  mt_CandidateNodes :: "string list"
  mt_EvictionRequested :: bool
  mt_CopyJobName :: string
  mt_PromotionJobName :: string
  mt_CleanupPhase :: string
  mt_CopyOperationID :: string
  mt_PromotionOperationID :: string
  mt_SourceCopy :: "CopyIdentity option"
  mt_IncomingCopy :: "CopyIdentity option"
  mt_DestinationCopy :: "CopyIdentity option"
  mt_RollbackRequiredGeneration :: int
  mt_SettlementRequested :: bool
  mt_RecoveryPhase :: string
  mt_RecoveryOwner :: string
  mt_RecoveryReason :: string
  mt_RecoveryMessage :: string

record Move =
  mv_Deleting :: bool
  mv_Name :: string
  mv_UID :: string
  mv_ResourceVersion :: string
  mv_Finalizers :: "string list"
  mv_Spec :: MoveSpec
  mv_Status :: MoveStatus

text \<open>
  The fields of a Move object. \<open>mb_rawCleanupPhase\<close> is what \<open>status.cleanup.status.phase\<close> reads as
  when the journal as a whole does not decode.
\<close>

record move_body = journal_body +
  mb_volumeID :: "string api_field"
  mb_sourceNode :: "string api_field"
  mb_recovery :: "string api_field"
  mb_protocolVersion :: "string api_field"
  mb_rawCleanupPhase :: "string api_field"
  mb_preparation :: "MovePreparation api_field"
  mb_persistentVolumeUID :: "string api_field"
  mb_persistentVolumeClaimUID :: "string api_field"
  mb_placementPodUID :: "string api_field"
  mb_phase :: "string api_field"
  mb_reason :: "string api_field"
  mb_message :: "string api_field"
  mb_lastTransitionTime :: "string api_field"
  mb_lastProgressTime :: "string api_field"
  mb_persistentVolumeName :: "string api_field"
  mb_persistentVolumeClaimNamespace :: "string api_field"
  mb_persistentVolumeClaimName :: "string api_field"
  mb_consumerName :: "string api_field"
  mb_consumerUID :: "string api_field"
  mb_replacementName :: "string api_field"
  mb_replacementUID :: "string api_field"
  mb_destinationNode :: "string api_field"
  mb_destinationPoolUID :: "string api_field"
  mb_sourceBytes :: "int api_field"
  mb_capacityApproved :: "bool api_field"
  mb_capacityReason :: "string api_field"
  mb_candidateNodes :: "string list api_field"
  mb_evictionRequested :: "bool api_field"
  mb_copyJobName :: "string api_field"
  mb_promotionJobName :: "string api_field"
  mb_copyOperationID :: "string api_field"
  mb_promotionOperationID :: "string api_field"
  mb_sourceCopy :: "CopyIdentity api_field"
  mb_incomingCopy :: "CopyIdentity api_field"
  mb_destinationCopy :: "CopyIdentity api_field"
  mb_rollbackRequiredGeneration :: "int api_field"
  mb_settlementRequested :: "bool api_field"
  mb_recoveryPhase :: "string api_field"
  mb_recoveryOwner :: "string api_field"
  mb_recoveryReason :: "string api_field"
  mb_recoveryMessage :: "string api_field"

type_synonym move_object = "move_body api_object"

section \<open>The transaction of a Move\<close>

definition MoveCopyIDs :: "string \<Rightarrow> string \<times> string" where
  "MoveCopyIDs moveUID = (''move-'' @ moveUID @ ''-incoming'', ''move-'' @ moveUID @ ''-serving'')"

definition MoveCopyOperationID :: "string \<Rightarrow> string" where
  "MoveCopyOperationID moveUID = ''copy-'' @ moveUID"

definition MovePromotionOperationID :: "string \<Rightarrow> string" where
  "MovePromotionOperationID moveUID = ''promote-'' @ moveUID"

definition MoveCleanupOperationID :: "string \<Rightarrow> string" where
  "MoveCleanupOperationID moveUID = ''cleanup-'' @ moveUID"

definition MoveRollbackOperationID :: "string \<Rightarrow> string" where
  "MoveRollbackOperationID moveUID = ''rollback-'' @ moveUID"

record MoveDestinationAnchor =
  da_InstallationID :: string
  da_PoolName :: string
  da_PoolUID :: string
  da_NodeName :: string
  da_VolumeUID :: string

definition MoveTransactionCopies :: "string \<Rightarrow> string \<Rightarrow> MoveDestinationAnchor \<Rightarrow> CopyIdentity \<times> CopyIdentity" where
  "MoveTransactionCopies moveUID volumeID anchor = (
     let base = \<lparr>ci_InstallationID = da_InstallationID anchor, ci_PoolName = da_PoolName anchor, ci_PoolUID = da_PoolUID anchor,
           ci_VolumeID = volumeID, ci_VolumeUID = da_VolumeUID anchor, ci_CopyID = [], ci_NodeName = da_NodeName anchor, ci_Role = []\<rparr>
     in (base\<lparr>ci_Role := RoleIncoming, ci_CopyID := fst (MoveCopyIDs moveUID)\<rparr>,
         base\<lparr>ci_Role := RoleServing, ci_CopyID := snd (MoveCopyIDs moveUID)\<rparr>))"

definition MoveIdentityMismatch :: "string \<Rightarrow> error" where
  "MoveIdentityMismatch term = Errorf (''Move '' @ term @ '' does not match the exact transaction identity'')"

definition matchMoveCopy :: "string \<Rightarrow> CopyIdentity \<Rightarrow> CopyIdentity \<Rightarrow> error option" where
  "matchMoveCopy name observed expected = first_error (
     map (\<lambda>(field, f). require_that (f observed = f expected) (MoveIdentityMismatch (name @ ''.'' @ field)))
       [(''InstallationID'', ci_InstallationID), (''PoolName'', ci_PoolName), (''PoolUID'', ci_PoolUID), (''VolumeID'', ci_VolumeID),
        (''VolumeUID'', ci_VolumeUID), (''CopyID'', ci_CopyID), (''NodeName'', ci_NodeName), (''Role'', ci_Role)] @
     [require_that (observed = expected) (MoveIdentityMismatch name)])"

definition ValidateMoveTransactionIdentities :: "Move \<Rightarrow> MoveDestinationAnchor \<Rightarrow> error option" where
  "ValidateMoveTransactionIdentities move anchor = (
     if \<not> ValidIdentityToken (mv_UID move) then Some (MoveIdentityMismatch ''UID'')
     else case mt_IncomingCopy (mv_Status move) of
       None \<Rightarrow> Some (MoveIdentityMismatch ''IncomingCopy'')
     | Some incoming \<Rightarrow> if ValidateCopy incoming \<noteq> None then Some (MoveIdentityMismatch ''IncomingCopy'')
         else case mt_DestinationCopy (mv_Status move) of
           None \<Rightarrow> Some (MoveIdentityMismatch ''DestinationCopy'')
         | Some destination \<Rightarrow> if ValidateCopy destination \<noteq> None then Some (MoveIdentityMismatch ''DestinationCopy'')
             else let (expectedIncoming, expectedDestination) = MoveTransactionCopies (mv_UID move) (ms_VolumeID (mv_Spec move)) anchor in
               first_error [
                 matchMoveCopy ''IncomingCopy'' incoming expectedIncoming,
                 matchMoveCopy ''DestinationCopy'' destination expectedDestination,
                 require_that (mt_CopyOperationID (mv_Status move) = MoveCopyOperationID (mv_UID move)) (MoveIdentityMismatch ''CopyOperationID''),
                 require_that (mt_PromotionOperationID (mv_Status move) = MovePromotionOperationID (mv_UID move))
                   (MoveIdentityMismatch ''PromotionOperationID'')])"

section \<open>Reading and writing a Move object\<close>

definition validatePreparationFields :: "MovePreparation \<Rightarrow> error option" where
  "validatePreparationFields p = require_that
     (ValidObjectName (pr_Name (mp_Pool p)) \<and> ValidIdentityToken (pr_UID (mp_Pool p)) \<and> ValidObjectName (mp_NodeName p) \<and>
      0 < mp_ReservedBytes p) (Wrapped ErrStateConflict ''invalid Move preparation reservation'')"

definition movePreparationFrom :: "move_object \<Rightarrow> MovePreparation option res" where
  "movePreparationFrom obj = (case mb_preparation (ao_Body obj) of
     Missing \<Rightarrow> Inr None
   | Malformed \<Rightarrow> Inl (Errorf ''decode preparation'')
   | Present p \<Rightarrow> guard_err (validatePreparationFields p) (Inr (Some p)))"

text \<open>The closure \<open>readCopy\<close> of \<open>moveStatusFrom\<close>.\<close>

definition readCopy :: "CopyIdentity api_field \<Rightarrow> CopyIdentity option res" where
  "readCopy f = (case f of
     Missing \<Rightarrow> Inr None
   | Malformed \<Rightarrow> Inl (Errorf ''decode copy'')
   | Present c \<Rightarrow> guard_err (ValidateCopy c) (Inr (Some c)))"

definition read_cleanup_phase :: "move_body \<Rightarrow> string" where
  "read_cleanup_phase body = (case jb_cleanup body of
     Missing \<Rightarrow> [] | Malformed \<Rightarrow> field_or [] (mb_rawCleanupPhase body) | Present j \<Rightarrow> st_Phase (jn_Status j))"

definition moveStatusFrom :: "move_object \<Rightarrow> MoveStatus res" where
  "moveStatusFrom obj = (let body = ao_Body obj in
     bind_res (decode_or [] (mb_candidateNodes body)) (\<lambda>candidates.
     bind_res (decode_or False (mb_settlementRequested body)) (\<lambda>settlementRequested.
     bind_res (decode_or 0 (mb_rollbackRequiredGeneration body)) (\<lambda>rollbackGeneration.
     if rollbackGeneration < 0 then Inl (Errorf ''rollbackRequiredGeneration must not be negative'')
     else
     bind_res (readCopy (mb_sourceCopy body)) (\<lambda>sourceCopy.
     bind_res (readCopy (mb_incomingCopy body)) (\<lambda>incomingCopy.
     bind_res (readCopy (mb_destinationCopy body)) (\<lambda>destinationCopy.
     bind_res (movePreparationFrom obj) (\<lambda>preparation.
     Inr \<lparr>mt_Preparation = preparation,
       mt_PersistentVolumeUID = field_or [] (mb_persistentVolumeUID body),
       mt_ClaimUID = field_or [] (mb_persistentVolumeClaimUID body),
       mt_PlacementPodUID = field_or [] (mb_placementPodUID body),
       mt_Phase = field_or [] (mb_phase body),
       mt_Reason = field_or [] (mb_reason body),
       mt_Message = field_or [] (mb_message body),
       mt_LastTransitionTime = field_or [] (mb_lastTransitionTime body),
       mt_LastProgressTime = field_or [] (mb_lastProgressTime body),
       mt_PersistentVolumeName = field_or [] (mb_persistentVolumeName body),
       mt_ClaimNamespace = field_or [] (mb_persistentVolumeClaimNamespace body),
       mt_ClaimName = field_or [] (mb_persistentVolumeClaimName body),
       mt_ConsumerName = field_or [] (mb_consumerName body),
       mt_ConsumerUID = field_or [] (mb_consumerUID body),
       mt_ReplacementName = field_or [] (mb_replacementName body),
       mt_ReplacementUID = field_or [] (mb_replacementUID body),
       mt_DestinationNode = field_or [] (mb_destinationNode body),
       mt_DestinationPoolUID = field_or [] (mb_destinationPoolUID body),
       mt_SourceBytes = field_or 0 (mb_sourceBytes body), mt_CapacityApproved = field_or False (mb_capacityApproved body),
       mt_CapacityReason = field_or [] (mb_capacityReason body), mt_CandidateNodes = candidates,
       mt_EvictionRequested = field_or False (mb_evictionRequested body),
       mt_CopyJobName = field_or [] (mb_copyJobName body), mt_PromotionJobName = field_or [] (mb_promotionJobName body),
       mt_CleanupPhase = read_cleanup_phase body,
       mt_CopyOperationID = field_or [] (mb_copyOperationID body), mt_PromotionOperationID = field_or [] (mb_promotionOperationID body),
       mt_SourceCopy = sourceCopy, mt_IncomingCopy = incomingCopy, mt_DestinationCopy = destinationCopy,
       mt_RollbackRequiredGeneration = rollbackGeneration, mt_SettlementRequested = settlementRequested,
       mt_RecoveryPhase = field_or [] (mb_recoveryPhase body), mt_RecoveryOwner = field_or [] (mb_recoveryOwner body),
       mt_RecoveryReason = field_or [] (mb_recoveryReason body), mt_RecoveryMessage = field_or [] (mb_recoveryMessage body)\<rparr>))))))))"

definition moveFrom :: "move_object \<Rightarrow> Move res" where
  "moveFrom obj = (let body = ao_Body obj in
     bind_res (decode_or [] (mb_protocolVersion body)) (\<lambda>protocol.
     bind_res (moveStatusFrom obj) (\<lambda>status.
     Inr \<lparr>mv_Deleting = (ao_DeletionTimestamp obj \<noteq> None), mv_Name = ao_Name obj, mv_UID = ao_UID obj,
       mv_ResourceVersion = ao_ResourceVersion obj, mv_Finalizers = ao_Finalizers obj,
       mv_Spec = \<lparr>ms_ProtocolVersion = protocol, ms_VolumeID = field_or [] (mb_volumeID body),
         ms_SourceNode = field_or [] (mb_sourceNode body), ms_Recovery = field_or [] (mb_recovery body)\<rparr>,
       mv_Status = status\<rparr>)))"

text \<open>The written status replaces the whole map; only the cleanup journal is carried over.\<close>

definition setMoveStatus :: "move_object \<Rightarrow> MoveStatus \<Rightarrow> move_object" where
  "setMoveStatus obj s = obj\<lparr>ao_Body := (ao_Body obj)\<lparr>
     mb_preparation := omit_nil (mt_Preparation s),
     mb_persistentVolumeUID := omit_zero [] (mt_PersistentVolumeUID s),
     mb_persistentVolumeClaimUID := omit_zero [] (mt_ClaimUID s),
     mb_placementPodUID := omit_zero [] (mt_PlacementPodUID s),
     mb_phase := Present (mt_Phase s),
     mb_reason := Present (mt_Reason s),
     mb_message := Present (mt_Message s),
     mb_lastTransitionTime := Present (mt_LastTransitionTime s),
     mb_lastProgressTime := Present (mt_LastProgressTime s),
     mb_persistentVolumeName := Present (mt_PersistentVolumeName s),
     mb_persistentVolumeClaimNamespace := Present (mt_ClaimNamespace s),
     mb_persistentVolumeClaimName := Present (mt_ClaimName s),
     mb_consumerName := Present (mt_ConsumerName s),
     mb_consumerUID := Present (mt_ConsumerUID s),
     mb_replacementName := Present (mt_ReplacementName s),
     mb_replacementUID := Present (mt_ReplacementUID s),
     mb_destinationNode := Present (mt_DestinationNode s),
     mb_destinationPoolUID := Present (mt_DestinationPoolUID s),
     mb_sourceBytes := Present (mt_SourceBytes s), mb_capacityApproved := Present (mt_CapacityApproved s),
     mb_capacityReason := Present (mt_CapacityReason s), mb_candidateNodes := Present (mt_CandidateNodes s),
     mb_evictionRequested := Present (mt_EvictionRequested s), mb_copyJobName := Present (mt_CopyJobName s),
     mb_promotionJobName := Present (mt_PromotionJobName s), mb_copyOperationID := Present (mt_CopyOperationID s),
     mb_promotionOperationID := Present (mt_PromotionOperationID s),
     mb_sourceCopy := omit_nil (mt_SourceCopy s), mb_incomingCopy := omit_nil (mt_IncomingCopy s),
     mb_destinationCopy := omit_nil (mt_DestinationCopy s),
     mb_rollbackRequiredGeneration := (if 0 < mt_RollbackRequiredGeneration s then Present (mt_RollbackRequiredGeneration s) else Missing),
     mb_settlementRequested := (if mt_SettlementRequested s then Present True else Missing),
     mb_recoveryPhase := Present (mt_RecoveryPhase s), mb_recoveryOwner := Present (mt_RecoveryOwner s),
     mb_recoveryReason := Present (mt_RecoveryReason s), mb_recoveryMessage := Present (mt_RecoveryMessage s)\<rparr>\<rparr>"

text \<open>\<open>moveCleanup\<close>: the raw journal of an object, as far as the model keeps it.\<close>

definition moveCleanup :: "move_object \<Rightarrow> journal api_field \<times> string api_field" where
  "moveCleanup obj = (jb_cleanup (ao_Body obj), mb_rawCleanupPhase (ao_Body obj))"

definition has_move_cleanup :: "move_object \<Rightarrow> bool" where
  "has_move_cleanup obj \<longleftrightarrow> fst (moveCleanup obj) \<noteq> Missing"

end
