(* ===== verification/Move_Registry.thy ===== *)
theory Move_Registry
  imports Move_State
begin

text \<open>
  The rules a Move's status has to pass (\<open>move_preparation.go\<close>, \<open>move_settlement.go\<close>,
  \<open>preserveMoveIdentity\<close> of \<open>move.go\<close>, \<open>move_repair.go\<close>) and the operations that write a Move
  (\<open>move.go\<close>, \<open>CompareAndSetMoveStatus\<close>, \<open>move_usage.go\<close>).
\<close>

section \<open>Plans and reservations\<close>

definition hasMoveDestinationIntent :: "MoveStatus \<Rightarrow> bool" where
  "hasMoveDestinationIntent s \<longleftrightarrow> mt_IncomingCopy s \<noteq> None \<or> mt_DestinationCopy s \<noteq> None \<or> mt_CopyOperationID s \<noteq> [] \<or>
     mt_PromotionOperationID s \<noteq> [] \<or> mt_CopyJobName s \<noteq> [] \<or> mt_PromotionJobName s \<noteq> [] \<or>
     mt_CleanupPhase s \<noteq> [] \<or> mt_RollbackRequiredGeneration s \<noteq> 0"

text \<open>
  The source checks the seven strings in the random order of a map; only the name in the message
  depends on it, which the model leaves out.
\<close>

definition validatePreparedPlan :: "Move \<Rightarrow> error option" where
  "validatePreparedPlan move = (let s = mv_Status move in
     if mv_Name move = [] \<or> \<not> ValidIdentityToken (mv_UID move) then Some (Wrapped ErrStateConflict ''prepared Move identity is missing'')
     else if \<not> list_all ValidIdentityToken [mt_PersistentVolumeName s, mt_PersistentVolumeUID s, mt_ClaimNamespace s, mt_ClaimName s,
        mt_ClaimUID s, mt_ConsumerName s, mt_ConsumerUID s]
     then Some (Wrapped ErrStateConflict ''prepared Move requires its identities'')
     else case mt_SourceCopy s of
       None \<Rightarrow> Some (Wrapped ErrStateConflict ''prepared Move source copy does not match its spec'')
     | Some source \<Rightarrow> if ValidateCopy source \<noteq> None \<or> ci_Role source \<noteq> RoleServing \<or>
           ci_VolumeID source \<noteq> ms_VolumeID (mv_Spec move) \<or> ci_NodeName source \<noteq> ms_SourceNode (mv_Spec move)
         then Some (Wrapped ErrStateConflict ''prepared Move source copy does not match its spec'')
         else None)"

definition ValidatePreparedMovePlan :: "Move \<Rightarrow> error option" where
  "ValidatePreparedMovePlan move = (
     if ms_ProtocolVersion (mv_Spec move) \<noteq> MoveProtocolPreparedV1 then Some (Wrapped ErrStateConflict ''prepared protocol is required'')
     else validatePreparedPlan move)"

definition ValidateMovePreparation :: "Move \<Rightarrow> error option" where
  "ValidateMovePreparation move = (let s = mv_Status move in
     case mt_Preparation s of
       None \<Rightarrow> None
     | Some p \<Rightarrow> first_error [
         require_that (ms_ProtocolVersion (mv_Spec move) = MoveProtocolPreparedV1) (Wrapped ErrStateConflict ''preparation requires protocol''),
         validatePreparationFields p,
         validatePreparedPlan move,
         require_that (\<not> (mt_CapacityApproved s \<or> hasMoveDestinationIntent s))
           (Wrapped ErrStateConflict ''preparation cannot coexist with destination execution authority''),
         require_that (ValidIdentityToken (mt_PlacementPodUID s)) (Wrapped ErrStateConflict ''preparation requires the exact placement Pod UID''),
         require_that (map_option ci_PoolUID (mt_SourceCopy s) \<noteq> Some (pr_UID (mp_Pool p)))
           (Wrapped ErrStateConflict ''preparation destination is the source''),
         require_that (\<not> (mt_DestinationNode s \<noteq> [] \<and> mt_DestinationNode s \<noteq> mp_NodeName p \<or>
             mt_DestinationPoolUID s \<noteq> [] \<and> mt_DestinationPoolUID s \<noteq> pr_UID (mp_Pool p)))
           (Wrapped ErrStateConflict ''preparation destination does not match the Move plan'')])"

definition MoveReservesDestination :: "Move \<Rightarrow> State \<Rightarrow> string \<Rightarrow> bool" where
  "MoveReservesDestination move state nodeName \<longleftrightarrow> mt_CapacityApproved (mv_Status move) \<and>
     mt_DestinationNode (mv_Status move) = nodeName \<and> vs_OwnerNode state \<noteq> nodeName \<and> vs_ActiveMove state = mv_Name move"

definition MoveCleanupSettled :: "Move \<Rightarrow> bool" where
  "MoveCleanupSettled move = (let s = mv_Status move; protocol = ms_ProtocolVersion (mv_Spec move);
       settled = (if mt_Phase s = ''Succeeded'' then mt_CleanupPhase s = ''Completed''
         else mt_Phase s = ''Blocked'' \<and> mt_RecoveryPhase s = ''Recovered'' \<and> \<not> mt_CapacityApproved s \<and>
           mt_CapacityReason s = ''RecoverySettled'') in
     if mt_Preparation s \<noteq> None \<or> protocol \<noteq> [] \<and> protocol \<noteq> MoveProtocolPreparedV1 then False
     else if protocol = MoveProtocolPreparedV1 then
       (if mt_Phase s = ''Cancelled'' then \<not> mt_CapacityApproved s \<and> \<not> hasMoveDestinationIntent s
        else if validatePreparedPlan move \<noteq> None then False
        else settled)
     else settled)"

section \<open>Rules of a status write\<close>

definition preserveMoveIdentity :: "MoveStatus \<Rightarrow> MoveStatus \<Rightarrow> error option" where
  "preserveMoveIdentity current new = first_error (
     [require_that (\<not> (mt_SourceBytes new < 0 \<or> 0 < mt_SourceBytes current \<and> mt_SourceBytes current \<noteq> mt_SourceBytes new))
        (Wrapped ErrStateConflict ''recorded Move sourceBytes is immutable''),
      require_that (\<not> (mt_RollbackRequiredGeneration new < 0 \<or>
          0 < mt_RollbackRequiredGeneration current \<and> mt_RollbackRequiredGeneration current \<noteq> mt_RollbackRequiredGeneration new))
        (Wrapped ErrStateConflict ''Move rollbackRequiredGeneration is immutable'')] @
     map (\<lambda>f. require_that (\<not> (f current \<noteq> None \<and> f new \<noteq> f current)) (Wrapped ErrStateConflict ''Move copy is immutable''))
       [mt_SourceCopy, mt_IncomingCopy, mt_DestinationCopy] @
     map (\<lambda>f. require_that (\<not> (f current \<noteq> [] \<and> f current \<noteq> f new)) (Wrapped ErrStateConflict ''Move operation is immutable''))
       [mt_CopyOperationID, mt_PromotionOperationID])"

definition preservePreparedPlan :: "MoveStatus \<Rightarrow> MoveStatus \<Rightarrow> error option" where
  "preservePreparedPlan current new = first_error (
     map (\<lambda>f. require_that (\<not> (f current \<noteq> [] \<and> f current \<noteq> f new)) (Wrapped ErrStateConflict ''prepared Move field is immutable''))
       [mt_PersistentVolumeName, mt_PersistentVolumeUID, mt_ClaimNamespace, mt_ClaimName, mt_ClaimUID, mt_ConsumerName, mt_ConsumerUID,
        mt_PlacementPodUID, mt_DestinationNode, mt_DestinationPoolUID])"

definition validateSettlementTransition :: "Move \<Rightarrow> MoveStatus \<Rightarrow> error option" where
  "validateSettlementTransition current new = first_error [
     require_that (\<not> (mt_SettlementRequested (mv_Status current) \<and> \<not> mt_SettlementRequested new))
       (Wrapped ErrStateConflict ''settlement intent cannot be removed''),
     require_that (\<not> (mt_SettlementRequested new \<and> mt_Phase new \<noteq> ''Blocked''))
       (Wrapped ErrStateConflict ''settlement requires a blocked Move''),
     require_that (\<not> (mt_SettlementRequested new \<and> \<not> mt_SettlementRequested (mv_Status current) \<and>
         \<not> mt_CapacityApproved (mv_Status current) \<and> \<not> hasMoveDestinationIntent (mv_Status current)))
       (Wrapped ErrStateConflict ''unapproved preparation must use cancellation'')]"

definition validatePreparationStart :: "Move \<Rightarrow> Move \<Rightarrow> error option" where
  "validatePreparationStart current new = (let b = mv_Status current; a = mv_Status new in
     if mt_CapacityApproved a \<and> \<not> mt_CapacityApproved b
     then Some (Wrapped ErrStateConflict ''execution approval requires the existing preparation reservation'')
     else if hasMoveDestinationIntent a \<and> \<not> mt_CapacityApproved b \<and> \<not> hasMoveDestinationIntent b
     then Some (Wrapped ErrStateConflict ''destination intent requires prior execution approval'')
     else if mt_Preparation a \<noteq> None \<and> (mt_CapacityApproved b \<or> hasMoveDestinationIntent b \<or>
        (mt_Phase b \<noteq> [] \<and> mt_Phase b \<noteq> ''Pending'' \<and> mt_Phase b \<noteq> ''Preparing''))
     then Some (Wrapped ErrStateConflict ''preparation can only begin before disruption'')
     else None)"

text \<open>
  The anchor of an execution that replaces a reservation. \<open>ValidateMovePreparation\<close> has been passed
  before, so the source copy is there.
\<close>

definition preparation_anchor :: "MoveStatus \<Rightarrow> MovePreparation \<Rightarrow> MoveDestinationAnchor" where
  "preparation_anchor b p = \<lparr>da_InstallationID = ci_InstallationID (the (mt_SourceCopy b)), da_PoolName = pr_Name (mp_Pool p),
     da_PoolUID = pr_UID (mp_Pool p), da_NodeName = mp_NodeName p, da_VolumeUID = ci_VolumeUID (the (mt_SourceCopy b))\<rparr>"

definition preservePreparation :: "Move \<Rightarrow> Move \<Rightarrow> error option" where
  "preservePreparation current new = (let b = mv_Status current; a = mv_Status new in
     case mt_Preparation b of
       None \<Rightarrow> validatePreparationStart current new
     | Some before \<Rightarrow> (case ValidateMovePreparation current of
         Some e \<Rightarrow> Some e
       | None \<Rightarrow> (case mt_Preparation a of
           Some after \<Rightarrow> require_that (before = after) (Wrapped ErrStateConflict ''preparation reservation is immutable'')
         | None \<Rightarrow>
             if mt_Phase b = ''Canceling'' \<and> mt_Phase a = ''Cancelled'' \<and> \<not> mt_CapacityApproved a \<and> \<not> hasMoveDestinationIntent a then None
             else if mt_Phase b \<noteq> ''WaitingForCapacity'' \<or> \<not> mt_CapacityApproved a \<or> mt_DestinationNode a \<noteq> mp_NodeName before \<or>
               mt_DestinationPoolUID a \<noteq> pr_UID (mp_Pool before)
             then Some (Wrapped ErrStateConflict ''preparation may only be released by cancellation or exact execution approval'')
             else ValidateMoveTransactionIdentities new (preparation_anchor b before))))"

definition validateExecutionHoldRelease :: "Move \<Rightarrow> Move \<Rightarrow> error option" where
  "validateExecutionHoldRelease current new = (let b = mv_Status current; a = mv_Status new in
     if \<not> mt_CapacityApproved b \<or> mt_CapacityApproved a then None
     else if mt_Phase b \<noteq> ''Blocked'' \<or> mt_RecoveryPhase b \<noteq> ''Retiring'' \<or> mt_Phase a \<noteq> ''Blocked'' \<or> mt_RecoveryPhase a \<noteq> ''Retiring'' \<or>
       mt_CapacityReason a \<noteq> ''RecoverySettled''
     then Some (Wrapped ErrStateConflict ''execution hold release requires recovery settlement'')
     else if mt_CleanupPhase b \<noteq> [] \<and> mt_CleanupPhase b \<noteq> ''Completed''
     then Some (Wrapped ErrStateConflict ''execution cleanup is not settled'')
     else if mt_CleanupPhase b = [] \<and> mt_RollbackRequiredGeneration b \<le> 0
     then Some (Wrapped ErrStateConflict ''execution hold release requires a recorded rollback scan'')
     else (case (mt_SourceCopy b, mt_IncomingCopy b) of
         (Some source, Some incoming) \<Rightarrow> ValidateMoveTransactionIdentities current
           \<lparr>da_InstallationID = ci_InstallationID source, da_PoolName = ci_PoolName incoming, da_PoolUID = mt_DestinationPoolUID b,
            da_NodeName = mt_DestinationNode b, da_VolumeUID = ci_VolumeUID source\<rparr>
       | _ \<Rightarrow> Some (Wrapped ErrStateConflict ''execution hold has no exact disk plan'')))"

definition validatePreparedTransition :: "Move \<Rightarrow> MoveStatus \<Rightarrow> error option" where
  "validatePreparedTransition current new = (let candidate = current\<lparr>mv_Status := new\<rparr> in first_error [
     validateSettlementTransition current new,
     preserveMoveIdentity (mv_Status current) new,
     preservePreparedPlan (mv_Status current) new,
     ValidateMovePreparation candidate,
     (if mt_SourceCopy new \<noteq> None \<or> mt_CapacityApproved new \<or> mt_PlacementPodUID new \<noteq> [] \<or> mt_PersistentVolumeUID new \<noteq> [] \<or>
        mt_ClaimUID new \<noteq> [] then validatePreparedPlan candidate else None),
     require_that (\<not> (mt_CapacityApproved new \<and> (\<not> ValidIdentityToken (mt_PlacementPodUID new) \<or> mt_Preparation new \<noteq> None)))
       (Wrapped ErrStateConflict ''approved Move requires its placement identity and no logical hold''),
     validateExecutionHoldRelease current candidate,
     preservePreparation current candidate])"

definition validatePreparedProtection :: "Move \<Rightarrow> MoveStatus \<Rightarrow> bool \<Rightarrow> error option" where
  "validatePreparedProtection current new hasCleanup = (
     let granting = (mt_Preparation (mv_Status current) = None \<and> mt_Preparation new \<noteq> None \<or>
           \<not> mt_CapacityApproved (mv_Status current) \<and> mt_CapacityApproved new) in
     if mt_Phase new = ''Cancelled'' \<and> hasCleanup
     then Some (Wrapped ErrStateConflict ''cancellation cannot settle a Move with a cleanup journal'')
     else if granting \<and> mv_Deleting current
     then Some (Wrapped ErrStateConflict ''deleting Move cannot acquire preparation or execution authority'')
     else if granting \<and> MoveProtectionFinalizer \<notin> set (mv_Finalizers current)
     then Some (Wrapped ErrStateConflict ''Move protection is required before granting capacity'')
     else None)"

section \<open>Operations\<close>

text \<open>
  The registry with the client of Moves; \<open>mr_Create\<close> creates an object whose name the API server
  generates from a prefix.
\<close>

record 'w move_registry =
  mr_Registry :: "'w volume_registry"
  mr_Moves :: "('w, move_body) api_client"
  mr_Create :: "'w \<Rightarrow> string \<Rightarrow> move_object \<Rightarrow> move_object res \<times> 'w"

definition move_configured :: "'w move_registry \<Rightarrow> error option" where
  "move_configured r = validate_client (vr_Volumes (mr_Registry r))"

definition newMoveObject :: "MoveSpec \<Rightarrow> move_object" where
  "newMoveObject spec = \<lparr>ao_Kind = ''ShiftPVMove'', ao_Name = [], ao_UID = [], ao_ResourceVersion = [], ao_Generation = 0,
     ao_DeletionTimestamp = None, ao_Finalizers = [MoveProtectionFinalizer], ao_Annotations = Map.empty,
     ao_Body = \<lparr>jb_cleanup = Missing, mb_volumeID = Present (ms_VolumeID spec), mb_sourceNode = Present (ms_SourceNode spec),
       mb_recovery = Missing, mb_protocolVersion = Present (ms_ProtocolVersion spec), mb_rawCleanupPhase = Missing,
       mb_preparation = Missing, mb_persistentVolumeUID = Missing, mb_persistentVolumeClaimUID = Missing, mb_placementPodUID = Missing,
       mb_phase = Missing, mb_reason = Missing, mb_message = Missing, mb_lastTransitionTime = Missing, mb_lastProgressTime = Missing,
       mb_persistentVolumeName = Missing, mb_persistentVolumeClaimNamespace = Missing, mb_persistentVolumeClaimName = Missing,
       mb_consumerName = Missing, mb_consumerUID = Missing, mb_replacementName = Missing, mb_replacementUID = Missing,
       mb_destinationNode = Missing, mb_destinationPoolUID = Missing, mb_sourceBytes = Missing, mb_capacityApproved = Missing,
       mb_capacityReason = Missing, mb_candidateNodes = Missing, mb_evictionRequested = Missing, mb_copyJobName = Missing,
       mb_promotionJobName = Missing, mb_copyOperationID = Missing, mb_promotionOperationID = Missing, mb_sourceCopy = Missing,
       mb_incomingCopy = Missing, mb_destinationCopy = Missing, mb_rollbackRequiredGeneration = Missing,
       mb_settlementRequested = Missing, mb_recoveryPhase = Missing, mb_recoveryOwner = Missing, mb_recoveryReason = Missing,
       mb_recoveryMessage = Missing\<rparr>\<rparr>"

definition CreateMove :: "'w move_registry \<Rightarrow> string \<Rightarrow> MoveSpec \<Rightarrow> 'w \<Rightarrow> Move res \<times> 'w" where
  "CreateMove r generateName spec w = (case move_configured r of
     Some e \<Rightarrow> (Inl e, w)
   | None \<Rightarrow>
       if ms_ProtocolVersion spec \<noteq> MoveProtocolPreparedV1 then (Inl (Errorf ''unsupported Move protocol''), w)
       else (case mr_Create r w generateName (newMoveObject spec) of
           (Inl e, w') \<Rightarrow> (Inl (Wrapped e ''create ShiftPVMove''), w')
         | (Inr obj, w') \<Rightarrow> (bind_res (moveFrom obj) (\<lambda>stored.
             if ms_ProtocolVersion (mv_Spec stored) \<noteq> ms_ProtocolVersion spec
             then Inl (Wrapped ErrStateConflict ''Move protocol was not stored'') else Inr stored), w')))"

definition DeleteMove :: "'w move_registry \<Rightarrow> string \<Rightarrow> string \<Rightarrow> 'w closure" where
  "DeleteMove r name uid w = (case move_configured r of
     Some e \<Rightarrow> (Some e, w)
   | None \<Rightarrow>
       if name = [] \<or> uid = [] then (Some (Errorf ''ShiftPVMove name and UID are required for deletion''), w)
       else (case api_Delete (mr_Moves r) w name uid None of
           (Some e, w') \<Rightarrow> if errors_is e ApiNotFound then (None, w') else (Some (Wrapped e ''delete ShiftPVMove''), w')
         | (None, w') \<Rightarrow> (None, w')))"

definition move_finalizer :: "'w move_registry \<Rightarrow> string \<Rightarrow> string \<Rightarrow> bool \<Rightarrow> 'w closure" where
  "move_finalizer r name uid present = updateObjectFinalizer (map_option (\<lambda>_. mr_Moves r) (vr_Volumes (mr_Registry r)))
     (vr_Retry (mr_Registry r)) name uid MoveProtectionFinalizer present"

definition AddMoveFinalizer :: "'w move_registry \<Rightarrow> string \<Rightarrow> string \<Rightarrow> 'w closure" where
  "AddMoveFinalizer r name uid = move_finalizer r name uid True"

definition RemoveMoveFinalizer :: "'w move_registry \<Rightarrow> string \<Rightarrow> string \<Rightarrow> 'w closure" where
  "RemoveMoveFinalizer r name uid = move_finalizer r name uid False"

definition GetMove :: "'w move_registry \<Rightarrow> string \<Rightarrow> 'w \<Rightarrow> Move res" where
  "GetMove r name w = guard_err (move_configured r) (case api_Get (mr_Moves r) w name of
     Inl e \<Rightarrow> Inl (Wrapped e ''get ShiftPVMove'') | Inr obj \<Rightarrow> moveFrom obj)"

definition ListMoves :: "'w move_registry \<Rightarrow> 'w \<Rightarrow> Move list res" where
  "ListMoves r w = guard_err (move_configured r) (case api_List (mr_Moves r) w of
     Inl e \<Rightarrow> Inl (Wrapped e ''list ShiftPVMove'')
   | Inr objs \<Rightarrow> bind_res (map_res (\<lambda>obj. case moveFrom obj of Inl e \<Rightarrow> Inl (Wrapped e ''decode ShiftPVMove'') | Inr m \<Rightarrow> Inr m) objs)
       (\<lambda>moves. Inr (sort_key mv_Name moves)))"

text \<open>Whether the API server stored what was sent.\<close>

definition storedMoveStatus :: "Move \<Rightarrow> move_object \<Rightarrow> move_object \<Rightarrow> Move res" where
  "storedMoveStatus current expected stored = bind_res (moveStatusFrom expected) (\<lambda>wanted. bind_res (moveFrom stored) (\<lambda>result.
     if mv_UID result \<noteq> mv_UID current \<or> mv_Spec result \<noteq> mv_Spec current
     then Inl (Wrapped ErrStateConflict ''stored Move identity changed'')
     else if mv_Status result \<noteq> wanted \<or> moveCleanup expected \<noteq> moveCleanup stored
     then Inl (Wrapped ErrStateConflict ''Move status or cleanup journal was not stored exactly'')
     else Inr result))"

text \<open>One status write and the check of what came back.\<close>

definition write_move_status :: "'w move_registry \<Rightarrow> Move \<Rightarrow> move_object \<Rightarrow> string \<Rightarrow> 'w \<Rightarrow> Move res \<times> 'w" where
  "write_move_status r current obj context w = (case api_UpdateStatus (mr_Moves r) w obj of
     (Inl e, w') \<Rightarrow> (Inl (Wrapped e context), w')
   | (Inr stored, w') \<Rightarrow> (storedMoveStatus current obj stored, w'))"

definition CompareAndSetMoveStatus :: "'w move_registry \<Rightarrow> Move \<Rightarrow> MoveStatus \<Rightarrow> 'w \<Rightarrow> Move res \<times> 'w" where
  "CompareAndSetMoveStatus r expected new w = (case move_configured r of
     Some e \<Rightarrow> (Inl e, w)
   | None \<Rightarrow>
       if mv_Name expected = [] \<or> mv_UID expected = [] \<or> mv_ResourceVersion expected = []
       then (Inl (Wrapped ErrStateConflict ''Move name, UID and resourceVersion are required''), w)
       else case api_Get (mr_Moves r) w (mv_Name expected) of
         Inl e \<Rightarrow> (Inl (Wrapped e ''read Move before status compare-and-set''), w)
       | Inr obj \<Rightarrow>
           if ao_UID obj \<noteq> mv_UID expected \<or> ao_ResourceVersion obj \<noteq> mv_ResourceVersion expected
           then (Inl (Wrapped ErrStateConflict ''Move UID or resourceVersion changed''), w)
           else (case moveFrom obj of
               Inl e \<Rightarrow> (Inl e, w)
             | Inr current \<Rightarrow>
                 if mv_Spec current \<noteq> mv_Spec expected \<or> ms_ProtocolVersion (mv_Spec current) \<noteq> MoveProtocolPreparedV1
                 then (Inl (Wrapped ErrStateConflict ''Move protocol or spec changed''), w)
                 else let new' = new\<lparr>mt_CleanupPhase := mt_CleanupPhase (mv_Status current)\<rparr> in
                   (case first_error [validatePreparedProtection current new' (has_move_cleanup obj), validatePreparedTransition current new'] of
                      Some e \<Rightarrow> (Inl e, w)
                    | None \<Rightarrow> write_move_status r current (setMoveStatus obj new') ''compare-and-set Move status'' w)))"

section \<open>Recording the source usage\<close>

definition sourceUsageRequest :: "Move \<Rightarrow> CopyIdentity \<Rightarrow> int \<Rightarrow> error option" where
  "sourceUsageRequest move c bytes = require_that
     (\<not> (mv_Name move = [] \<or> mv_UID move = [] \<or> mv_ResourceVersion move = [] \<or> bytes \<le> 0 \<or> ValidateCopy c \<noteq> None \<or>
         ci_Role c \<noteq> RoleServing \<or> ci_VolumeID c \<noteq> ms_VolumeID (mv_Spec move) \<or> ci_NodeName c \<noteq> ms_SourceNode (mv_Spec move)))
     (Wrapped ErrStateConflict ''source usage requires exact Move/copy identity and positive bytes'')"

definition sourceUsageMove :: "Move \<Rightarrow> CopyIdentity \<Rightarrow> int \<Rightarrow> bool \<Rightarrow> error option" where
  "sourceUsageMove move c bytes hasCleanup = (let s = mv_Status move in first_error [
     require_that (\<not> (mv_Deleting move \<or> MoveProtectionFinalizer \<notin> set (mv_Finalizers move) \<or> mt_CapacityApproved s \<or> hasCleanup \<or>
         hasMoveDestinationIntent s)) (Wrapped ErrStateConflict ''source usage requires a protected pre-execution Move''),
     require_that (ms_ProtocolVersion (mv_Spec move) = MoveProtocolPreparedV1) (Wrapped ErrStateConflict ''unsupported Move protocol''),
     require_that (mt_Phase s = ''WaitingForCapacity'' \<and> mt_Preparation s \<noteq> None)
       (Wrapped ErrStateConflict ''prepared Move has no waiting reservation''),
     ValidateMovePreparation move,
     require_that (mt_SourceCopy s = Some c) (Wrapped ErrStateConflict ''source copy changed''),
     require_that (\<not> (mt_SourceBytes s < 0 \<or> 0 < mt_SourceBytes s \<and> (mt_SourceBytes s \<noteq> bytes \<or> mt_SourceCopy s = None)))
       (Wrapped ErrStateConflict ''recorded source usage is immutable'')])"

definition sourceUsageAuthority :: "Move \<Rightarrow> CopyIdentity \<Rightarrow> State \<Rightarrow> error option" where
  "sourceUsageAuthority move c s = require_that
     (\<not> (vs_Deleting s \<or> vs_HasCleanup s \<or> VolumeProtectionFinalizer \<notin> set (vs_Finalizers s) \<or> vs_UID s \<noteq> ci_VolumeUID c \<or>
         vs_Phase s \<noteq> PhaseMoving \<or> vs_OwnerNode s \<noteq> ms_SourceNode (mv_Spec move) \<or> vs_ActiveMove s \<noteq> mv_Name move \<or>
         vs_CurrentCopy s \<noteq> Some c \<or> vs_PublishedNodes s \<noteq> []))
     (Wrapped ErrStateConflict ''source usage no longer has exact quiesced authority'')"

definition RecordSourceUsage :: "k8s_lib \<Rightarrow> 'w move_registry \<Rightarrow> Move \<Rightarrow> CopyIdentity \<Rightarrow> int \<Rightarrow> 'w \<Rightarrow> Move res \<times> 'w" where
  "RecordSourceUsage k r expected c bytes w = (case first_error [move_configured r, sourceUsageRequest expected c bytes] of
     Some e \<Rightarrow> (Inl e, w)
   | None \<Rightarrow> (case api_Get (mr_Moves r) w (mv_Name expected) of
       Inl e \<Rightarrow> (Inl (Wrapped e ''read Move before recording source usage''), w)
     | Inr obj \<Rightarrow> (case moveFrom obj of
         Inl e \<Rightarrow> (Inl e, w)
       | Inr current \<Rightarrow>
           if mv_UID current \<noteq> mv_UID expected \<or> mv_ResourceVersion current \<noteq> mv_ResourceVersion expected \<or> mv_Spec current \<noteq> mv_Spec expected
           then (Inl (Wrapped ErrStateConflict ''Move identity, version or spec changed''), w)
           else (case sourceUsageMove current c bytes (has_move_cleanup obj) of
               Some e \<Rightarrow> (Inl e, w)
             | None \<Rightarrow> (case GetVolume k (mr_Registry r) (ms_VolumeID (mv_Spec current)) w of
                 Inl e \<Rightarrow> (Inl (Wrapped e ''read source authority before recording usage''), w)
               | Inr state \<Rightarrow> (case sourceUsageAuthority current c state of
                   Some e \<Rightarrow> (Inl e, w)
                 | None \<Rightarrow>
                     if mt_SourceBytes (mv_Status current) = bytes then (Inr current, w)
                     else write_move_status r current (obj\<lparr>ao_Body := (ao_Body obj)\<lparr>mb_sourceBytes := Present bytes\<rparr>\<rparr>)
                       ''record source usage'' w))))))"

section \<open>Settlement of a retired workload\<close>

definition MoveRetiresUnpublishedSource :: "Move \<Rightarrow> State \<Rightarrow> bool" where
  "MoveRetiresUnpublishedSource move state = (let s = mv_Status move in
     if \<not> mt_SettlementRequested s \<or> mt_Phase s \<noteq> ''Blocked'' \<or> mt_RecoveryPhase s \<noteq> ''Retiring'' \<or>
        mt_RecoveryOwner s \<noteq> mt_DestinationNode s \<or> mt_RollbackRequiredGeneration s \<le> 0 \<or> ValidatePreparedMovePlan move \<noteq> None
     then False
     else case (mt_SourceCopy s, mt_IncomingCopy s) of
       (Some source, Some incoming) \<Rightarrow>
         if mt_DestinationNode s = ms_SourceNode (mv_Spec move) \<or> mt_DestinationPoolUID s = ci_PoolUID source then False
         else if ValidateMoveTransactionIdentities move
             \<lparr>da_InstallationID = ci_InstallationID source, da_PoolName = ci_PoolName incoming, da_PoolUID = mt_DestinationPoolUID s,
              da_NodeName = mt_DestinationNode s, da_VolumeUID = ci_VolumeUID source\<rparr> \<noteq> None then False
         else (case mt_DestinationCopy s of
             None \<Rightarrow> False
           | Some c \<Rightarrow> \<not> vs_Deleting state \<and> \<not> vs_HasCleanup state \<and> vs_Phase state = PhaseBlocked \<and> vs_ActiveMove state = mv_Name move \<and>
               vs_UID state = ci_VolumeUID c \<and> vs_OwnerNode state = ci_NodeName c \<and> vs_CurrentCopy state = Some c \<and>
               vs_PublishedNodes state = [])
     | _ \<Rightarrow> False)"

definition settlementInventoryCurrent :: "Pool \<Rightarrow> CopyIdentity option \<Rightarrow> int \<Rightarrow> bool" where
  "settlementInventoryCurrent pool target requiredGeneration = (case target of
     None \<Rightarrow> False
   | Some t \<Rightarrow>
       if ValidateCopy t \<noteq> None \<or> ci_Role t \<noteq> RoleServing \<or> requiredGeneration \<le> 0 \<or> pl_Generation pool < requiredGeneration \<or>
          ps_ObservedGeneration (pl_Status pool) \<noteq> pl_Generation pool \<or> ci_PoolName t \<noteq> pl_Name pool \<or>
          ci_PoolUID t \<noteq> pl_UID pool \<or> ci_NodeName t \<noteq> pl_NodeName pool then False
       else case ps_Inventory (pl_Status pool) of None \<Rightarrow> False | Some i \<Rightarrow> iv_Valid i \<and> \<not> iv_Truncated i \<and> iv_Message i = [])"

text \<open>The loop of \<open>PoolHasUnpublishedCopy\<close>: \<open>None\<close> when it returns early.\<close>

fun unpublished_matches :: "CopyIdentity \<Rightarrow> nat \<Rightarrow> CopyObservation list \<Rightarrow> nat option" where
  "unpublished_matches t n [] = Some n"
| "unpublished_matches t n (o' # os) = (case cob_Identity o' of
     None \<Rightarrow> unpublished_matches t n os
   | Some i \<Rightarrow>
       if ci_VolumeID i \<noteq> ci_VolumeID t then unpublished_matches t n os
       else if i \<noteq> t then (if cob_Present o' \<or> cob_Problem o' \<noteq> [] then None else unpublished_matches t n os)
       else if \<not> cob_Present o' \<or> cob_Published o' \<or> cob_Problem o' \<noteq> [] then None
       else unpublished_matches t (Suc n) os)"

definition PoolHasUnpublishedCopy :: "Pool \<Rightarrow> CopyIdentity option \<Rightarrow> int \<Rightarrow> bool" where
  "PoolHasUnpublishedCopy pool target requiredGeneration = (
     if \<not> settlementInventoryCurrent pool target requiredGeneration then False
     else case (target, ps_Inventory (pl_Status pool)) of
       (Some t, Some i) \<Rightarrow> unpublished_matches t 0 (iv_Copies i) = Some 1
     | _ \<Rightarrow> False)"

section \<open>Repair of an interrupted helper\<close>

definition repairableInventoryAt :: "k8s_lib \<Rightarrow> Pool \<Rightarrow> int \<Rightarrow> int \<Rightarrow> PoolInventory option" where
  "repairableInventoryAt k pool now staleAfter = (
     if \<not> fst (CleanupReadyAt k pool now staleAfter) then None
     else case ps_Inventory (pl_Status pool) of
       None \<Rightarrow> None
     | Some i \<Rightarrow> if iv_Valid i \<or> iv_Truncated i \<or> iv_Message i \<noteq> ''CopyObservationProblem'' \<or> \<not> fresh now staleAfter (iv_ObservedAt i)
         then None else Some i)"

definition moveRepairBindsDestination :: "Pool \<Rightarrow> Move \<Rightarrow> bool" where
  "moveRepairBindsDestination pool move \<longleftrightarrow> mv_Name move \<noteq> [] \<and> ValidIdentityToken (mv_UID move) \<and>
     mt_DestinationNode (mv_Status move) = pl_NodeName pool \<and> mt_DestinationPoolUID (mv_Status move) = pl_UID pool"

definition moveRepairBindsSourceCopy :: "Move \<Rightarrow> State \<Rightarrow> bool" where
  "moveRepairBindsSourceCopy move state = (
     if vs_UID state = [] \<or> vs_Phase state \<noteq> PhaseMoving \<or> vs_ActiveMove state \<noteq> mv_Name move \<or>
        vs_OwnerNode state \<noteq> ms_SourceNode (mv_Spec move) then False
     else case (vs_CurrentCopy state, mt_SourceCopy (mv_Status move)) of
       (Some c, Some source) \<Rightarrow> ValidateCopy c = None \<and> ci_Role c = RoleServing \<and> ci_VolumeID c = ms_VolumeID (mv_Spec move) \<and>
         ci_VolumeUID c = vs_UID state \<and> ci_NodeName c = ms_SourceNode (mv_Spec move) \<and> c = source
     | _ \<Rightarrow> False)"

definition moveRepairMarker :: "Pool \<Rightarrow> Move \<Rightarrow> State \<Rightarrow> CopyIdentity \<Rightarrow> CopyIdentity \<Rightarrow> string option" where
  "moveRepairMarker pool move state incoming destination = (
     if ValidateMoveTransactionIdentities move \<lparr>da_InstallationID = ci_InstallationID incoming, da_PoolName = pl_Name pool,
          da_PoolUID = pl_UID pool, da_NodeName = pl_NodeName pool, da_VolumeUID = vs_UID state\<rparr> \<noteq> None then None
     else if mt_Phase (mv_Status move) = ''Copying'' then Some (''path:.shiftpv/incoming/'' @ ci_CopyID incoming)
     else if mt_Phase (mv_Status move) = ''Promoting'' then Some (''path:volumes/'' @ ci_VolumeID destination)
     else None)"

definition inventoryHoldsOnlyRepairableProblem :: "PoolInventory \<Rightarrow> string \<Rightarrow> bool" where
  "inventoryHoldsOnlyRepairableProblem inventory expectedMarker = (
     let problems = filter (\<lambda>o'. cob_Problem o' \<noteq> []) (iv_Copies inventory) in
     list_all (\<lambda>o'. cob_Marker o' = expectedMarker \<and> cob_Identity o' = None \<and> cob_Present o' \<and> \<not> cob_Published o' \<and>
       cob_Problem o' = ''UnrecordedPath'') problems \<and> length problems = 1)"

definition PoolReadyForActiveMoveRepairAt :: "k8s_lib \<Rightarrow> Pool \<Rightarrow> Move \<Rightarrow> State \<Rightarrow> int \<Rightarrow> int \<Rightarrow> bool" where
  "PoolReadyForActiveMoveRepairAt k pool move state now staleAfter = (
     if \<not> mt_CapacityApproved (mv_Status move) \<or> PoolProtectionFinalizer \<notin> set (pl_Finalizers pool) then False
     else case repairableInventoryAt k pool now staleAfter of
       None \<Rightarrow> False
     | Some inventory \<Rightarrow>
         if \<not> moveRepairBindsDestination pool move \<or> \<not> moveRepairBindsSourceCopy move state then False
         else (case (mt_IncomingCopy (mv_Status move), mt_DestinationCopy (mv_Status move)) of
             (Some incoming, Some destination) \<Rightarrow> (case moveRepairMarker pool move state incoming destination of
                 None \<Rightarrow> False
               | Some expectedMarker \<Rightarrow> inventoryHoldsOnlyRepairableProblem inventory expectedMarker)
           | _ \<Rightarrow> False))"

end
