(* ===== verification/Move_Properties.thy ===== *)
theory Move_Properties
  imports Move_Registry
begin

text \<open>
  The library on Moves: reading back a written status, the facts an accepted status write gives, the
  guarded changes of a Move's capacity hold, the locale \<open>move_objects\<close> that carries a property of
  single Move objects through one operation whose status writes keep it, its extension
  \<open>move_invariant\<close> for properties that every accepted write keeps, and their interpretations.
\<close>

section \<open>Reading back what was written\<close>

lemma moveFrom_Inr:
  assumes "moveFrom obj = Inr m"
  shows "moveStatusFrom obj = Inr (mv_Status m)" "mv_UID m = ao_UID obj" "mv_Name m = ao_Name obj"
    "mv_Finalizers m = ao_Finalizers obj" "mv_Deleting m = (ao_DeletionTimestamp obj \<noteq> None)"
  using assms by (auto simp: moveFrom_def Let_def)

lemma moveStatus_cleanup: "moveStatusFrom obj = Inr s \<Longrightarrow> mt_CleanupPhase s = read_cleanup_phase (ao_Body obj)"
  by (auto simp: moveStatusFrom_def Let_def split: if_splits)

lemma moveStatus_hold: "moveStatusFrom obj = Inr s \<Longrightarrow>
  movePreparationFrom obj = Inr (mt_Preparation s) \<and> mt_CapacityApproved s = field_or False (mb_capacityApproved (ao_Body obj))"
  by (auto simp: moveStatusFrom_def Let_def split: if_splits)

definition status_valid :: "MoveStatus \<Rightarrow> bool" where
  "status_valid s \<longleftrightarrow> 0 \<le> mt_RollbackRequiredGeneration s \<and>
     (\<forall>c. Some c \<in> {mt_SourceCopy s, mt_IncomingCopy s, mt_DestinationCopy s} \<longrightarrow> ValidateCopy c = None) \<and>
     (\<forall>p. mt_Preparation s = Some p \<longrightarrow> validatePreparationFields p = None)"

lemma field_omit: "field_or z (omit_zero z v) = v"
  by (simp add: omit_zero_def)

lemma readCopy_omit: "readCopy (omit_nil c) = Inr c' \<longleftrightarrow> c' = c \<and> (\<forall>d. c = Some d \<longrightarrow> ValidateCopy d = None)"
  by (cases c) (auto simp: readCopy_def omit_nil_def guard_err_Inr)

lemma written_fields:
  "mb_preparation (ao_Body (setMoveStatus obj s)) = omit_nil (mt_Preparation s)"
  "mb_persistentVolumeUID (ao_Body (setMoveStatus obj s)) = omit_zero [] (mt_PersistentVolumeUID s)"
  "mb_persistentVolumeClaimUID (ao_Body (setMoveStatus obj s)) = omit_zero [] (mt_ClaimUID s)"
  "mb_placementPodUID (ao_Body (setMoveStatus obj s)) = omit_zero [] (mt_PlacementPodUID s)"
  "mb_phase (ao_Body (setMoveStatus obj s)) = Present (mt_Phase s)"
  "mb_reason (ao_Body (setMoveStatus obj s)) = Present (mt_Reason s)"
  "mb_message (ao_Body (setMoveStatus obj s)) = Present (mt_Message s)"
  "mb_lastTransitionTime (ao_Body (setMoveStatus obj s)) = Present (mt_LastTransitionTime s)"
  "mb_lastProgressTime (ao_Body (setMoveStatus obj s)) = Present (mt_LastProgressTime s)"
  "mb_persistentVolumeName (ao_Body (setMoveStatus obj s)) = Present (mt_PersistentVolumeName s)"
  "mb_persistentVolumeClaimNamespace (ao_Body (setMoveStatus obj s)) = Present (mt_ClaimNamespace s)"
  "mb_persistentVolumeClaimName (ao_Body (setMoveStatus obj s)) = Present (mt_ClaimName s)"
  "mb_consumerName (ao_Body (setMoveStatus obj s)) = Present (mt_ConsumerName s)"
  "mb_consumerUID (ao_Body (setMoveStatus obj s)) = Present (mt_ConsumerUID s)"
  "mb_replacementName (ao_Body (setMoveStatus obj s)) = Present (mt_ReplacementName s)"
  "mb_replacementUID (ao_Body (setMoveStatus obj s)) = Present (mt_ReplacementUID s)"
  "mb_destinationNode (ao_Body (setMoveStatus obj s)) = Present (mt_DestinationNode s)"
  "mb_destinationPoolUID (ao_Body (setMoveStatus obj s)) = Present (mt_DestinationPoolUID s)"
  "mb_sourceBytes (ao_Body (setMoveStatus obj s)) = Present (mt_SourceBytes s)"
  "mb_capacityApproved (ao_Body (setMoveStatus obj s)) = Present (mt_CapacityApproved s)"
  "mb_capacityReason (ao_Body (setMoveStatus obj s)) = Present (mt_CapacityReason s)"
  "mb_candidateNodes (ao_Body (setMoveStatus obj s)) = Present (mt_CandidateNodes s)"
  "mb_evictionRequested (ao_Body (setMoveStatus obj s)) = Present (mt_EvictionRequested s)"
  "mb_copyJobName (ao_Body (setMoveStatus obj s)) = Present (mt_CopyJobName s)"
  "mb_promotionJobName (ao_Body (setMoveStatus obj s)) = Present (mt_PromotionJobName s)"
  "mb_copyOperationID (ao_Body (setMoveStatus obj s)) = Present (mt_CopyOperationID s)"
  "mb_promotionOperationID (ao_Body (setMoveStatus obj s)) = Present (mt_PromotionOperationID s)"
  "mb_sourceCopy (ao_Body (setMoveStatus obj s)) = omit_nil (mt_SourceCopy s)"
  "mb_incomingCopy (ao_Body (setMoveStatus obj s)) = omit_nil (mt_IncomingCopy s)"
  "mb_destinationCopy (ao_Body (setMoveStatus obj s)) = omit_nil (mt_DestinationCopy s)"
  "mb_rollbackRequiredGeneration (ao_Body (setMoveStatus obj s)) = (if 0 < mt_RollbackRequiredGeneration s then Present (mt_RollbackRequiredGeneration s) else Missing)"
  "mb_settlementRequested (ao_Body (setMoveStatus obj s)) = (if mt_SettlementRequested s then Present True else Missing)"
  "mb_recoveryPhase (ao_Body (setMoveStatus obj s)) = Present (mt_RecoveryPhase s)"
  "mb_recoveryOwner (ao_Body (setMoveStatus obj s)) = Present (mt_RecoveryOwner s)"
  "mb_recoveryReason (ao_Body (setMoveStatus obj s)) = Present (mt_RecoveryReason s)"
  "mb_recoveryMessage (ao_Body (setMoveStatus obj s)) = Present (mt_RecoveryMessage s)"
  by (simp_all add: setMoveStatus_def)

lemma status_record: "\<lparr>mt_Preparation = mt_Preparation s,
      mt_PersistentVolumeUID = mt_PersistentVolumeUID s,
      mt_ClaimUID = mt_ClaimUID s,
      mt_PlacementPodUID = mt_PlacementPodUID s,
      mt_Phase = mt_Phase s,
      mt_Reason = mt_Reason s,
      mt_Message = mt_Message s,
      mt_LastTransitionTime = mt_LastTransitionTime s,
      mt_LastProgressTime = mt_LastProgressTime s,
      mt_PersistentVolumeName = mt_PersistentVolumeName s,
      mt_ClaimNamespace = mt_ClaimNamespace s,
      mt_ClaimName = mt_ClaimName s,
      mt_ConsumerName = mt_ConsumerName s,
      mt_ConsumerUID = mt_ConsumerUID s,
      mt_ReplacementName = mt_ReplacementName s,
      mt_ReplacementUID = mt_ReplacementUID s,
      mt_DestinationNode = mt_DestinationNode s,
      mt_DestinationPoolUID = mt_DestinationPoolUID s,
      mt_SourceBytes = mt_SourceBytes s,
      mt_CapacityApproved = mt_CapacityApproved s,
      mt_CapacityReason = mt_CapacityReason s,
      mt_CandidateNodes = mt_CandidateNodes s,
      mt_EvictionRequested = mt_EvictionRequested s,
      mt_CopyJobName = mt_CopyJobName s,
      mt_PromotionJobName = mt_PromotionJobName s,
      mt_CleanupPhase = x,
      mt_CopyOperationID = mt_CopyOperationID s,
      mt_PromotionOperationID = mt_PromotionOperationID s,
      mt_SourceCopy = mt_SourceCopy s,
      mt_IncomingCopy = mt_IncomingCopy s,
      mt_DestinationCopy = mt_DestinationCopy s,
      mt_RollbackRequiredGeneration = mt_RollbackRequiredGeneration s,
      mt_SettlementRequested = mt_SettlementRequested s,
      mt_RecoveryPhase = mt_RecoveryPhase s,
      mt_RecoveryOwner = mt_RecoveryOwner s,
      mt_RecoveryReason = mt_RecoveryReason s,
      mt_RecoveryMessage = mt_RecoveryMessage s\<rparr> = s\<lparr>mt_CleanupPhase := x\<rparr>"
  by (cases s) simp

lemma flag_written: "decode_or False (if b then Present True else Missing) = Inr b"
  "0 \<le> g \<Longrightarrow> decode_or 0 (if 0 < g then Present g else Missing) = Inr (g :: int)"
  by (simp_all add: decode_or_def)

lemma status_written:
  assumes "0 \<le> mt_RollbackRequiredGeneration s"
  shows "moveStatusFrom (setMoveStatus obj s) = Inr s' \<longleftrightarrow>
     status_valid s \<and> s' = s\<lparr>mt_CleanupPhase := read_cleanup_phase (ao_Body obj)\<rparr>"
proof -
  have prep: "movePreparationFrom (setMoveStatus obj s) = Inr p \<longleftrightarrow> p = mt_Preparation s \<and>
      (\<forall>q. mt_Preparation s = Some q \<longrightarrow> validatePreparationFields q = None)" for p
    by (cases "mt_Preparation s") (auto simp: movePreparationFrom_def setMoveStatus_def omit_nil_def guard_err_Inr)
  have cleanup: "read_cleanup_phase (ao_Body (setMoveStatus obj s)) = read_cleanup_phase (ao_Body obj)"
    by (simp add: read_cleanup_phase_def setMoveStatus_def split: api_field.splits)
  have neg: "\<not> mt_RollbackRequiredGeneration s < 0" using assms by simp
  show ?thesis
    unfolding moveStatusFrom_def Let_def written_fields cleanup flag_written flag_written(2) [OF assms] decode_encode field_or_simps
      field_omit bind_res_simps if_not_P [OF neg] bind_res_Inr readCopy_omit prep status_valid_def
    using assms by (simp only: conj_assoc simp_thms ex_simps status_record) auto
qed

section \<open>Steps of a Move\<close>

text \<open>What \<open>CompareAndSetMoveStatus\<close> asks of a status before it writes it.\<close>

definition accepted :: "Move \<Rightarrow> MoveStatus \<Rightarrow> bool" where
  "accepted m new \<longleftrightarrow> (\<exists>h. validatePreparedProtection m new h = None) \<and> validatePreparedTransition m new = None \<and>
     mt_CleanupPhase new = mt_CleanupPhase (mv_Status m)"

inductive move_write :: "move_object \<Rightarrow> move_object \<Rightarrow> bool" where
  status: "moveFrom obj = Inr m \<Longrightarrow> accepted m new \<Longrightarrow> move_write obj (setMoveStatus obj new)"
| usage: "moveFrom obj = Inr m \<Longrightarrow> sourceUsageMove m c bytes h = None \<Longrightarrow> 0 < bytes \<Longrightarrow>
    move_write obj (obj\<lparr>ao_Body := (ao_Body obj)\<lparr>mb_sourceBytes := Present bytes\<rparr>\<rparr>)"

text \<open>The same on decoded Moves.\<close>

inductive move_step :: "Move \<Rightarrow> Move \<Rightarrow> bool" where
  status: "accepted m new \<Longrightarrow> move_step m (m\<lparr>mv_Status := new\<rparr>)"
| usage: "sourceUsageMove m c bytes h = None \<Longrightarrow> 0 < bytes \<Longrightarrow>
    move_step m (m\<lparr>mv_Status := (mv_Status m)\<lparr>mt_SourceBytes := bytes\<rparr>\<rparr>)"

lemma moveFrom_setMoveStatus:
  assumes "moveFrom obj = Inr m" and "moveFrom (setMoveStatus obj new) = Inr m'" and "0 \<le> mt_RollbackRequiredGeneration new"
    and "mt_CleanupPhase new = mt_CleanupPhase (mv_Status m)"
  shows "m' = m\<lparr>mv_Status := new\<rparr>"
proof -
  have c: "mt_CleanupPhase new = read_cleanup_phase (ao_Body obj)"
    using moveStatus_cleanup [OF moveFrom_Inr(1) [OF assms(1)]] assms(4) by simp
  have "mv_Status m' = new" using moveFrom_Inr(1) [OF assms(2)] unfolding status_written [OF assms(3)] by (simp add: c [symmetric])
  moreover have "\<exists>st. m' = m\<lparr>mv_Status := st\<rparr>"
    using assms(1,2) by (auto simp: moveFrom_def Let_def) (auto simp: setMoveStatus_def)
  ultimately show ?thesis by auto
qed

lemma moveFrom_usage:
  assumes "moveFrom obj = Inr m"
  shows "moveFrom (obj\<lparr>ao_Body := (ao_Body obj)\<lparr>mb_sourceBytes := Present bytes\<rparr>\<rparr>) =
    Inr (m\<lparr>mv_Status := (mv_Status m)\<lparr>mt_SourceBytes := bytes\<rparr>\<rparr>)"
proof -
  have "movePreparationFrom (obj\<lparr>ao_Body := (ao_Body obj)\<lparr>mb_sourceBytes := Present bytes\<rparr>\<rparr>) = movePreparationFrom obj"
    "read_cleanup_phase ((ao_Body obj)\<lparr>mb_sourceBytes := Present bytes\<rparr>) = read_cleanup_phase (ao_Body obj)"
    by (simp_all add: movePreparationFrom_def read_cleanup_phase_def split: api_field.splits)
  then show ?thesis using assms by (auto simp: moveFrom_def moveStatusFrom_def Let_def bind_res_Inr split: if_splits)
qed

lemma accepted_rules:
  assumes "accepted m new"
  shows "validateSettlementTransition m new = None" "preserveMoveIdentity (mv_Status m) new = None"
    "preservePreparedPlan (mv_Status m) new = None" "ValidateMovePreparation (m\<lparr>mv_Status := new\<rparr>) = None"
    "mt_CapacityApproved new \<Longrightarrow> mt_Preparation new = None"
    "validateExecutionHoldRelease m (m\<lparr>mv_Status := new\<rparr>) = None" "preservePreparation m (m\<lparr>mv_Status := new\<rparr>) = None"
    "mt_SourceCopy new \<noteq> None \<or> mt_CapacityApproved new \<Longrightarrow> validatePreparedPlan (m\<lparr>mv_Status := new\<rparr>) = None"
  using assms unfolding accepted_def validatePreparedTransition_def Let_def first_error_None by auto

lemma accepted_rollback: "accepted m new \<Longrightarrow> 0 \<le> mt_RollbackRequiredGeneration new"
  using accepted_rules(2) [of m new] unfolding preserveMoveIdentity_def first_error_None by simp

lemma move_write_decoded:
  assumes "move_write obj obj'" and "moveFrom obj' = Inr m'"
  shows "\<exists>m. moveFrom obj = Inr m \<and> move_step m m'"
  using assms(1)
proof cases
  case (status m new)
  then have "m' = m\<lparr>mv_Status := new\<rparr>"
    using moveFrom_setMoveStatus [OF status(2) _ accepted_rollback [OF status(3)]] assms(2) status(1,3) by (simp add: accepted_def)
  with status show ?thesis using move_step.status by blast
next
  case (usage m c bytes h)
  then show ?thesis using moveFrom_usage [OF usage(2), of bytes] assms(2) move_step.usage by auto
qed

section \<open>Exact transactions\<close>

lemma preparation_names: "validatePreparationFields p = None \<Longrightarrow> mp_NodeName p \<noteq> [] \<and> pr_UID (mp_Pool p) \<noteq> []"
  by (auto simp: validatePreparationFields_def ValidObjectName_def ValidIdentityToken_def)

lemma preparation_exclusive:
  assumes "ValidateMovePreparation m = None" and "mt_Preparation (mv_Status m) = Some p"
  shows "\<not> mt_CapacityApproved (mv_Status m)" "validatePreparationFields p = None" "\<not> hasMoveDestinationIntent (mv_Status m)"
    "validatePreparedPlan m = None" "map_option ci_PoolUID (mt_SourceCopy (mv_Status m)) \<noteq> Some (pr_UID (mp_Pool p))"
  using assms unfolding ValidateMovePreparation_def Let_def by (simp_all add: first_error_None)

lemma matchMoveCopy_None [simp]: "matchMoveCopy name observed expected = None \<longleftrightarrow> observed = expected"
  by (auto simp: matchMoveCopy_def first_error_None)

lemma transaction_identities:
  "ValidateMoveTransactionIdentities m anchor = None \<longleftrightarrow> (ValidIdentityToken (mv_UID m) \<and>
     mt_IncomingCopy (mv_Status m) = Some (fst (MoveTransactionCopies (mv_UID m) (ms_VolumeID (mv_Spec m)) anchor)) \<and>
     mt_DestinationCopy (mv_Status m) = Some (snd (MoveTransactionCopies (mv_UID m) (ms_VolumeID (mv_Spec m)) anchor)) \<and>
     ValidateCopy (fst (MoveTransactionCopies (mv_UID m) (ms_VolumeID (mv_Spec m)) anchor)) = None \<and>
     ValidateCopy (snd (MoveTransactionCopies (mv_UID m) (ms_VolumeID (mv_Spec m)) anchor)) = None \<and>
     mt_CopyOperationID (mv_Status m) = MoveCopyOperationID (mv_UID m) \<and>
     mt_PromotionOperationID (mv_Status m) = MovePromotionOperationID (mv_UID m))"
  by (cases "mt_IncomingCopy (mv_Status m)"; cases "mt_DestinationCopy (mv_Status m)")
    (auto simp: ValidateMoveTransactionIdentities_def first_error_None split: prod.splits)

text \<open>
  The transaction an execution is bound to: source and destination are different pools, and both new
  copies are the ones derived from the Move's UID, the source's installation and volume and the
  recorded destination.
\<close>

definition exact_transaction :: "Move \<Rightarrow> bool" where
  "exact_transaction m \<longleftrightarrow> (\<exists>source poolName. mt_SourceCopy (mv_Status m) = Some source \<and> mt_DestinationNode (mv_Status m) \<noteq> [] \<and>
     mt_DestinationPoolUID (mv_Status m) \<noteq> [] \<and> ci_PoolUID source \<noteq> mt_DestinationPoolUID (mv_Status m) \<and>
     ValidateMoveTransactionIdentities m \<lparr>da_InstallationID = ci_InstallationID source, da_PoolName = poolName,
       da_PoolUID = mt_DestinationPoolUID (mv_Status m), da_NodeName = mt_DestinationNode (mv_Status m),
       da_VolumeUID = ci_VolumeUID source\<rparr> = None)"

definition execution_sound :: "Move \<Rightarrow> bool" where
  "execution_sound m \<longleftrightarrow> (mt_CapacityApproved (mv_Status m) \<longrightarrow> mt_Preparation (mv_Status m) = None \<and> exact_transaction m)"

lemma identity_kept:
  assumes "preserveMoveIdentity s new = None"
  shows "mt_SourceCopy s = Some c \<Longrightarrow> mt_SourceCopy new = Some c" "mt_IncomingCopy s = Some c \<Longrightarrow> mt_IncomingCopy new = Some c"
    "mt_DestinationCopy s = Some c \<Longrightarrow> mt_DestinationCopy new = Some c"
    "mt_CopyOperationID s \<noteq> [] \<Longrightarrow> mt_CopyOperationID new = mt_CopyOperationID s"
    "mt_PromotionOperationID s \<noteq> [] \<Longrightarrow> mt_PromotionOperationID new = mt_PromotionOperationID s"
    "0 < mt_SourceBytes s \<Longrightarrow> mt_SourceBytes new = mt_SourceBytes s"
    "0 < mt_RollbackRequiredGeneration s \<Longrightarrow> mt_RollbackRequiredGeneration new = mt_RollbackRequiredGeneration s"
  using assms unfolding preserveMoveIdentity_def first_error_None by auto

lemma plan_kept:
  assumes "preservePreparedPlan s new = None"
  shows "mt_PersistentVolumeName s \<noteq> [] \<Longrightarrow> mt_PersistentVolumeName new = mt_PersistentVolumeName s"
    "mt_PersistentVolumeUID s \<noteq> [] \<Longrightarrow> mt_PersistentVolumeUID new = mt_PersistentVolumeUID s"
    "mt_ClaimNamespace s \<noteq> [] \<Longrightarrow> mt_ClaimNamespace new = mt_ClaimNamespace s" "mt_ClaimName s \<noteq> [] \<Longrightarrow> mt_ClaimName new = mt_ClaimName s"
    "mt_ClaimUID s \<noteq> [] \<Longrightarrow> mt_ClaimUID new = mt_ClaimUID s" "mt_ConsumerName s \<noteq> [] \<Longrightarrow> mt_ConsumerName new = mt_ConsumerName s"
    "mt_ConsumerUID s \<noteq> [] \<Longrightarrow> mt_ConsumerUID new = mt_ConsumerUID s"
    "mt_PlacementPodUID s \<noteq> [] \<Longrightarrow> mt_PlacementPodUID new = mt_PlacementPodUID s"
    "mt_DestinationNode s \<noteq> [] \<Longrightarrow> mt_DestinationNode new = mt_DestinationNode s"
    "mt_DestinationPoolUID s \<noteq> [] \<Longrightarrow> mt_DestinationPoolUID new = mt_DestinationPoolUID s"
  using assms unfolding preservePreparedPlan_def first_error_None by auto

lemma plan_source: "validatePreparedPlan m = None \<Longrightarrow> \<exists>source. mt_SourceCopy (mv_Status m) = Some source"
  by (auto simp: validatePreparedPlan_def Let_def split: if_splits option.splits)

lemma exact_kept:
  assumes "accepted m new" and "exact_transaction m"
  shows "exact_transaction (m\<lparr>mv_Status := new\<rparr>)"
proof -
  note i = identity_kept [OF accepted_rules(2) [OF assms(1)]] and p = plan_kept(9,10) [OF accepted_rules(3) [OF assms(1)]]
  have ops: "MoveCopyOperationID u \<noteq> []" "MovePromotionOperationID u \<noteq> []" for u
    by (simp_all add: MoveCopyOperationID_def MovePromotionOperationID_def)
  obtain source pn where x: "mt_SourceCopy (mv_Status m) = Some source" "mt_DestinationNode (mv_Status m) \<noteq> []"
    "mt_DestinationPoolUID (mv_Status m) \<noteq> []" "ci_PoolUID source \<noteq> mt_DestinationPoolUID (mv_Status m)"
    "ValidateMoveTransactionIdentities m \<lparr>da_InstallationID = ci_InstallationID source, da_PoolName = pn,
       da_PoolUID = mt_DestinationPoolUID (mv_Status m), da_NodeName = mt_DestinationNode (mv_Status m),
       da_VolumeUID = ci_VolumeUID source\<rparr> = None"
    using assms(2) unfolding exact_transaction_def by blast
  have "mt_SourceCopy new = Some source" "mt_DestinationNode new = mt_DestinationNode (mv_Status m)"
    "mt_DestinationPoolUID new = mt_DestinationPoolUID (mv_Status m)" using i(1) p x by simp_all
  moreover from this have "ValidateMoveTransactionIdentities (m\<lparr>mv_Status := new\<rparr>) \<lparr>da_InstallationID = ci_InstallationID source,
      da_PoolName = pn, da_PoolUID = mt_DestinationPoolUID new, da_NodeName = mt_DestinationNode new, da_VolumeUID = ci_VolumeUID source\<rparr> = None"
    using x(5) i(2-5) ops unfolding transaction_identities by simp
  ultimately show ?thesis using x(2-4) unfolding exact_transaction_def
    by (intro exI [of _ source] exI [of _ pn]) simp
qed

lemma approval_exact:
  assumes "accepted m new" and "mt_CapacityApproved new" and "\<not> mt_CapacityApproved (mv_Status m)"
  shows "exact_transaction (m\<lparr>mv_Status := new\<rparr>)"
proof (cases "mt_Preparation (mv_Status m)")
  case None
  then have "validatePreparationStart m (m\<lparr>mv_Status := new\<rparr>) = None"
    using accepted_rules(7) [OF assms(1)] by (simp add: preservePreparation_def Let_def)
  with assms(2,3) show ?thesis by (auto simp: validatePreparationStart_def Let_def split: if_splits)
next
  case (Some p)
  have new: "mt_Preparation new = None" using accepted_rules(5) [OF assms(1,2)] .
  from accepted_rules(7) [OF assms(1)] Some new assms(2)
  have v: "ValidateMovePreparation m = None" and t: "ValidateMoveTransactionIdentities (m\<lparr>mv_Status := new\<rparr>) (preparation_anchor (mv_Status m) p) = None"
    and d: "mt_DestinationNode new = mp_NodeName p" "mt_DestinationPoolUID new = pr_UID (mp_Pool p)"
    by (auto simp: preservePreparation_def Let_def split: option.splits if_splits)
  note x = preparation_exclusive [OF v Some]
  obtain source where source: "mt_SourceCopy (mv_Status m) = Some source" using plan_source [OF x(4)] ..
  then have "mt_SourceCopy new = Some source" by (rule identity_kept(1) [OF accepted_rules(2) [OF assms(1)]])
  moreover have "mp_NodeName p \<noteq> []" "pr_UID (mp_Pool p) \<noteq> []" using preparation_names [OF x(2)] by simp_all
  ultimately show ?thesis using t d x(5) source unfolding exact_transaction_def
    by (intro exI [of _ source] exI [of _ "pr_Name (mp_Pool p)"]) (simp add: preparation_anchor_def)
qed

lemma move_step_sound: "move_step m m' \<Longrightarrow> execution_sound m \<Longrightarrow> execution_sound m'"
proof (induction rule: move_step.induct)
  case (status m new)
  show ?case
  proof (cases "mt_CapacityApproved (mv_Status m)")
    case True
    with status show ?thesis using exact_kept accepted_rules(5) by (simp add: execution_sound_def)
  next
    case False
    with status show ?thesis using approval_exact accepted_rules(5) by (simp add: execution_sound_def)
  qed
next
  case (usage m c bytes h)
  then have "\<not> mt_CapacityApproved (mv_Status m)" by (simp add: sourceUsageMove_def Let_def first_error_None)
  then show ?case by (simp add: execution_sound_def)
qed

section \<open>The hold of a Move\<close>

text \<open>
  What a Move holds of the destination's capacity: nothing, the reservation of its preparation, or
  the execution on a node and pool.
\<close>

datatype hold = NoHold | Reserved MovePreparation | Executing string string

definition hold_of :: "MoveStatus \<Rightarrow> hold" where
  "hold_of s = (case mt_Preparation s of
     Some p \<Rightarrow> Reserved p
   | None \<Rightarrow> if mt_CapacityApproved s then Executing (mt_DestinationNode s) (mt_DestinationPoolUID s) else NoHold)"

text \<open>
  What one operation may do to the hold of a Move that was \<open>m\<close> before it and is \<open>m'\<close> after it: keep
  it, or change it in one of four ways, each with the state of the Move it needs.
\<close>

inductive hold_change :: "Move \<Rightarrow> Move \<Rightarrow> bool" where
  keep: "hold_of (mv_Status m') = hold_of (mv_Status m) \<Longrightarrow> hold_change m m'"
| reserve: "hold_of (mv_Status m) = NoHold \<Longrightarrow> hold_of (mv_Status m') = Reserved p \<Longrightarrow> validatePreparationFields p = None \<Longrightarrow>
    mt_Phase (mv_Status m) \<in> {[], ''Pending'', ''Preparing''} \<Longrightarrow> \<not> hasMoveDestinationIntent (mv_Status m) \<Longrightarrow>
    \<not> mv_Deleting m \<Longrightarrow> MoveProtectionFinalizer \<in> set (mv_Finalizers m) \<Longrightarrow> hold_change m m'"
| cancel: "hold_of (mv_Status m) = Reserved p \<Longrightarrow> hold_of (mv_Status m') = NoHold \<Longrightarrow>
    mt_Phase (mv_Status m) = ''Canceling'' \<Longrightarrow> mt_Phase (mv_Status m') = ''Cancelled'' \<Longrightarrow>
    \<not> hasMoveDestinationIntent (mv_Status m') \<Longrightarrow> hold_change m m'"
| execute: "hold_of (mv_Status m) = Reserved p \<Longrightarrow>
    hold_of (mv_Status m') = Executing (mp_NodeName p) (pr_UID (mp_Pool p)) \<Longrightarrow> mt_Phase (mv_Status m) = ''WaitingForCapacity'' \<Longrightarrow>
    ValidateMoveTransactionIdentities m' (preparation_anchor (mv_Status m) p) = None \<Longrightarrow>
    \<not> mv_Deleting m \<Longrightarrow> MoveProtectionFinalizer \<in> set (mv_Finalizers m) \<Longrightarrow> hold_change m m'"
| release: "hold_of (mv_Status m) = Executing node pool \<Longrightarrow> hold_of (mv_Status m') = NoHold \<Longrightarrow>
    mt_Phase (mv_Status m) = ''Blocked'' \<Longrightarrow> mt_RecoveryPhase (mv_Status m) = ''Retiring'' \<Longrightarrow>
    mt_Phase (mv_Status m') = ''Blocked'' \<Longrightarrow> mt_RecoveryPhase (mv_Status m') = ''Retiring'' \<Longrightarrow>
    mt_CapacityReason (mv_Status m') = ''RecoverySettled'' \<Longrightarrow>
    mt_CleanupPhase (mv_Status m) = ''Completed'' \<or>
      mt_CleanupPhase (mv_Status m) = [] \<and> 0 < mt_RollbackRequiredGeneration (mv_Status m) \<Longrightarrow>
    exact_transaction m \<Longrightarrow> hold_change m m'"

lemma hold_of_simps:
  "mt_Preparation s = Some p \<Longrightarrow> hold_of s = Reserved p"
  "mt_Preparation s = None \<Longrightarrow> mt_CapacityApproved s \<Longrightarrow> hold_of s = Executing (mt_DestinationNode s) (mt_DestinationPoolUID s)"
  "mt_Preparation s = None \<Longrightarrow> \<not> mt_CapacityApproved s \<Longrightarrow> hold_of s = NoHold"
  by (simp_all add: hold_of_def)

lemma granting_protected:
  assumes "accepted m new"
    and "mt_Preparation (mv_Status m) = None \<and> mt_Preparation new \<noteq> None \<or> \<not> mt_CapacityApproved (mv_Status m) \<and> mt_CapacityApproved new"
  shows "\<not> mv_Deleting m" "MoveProtectionFinalizer \<in> set (mv_Finalizers m)"
  using assms by (auto simp: accepted_def validatePreparedProtection_def Let_def split: if_splits)

text \<open>An accepted status write, by what the Move held before.\<close>

lemma accepted_unreserved:
  assumes "accepted m new" and "mt_Preparation (mv_Status m) = None" and "\<not> mt_CapacityApproved (mv_Status m)"
  shows "hold_change m (m\<lparr>mv_Status := new\<rparr>)"
proof -
  have start: "validatePreparationStart m (m\<lparr>mv_Status := new\<rparr>) = None"
    using accepted_rules(7) [OF assms(1)] assms(2) by (simp add: preservePreparation_def Let_def)
  show ?thesis
  proof (cases "mt_Preparation new")
    case (Some p)
    show ?thesis
    proof (rule hold_change.reserve [where p = p])
      show "validatePreparationFields p = None"
        using preparation_exclusive(2) [OF accepted_rules(4) [OF assms(1)]] Some by simp
      show "mt_Phase (mv_Status m) \<in> {[], ''Pending'', ''Preparing''}" "\<not> hasMoveDestinationIntent (mv_Status m)"
        using start Some by (auto simp: validatePreparationStart_def Let_def split: if_splits)
    qed (use assms(2,3) Some granting_protected [OF assms(1)] in \<open>simp_all add: hold_of_simps\<close>)
  next
    case None
    have "\<not> mt_CapacityApproved new"
      using start assms(3) by (auto simp: validatePreparationStart_def Let_def split: if_splits)
    with None assms(2,3) show ?thesis by (intro hold_change.keep) (simp add: hold_of_simps)
  qed
qed

lemma accepted_reserved:
  assumes "accepted m new" and "mt_Preparation (mv_Status m) = Some p"
  shows "hold_change m (m\<lparr>mv_Status := new\<rparr>)"
proof -
  have keep: "preservePreparation m (m\<lparr>mv_Status := new\<rparr>) = None" using accepted_rules(7) [OF assms(1)] .
  then have v: "ValidateMovePreparation m = None" using assms(2) by (simp add: preservePreparation_def Let_def split: option.splits)
  note x = preparation_exclusive [OF v assms(2)]
  show ?thesis
  proof (cases "mt_Preparation new")
    case (Some q)
    with keep v assms(2) show ?thesis
      by (intro hold_change.keep) (simp add: preservePreparation_def Let_def hold_of_simps)
  next
    case None
    with keep v assms(2) consider "mt_Phase (mv_Status m) = ''Canceling''" "mt_Phase new = ''Cancelled''" "\<not> mt_CapacityApproved new"
        "\<not> hasMoveDestinationIntent new"
      | "mt_Phase (mv_Status m) = ''WaitingForCapacity''" "mt_CapacityApproved new" "mt_DestinationNode new = mp_NodeName p"
        "mt_DestinationPoolUID new = pr_UID (mp_Pool p)"
        "ValidateMoveTransactionIdentities (m\<lparr>mv_Status := new\<rparr>) (preparation_anchor (mv_Status m) p) = None"
      by (auto simp: preservePreparation_def Let_def split: if_splits)
    then show ?thesis
    proof cases
      case 1
      with None assms(2) show ?thesis by (intro hold_change.cancel [where p = p]) (simp_all add: hold_of_simps)
    next
      case 2
      with None assms(2) granting_protected [OF assms(1)] x(1) show ?thesis
        by (intro hold_change.execute [where p = p]) (simp_all add: hold_of_simps)
    qed
  qed
qed

lemma accepted_executing:
  assumes "accepted m new" and "mt_Preparation (mv_Status m) = None" and "mt_CapacityApproved (mv_Status m)" and "exact_transaction m"
  shows "hold_change m (m\<lparr>mv_Status := new\<rparr>)"
proof -
  have "validatePreparationStart m (m\<lparr>mv_Status := new\<rparr>) = None"
    using accepted_rules(7) [OF assms(1)] assms(2) by (simp add: preservePreparation_def Let_def)
  with assms(3) have none: "mt_Preparation new = None" by (auto simp: validatePreparationStart_def Let_def split: if_splits)
  show ?thesis
  proof (cases "mt_CapacityApproved new")
    case True
    have "mt_DestinationNode (mv_Status m) \<noteq> []" "mt_DestinationPoolUID (mv_Status m) \<noteq> []"
      using assms(4) by (auto simp: exact_transaction_def)
    with plan_kept(9,10) [OF accepted_rules(3) [OF assms(1)]] True none assms(2,3) show ?thesis
      by (intro hold_change.keep) (simp add: hold_of_simps)
  next
    case False
    have "validateExecutionHoldRelease m (m\<lparr>mv_Status := new\<rparr>) = None" using accepted_rules(6) [OF assms(1)] .
    with False none assms(2-4) show ?thesis
      by (intro hold_change.release [of m "mt_DestinationNode (mv_Status m)" "mt_DestinationPoolUID (mv_Status m)"])
        (auto simp: hold_of_simps validateExecutionHoldRelease_def Let_def split: if_splits)
  qed
qed

lemma move_step_hold:
  assumes "move_step m m'" and "execution_sound m"
  shows "hold_change m m'"
  using assms(1)
proof cases
  case (status new)
  with assms(2) show ?thesis
    using accepted_unreserved accepted_reserved accepted_executing
    by (cases "mt_Preparation (mv_Status m)"; cases "mt_CapacityApproved (mv_Status m)") (auto simp: execution_sound_def)
next
  case (usage c bytes h)
  then show ?thesis by (intro hold_change.keep) (simp add: hold_of_def split: option.split)
qed

section \<open>History\<close>

text \<open>Copies, operations, plan, usage and rollback fence of a Move stay as they were first recorded.\<close>

definition plan_fields :: "(MoveStatus \<Rightarrow> string) list" where
  "plan_fields = [mt_PersistentVolumeName, mt_PersistentVolumeUID, mt_ClaimNamespace, mt_ClaimName, mt_ClaimUID, mt_ConsumerName,
     mt_ConsumerUID, mt_PlacementPodUID, mt_DestinationNode, mt_DestinationPoolUID, mt_CopyOperationID, mt_PromotionOperationID]"

definition move_extends :: "Move \<Rightarrow> Move \<Rightarrow> bool" where
  "move_extends m0 m \<longleftrightarrow> mv_Spec m = mv_Spec m0 \<and>
     (\<forall>f \<in> {mt_SourceCopy, mt_IncomingCopy, mt_DestinationCopy}. f (mv_Status m0) \<noteq> None \<longrightarrow> f (mv_Status m) = f (mv_Status m0)) \<and>
     (\<forall>f \<in> set plan_fields. f (mv_Status m0) \<noteq> [] \<longrightarrow> f (mv_Status m) = f (mv_Status m0)) \<and>
     (\<forall>f \<in> {mt_SourceBytes, mt_RollbackRequiredGeneration}. 0 < f (mv_Status m0) \<longrightarrow> f (mv_Status m) = f (mv_Status m0)) \<and>
     (mt_SettlementRequested (mv_Status m0) \<longrightarrow> mt_SettlementRequested (mv_Status m))"

lemma move_extends_refl: "move_extends m m"
  by (simp add: move_extends_def)

lemma move_extends_trans: "move_extends a b \<Longrightarrow> move_extends b c \<Longrightarrow> move_extends a c"
  unfolding move_extends_def by (intro conjI ballI impI) (elim conjE; metis)+

lemma accepted_extends:
  assumes "accepted m new"
  shows "move_extends m (m\<lparr>mv_Status := new\<rparr>)"
proof -
  note i = identity_kept [OF accepted_rules(2) [OF assms]] and p = plan_kept [OF accepted_rules(3) [OF assms]]
  have "\<forall>f \<in> {mt_SourceCopy, mt_IncomingCopy, mt_DestinationCopy}. f (mv_Status m) \<noteq> None \<longrightarrow> f new = f (mv_Status m)"
    using i(1-3) by auto
  moreover have "\<forall>f \<in> set plan_fields. f (mv_Status m) \<noteq> [] \<longrightarrow> f new = f (mv_Status m)"
    using i(4,5) p by (simp add: plan_fields_def)
  moreover have "\<forall>f \<in> {mt_SourceBytes, mt_RollbackRequiredGeneration}. 0 < f (mv_Status m) \<longrightarrow> f new = f (mv_Status m)"
    using i(6,7) by simp
  moreover have "mt_SettlementRequested (mv_Status m) \<longrightarrow> mt_SettlementRequested new"
    using accepted_rules(1) [OF assms] by (auto simp: validateSettlementTransition_def first_error_None)
  ultimately show ?thesis by (simp add: move_extends_def)
qed

lemma move_step_extends: "move_step m m' \<Longrightarrow> move_extends m m'"
proof (induction rule: move_step.induct)
  case (usage m c bytes h)
  then have "0 < mt_SourceBytes (mv_Status m) \<longrightarrow> bytes = mt_SourceBytes (mv_Status m)"
    by (simp add: sourceUsageMove_def Let_def first_error_None)
  then show ?case by (simp add: move_extends_def plan_fields_def)
qed (rule accepted_extends)

section \<open>All operations\<close>

inductive move_op :: "k8s_lib \<Rightarrow> 'w move_registry \<Rightarrow> 'w \<Rightarrow> 'w \<Rightarrow> bool" for k r where
  create: "CreateMove r generateName spec w = (out, w') \<Longrightarrow> move_op k r w w'"
| delete: "DeleteMove r name uid w = (e, w') \<Longrightarrow> move_op k r w w'"
| protect: "AddMoveFinalizer r name uid w = (e, w') \<Longrightarrow> move_op k r w w'"
| unprotect: "RemoveMoveFinalizer r name uid w = (e, w') \<Longrightarrow> move_op k r w w'"
| compare: "CompareAndSetMoveStatus r expected new w = (out, w') \<Longrightarrow> move_op k r w w'"
| usage: "RecordSourceUsage k r expected c bytes w = (out, w') \<Longrightarrow> move_op k r w w'"

definition moves_relied :: "string set \<Rightarrow> ('w \<Rightarrow> string \<Rightarrow> move_object option) \<Rightarrow> 'w move_registry \<Rightarrow> bool" where
  "moves_relied used stored r \<longleftrightarrow> retries_on_conflict (vr_Retry (mr_Registry r)) \<and> client_writes stored (mr_Moves r) \<and>
     client_deletes stored (mr_Moves r) \<and>
     (\<forall>w generateName obj out w'. mr_Create r w generateName obj = (out, w') \<longrightarrow> stored w' = stored w \<or>
        (\<exists>name kept. created_as (obj\<lparr>ao_Name := name\<rparr>) kept \<and> ao_UID kept \<notin> used \<and> stored w name = None \<and>
           stored w' = (stored w)(name \<mapsto> kept)))"

definition move_good :: "(string \<Rightarrow> bool) \<Rightarrow> (Move \<Rightarrow> bool) \<Rightarrow> move_object \<Rightarrow> bool" where
  "move_good scope good obj \<longleftrightarrow> (scope (ao_UID obj) \<longrightarrow> (\<forall>m. moveFrom obj = Inr m \<longrightarrow> good m))"

locale move_objects =
  fixes good :: "Move \<Rightarrow> bool" and scope :: "string \<Rightarrow> bool" and used :: "string set"
  assumes meta_good: "good m \<Longrightarrow> good (m\<lparr>mv_Deleting := d, mv_ResourceVersion := v, mv_Finalizers := fs\<rparr>)"
    and new_good: "scope uid \<Longrightarrow> uid \<notin> used \<Longrightarrow> mt_CapacityApproved (mv_Status m) = False \<Longrightarrow>
      mt_Preparation (mv_Status m) = None \<Longrightarrow> good m"

lemma moveFrom_meta:
  assumes "moveFrom obj' = Inr m'" and "ao_Body obj' = ao_Body obj" and "ao_Name obj' = ao_Name obj" and "ao_UID obj' = ao_UID obj"
  shows "\<exists>m d v fs. moveFrom obj = Inr m \<and> m' = m\<lparr>mv_Deleting := d, mv_ResourceVersion := v, mv_Finalizers := fs\<rparr>"
proof -
  have s: "moveStatusFrom obj' = moveStatusFrom obj"
    unfolding moveStatusFrom_def movePreparationFrom_def assms(2) ..
  show ?thesis using assms(1) s by (auto simp: moveFrom_def Let_def assms(2-4))
qed

sublocale move_objects \<subseteq> oi: object_invariant "move_good scope good"
proof
  fix obj kept :: move_object
  assume g: "move_good scope good obj" and k: "stored_as obj kept"
  show "move_good scope good kept"
    unfolding move_good_def
  proof (intro impI allI)
    fix m' assume "scope (ao_UID kept)" "moveFrom kept = Inr m'"
    moreover from this k obtain m d v fs where "moveFrom obj = Inr m" "m' = m\<lparr>mv_Deleting := d, mv_ResourceVersion := v, mv_Finalizers := fs\<rparr>"
      using moveFrom_meta [of kept m' obj] by (auto simp: stored_as_def)
    ultimately show "good m'" using g k meta_good by (simp add: move_good_def stored_as_def)
  qed
qed

context move_objects
begin

lemma meta_move_good:
  assumes "move_good scope good obj" and "ao_Body obj' = ao_Body obj" and "ao_Name obj' = ao_Name obj" and "ao_UID obj' = ao_UID obj"
  shows "move_good scope good obj'"
  unfolding move_good_def
proof (intro impI allI)
  fix m' assume s: "scope (ao_UID obj')" and m': "moveFrom obj' = Inr m'"
  from moveFrom_meta [OF m' assms(2-4)] show "good m'" using s assms(1,4) meta_good by (auto simp: move_good_def)
qed

lemma created_move_good:
  assumes "created_as ((newMoveObject spec)\<lparr>ao_Name := n\<rparr>) kept" and "ao_UID kept \<notin> used"
  shows "move_good scope good kept"
  unfolding move_good_def
proof (intro impI allI)
  fix m assume s: "scope (ao_UID kept)" and m: "moveFrom kept = Inr m"
  have "ao_Body kept = ao_Body (newMoveObject spec)" using assms(1) by (simp add: created_as_def)
  then have "mb_preparation (ao_Body kept) = Missing" "mb_capacityApproved (ao_Body kept) = Missing" by (simp_all add: newMoveObject_def)
  with moveStatus_hold [OF moveFrom_Inr(1) [OF m]] have "mt_CapacityApproved (mv_Status m) = False" "mt_Preparation (mv_Status m) = None"
    by (simp_all add: movePreparationFrom_def)
  then show "good m" using new_good [OF s assms(2)] by blast
qed

lemma write_status_good:
  assumes "moves_relied used stored r" and "all_stored (move_good scope good) stored w" and "move_good scope good obj'"
    and "write_move_status r m obj' msg w = (out, w')"
  shows "all_stored (move_good scope good) stored w'"
proof -
  have "write_effect stored w obj' (api_UpdateStatus (mr_Moves r) w obj')" using assms(1) by (simp add: moves_relied_def client_writes_def)
  from oi.write_good [OF this assms(2,3)] show ?thesis
    using assms(4) by (auto simp: write_move_status_def split: prod.splits sum.splits)
qed

lemma read_stored: "moves_relied used stored r \<Longrightarrow> api_Get (mr_Moves r) w n = Inr obj \<Longrightarrow> stored w n = Some obj"
  by (simp add: moves_relied_def client_writes_def)

lemma compare_good:
  assumes "moves_relied used stored r" and "all_stored (move_good scope good) stored w" and "CompareAndSetMoveStatus r expected new w = (out, w')"
    and written: "\<And>n obj obj'. stored w n = Some obj \<Longrightarrow> move_write obj obj' \<Longrightarrow> ao_UID obj' = ao_UID obj \<Longrightarrow> move_good scope good obj'"
  shows "all_stored (move_good scope good) stored w'"
proof -
  consider "w' = w" | obj m new' h msg where "api_Get (mr_Moves r) w (mv_Name expected) = Inr obj" "moveFrom obj = Inr m"
      "validatePreparedProtection m new' h = None" "validatePreparedTransition m new' = None"
      "mt_CleanupPhase new' = mt_CleanupPhase (mv_Status m)" "write_move_status r m (setMoveStatus obj new') msg w = (out, w')"
    using assms(3) unfolding CompareAndSetMoveStatus_def Let_def
    by (auto simp: first_error_None split: option.splits if_splits sum.splits)
  then show ?thesis
  proof cases
    case (2 obj m new' h msg)
    have "accepted m new'" using 2(3-5) by (auto simp: accepted_def)
    then have "move_good scope good (setMoveStatus obj new')"
      by (intro written [OF read_stored [OF assms(1) 2(1)] move_write.status [OF 2(2)]]) (simp_all add: setMoveStatus_def)
    then show ?thesis by (rule write_status_good [OF assms(1,2) _ 2(6)])
  qed (use assms(2) in simp)
qed

lemma usage_good:
  assumes "moves_relied used stored r" and "all_stored (move_good scope good) stored w" and "RecordSourceUsage k r expected c bytes w = (out, w')"
    and written: "\<And>n obj obj'. stored w n = Some obj \<Longrightarrow> move_write obj obj' \<Longrightarrow> ao_UID obj' = ao_UID obj \<Longrightarrow> move_good scope good obj'"
  shows "all_stored (move_good scope good) stored w'"
proof -
  consider "w' = w" | obj m h msg where "api_Get (mr_Moves r) w (mv_Name expected) = Inr obj" "moveFrom obj = Inr m"
      "sourceUsageMove m c bytes h = None" "0 < bytes"
      "write_move_status r m (obj\<lparr>ao_Body := (ao_Body obj)\<lparr>mb_sourceBytes := Present bytes\<rparr>\<rparr>) msg w = (out, w')"
    using assms(3) unfolding RecordSourceUsage_def sourceUsageRequest_def
    by (auto simp: first_error_None split: option.splits if_splits sum.splits)
  then show ?thesis
  proof cases
    case (2 obj m h msg)
    have "move_good scope good (obj\<lparr>ao_Body := (ao_Body obj)\<lparr>mb_sourceBytes := Present bytes\<rparr>\<rparr>)"
      by (rule written [OF read_stored [OF assms(1) 2(1)] move_write.usage [OF 2(2-4)]]) simp
    then show ?thesis by (rule write_status_good [OF assms(1,2) _ 2(5)])
  qed (use assms(2) in simp)
qed

lemma finalizer_good:
  assumes "moves_relied used stored r" and "all_stored (move_good scope good) stored w"
  shows "all_stored (move_good scope good) stored (snd (move_finalizer r name uid present w))"
proof (cases "vr_Volumes (mr_Registry r)")
  case None
  then show ?thesis using assms(2) by (simp add: move_finalizer_def updateObjectFinalizer_def validate_client_def)
next
  case (Some c)
  have "client_writes stored (mr_Moves r)" "retries_on_conflict (vr_Retry (mr_Registry r))" using assms(1) by (simp_all add: moves_relied_def)
  from oi.updateObjectFinalizer_good [OF this assms(2)] meta_move_good show ?thesis by (simp add: move_finalizer_def Some)
qed

lemma delete_move_good:
  assumes "moves_relied used stored r" and "all_stored (move_good scope good) stored w" and "DeleteMove r name uid w = (e, w')"
  shows "all_stored (move_good scope good) stored w'"
proof -
  obtain e1 w1 where d: "api_Delete (mr_Moves r) w name uid None = (e1, w1)" by fastforce
  have "all_stored (move_good scope good) stored w1"
    using assms(1) by (intro oi.delete_good [OF _ assms(2) d]) (auto simp: moves_relied_def intro: meta_move_good)
  then show ?thesis using assms(2,3) d by (auto simp: DeleteMove_def split: option.splits if_splits)
qed

lemma create_move_good:
  assumes "moves_relied used stored r" and "all_stored (move_good scope good) stored w" and "CreateMove r generateName spec w = (out, w')"
  shows "all_stored (move_good scope good) stored w'"
proof -
  obtain o1 w1 where c: "mr_Create r w generateName (newMoveObject spec) = (o1, w1)" by fastforce
  consider "stored w1 = stored w" | name kept where "created_as ((newMoveObject spec)\<lparr>ao_Name := name\<rparr>) kept" "ao_UID kept \<notin> used"
      "stored w1 = (stored w)(name \<mapsto> kept)"
    using assms(1) c unfolding moves_relied_def by blast
  then have "all_stored (move_good scope good) stored w1"
    using assms(2) created_move_good by cases (auto simp: all_stored_def)
  then show ?thesis using assms(2,3) c by (auto simp: CreateMove_def split: option.splits if_splits sum.splits)
qed

lemma move_op_written:
  assumes "move_op k r w w'" and "moves_relied used stored r" and "all_stored (move_good scope good) stored w"
    and "\<And>n obj obj'. stored w n = Some obj \<Longrightarrow> move_write obj obj' \<Longrightarrow> ao_UID obj' = ao_UID obj \<Longrightarrow> move_good scope good obj'"
  shows "all_stored (move_good scope good) stored w'"
  using assms(1)
proof cases
  case (protect name uid e)
  then show ?thesis using finalizer_good [OF assms(2,3), of name uid True] by (simp add: AddMoveFinalizer_def)
next
  case (unprotect name uid e)
  then show ?thesis using finalizer_good [OF assms(2,3), of name uid False] by (simp add: RemoveMoveFinalizer_def)
next
  case (compare expected new out)
  from compare_good [OF assms(2,3) this assms(4)] show ?thesis .
next
  case (usage expected c bytes out)
  from usage_good [OF assms(2,3) this assms(4)] show ?thesis .
qed (rule create_move_good [OF assms(2,3)] delete_move_good [OF assms(2,3)]; assumption)+

end

text \<open>A property that every accepted write keeps is kept by every operation, and so by every run.\<close>

locale move_invariant = move_objects +
  assumes step_good: "good m \<Longrightarrow> move_step m m' \<Longrightarrow> good m'"
begin

lemma write_move_good:
  assumes "move_good scope good obj" and "move_write obj obj'" and "ao_UID obj' = ao_UID obj"
  shows "move_good scope good obj'"
  unfolding move_good_def
proof (intro impI allI)
  fix m' assume s: "scope (ao_UID obj')" and m': "moveFrom obj' = Inr m'"
  from move_write_decoded [OF assms(2) m'] show "good m'" using s assms(1,3) step_good by (auto simp: move_good_def)
qed

lemma move_op_good:
  assumes "move_op k r w w'" and "moves_relied used stored r" and "all_stored (move_good scope good) stored w"
  shows "all_stored (move_good scope good) stored w'"
proof (rule move_op_written [OF assms])
  fix n obj obj' assume "stored w n = Some obj" "move_write obj obj'" "ao_UID obj' = ao_UID obj"
  moreover from this(1) have "move_good scope good obj" using assms(3) by (simp add: all_stored_def)
  ultimately show "move_good scope good obj'" by (blast intro: write_move_good)
qed

lemma move_ops_good:
  assumes "(move_op k r)\<^sup>*\<^sup>* w w'" and "moves_relied used stored r" and "all_stored (move_good scope good) stored w"
  shows "all_stored (move_good scope good) stored w'"
  using assms(1,3) by (induction rule: rtranclp_induct) (use move_op_good [OF _ assms(2)] in blast)+

end

section \<open>Interpretations\<close>

interpretation es: move_invariant execution_sound "\<lambda>_. True" "{}"
proof
  show "execution_sound m \<Longrightarrow> execution_sound (m\<lparr>mv_Deleting := d, mv_ResourceVersion := v, mv_Finalizers := fs\<rparr>)" for m d v fs
    by (simp add: execution_sound_def exact_transaction_def transaction_identities)
  show "execution_sound m \<Longrightarrow> move_step m m' \<Longrightarrow> execution_sound m'" for m m'
    by (rule move_step_sound)
qed (simp add: execution_sound_def)

lemma hold_change_meta:
  assumes "hold_change m0 m" and "mv_Status m' = mv_Status m" and "mv_UID m' = mv_UID m" and "mv_Spec m' = mv_Spec m"
  shows "hold_change m0 m'"
  using assms(1)
proof cases
  case keep
  then show ?thesis using assms(2) by (intro hold_change.keep) simp
next
  case (reserve p)
  then show ?thesis by (intro hold_change.reserve [of m0 m' p]) (simp_all only: assms(2) not_False_eq_True)
next
  case (cancel p)
  then show ?thesis by (intro hold_change.cancel [of m0 p m']) (simp_all only: assms(2) not_False_eq_True)
next
  case (execute p)
  then show ?thesis by (intro hold_change.execute [of m0 p m']) (simp_all only: assms(2-4) transaction_identities not_False_eq_True)
next
  case (release node pool)
  then show ?thesis by (intro hold_change.release [of m0 node pool m']) (simp_all only: assms(2))
qed

interpretation hc: move_objects "hold_change m0" "\<lambda>u. u = uid" "{uid}" for m0 uid
proof
  show "hold_change m0 m \<Longrightarrow> hold_change m0 (m\<lparr>mv_Deleting := d, mv_ResourceVersion := v, mv_Finalizers := fs\<rparr>)" for m d v fs
    by (erule hold_change_meta) simp_all
qed simp

lemma moves_relied_any: "moves_relied used stored r \<Longrightarrow> moves_relied {} stored r"
  unfolding moves_relied_def by blast

text \<open>One operation on sound Moves changes the hold of the Move with this UID at most as allowed.\<close>

lemma move_op_hold:
  assumes "move_op k r w w'" and "moves_relied {uid} stored r"
    and "all_stored (move_good (\<lambda>_. True) execution_sound) stored w"
    and "all_stored (move_good (\<lambda>u. u = uid) (\<lambda>m. m = m0)) stored w"
  shows "all_stored (move_good (\<lambda>u. u = uid) (hold_change m0)) stored w'"
proof (rule hc.move_op_written [OF assms(1,2)])
  show "all_stored (move_good (\<lambda>u. u = uid) (hold_change m0)) stored w"
    using assms(4) hold_change.keep by (auto simp: all_stored_def move_good_def)
next
  fix n obj obj' assume o: "stored w n = Some obj" "move_write obj obj'" "ao_UID obj' = ao_UID obj"
  show "move_good (\<lambda>u. u = uid) (hold_change m0) obj'"
    unfolding move_good_def
  proof (intro impI allI)
    fix m' assume u: "ao_UID obj' = uid" and m': "moveFrom obj' = Inr m'"
    from move_write_decoded [OF o(2) m'] obtain m where m: "moveFrom obj = Inr m" "move_step m m'" by blast
    with o u assms(3,4) have "execution_sound m" "m = m0" by (auto simp: all_stored_def move_good_def)
    with move_step_hold [OF m(2)] show "hold_change m0 m'" by simp
  qed
qed

interpretation mk: move_invariant "move_extends m0" "\<lambda>u. u = uid" "{uid}" for m0 uid
proof
  show "move_extends m0 m \<Longrightarrow> move_step m m' \<Longrightarrow> move_extends m0 m'" for m m'
    using move_step_extends move_extends_trans by blast
qed (simp_all add: move_extends_def)

end
