(* ===== verification/Pool_Capacity.thy ===== *)
theory Pool_Capacity
  imports Move_Properties "HOL-Library.Multiset"
begin

text \<open>
  The capacity ledger (\<open>src/pool/capacity\<close>): the bytes that volumes and Moves hold of one pool, the
  admission rule, and the reading of a statfs snapshot. A Go map of volumes is the list of its
  entries in the order the loop visits them; the order is arbitrary.
\<close>

section \<open>Holds\<close>

type_synonym volumes = "(string \<times> State) list"

definition add_bytes :: "int \<Rightarrow> int \<Rightarrow> int res" where
  "add_bytes left right = (
     if right \<le> 0 then Inl (Errorf ''capacity must be positive'')
     else if left > max_int64 - right then Inl (Errorf ''Pool reservation total overflows int64'')
     else Inr (left + right))"

definition ownerPoolUID :: "string \<Rightarrow> State \<Rightarrow> string res" where
  "ownerPoolUID volumeID s = (
     if HasInitialReservation s then Inr (case vs_InitialPool s of Some p \<Rightarrow> pr_UID p | None \<Rightarrow> [])
     else if UnstartedCreation s \<and> vs_InitialPool s = None then Inr []
     else case vs_CurrentCopy s of
       None \<Rightarrow> Inl (Errorf ''volume has incomplete capacity owner identity'')
     | Some c \<Rightarrow> if vs_OwnerNode s = [] \<or> vs_CapacityBytes s \<le> 0 \<or> ci_PoolUID c = [] \<or> ci_NodeName c \<noteq> vs_OwnerNode s
         then Inl (Errorf ''volume has incomplete capacity owner identity'') else Inr (ci_PoolUID c))"

fun ownedBytesForPool :: "int \<Rightarrow> volumes \<Rightarrow> string \<Rightarrow> int res" where
  "ownedBytesForPool acc [] poolUID = Inr acc"
| "ownedBytesForPool acc ((volumeID, s) # vs) poolUID = bind_res (ownerPoolUID volumeID s) (\<lambda>ownerPool.
     if ownerPool = poolUID then bind_res (add_bytes acc (vs_CapacityBytes s)) (\<lambda>t. ownedBytesForPool t vs poolUID)
     else ownedBytesForPool acc vs poolUID)"

definition preparationReservation :: "volumes \<Rightarrow> Move \<Rightarrow> (string \<times> int) res" where
  "preparationReservation vs m = (case ValidateMovePreparation m of
     Some e \<Rightarrow> Inl (Wrapped e ''move has invalid preparation'')
   | None \<Rightarrow> (case map_of vs (ms_VolumeID (mv_Spec m)) of
       None \<Rightarrow> Inl (Errorf ''move preparation has no volume state'')
     | Some s \<Rightarrow> (case (mt_SourceCopy (mv_Status m), mt_Preparation (mv_Status m)) of
         (Some source, Some p) \<Rightarrow>
           if vs_UID s \<noteq> ci_VolumeUID source \<or> vs_ActiveMove s \<noteq> mv_Name m \<or> vs_OwnerNode s \<noteq> ms_SourceNode (mv_Spec m) \<or>
              vs_CurrentCopy s \<noteq> Some source
           then Inl (Errorf ''move preparation does not match the active volume owner'')
           else if vs_Deleting s \<or> (vs_Phase s \<noteq> PhaseReady \<and> vs_Phase s \<noteq> PhaseMoving \<and> vs_Phase s \<noteq> PhaseBlocked) \<or>
              vs_CapacityBytes s \<noteq> mp_ReservedBytes p
           then Inl (Errorf ''move preparation does not match the volume capacity or lifecycle'')
           else Inr (pr_UID (mp_Pool p), mp_ReservedBytes p)
       | _ \<Rightarrow> Inl GoPanic)))"

definition moveReservation :: "volumes \<Rightarrow> Move \<Rightarrow> (string \<times> int) res" where
  "moveReservation vs m = (let s = mv_Status m in
     if mt_Preparation s \<noteq> None then preparationReservation vs m
     else if MoveCleanupSettled m \<or> \<not> mt_CapacityApproved s then Inr ([], 0)
     else case map_of vs (ms_VolumeID (mv_Spec m)) of
       None \<Rightarrow> Inl (Errorf ''move has no volume state'')
     | Some state \<Rightarrow> (case (vs_CurrentCopy state, mt_SourceCopy s) of
         (Some current, Some source) \<Rightarrow>
           if vs_ActiveMove state \<noteq> mv_Name m \<or> ci_PoolUID source = [] \<or> mt_DestinationPoolUID s = []
           then Inl (Errorf ''move has incomplete capacity hold identity'')
           else Inr (if ci_PoolUID current = mt_DestinationPoolUID s then ci_PoolUID source else mt_DestinationPoolUID s, vs_CapacityBytes state)
       | _ \<Rightarrow> Inl (Errorf ''move has incomplete capacity hold identity'')))"

fun moveHeldBytesForPool :: "int \<Rightarrow> volumes \<Rightarrow> Move list \<Rightarrow> string \<Rightarrow> int res" where
  "moveHeldBytesForPool acc vs [] poolUID = Inr acc"
| "moveHeldBytesForPool acc vs (m # ms) poolUID = bind_res (moveReservation vs m) (\<lambda>(held, reserved).
     if held = poolUID then bind_res (add_bytes acc reserved) (\<lambda>t. moveHeldBytesForPool t vs ms poolUID)
     else moveHeldBytesForPool acc vs ms poolUID)"

definition ReservedBytesForPool :: "volumes \<Rightarrow> Move list \<Rightarrow> string \<Rightarrow> int res" where
  "ReservedBytesForPool vs ms poolUID = (
     if poolUID = [] then Inl (Errorf ''Pool UID is required'')
     else bind_res (ownedBytesForPool 0 vs poolUID) (\<lambda>acc. moveHeldBytesForPool acc vs ms poolUID))"

section \<open>Admission\<close>

definition FitsReservation :: "int \<Rightarrow> int \<Rightarrow> int \<Rightarrow> bool" where
  "FitsReservation requested reserved limit \<longleftrightarrow> 0 < requested \<and> 0 \<le> reserved \<and> reserved < limit \<and> requested \<le> limit - reserved"

definition ExceedsTotal :: "int \<Rightarrow> int \<Rightarrow> bool" where
  "ExceedsTotal requested totalBytes \<longleftrightarrow> 0 < totalBytes \<and> requested > totalBytes"

definition LimitBytes :: "k8s_lib \<Rightarrow> Pool \<Rightarrow> int res" where
  "LimitBytes k pool = ParseLimitBytes k (pl_CapacityLimit pool)"

section \<open>Statfs\<close>

record Filesystem =
  fs_TotalBytes :: int
  fs_AvailableBytes :: int
  fs_AvailableInodes :: int

text \<open>Both factors are \<open>uint64\<close>; the product is only formed when it fits an \<open>int64\<close>.\<close>

definition fs_bytes :: "64 word \<Rightarrow> 64 word \<Rightarrow> int res" where
  "fs_bytes blocks blockSize = (
     if blockSize \<noteq> 0 \<and> blocks > (word_of_int max_int64) div blockSize then Inl (Errorf ''block count and size overflow int64'')
     else Inr (sint (blocks * blockSize)))"

definition ParseStatOutput :: "string \<Rightarrow> Filesystem res" where
  "ParseStatOutput output = (
     if length (Fields output) \<noteq> 4 then Inl (Errorf ''statfs output must contain four integers'')
     else case map_res (\<lambda>field. ParseUint field 64) (Fields output) of
       Inl e \<Rightarrow> Inl (Wrapped e ''parse statfs field'')
     | Inr values \<Rightarrow> (let value = (\<lambda>i. of_nat (values ! i) :: 64 word) in
         bind_res (fs_bytes (value 0) (value 2)) (\<lambda>totalBytes.
         bind_res (fs_bytes (value 1) (value 2)) (\<lambda>available.
         if value 3 > word_of_int max_int64 then Inl (Errorf ''available inode count overflows int64'')
         else Inr \<lparr>fs_TotalBytes = totalBytes, fs_AvailableBytes = available, fs_AvailableInodes = sint (value 3)\<rparr>))))"

section \<open>The ledger\<close>

text \<open>The bytes one volume and one Move hold of a pool, as a reference to compare the loops with.\<close>

definition volume_hold :: "string \<Rightarrow> string \<times> State \<Rightarrow> int" where
  "volume_hold poolUID v = (if ownerPoolUID (fst v) (snd v) = Inr poolUID then vs_CapacityBytes (snd v) else 0)"

definition move_hold :: "volumes \<Rightarrow> string \<Rightarrow> Move \<Rightarrow> int" where
  "move_hold vs poolUID m = (case moveReservation vs m of Inr (held, b) \<Rightarrow> if held = poolUID then b else 0 | Inl _ \<Rightarrow> 0)"

text \<open>Every entry can be attributed, and what is attributed to the pool is positive.\<close>

definition attributable :: "volumes \<Rightarrow> Move list \<Rightarrow> string \<Rightarrow> bool" where
  "attributable vs ms poolUID \<longleftrightarrow>
     (\<forall>(i, s) \<in> set vs. \<exists>owner. ownerPoolUID i s = Inr owner \<and> (owner = poolUID \<longrightarrow> 0 < vs_CapacityBytes s)) \<and>
     (\<forall>m \<in> set ms. \<exists>held b. moveReservation vs m = Inr (held, b) \<and> (held = poolUID \<longrightarrow> 0 < b))"

definition ledger :: "volumes \<Rightarrow> Move list \<Rightarrow> string \<Rightarrow> int" where
  "ledger vs ms poolUID = sum_list (map (volume_hold poolUID) vs) + sum_list (map (move_hold vs poolUID) ms)"

lemma add_bytes_Inr: "add_bytes a b = Inr c \<longleftrightarrow> 0 < b \<and> c = a + b \<and> c \<le> max_int64"
  by (auto simp: add_bytes_def)

lemma sum_list_holds_nonneg: "(\<And>x. x \<in> set xs \<Longrightarrow> 0 \<le> f x) \<Longrightarrow> 0 \<le> sum_list (map f xs :: int list)"
  by (induction xs) auto

lemma ownedBytes_Inr:
  assumes "acc \<le> max_int64"
  shows "ownedBytesForPool acc vs uid = Inr t \<longleftrightarrow>
    (\<forall>(i, s) \<in> set vs. \<exists>owner. ownerPoolUID i s = Inr owner \<and> (owner = uid \<longrightarrow> 0 < vs_CapacityBytes s)) \<and>
    t = acc + sum_list (map (volume_hold uid) vs) \<and> t \<le> max_int64"
  using assms
proof (induction acc vs uid arbitrary: t rule: ownedBytesForPool.induct)
  case (2 acc i s vs uid)
  have nonneg: "0 \<le> sum_list (map (volume_hold uid) vs)"
    if "\<forall>(i, s) \<in> set vs. \<exists>owner. ownerPoolUID i s = Inr owner \<and> (owner = uid \<longrightarrow> 0 < vs_CapacityBytes s)"
    using that by (intro sum_list_holds_nonneg) (fastforce simp: volume_hold_def)
  show ?case
  proof (cases "ownerPoolUID i s")
    case (Inr owner)
    show ?thesis
    proof (cases "owner = uid")
      case True
      show ?thesis
      proof (cases "add_bytes acc (vs_CapacityBytes s)")
        case (Inl e)
        then have "\<not> (0 < vs_CapacityBytes s \<and> acc + vs_CapacityBytes s \<le> max_int64)" by (auto simp: add_bytes_def split: if_splits)
        moreover have "volume_hold uid (i, s) = vs_CapacityBytes s" using Inr True by (simp add: volume_hold_def)
        ultimately show ?thesis using Inl Inr True nonneg by auto
      next
        case added: (Inr u)
        then have u: "0 < vs_CapacityBytes s" "u = acc + vs_CapacityBytes s" "u \<le> max_int64" by (auto simp: add_bytes_Inr)
        show ?thesis using 2(1) [OF True u(3), of t] u by (auto simp: Inr True added volume_hold_def)
      qed
    next
      case False
      show ?thesis using 2(2) [OF False 2(3), of t] False by (auto simp: Inr volume_hold_def)
    qed
  qed auto
qed auto

lemma moveHeldBytes_Inr:
  assumes "acc \<le> max_int64"
  shows "moveHeldBytesForPool acc vs ms uid = Inr t \<longleftrightarrow>
    (\<forall>m \<in> set ms. \<exists>held b. moveReservation vs m = Inr (held, b) \<and> (held = uid \<longrightarrow> 0 < b)) \<and>
    t = acc + sum_list (map (move_hold vs uid) ms) \<and> t \<le> max_int64"
  using assms
proof (induction ms arbitrary: acc t)
  case (Cons m ms)
  have nonneg: "0 \<le> sum_list (map (move_hold vs uid) ms)"
    if "\<forall>m \<in> set ms. \<exists>held b. moveReservation vs m = Inr (held, b) \<and> (held = uid \<longrightarrow> 0 < b)"
    using that by (intro sum_list_holds_nonneg) (fastforce simp: move_hold_def)
  show ?case
  proof (cases "moveReservation vs m")
    case (Inr x)
    obtain held b where x: "x = (held, b)" by (cases x)
    show ?thesis
    proof (cases "held = uid")
      case True
      show ?thesis
      proof (cases "add_bytes acc b")
        case (Inl e)
        then have "\<not> (0 < b \<and> acc + b \<le> max_int64)" by (auto simp: add_bytes_def split: if_splits)
        moreover have "move_hold vs uid m = b" using Inr x True by (simp add: move_hold_def)
        ultimately show ?thesis using Inl Inr x True nonneg by auto
      next
        case added: (Inr u)
        then have u: "0 < b" "u = acc + b" "u \<le> max_int64" by (auto simp: add_bytes_Inr)
        show ?thesis using Cons.IH [OF u(3), of t] u by (auto simp: Inr x True added move_hold_def)
      qed
    next
      case False
      show ?thesis using Cons.IH [OF Cons.prems, of t] False by (auto simp: Inr x move_hold_def)
    qed
  qed auto
qed auto

lemma reserved_ledger:
  "ReservedBytesForPool vs ms uid = Inr t \<longleftrightarrow>
    uid \<noteq> [] \<and> attributable vs ms uid \<and> t = ledger vs ms uid \<and> t \<le> max_int64"
proof -
  have nonneg: "0 \<le> sum_list (map (move_hold vs uid) ms)"
    if "\<forall>m \<in> set ms. \<exists>held b. moveReservation vs m = Inr (held, b) \<and> (held = uid \<longrightarrow> 0 < b)"
    using that by (intro sum_list_holds_nonneg) (fastforce simp: move_hold_def)
  have "ReservedBytesForPool vs ms uid = Inr t \<longleftrightarrow> uid \<noteq> [] \<and>
      (\<exists>u. ownedBytesForPool 0 vs uid = Inr u \<and> moveHeldBytesForPool u vs ms uid = Inr t)"
    by (auto simp: ReservedBytesForPool_def bind_res_Inr)
  also have "\<dots> \<longleftrightarrow> uid \<noteq> [] \<and> attributable vs ms uid \<and> t = ledger vs ms uid \<and> t \<le> max_int64"
    using nonneg by (auto simp: ownedBytes_Inr max_int64_def moveHeldBytes_Inr attributable_def ledger_def)
  finally show ?thesis .
qed

section \<open>Changes of the ledger\<close>

lemma owner_initial: "HasInitialReservation s \<Longrightarrow> ownerPoolUID i s = Inr (case vs_InitialPool s of Some p \<Rightarrow> pr_UID p | None \<Rightarrow> [])"
  by (simp add: ownerPoolUID_def)

lemma owner_serving:
  assumes "vs_Phase s \<noteq> []" and "vs_CurrentCopy s = Some c" and "ci_NodeName c = vs_OwnerNode s" and "ci_NodeName c \<noteq> []"
    and "ci_PoolUID c \<noteq> []"
  shows "ownerPoolUID i s = (if vs_CapacityBytes s \<le> 0 then Inl (Errorf ''volume has incomplete capacity owner identity'') else Inr (ci_PoolUID c))"
  using assms by (auto simp: ownerPoolUID_def HasInitialReservation_def UnstartedCreation_def split: option.splits)

text \<open>A volume that no Move names changes no Move's reservation.\<close>

lemma reservation_lookup:
  assumes "map_of vs' (ms_VolumeID (mv_Spec m)) = map_of vs (ms_VolumeID (mv_Spec m))"
  shows "moveReservation vs' m = moveReservation vs m"
  unfolding moveReservation_def preparationReservation_def assms ..

lemma reservation_missing:
  assumes "moveReservation vs m = Inr x" and "map_of vs (ms_VolumeID (mv_Spec m)) = None"
  shows "moveReservation vs' m = Inr x"
proof (cases "mt_Preparation (mv_Status m)")
  case None
  then show ?thesis using assms by (auto simp: moveReservation_def Let_def split: if_splits)
next
  case (Some p)
  then show ?thesis using assms by (simp add: moveReservation_def preparationReservation_def Let_def split: option.splits)
qed

lemma reservation_new_volume:
  assumes "moveReservation vs m = Inr x" and "map_of vs i = None"
  shows "moveReservation ((i, s) # vs) m = Inr x"
proof (cases "ms_VolumeID (mv_Spec m) = i")
  case True
  then show ?thesis using reservation_missing [OF assms(1)] assms(2) by simp
next
  case False
  then show ?thesis using reservation_lookup [of "(i, s) # vs" m vs] assms(1) by simp
qed

lemma holds_new_volume:
  assumes "\<forall>m \<in> set ms. \<exists>x. moveReservation vs m = Inr x" and "map_of vs i = None"
  shows "map (move_hold ((i, s) # vs) uid) ms = map (move_hold vs uid) ms"
  using assms reservation_new_volume [of vs _ _ i s] by (fastforce simp: move_hold_def)

lemma reserved_new_volume:
  assumes "ReservedBytesForPool vs ms uid = Inr t" and "map_of vs i = None" and "ownerPoolUID i s = Inr uid"
    and "0 < vs_CapacityBytes s" and "t + vs_CapacityBytes s \<le> max_int64"
  shows "ReservedBytesForPool ((i, s) # vs) ms uid = Inr (t + vs_CapacityBytes s)"
proof -
  from assms(1) have r: "uid \<noteq> []" "attributable vs ms uid" "t = ledger vs ms uid" by (simp_all add: reserved_ledger)
  have m: "\<forall>m \<in> set ms. \<exists>x. moveReservation vs m = Inr x" using r(2) by (auto simp: attributable_def)
  have "attributable ((i, s) # vs) ms uid"
    using r(2) assms(2-4) reservation_new_volume [of vs _ _ i s] by (fastforce simp: attributable_def)
  moreover have "ledger ((i, s) # vs) ms uid = t + vs_CapacityBytes s"
    unfolding ledger_def holds_new_volume [OF m assms(2)] using assms(3) r(3) by (simp add: ledger_def volume_hold_def)
  ultimately show ?thesis using r(1) assms(5) by (simp add: reserved_ledger)
qed

text \<open>The order in which Go visits the map does not matter.\<close>

lemma reserved_order:
  assumes "mset vs = mset vs'" and "distinct (map fst vs)"
  shows "ReservedBytesForPool vs ms uid = Inr t \<longleftrightarrow> ReservedBytesForPool vs' ms uid = Inr t"
proof -
  have "mset (map fst vs) = mset (map fst vs')" using assms(1) by simp
  then have "distinct (map fst vs')" using assms(2) by (rule mset_eq_imp_distinct_iff [THEN iffD1])
  moreover have sets: "set vs = set vs'" using assms(1) by (rule mset_eq_setD)
  ultimately have "map_of vs = map_of vs'" using assms(2) by (simp add: map_of_inject_set)
  then have "moveReservation vs = moveReservation vs'"
    using reservation_lookup [of vs _ vs'] by (intro ext) simp
  moreover from this have "move_hold vs = move_hold vs'" by (intro ext) (simp add: move_hold_def)
  moreover have "sum_list (map (volume_hold uid) vs) = sum_list (map (volume_hold uid) vs')"
    unfolding sum_mset_sum_list [symmetric] mset_map assms(1) ..
  ultimately show ?thesis using sets by (simp add: reserved_ledger attributable_def ledger_def)
qed

text \<open>Approval turns the reservation of a preparation into the hold of the execution.\<close>

lemma approval_keeps_reservation:
  assumes "accepted m new" and "mt_Preparation (mv_Status m) = Some p" and "mt_CapacityApproved new" and "moveReservation vs m = Inr x"
  shows "moveReservation vs (m\<lparr>mv_Status := new\<rparr>) = Inr x"
proof -
  have new: "mt_Preparation new = None" using accepted_rules(5) [OF assms(1,3)] .
  from accepted_rules(7) [OF assms(1)] assms(2,3) new
  have v: "ValidateMovePreparation m = None" and d: "mt_DestinationPoolUID new = pr_UID (mp_Pool p)"
    by (auto simp: preservePreparation_def Let_def split: option.splits if_splits)
  note e = preparation_exclusive [OF v assms(2)]
  from e(4) obtain source where source: "mt_SourceCopy (mv_Status m) = Some source" "ValidateCopy source = None"
    by (auto simp: validatePreparedPlan_def Let_def split: if_splits option.splits)
  have s: "mt_SourceCopy new = Some source" using identity_kept(1) [OF accepted_rules(2) [OF assms(1)] source(1)] .
  have "mt_CleanupPhase new = []" using assms(1) e(3) by (simp add: accepted_def hasMoveDestinationIntent_def)
  then have u: "\<not> MoveCleanupSettled (m\<lparr>mv_Status := new\<rparr>)" using assms(3) by (auto simp: MoveCleanupSettled_def Let_def)
  have n: "ci_PoolUID source \<noteq> []" "pr_UID (mp_Pool p) \<noteq> []" "ci_PoolUID source \<noteq> pr_UID (mp_Pool p)"
    using source e(2,5) preparation_names by (auto simp: ValidateCopy_def ValidIdentityToken_def first_error_None split: if_splits)
  from assms(4) v source(1) assms(2) obtain st where st: "map_of vs (ms_VolumeID (mv_Spec m)) = Some st" "vs_ActiveMove st = mv_Name m"
      "vs_CurrentCopy st = Some source" "vs_CapacityBytes st = mp_ReservedBytes p" "x = (pr_UID (mp_Pool p), mp_ReservedBytes p)"
    by (auto simp: moveReservation_def preparationReservation_def Let_def split: option.splits if_splits)
  show ?thesis using new u assms(3) st s d n by (simp add: moveReservation_def Let_def)
qed

end
