(* ===== verification/Move_History.thy ===== *)
theory Move_History
  imports Pool_Capacity
begin

text \<open>
  Settled Move records (\<open>src/mobility/history/classify.go\<close>), and what settled history means for
  the capacity ledger.
\<close>

section \<open>Settled history\<close>

definition hasDestinationIntent :: "Move \<Rightarrow> bool" where
  "hasDestinationIntent m \<longleftrightarrow> (let s = mv_Status m in mt_IncomingCopy s \<noteq> None \<or> mt_DestinationCopy s \<noteq> None \<or> mt_CopyJobName s \<noteq> [] \<or>
     mt_PromotionJobName s \<noteq> [] \<or> mt_CopyOperationID s \<noteq> [] \<or> mt_PromotionOperationID s \<noteq> [])"

definition validateCancelled :: "Move \<Rightarrow> Cleanup option \<Rightarrow> error option" where
  "validateCancelled m j = (let s = mv_Status m in
     if ms_ProtocolVersion (mv_Spec m) \<noteq> MoveProtocolPreparedV1 \<or> mt_CapacityApproved s \<or> hasDestinationIntent m \<or> j \<noteq> None \<or>
        mt_CleanupPhase s \<noteq> [] \<or> mt_RollbackRequiredGeneration s \<noteq> 0 \<or> mt_RecoveryPhase s \<noteq> [] \<or> mt_RecoveryOwner s \<noteq> []
     then Some (Errorf ''cancelled Move retains execution or cleanup intent'')
     else if mt_SourceCopy s \<noteq> None then ValidatePreparedMovePlan m
     else None)"

definition validateSource :: "Move \<Rightarrow> error option" where
  "validateSource m = (case mt_SourceCopy (mv_Status m) of
     None \<Rightarrow> Some (Errorf ''Move history lacks its exact source copy'')
   | Some c \<Rightarrow> require_that (ValidateCopy c = None \<and> ci_Role c = RoleServing \<and> ci_VolumeID c = ms_VolumeID (mv_Spec m) \<and>
       ci_NodeName c = ms_SourceNode (mv_Spec m)) (Errorf ''Move history lacks its exact source copy''))"

text \<open>The conditions are read in the order of the code: a missing source copy is dereferenced only by the last.\<close>

definition validateTransaction :: "Move \<Rightarrow> error option" where
  "validateTransaction m = (let s = mv_Status m in
     case mt_IncomingCopy s of
       None \<Rightarrow> Some (Errorf ''Move history lacks its exact destination transaction'')
     | Some incoming \<Rightarrow>
         if mt_SourceBytes s \<le> 0 \<or> mt_DestinationNode s = ms_SourceNode (mv_Spec m)
         then Some (Errorf ''Move history lacks its exact destination transaction'')
         else (case mt_SourceCopy s of
             None \<Rightarrow> Some GoPanic
           | Some source \<Rightarrow>
               if mt_DestinationPoolUID s = ci_PoolUID source
               then Some (Errorf ''Move history lacks its exact destination transaction'')
               else ValidateMoveTransactionIdentities m \<lparr>da_InstallationID = ci_InstallationID source,
                 da_PoolName = ci_PoolName incoming, da_PoolUID = mt_DestinationPoolUID s,
                 da_NodeName = mt_DestinationNode s, da_VolumeUID = ci_VolumeUID source\<rparr>))"

definition validateJournal :: "Move \<Rightarrow> Cleanup option \<Rightarrow> string \<Rightarrow> CopyIdentity \<Rightarrow> error option" where
  "validateJournal m j reason target = (case j of
     None \<Rightarrow> Some (Errorf ''Move history lacks a completed cleanup journal'')
   | Some c \<Rightarrow>
       if mt_CleanupPhase (mv_Status m) \<noteq> PhaseCompleted then Some (Errorf ''Move history lacks a completed cleanup journal'')
       else if cl_UID c \<noteq> mv_UID m \<or> cl_Spec c \<noteq> \<lparr>sp_OperationID = (if reason = ''MoveRollback'' then MoveRollbackOperationID (mv_UID m)
           else MoveCleanupOperationID (mv_UID m)), sp_Target = target, sp_Reason = reason,
           sp_Authority = \<lparr>au_Kind = KindMove, au_Name = mv_Name m, au_UID = mv_UID m\<rparr>\<rparr>
       then Some (Errorf ''cleanup journal does not match the exact Move transaction'')
       else ValidateSettled c)"

definition preparedRollbackWithoutCleanup :: "Move \<Rightarrow> Cleanup option \<Rightarrow> bool" where
  "preparedRollbackWithoutCleanup m j \<longleftrightarrow> ms_ProtocolVersion (mv_Spec m) = MoveProtocolPreparedV1 \<and> j = None \<and>
     mt_CleanupPhase (mv_Status m) = [] \<and> 0 < mt_RollbackRequiredGeneration (mv_Status m)"

definition validate_rollback :: "Move \<Rightarrow> Cleanup option \<Rightarrow> error option" where
  "validate_rollback m j = (let s = mv_Status m in
     if preparedRollbackWithoutCleanup m j then None
     else case j of
       None \<Rightarrow> Some (Errorf ''recovered Move lacks recorded rollback completion evidence'')
     | Some c \<Rightarrow>
         if mt_RollbackRequiredGeneration s \<le> 0 then Some (Errorf ''recovered Move lacks recorded rollback completion evidence'')
         else if mt_IncomingCopy s = None \<or> Some (sp_Target (cl_Spec c)) \<noteq> mt_IncomingCopy s \<and> mt_DestinationCopy s = None
         then Some GoPanic
         else if Some (sp_Target (cl_Spec c)) \<noteq> mt_IncomingCopy s \<and> Some (sp_Target (cl_Spec c)) \<noteq> mt_DestinationCopy s
         then Some (Errorf ''rollback cleanup targets another transaction copy'')
         else (case validateJournal m j ''MoveRollback'' (sp_Target (cl_Spec c)) of
             Some e \<Rightarrow> Some e
           | None \<Rightarrow> (case st_AbsenceProof (cl_Status c) of
               None \<Rightarrow> Some GoPanic
             | Some proof \<Rightarrow> require_that (\<not> ap_RequiredGeneration proof < mt_RollbackRequiredGeneration s)
                 (Errorf ''rollback cleanup proof predates the rollback fence''))))"

definition validateRecoveryArtifacts :: "Move \<Rightarrow> Cleanup option \<Rightarrow> error option" where
  "validateRecoveryArtifacts m j = (let s = mv_Status m in
     if mt_CapacityApproved s \<or> mt_CapacityReason s \<noteq> ''RecoverySettled'' then Some (Errorf ''Move capacity settlement is incomplete'')
     else case (if mt_SettlementRequested s then validateTransaction m else None) of
       Some e \<Rightarrow> Some e
     | None \<Rightarrow>
         if mt_RecoveryOwner s = ms_SourceNode (mv_Spec m) \<and> \<not> hasDestinationIntent m then
           require_that (\<not> (j \<noteq> None \<or> mt_CleanupPhase s \<noteq> [] \<or> mt_RollbackRequiredGeneration s \<noteq> 0))
             (Errorf ''recovered Move needs independent rollback absence evidence'')
         else (case validateTransaction m of
             Some e \<Rightarrow> Some e
           | None \<Rightarrow>
               if mt_RecoveryOwner s = mt_DestinationNode s
               then (case mt_SourceCopy s of None \<Rightarrow> Some GoPanic | Some source \<Rightarrow> validateJournal m j ''MoveSource'' source)
               else if mt_RecoveryOwner s = ms_SourceNode (mv_Spec m) then validate_rollback m j
               else Some (Errorf ''Move recovery owner is neither transaction endpoint'')))"

definition validateRecovered :: "Move \<Rightarrow> Cleanup option \<Rightarrow> error option" where
  "validateRecovered m j = (
     if ms_Recovery (mv_Spec m) \<noteq> ''ResumeOwner'' \<and> \<not> mt_SettlementRequested (mv_Status m) \<or> mt_RecoveryPhase (mv_Status m) \<noteq> ''Recovered''
     then Some (Errorf ''Move recovery or capacity settlement is incomplete'')
     else validateRecoveryArtifacts m j)"

definition ValidateSettlementCompletion :: "Move \<Rightarrow> Cleanup option \<Rightarrow> error option" where
  "ValidateSettlementCompletion m j = (let s = mv_Status m in
     if \<not> mt_SettlementRequested s \<or> mt_Phase s \<noteq> ''Blocked'' \<or> mt_RecoveryPhase s \<noteq> ''Completing'' \<or> mt_Preparation s \<noteq> None
     then Some (Errorf ''Move is not completing workload retirement'')
     else first_error [ValidatePreparedMovePlan m, validateRecoveryArtifacts m j])"

definition ValidateSettledMove :: "Move \<Rightarrow> State option \<Rightarrow> Cleanup option \<Rightarrow> error option" where
  "ValidateSettledMove m current j = (let s = mv_Status m in
     if \<not> ValidObjectName (mv_Name m) \<or> \<not> ValidIdentityToken (mv_UID m) \<or> ValidateID (ms_VolumeID (mv_Spec m)) \<noteq> None \<or>
        \<not> ValidObjectName (ms_SourceNode (mv_Spec m)) then Some (Errorf ''Move history identity is incomplete'')
     else if ms_ProtocolVersion (mv_Spec m) \<noteq> [] \<and> ms_ProtocolVersion (mv_Spec m) \<noteq> MoveProtocolPreparedV1
     then Some (Errorf ''Move history protocol is unsupported'')
     else if mt_SettlementRequested s \<and> ms_ProtocolVersion (mv_Spec m) \<noteq> MoveProtocolPreparedV1
     then Some (Errorf ''workload retirement requires prepared Move history'')
     else if mt_Preparation s \<noteq> None \<or> (case current of None \<Rightarrow> False | Some v \<Rightarrow> vs_ActiveMove v = mv_Name m)
     then Some (Errorf ''Move still owns a preparation reservation or Volume reference'')
     else if mt_Phase s = ''Cancelled'' then validateCancelled m j
     else case validateSource m of
       Some e \<Rightarrow> Some e
     | None \<Rightarrow> (case (if ms_ProtocolVersion (mv_Spec m) = MoveProtocolPreparedV1 then ValidatePreparedMovePlan m else None) of
         Some e \<Rightarrow> Some e
       | None \<Rightarrow>
           if mt_Phase s = ''Succeeded'' then (case validateTransaction m of
               Some e \<Rightarrow> Some e
             | None \<Rightarrow> (case mt_SourceCopy s of None \<Rightarrow> Some GoPanic | Some source \<Rightarrow> validateJournal m j ''MoveSource'' source))
           else if mt_Phase s = ''Blocked'' then validateRecovered m j
           else Some (Errorf ''Move phase is not settled history'')))"

section \<open>Settled history holds nothing\<close>

lemma validateJournal_None:
  "validateJournal m j reason target = None \<Longrightarrow> \<exists>c. j = Some c \<and> mt_CleanupPhase (mv_Status m) = PhaseCompleted \<and>
     cl_UID c = mv_UID m \<and> sp_Target (cl_Spec c) = target \<and> sp_Reason (cl_Spec c) = reason \<and> ValidateSettled c = None"
  by (auto simp: validateJournal_def split: option.splits if_splits)

lemma prepared_plan: "ValidatePreparedMovePlan m = None \<longleftrightarrow> ms_ProtocolVersion (mv_Spec m) = MoveProtocolPreparedV1 \<and> validatePreparedPlan m = None"
  by (simp add: ValidatePreparedMovePlan_def)

lemma cancelled_settled:
  assumes "validateCancelled m j = None" and "mt_Preparation (mv_Status m) = None" and "mt_Phase (mv_Status m) = ''Cancelled''"
  shows "MoveCleanupSettled m"
  using assms by (auto simp: validateCancelled_def hasDestinationIntent_def MoveCleanupSettled_def hasMoveDestinationIntent_def Let_def
    split: if_splits)

lemma recovered_settled:
  assumes "validateRecovered m j = None"
  shows "mt_RecoveryPhase (mv_Status m) = ''Recovered''" "\<not> mt_CapacityApproved (mv_Status m)"
    "mt_CapacityReason (mv_Status m) = ''RecoverySettled''"
  using assms by (auto simp: validateRecovered_def validateRecoveryArtifacts_def Let_def split: if_splits)

lemma settled_cleanup:
  assumes "ValidateSettledMove m current j = None"
  shows "MoveCleanupSettled m" "mt_Preparation (mv_Status m) = None"
proof -
  from assms show p: "mt_Preparation (mv_Status m) = None" by (simp add: ValidateSettledMove_def Let_def split: if_splits)
  from assms have proto: "ms_ProtocolVersion (mv_Spec m) = [] \<or> ms_ProtocolVersion (mv_Spec m) = MoveProtocolPreparedV1"
    by (auto simp: ValidateSettledMove_def Let_def split: if_splits)
  show "MoveCleanupSettled m"
  proof (cases "mt_Phase (mv_Status m) = ''Cancelled''")
    case True
    then have "validateCancelled m j = None" using assms by (simp add: ValidateSettledMove_def Let_def split: if_splits)
    from cancelled_settled [OF this p True] show ?thesis .
  next
    case False
    with assms have plan: "ms_ProtocolVersion (mv_Spec m) = MoveProtocolPreparedV1 \<Longrightarrow> validatePreparedPlan m = None"
      by (simp add: ValidateSettledMove_def prepared_plan Let_def split: if_splits option.splits)
    from assms False consider source where "mt_Phase (mv_Status m) = ''Succeeded''" "validateJournal m j ''MoveSource'' source = None"
      | "mt_Phase (mv_Status m) = ''Blocked''" "validateRecovered m j = None"
      by (auto simp: ValidateSettledMove_def Let_def split: if_splits option.splits)
    then show ?thesis
    proof cases
      case 1
      then have "mt_CleanupPhase (mv_Status m) = PhaseCompleted" using validateJournal_None by blast
      then show ?thesis using 1(1) p proto plan by (auto simp: MoveCleanupSettled_def Let_def)
    next
      case 2
      then show ?thesis using recovered_settled p proto plan by (auto simp: MoveCleanupSettled_def Let_def)
    qed
  qed
qed

lemma settled_reservation: "ValidateSettledMove m current j = None \<Longrightarrow> moveReservation vs m = Inr ([], 0)"
  using settled_cleanup by (simp add: moveReservation_def Let_def)

lemma moveHeld_append: "moveHeldBytesForPool acc vs (xs @ ys) uid =
  bind_res (moveHeldBytesForPool acc vs xs uid) (\<lambda>t. moveHeldBytesForPool t vs ys uid)"
  by (induction xs arbitrary: acc) (auto simp: bind_res_def split: sum.splits prod.splits)

lemma settled_dropped:
  assumes "ValidateSettledMove m current j = None"
  shows "ReservedBytesForPool vs (xs @ m # ys) uid = ReservedBytesForPool vs (xs @ ys) uid"
proof (cases "uid = []")
  case False
  then have "moveHeldBytesForPool acc vs (m # ys) uid = moveHeldBytesForPool acc vs ys uid" for acc
    by (simp add: settled_reservation [OF assms])
  then show ?thesis unfolding ReservedBytesForPool_def moveHeld_append by simp
qed (simp add: ReservedBytesForPool_def)

end
