(* ===== verification/Owner_Handoff.thy ===== *)
theory Owner_Handoff
  imports Move_History Volume_Lifecycle
begin

text \<open>
  The hand-over of a volume to its destination (\<open>src/mobility/controller/actions.go\<close>): the names
  and copies of a transaction, the placement that must still hold, the owner commit, and the
  block of a volume whose Move has stopped.
\<close>

section \<open>Names and copies of a transaction\<close>

record resourceNames =
  rn_Base :: string
  rn_PlacementPod :: string
  rn_Secret :: string
  rn_Config :: string
  rn_SourcePod :: string
  rn_SourceService :: string
  rn_CopyJob :: string
  rn_PromotionJob :: string

definition namesFor :: "string \<Rightarrow> resourceNames" where
  "namesFor moveName = (let base = ''shiftpv-move-'' @ EncodeToString (take 6 (Sum256 (string_bytes moveName))) in
     \<lparr>rn_Base = base, rn_PlacementPod = base @ ''-placement'', rn_Secret = base @ ''-auth'', rn_Config = base @ ''-config'',
      rn_SourcePod = base @ ''-source'', rn_SourceService = base @ ''-source'', rn_CopyJob = base @ ''-copy'',
      rn_PromotionJob = base @ ''-promote''\<rparr>)"

definition changed_from :: "string \<Rightarrow> string \<Rightarrow> bool" where
  "changed_from expected recorded \<longleftrightarrow> recorded \<noteq> [] \<and> recorded \<noteq> expected"

definition prepareMoveCopyIdentitiesForPool :: "Move \<Rightarrow> Pool \<Rightarrow> Move res" where
  "prepareMoveCopyIdentitiesForPool m pool = (let s = mv_Status m in
     case mt_SourceCopy s of
       None \<Rightarrow> Inl (Errorf ''move source identity is missing'')
     | Some source \<Rightarrow>
         if \<not> ValidIdentityToken (mv_UID m) \<or> ValidateCopy source \<noteq> None then Inl (Errorf ''move source identity is missing'')
         else if pl_Name pool = [] \<or> pl_UID pool = [] \<or> pl_UID pool \<noteq> mt_DestinationPoolUID s \<or> pl_NodeName pool \<noteq> mt_DestinationNode s
         then Inl (Errorf ''destination Pool identity changed or is missing'')
         else let (incoming, destination) = MoveTransactionCopies (mv_UID m) (ms_VolumeID (mv_Spec m))
             \<lparr>da_InstallationID = ci_InstallationID source, da_PoolName = pl_Name pool, da_PoolUID = pl_UID pool,
              da_NodeName = mt_DestinationNode s, da_VolumeUID = ci_VolumeUID source\<rparr>;
             copyJob = rn_CopyJob (namesFor (mv_Name m)) in
           if ValidateCopy incoming \<noteq> None \<or> ValidateCopy destination \<noteq> None then Inl (Errorf ''generated move copy identity is invalid'')
           else if mt_IncomingCopy s \<noteq> None \<and> mt_IncomingCopy s \<noteq> Some incoming \<or>
             mt_DestinationCopy s \<noteq> None \<and> mt_DestinationCopy s \<noteq> Some destination then Inl (Errorf ''move copy identity changed'')
           else if changed_from copyJob (mt_CopyJobName s) \<or> changed_from (MoveCopyOperationID (mv_UID m)) (mt_CopyOperationID s) \<or>
             changed_from (MovePromotionOperationID (mv_UID m)) (mt_PromotionOperationID s) then Inl (Errorf ''move operation identity changed'')
           else Inr (m\<lparr>mv_Status := s\<lparr>mt_IncomingCopy := Some incoming, mt_DestinationCopy := Some destination, mt_CopyJobName := copyJob,
             mt_CopyOperationID := MoveCopyOperationID (mv_UID m), mt_PromotionOperationID := MovePromotionOperationID (mv_UID m)\<rparr>\<rparr>))"

section \<open>Placement\<close>

text \<open>What the code reads of a Pod; \<open>po_Controller\<close> is what \<open>metav1.GetControllerOf\<close> finds.\<close>

record owner_reference =
  or_APIVersion :: string
  or_Kind :: string
  or_Name :: string
  or_UID :: string

record placement_pod =
  po_UID :: string
  po_Labels :: "(string \<times> string) list"
  po_Controller :: "owner_reference option"
  po_Deleting :: bool
  po_NodeName :: string

definition validatePlacementOwner :: "placement_pod \<Rightarrow> Move \<Rightarrow> resourceNames \<Rightarrow> error option" where
  "validatePlacementOwner pod m names = (let label = (\<lambda>key. case map_of (po_Labels pod) key of Some v \<Rightarrow> v | None \<Rightarrow> []) in
     if label ''shiftpv.io/move'' \<noteq> rn_Base names \<or> label ''shiftpv.io/role'' \<noteq> ''placement''
     then Some (Errorf ''placement reservation Pod labels do not match move'')
     else require_that (po_Controller pod = Some \<lparr>or_APIVersion = ''shiftpv.io/v1alpha1'', or_Kind = KindMove, or_Name = mv_Name m,
       or_UID = mv_UID m\<rparr> \<and> mv_UID m \<noteq> []) (Errorf ''placement reservation Pod is not owned by move''))"

definition validatePlacementIdentity :: "placement_pod \<Rightarrow> Move \<Rightarrow> resourceNames \<Rightarrow> error option" where
  "validatePlacementIdentity pod m names = first_error [
     validatePlacementOwner pod m names,
     require_that (\<not> (\<not> mt_CapacityApproved (mv_Status m) \<and> changed_from (po_UID pod) (mt_PlacementPodUID (mv_Status m))))
       (Errorf ''placement reservation Pod UID changed'')]"

definition requireScheduledPlacement :: "('w \<Rightarrow> string \<Rightarrow> placement_pod res) \<Rightarrow> Move \<Rightarrow> 'w \<Rightarrow> error option" where
  "requireScheduledPlacement getPod m w = (let names = namesFor (mv_Name m) in
     case getPod w (rn_PlacementPod names) of
       Inl e \<Rightarrow> Some (Wrapped e ''read placement reservation before owner commit'')
     | Inr pod \<Rightarrow> first_error [
         validatePlacementIdentity pod m names,
         require_that (\<not> (po_Deleting pod \<or> po_NodeName pod = [] \<or> po_NodeName pod \<noteq> mt_DestinationNode (mv_Status m)))
           (Errorf ''placement reservation is not active on destination'')])"

section \<open>The owner commit\<close>

definition ownerCommitPoolUID :: "Move \<Rightarrow> State \<Rightarrow> string \<Rightarrow> string res" where
  "ownerCommitPoolUID m s destination = (case mt_SourceCopy (mv_Status m) of
     None \<Rightarrow> Inl (Errorf ''source serving-copy identity does not match owner handoff'')
   | Some source \<Rightarrow>
       if ValidateCopy source \<noteq> None \<or> ci_Role source \<noteq> RoleServing \<or> ci_VolumeID source \<noteq> ms_VolumeID (mv_Spec m) \<or>
          ci_VolumeUID source \<noteq> vs_UID s \<or> ci_NodeName source \<noteq> ms_SourceNode (mv_Spec m) \<or> vs_CurrentCopy s \<noteq> Some source
       then Inl (Errorf ''source serving-copy identity does not match owner handoff'')
       else case mt_DestinationCopy (mv_Status m) of
         None \<Rightarrow> Inl (Errorf ''destination serving-copy identity does not match owner handoff'')
       | Some target \<Rightarrow>
           if ValidateCopy target \<noteq> None \<or> ci_Role target \<noteq> RoleServing \<or> ci_NodeName target \<noteq> destination \<or>
              ci_VolumeID target \<noteq> ms_VolumeID (mv_Spec m) \<or> ci_VolumeUID target \<noteq> ci_VolumeUID source \<or>
              ci_InstallationID target \<noteq> ci_InstallationID source \<or> ci_PoolUID target \<noteq> mt_DestinationPoolUID (mv_Status m) \<or>
              ci_PoolUID target = ci_PoolUID source
           then Inl (Errorf ''destination serving-copy identity does not match owner handoff'')
           else Inr (ci_PoolUID target))"

text \<open>The fields the source leaves out of the new state are zero.\<close>

definition handoff_state :: "Move \<Rightarrow> State \<Rightarrow> string \<Rightarrow> CopyIdentity \<Rightarrow> State" where
  "handoff_state m s destination c = \<lparr>vs_UID = vs_UID s, vs_Finalizers = [], vs_RequestName = [], vs_CapacityBytes = 0,
     vs_InitialNode = [], vs_InitialPool = None, vs_CreationClaim = None, vs_HasCleanup = False, vs_Deleting = False,
     vs_Phase = PhaseReady, vs_OwnerNode = destination, vs_ActiveMove = mv_Name m, vs_PublishedNodes = vs_PublishedNodes s,
     vs_CreationOperationID = [], vs_DeletionOperationID = [], vs_CurrentCopy = Some c, vs_CreationExecutor = None,
     vs_CreationReceipt = None\<rparr>"

definition confirmCommittedCopy :: "Move \<Rightarrow> State \<Rightarrow> error option" where
  "confirmCommittedCopy m s = require_that (mt_DestinationCopy (mv_Status m) \<noteq> None \<and> vs_CurrentCopy s = mt_DestinationCopy (mv_Status m))
     (Errorf ''committed owner has a different serving-copy identity'')"

definition confirmCommitConflict :: "k8s_lib \<Rightarrow> 'w volume_registry \<Rightarrow> Move \<Rightarrow> string \<Rightarrow> CopyIdentity \<Rightarrow> error \<Rightarrow> 'w \<Rightarrow> error option" where
  "confirmCommitConflict k r m destination c conflict w = (case GetVolume k r (ms_VolumeID (mv_Spec m)) w of
     Inl e \<Rightarrow> Some e
   | Inr current \<Rightarrow> require_that (vs_Phase current = PhaseReady \<and> vs_OwnerNode current = destination \<and>
       vs_ActiveMove current = mv_Name m \<and> vs_CurrentCopy current = Some c) conflict)"

text \<open>
  \<open>tryLock\<close> is \<open>PoolLocks\<close>: whether the lock of a pool is free. \<open>committed\<close> is the observation
  \<open>OwnerCommitted\<close> and \<open>s\<close> the observed volume.
\<close>

definition commitOwner :: "k8s_lib \<Rightarrow> 'w volume_registry \<Rightarrow> (string \<Rightarrow> bool) option \<Rightarrow> ('w \<Rightarrow> string \<Rightarrow> placement_pod res) \<Rightarrow>
    Move \<Rightarrow> State \<Rightarrow> bool \<Rightarrow> 'w closure" where
  "commitOwner k r tryLock getPod m s committed w = (let destination = mt_DestinationNode (mv_Status m) in
     if destination = [] then (Some (Errorf ''destination node is empty''), w)
     else if committed then (confirmCommittedCopy m s, w)
     else case tryLock of
       None \<Rightarrow> (Some (Errorf ''Pool capacity locker is required for owner handoff''), w)
     | Some acquired \<Rightarrow> (case ownerCommitPoolUID m s destination of
         Inl e \<Rightarrow> (Some e, w)
       | Inr poolUID \<Rightarrow> (case requireScheduledPlacement getPod m w of
           Some e \<Rightarrow> (Some e, w)
         | None \<Rightarrow> (case mt_DestinationCopy (mv_Status m) of
             None \<Rightarrow> (Some GoPanic, w)
           | Some c \<Rightarrow>
               if \<not> acquired poolUID then (Some (Errorf ''Pool capacity lock is busy''), w)
               else (case CompareAndSetState k r (ms_VolumeID (mv_Spec m)) PhaseMoving (mv_Name m) (ms_SourceNode (mv_Spec m))
                   (handoff_state m s destination c) w of
                 (None, w') \<Rightarrow> (None, w')
               | (Some e, w') \<Rightarrow> if \<not> errors_is e ErrStateConflict then (Some e, w')
                   else (confirmCommitConflict k r m destination c e w', w'))))))"

section \<open>Destination authority\<close>

definition validDestinationAuthorityIntent :: "Move \<Rightarrow> bool" where
  "validDestinationAuthorityIntent m \<longleftrightarrow> (let s = mv_Status m in mv_Name m \<noteq> [] \<and> (case mt_DestinationCopy s of
     None \<Rightarrow> False
   | Some c \<Rightarrow> ValidateCopy c = None \<and> ci_Role c = RoleServing \<and> mt_DestinationNode s \<noteq> [] \<and>
       mt_DestinationNode s \<noteq> ms_SourceNode (mv_Spec m) \<and> mt_DestinationPoolUID s \<noteq> [] \<and> ci_PoolUID c = mt_DestinationPoolUID s \<and>
       ci_VolumeID c = ms_VolumeID (mv_Spec m) \<and> ci_NodeName c = mt_DestinationNode s))"

definition matchesCommittedDestinationIdentity :: "Move \<Rightarrow> State \<Rightarrow> bool \<Rightarrow> bool" where
  "matchesCommittedDestinationIdentity m s allowReleased \<longleftrightarrow> validDestinationAuthorityIntent m \<and>
     Some (vs_UID s) = map_option ci_VolumeUID (mt_DestinationCopy (mv_Status m)) \<and> vs_OwnerNode s = mt_DestinationNode (mv_Status m) \<and>
     vs_CurrentCopy s \<noteq> None \<and> vs_CurrentCopy s = mt_DestinationCopy (mv_Status m) \<and>
     (vs_ActiveMove s = mv_Name m \<or> allowReleased \<and> vs_ActiveMove s = [])"

definition hasCommittedDestinationAuthority :: "Move \<Rightarrow> State \<Rightarrow> bool \<Rightarrow> bool" where
  "hasCommittedDestinationAuthority m s allowReleased \<longleftrightarrow> vs_Phase s = PhaseReady \<and> matchesCommittedDestinationIdentity m s allowReleased"

definition completionAllowed :: "Move \<Rightarrow> State \<Rightarrow> bool \<Rightarrow> bool" where
  "completionAllowed m s missing \<longleftrightarrow> mt_Phase (mv_Status m) = ''Completing'' \<and> validDestinationAuthorityIntent m \<and>
     (missing \<or> hasCommittedDestinationAuthority m s True)"

text \<open>The message \<open>markBlocked\<close> leaves on the Move comes first in the result.\<close>

definition markBlocked :: "k8s_lib \<Rightarrow> 'w volume_registry \<Rightarrow> Move \<Rightarrow> State \<Rightarrow> 'w \<Rightarrow> Move \<times> error option \<times> 'w" where
  "markBlocked k r m s w = (m\<lparr>mv_Status := (mv_Status m)\<lparr>mt_Message := ''mobility stopped without automatic rollback''\<rparr>\<rparr>,
     if vs_Phase s = PhaseBlocked \<and> vs_ActiveMove s = mv_Name m then (None, w)
     else if vs_Phase s = PhaseReady \<and> vs_ActiveMove s = [] \<and> mt_Phase (mv_Status m) = ''Pending'' then (None, w)
     else if (vs_Phase s \<noteq> PhaseReady \<or> vs_ActiveMove s \<noteq> mv_Name m) \<and> (vs_Phase s \<noteq> PhaseMoving \<or> vs_ActiveMove s \<noteq> mv_Name m)
     then (Some (Errorf ''cannot block volume''), w)
     else case CompareAndSetState k r (ms_VolumeID (mv_Spec m)) (vs_Phase s) (vs_ActiveMove s) (vs_OwnerNode s)
         (s\<lparr>vs_Phase := PhaseBlocked, vs_ActiveMove := mv_Name m\<rparr>) w of
       (None, w') \<Rightarrow> (None, w')
     | (Some e, w') \<Rightarrow> if \<not> errors_is e ErrStateConflict then (Some e, w')
         else (case GetVolume k r (ms_VolumeID (mv_Spec m)) w' of
             Inl e' \<Rightarrow> (Some e', w')
           | Inr current \<Rightarrow> (require_that (vs_Phase current = PhaseBlocked \<and> vs_ActiveMove current = mv_Name m) e, w')))"

section \<open>What the handlers change\<close>

lemma prepared_Inr:
  assumes "prepareMoveCopyIdentitiesForPool m pool = Inr m'" and "mt_SourceCopy (mv_Status m) = Some source"
    and "anchor = \<lparr>da_InstallationID = ci_InstallationID source, da_PoolName = pl_Name pool, da_PoolUID = pl_UID pool,
      da_NodeName = mt_DestinationNode (mv_Status m), da_VolumeUID = ci_VolumeUID source\<rparr>"
    and "MoveTransactionCopies (mv_UID m) (ms_VolumeID (mv_Spec m)) anchor = (incoming, destination)"
  shows "ValidIdentityToken (mv_UID m)" "ValidateCopy incoming = None" "ValidateCopy destination = None"
    "pl_UID pool = mt_DestinationPoolUID (mv_Status m)"
    "m' = m\<lparr>mv_Status := (mv_Status m)\<lparr>mt_IncomingCopy := Some incoming, mt_DestinationCopy := Some destination,
       mt_CopyJobName := rn_CopyJob (namesFor (mv_Name m)), mt_CopyOperationID := MoveCopyOperationID (mv_UID m),
       mt_PromotionOperationID := MovePromotionOperationID (mv_UID m)\<rparr>\<rparr>"
  using assms(1) unfolding prepareMoveCopyIdentitiesForPool_def Let_def assms(2) assms(3) [symmetric] option.case assms(4) prod.case
  by (simp_all split: if_splits)

lemma prepared_identities:
  assumes "prepareMoveCopyIdentitiesForPool m pool = Inr m'"
  shows "\<exists>source. mt_SourceCopy (mv_Status m') = Some source \<and> ValidateMoveTransactionIdentities m'
      \<lparr>da_InstallationID = ci_InstallationID source, da_PoolName = pl_Name pool, da_PoolUID = mt_DestinationPoolUID (mv_Status m'),
       da_NodeName = mt_DestinationNode (mv_Status m'), da_VolumeUID = ci_VolumeUID source\<rparr> = None"
proof -
  obtain source where source: "mt_SourceCopy (mv_Status m) = Some source"
    using assms by (cases "mt_SourceCopy (mv_Status m)") (simp_all add: prepareMoveCopyIdentitiesForPool_def)
  define anchor where a: "anchor = \<lparr>da_InstallationID = ci_InstallationID source, da_PoolName = pl_Name pool, da_PoolUID = pl_UID pool,
      da_NodeName = mt_DestinationNode (mv_Status m), da_VolumeUID = ci_VolumeUID source\<rparr>"
  obtain incoming destination where c: "MoveTransactionCopies (mv_UID m) (ms_VolumeID (mv_Spec m)) anchor = (incoming, destination)"
    by (cases "MoveTransactionCopies (mv_UID m) (ms_VolumeID (mv_Spec m)) anchor")
  note p = prepared_Inr [OF assms source a c]
  have "ValidateMoveTransactionIdentities m' anchor = None" unfolding transaction_identities p(5) using p(1-3) c by simp
  moreover have "mt_SourceCopy (mv_Status m') = Some source" "mt_DestinationPoolUID (mv_Status m') = pl_UID pool"
    "mt_DestinationNode (mv_Status m') = mt_DestinationNode (mv_Status m)" using source p(4) unfolding p(5) by simp_all
  ultimately show ?thesis using a by simp
qed

lemma ownerCommitPoolUID_Inr:
  assumes "ownerCommitPoolUID m s destination = Inr uid"
  obtains source target where "mt_SourceCopy (mv_Status m) = Some source" "mt_DestinationCopy (mv_Status m) = Some target"
    "vs_CurrentCopy s = Some source" "ValidateCopy source = None" "ValidateCopy target = None"
    "ci_NodeName source = ms_SourceNode (mv_Spec m)" "ci_NodeName target = destination" "ci_VolumeUID source = vs_UID s"
    "ci_VolumeUID target = vs_UID s" "ci_PoolUID target = mt_DestinationPoolUID (mv_Status m)" "ci_PoolUID target \<noteq> ci_PoolUID source"
    "uid = ci_PoolUID target"
proof -
  obtain source where source: "mt_SourceCopy (mv_Status m) = Some source"
    using assms by (cases "mt_SourceCopy (mv_Status m)") (simp_all add: ownerCommitPoolUID_def)
  obtain target where target: "mt_DestinationCopy (mv_Status m) = Some target"
    using assms source by (cases "mt_DestinationCopy (mv_Status m)") (simp_all add: ownerCommitPoolUID_def split: if_splits)
  show thesis
    by (rule that [OF source target])
      (use assms in \<open>simp_all add: ownerCommitPoolUID_def source target split: if_splits\<close>)
qed

lemma commitOwner_changes:
  assumes "commitOwner k r tryLock getPod m s committed w = (e, w')" and "w' \<noteq> w"
  obtains acquired uid target e' where "\<not> committed" "tryLock = Some acquired" "acquired uid"
    "ownerCommitPoolUID m s (mt_DestinationNode (mv_Status m)) = Inr uid" "requireScheduledPlacement getPod m w = None"
    "mt_DestinationCopy (mv_Status m) = Some target"
    "CompareAndSetState k r (ms_VolumeID (mv_Spec m)) PhaseMoving (mv_Name m) (ms_SourceNode (mv_Spec m))
       (handoff_state m s (mt_DestinationNode (mv_Status m)) target) w = (e', w')"
  using assms unfolding commitOwner_def Let_def by (auto split: if_splits option.splits sum.splits prod.splits)

lemma handoff_op:
  assumes "ownerCommitPoolUID m s destination = Inr uid" and "mt_DestinationCopy (mv_Status m) = Some target"
    and "CompareAndSetState k r i PhaseMoving n src (handoff_state m s destination target) w = (e, w')"
  shows "volume_op k r w w'"
  by (rule volume_op.compare_state [OF assms(3)])
    (use assms(1,2) in \<open>auto simp: moving_phase_def copy_valid_def handoff_state_def elim: ownerCommitPoolUID_Inr\<close>)

lemma copy_names: "ValidateCopy c = None \<Longrightarrow> ci_NodeName c \<noteq> [] \<and> ci_PoolUID c \<noteq> []"
  by (auto simp: ValidateCopy_def ValidIdentityToken_def ValidObjectName_def split: if_splits)

section \<open>The ledger across the commit\<close>

text \<open>The state that is stored when the commit has replaced \<open>current\<close>.\<close>

definition committed_state :: "State \<Rightarrow> State \<Rightarrow> State" where
  "committed_state current new = api_part current (merge_state current new)"

lemma committed_fields:
  assumes "compareAndSet_mutate PhaseMoving (mv_Name m) src None (handoff_state m s destination c) current = Inr new"
  shows "vs_Phase (committed_state current new) = PhaseReady" "vs_CurrentCopy (committed_state current new) = Some c"
    "vs_OwnerNode (committed_state current new) = destination" "vs_ActiveMove (committed_state current new) = mv_Name m"
    "vs_CapacityBytes (committed_state current new) = vs_CapacityBytes current"
    "vs_Phase current = PhaseMoving" "vs_ActiveMove current = mv_Name m" "vs_OwnerNode current = src"
  using assms by (auto simp: compareAndSet_mutate_def handoff_state_def committed_state_def api_part_def merge_state_def split: if_splits)

lemma other_move_kept:
  assumes "map_of vs i = Some current" and "map_of vs' = (map_of vs)(i \<mapsto> next)" and "mv_Name m2 \<noteq> vs_ActiveMove current"
    and "vs_ActiveMove next = vs_ActiveMove current" and "vs_CurrentCopy current \<noteq> None" and "vs_CurrentCopy next \<noteq> None"
  shows "moveReservation vs' m2 = moveReservation vs m2"
proof (cases "ms_VolumeID (mv_Spec m2) = i")
  case True
  with assms obtain a b where l: "map_of vs (ms_VolumeID (mv_Spec m2)) = Some current" "map_of vs' (ms_VolumeID (mv_Spec m2)) = Some next"
    "vs_CurrentCopy current = Some a" "vs_CurrentCopy next = Some b" by auto
  have n: "vs_ActiveMove current \<noteq> mv_Name m2" "vs_ActiveMove next \<noteq> mv_Name m2" using assms(3,4) by auto
  show ?thesis unfolding moveReservation_def preparationReservation_def Let_def l option.case prod.case
    by (simp add: n split: option.split)
next
  case False
  then show ?thesis by (intro reservation_lookup) (simp add: assms(2))
qed

text \<open>The Move's own hold goes from the destination pool to the source pool, the volume's the other way.\<close>

lemma move_reservation_executing:
  assumes "mt_CapacityApproved (mv_Status m)" and "mt_Preparation (mv_Status m) = None" and "\<not> MoveCleanupSettled m"
    and "map_of vs (ms_VolumeID (mv_Spec m)) = Some st" and "vs_ActiveMove st = mv_Name m" and "vs_CurrentCopy st = Some c"
    and "mt_SourceCopy (mv_Status m) = Some source" and "ci_PoolUID source \<noteq> []" and "mt_DestinationPoolUID (mv_Status m) \<noteq> []"
  shows "moveReservation vs m = Inr (if ci_PoolUID c = mt_DestinationPoolUID (mv_Status m) then ci_PoolUID source
    else mt_DestinationPoolUID (mv_Status m), vs_CapacityBytes st)"
  using assms by (simp add: moveReservation_def Let_def)

lemma ledger_swap:
  assumes "vs = as @ (i, cur) # bs" and "vs' = as @ (i, after) # bs" and "ms = xs @ m # ys"
    and "\<And>m2. m2 \<in> set (xs @ ys) \<Longrightarrow> moveReservation vs' m2 = moveReservation vs m2"
    and "volume_hold uid (i, cur) + move_hold vs uid m = volume_hold uid (i, after) + move_hold vs' uid m"
  shows "ledger vs' ms uid = ledger vs ms uid"
proof -
  have "map (move_hold vs' uid) xs = map (move_hold vs uid) xs" "map (move_hold vs' uid) ys = map (move_hold vs uid) ys"
    using assms(4) by (simp_all add: move_hold_def)
  then show ?thesis using assms(5) unfolding ledger_def assms(3) by (simp add: assms(1,2) del: map_eq_conv)
qed

lemma attributable_swap:
  assumes "vs = as @ (i, cur) # bs" and "vs' = as @ (i, after) # bs" and "ms = xs @ m # ys"
    and "\<And>m2. m2 \<in> set (xs @ ys) \<Longrightarrow> moveReservation vs' m2 = moveReservation vs m2"
    and "ownerPoolUID i cur = (if bytes \<le> 0 then Inl e else Inr a)" and "ownerPoolUID i after = (if bytes \<le> 0 then Inl e else Inr b)"
    and "moveReservation vs m = Inr (b, bytes)" and "moveReservation vs' m = Inr (a, bytes)"
    and "vs_CapacityBytes cur = bytes" and "vs_CapacityBytes after = bytes"
  shows "attributable vs' ms uid = attributable vs ms uid"
proof -
  have "(\<forall>m \<in> set ms. \<exists>held b. moveReservation vs' m = Inr (held, b) \<and> (held = uid \<longrightarrow> 0 < b)) \<and> 0 < bytes \<longleftrightarrow>
      (\<forall>m \<in> set ms. \<exists>held b. moveReservation vs m = Inr (held, b) \<and> (held = uid \<longrightarrow> 0 < b)) \<and> 0 < bytes"
    using assms(4,7,8) by (auto simp: assms(3))
  moreover
  define owned where "owned = (\<lambda>(j, s). \<exists>owner. ownerPoolUID j s = Inr owner \<and> (owner = uid \<longrightarrow> 0 < vs_CapacityBytes s))"
  have "owned (i, cur) \<longleftrightarrow> 0 < bytes" "owned (i, after) \<longleftrightarrow> 0 < bytes"
    using assms(5,6,9,10) by (auto simp: owned_def)
  then have "(\<forall>v \<in> set vs'. owned v) = ((\<forall>v \<in> set (as @ bs). owned v) \<and> 0 < bytes)"
    "(\<forall>v \<in> set vs. owned v) = ((\<forall>v \<in> set (as @ bs). owned v) \<and> 0 < bytes)" by (auto simp: assms(1,2))
  ultimately show ?thesis unfolding attributable_def owned_def [symmetric] by blast
qed

lemma commit_conserves:
  assumes "ownerCommitPoolUID m s destination = Inr u" and "mt_DestinationCopy (mv_Status m) = Some c"
    and "compareAndSet_mutate PhaseMoving (mv_Name m) (ms_SourceNode (mv_Spec m)) None (handoff_state m s destination c) cur = Inr new"
    and "vs_CurrentCopy cur = vs_CurrentCopy s"
    and "mt_CapacityApproved (mv_Status m)" and "mt_Preparation (mv_Status m) = None" and "\<not> MoveCleanupSettled m"
    and "vs = as @ (ms_VolumeID (mv_Spec m), cur) # bs" and "vs' = as @ (ms_VolumeID (mv_Spec m), committed_state cur new) # bs"
    and "distinct (map fst vs)" and "ms = xs @ m # ys" and "mv_Name m \<notin> mv_Name ` set (xs @ ys)"
  shows "ReservedBytesForPool vs ms uid = Inr t \<longleftrightarrow> ReservedBytesForPool vs' ms uid = Inr t"
proof -
  let ?i = "ms_VolumeID (mv_Spec m)" and ?after = "committed_state cur new" and ?e = "Errorf ''volume has incomplete capacity owner identity''"
  note f = committed_fields [OF assms(3)]
  obtain source where o: "mt_SourceCopy (mv_Status m) = Some source" "vs_CurrentCopy s = Some source" "ValidateCopy source = None"
    "ValidateCopy c = None" "ci_NodeName source = ms_SourceNode (mv_Spec m)" "ci_NodeName c = destination"
    "ci_PoolUID c = mt_DestinationPoolUID (mv_Status m)" "ci_PoolUID c \<noteq> ci_PoolUID source"
    by (rule ownerCommitPoolUID_Inr [OF assms(1)]) (simp add: assms(2))
  note n = copy_names [OF o(3)] copy_names [OF o(4)]
  have none: "map_of as ?i = None" using assms(10) by (simp add: assms(8) map_of_eq_None_iff)
  have look: "map_of vs ?i = Some cur" "map_of vs' ?i = Some ?after" using none by (simp_all add: assms(8,9) map_add_def)
  have maps: "map_of vs' = (map_of vs)(?i \<mapsto> ?after)"
    using none by (simp add: assms(8,9) fun_eq_iff map_add_def split: option.split)
  have others: "moveReservation vs' m2 = moveReservation vs m2" if "m2 \<in> set (xs @ ys)" for m2
  proof -
    have "mv_Name m2 \<noteq> vs_ActiveMove cur" using that assms(12) unfolding f(7) by (metis imageI)
    from other_move_kept [OF look(1) maps this] f(2,4,7) assms(4) o(2) show ?thesis by simp
  qed
  have before: "moveReservation vs m = Inr (ci_PoolUID c, vs_CapacityBytes cur)"
    using move_reservation_executing [OF assms(5-7) look(1) f(7), of source source] assms(4) o n by simp
  have after: "moveReservation vs' m = Inr (ci_PoolUID source, vs_CapacityBytes cur)"
    using move_reservation_executing [OF assms(5-7) look(2) f(4,2) o(1)] f(5) o(7) n by simp
  have own: "ownerPoolUID ?i cur = (if vs_CapacityBytes cur \<le> 0 then Inl ?e else Inr (ci_PoolUID source))"
    using owner_serving [of cur source ?i] f(6,8) assms(4) o n by simp
  have own': "ownerPoolUID ?i ?after = (if vs_CapacityBytes cur \<le> 0 then Inl ?e else Inr (ci_PoolUID c))"
    using owner_serving [of ?after c ?i] f(1-5) o(6) n by simp
  have att: "attributable vs' ms uid = attributable vs ms uid"
    by (rule attributable_swap [OF assms(8,9,11) others own own' before after refl f(5)])
  have "ledger vs' ms uid = ledger vs ms uid" if "attributable vs ms uid"
  proof (rule ledger_swap [OF assms(8,9,11) others])
    have "0 < vs_CapacityBytes cur" using that own by (auto simp: attributable_def assms(8) split: if_splits)
    then show "volume_hold uid (?i, cur) + move_hold vs uid m = volume_hold uid (?i, ?after) + move_hold vs' uid m"
      using own own' before after f(5) by (simp add: volume_hold_def move_hold_def)
  qed
  with att show ?thesis by (auto simp: reserved_ledger)
qed

end
