(* ===== verification/Move_Evidence.thy ===== *)
theory Move_Evidence
  imports Owner_Handoff Volume_Evidence
begin

text \<open>
  The claims on Moves and capacity: the hold of a Move, its history and its transaction, the ledger
  of a pool with its admission, approval, owner commit and settled history, and what an owner commit
  needs.
\<close>

section \<open>A Move in memory\<close>

definition idle_volumes :: "('w, volume_body) api_client" where
  "idle_volumes = \<lparr>api_Get = \<lambda>_ _. Inl ApiNotFound, api_List = \<lambda>_. Inl ApiNotFound, api_Create = \<lambda>w _. (Inl ApiNotFound, w),
     api_Update = \<lambda>w _. (Inl ApiNotFound, w), api_UpdateStatus = \<lambda>w _. (Inl ApiNotFound, w),
     api_Delete = \<lambda>w _ _ _. (Some ApiNotFound, w)\<rparr>"

definition memory_moves :: "move_body memory move_registry" where
  "memory_moves = \<lparr>mr_Registry = \<lparr>vr_Volumes = Some idle_volumes,
       vr_Pools = \<lparr>rg_Pools = None, rg_PoolReadinessStaleAfter = 0, rg_Now = \<lambda>_. 0\<rparr>,
       vr_Namespace = \<lambda>_. Inl ApiNotFound, vr_Retry = \<lambda>fn. fn\<rparr>,
     mr_Moves = memory_client, mr_Create = \<lambda>w n obj. api_Create memory_client w (obj\<lparr>ao_Name := n @ ''1''\<rparr>)\<rparr>"

lemma memory_moves_relied:
  assumes "\<And>n. ''uid-'' @ n \<notin> used"
  shows "moves_relied used (\<lambda>w. w) memory_moves"
proof -
  have "client_creates used (\<lambda>w. w) (memory_client :: (move_body memory, move_body) api_client)" using assms by (rule memory_client_creates)
  then have "w' = w \<or> (\<exists>name kept. created_as (obj\<lparr>ao_Name := name\<rparr>) kept \<and> ao_UID kept \<notin> used \<and> w name = None \<and> w' = w(name \<mapsto> kept))"
    if "api_Create memory_client w (obj\<lparr>ao_Name := n @ ''1''\<rparr>) = (out, w')" for w w' :: "move_body memory" and obj n out
    using that unfolding client_creates_def
    by (elim allE [of _ w] allE [of _ "obj\<lparr>ao_Name := n @ ''1''\<rparr>"] allE [of _ out] allE [of _ w']) auto
  then show ?thesis
    by (simp add: moves_relied_def memory_moves_def once_retries memory_client_writes memory_client_deletes)
qed

definition sample_preparation :: MovePreparation where
  "sample_preparation = \<lparr>mp_Pool = \<lparr>pr_Name = ''pool2'', pr_UID = ''pu2''\<rparr>, mp_NodeName = ''node2'', mp_ReservedBytes = 1024\<rparr>"

definition prepared_status :: MoveStatus where
  "prepared_status = \<lparr>mt_Preparation = Some sample_preparation, mt_PersistentVolumeUID = ''pvu'', mt_ClaimUID = ''cu'',
     mt_PlacementPodUID = ''pod'', mt_Phase = ''WaitingForCapacity'', mt_Reason = [], mt_Message = [], mt_LastTransitionTime = [],
     mt_LastProgressTime = [], mt_PersistentVolumeName = ''pv'', mt_ClaimNamespace = ''ns'', mt_ClaimName = ''claim'',
     mt_ConsumerName = ''app'', mt_ConsumerUID = ''au'', mt_ReplacementName = [], mt_ReplacementUID = [], mt_DestinationNode = [],
     mt_DestinationPoolUID = [], mt_SourceBytes = 512, mt_CapacityApproved = False, mt_CapacityReason = [], mt_CandidateNodes = [],
     mt_EvictionRequested = False, mt_CopyJobName = [], mt_PromotionJobName = [], mt_CleanupPhase = [], mt_CopyOperationID = [],
     mt_PromotionOperationID = [], mt_SourceCopy = Some sample_copy, mt_IncomingCopy = None, mt_DestinationCopy = None,
     mt_RollbackRequiredGeneration = 0, mt_SettlementRequested = False, mt_RecoveryPhase = [], mt_RecoveryOwner = [],
     mt_RecoveryReason = [], mt_RecoveryMessage = []\<rparr>"

definition sample_copies :: "CopyIdentity \<times> CopyIdentity" where
  "sample_copies = MoveTransactionCopies ''m'' sample_volume \<lparr>da_InstallationID = ''i'', da_PoolName = ''pool2'', da_PoolUID = ''pu2'',
     da_NodeName = ''node2'', da_VolumeUID = ''u''\<rparr>"

definition executing_status :: MoveStatus where
  "executing_status = prepared_status\<lparr>mt_Preparation := None, mt_CapacityApproved := True, mt_DestinationNode := ''node2'',
     mt_DestinationPoolUID := ''pu2'', mt_IncomingCopy := Some (fst sample_copies), mt_DestinationCopy := Some (snd sample_copies),
     mt_CopyOperationID := ''copy-m'', mt_PromotionOperationID := ''promote-m''\<rparr>"

definition sample_move :: "MoveStatus \<Rightarrow> Move" where
  "sample_move s = \<lparr>mv_Deleting = False, mv_Name = ''mv-1'', mv_UID = ''m'', mv_ResourceVersion = ''1'',
     mv_Finalizers = [MoveProtectionFinalizer], mv_Spec = \<lparr>ms_ProtocolVersion = MoveProtocolPreparedV1, ms_VolumeID = sample_volume,
       ms_SourceNode = ''node'', ms_Recovery = []\<rparr>, mv_Status = s\<rparr>"

definition prepared_object :: move_object where
  "prepared_object = setMoveStatus ((newMoveObject (mv_Spec (sample_move prepared_status)))\<lparr>ao_Name := ''mv-1'', ao_UID := ''m'',
     ao_ResourceVersion := ''1''\<rparr>) prepared_status"

definition prepared_world :: "move_body memory" where
  "prepared_world = (\<lambda>_. None)(''mv-1'' \<mapsto> prepared_object)"

definition executing_world :: "move_body memory" where
  "executing_world = snd (CompareAndSetMoveStatus memory_moves (sample_move prepared_status) executing_status prepared_world)"

lemma executing_op: "move_op sample_k8s memory_moves prepared_world executing_world"
  unfolding executing_world_def by (rule move_op.compare, rule prod.collapse [symmetric])

lemma executing_run: "(move_op sample_k8s memory_moves)\<^sup>*\<^sup>* prepared_world executing_world"
  by (rule r_into_rtranclp, rule executing_op)

lemma prepared_move: "moveFrom prepared_object = Inr (sample_move prepared_status)"
  by code_simp

lemma prepared_only: "prepared_world n = Some obj \<longleftrightarrow> n = ''mv-1'' \<and> obj = prepared_object"
  by (auto simp: prepared_world_def)

lemma prepared_uid: "ao_UID prepared_object = ''m''"
  by code_simp

definition executing_object :: move_object where
  "executing_object = the (executing_world ''mv-1'')"

lemma executing_stored:
  shows "executing_world ''mv-1'' = Some executing_object" and "ao_UID executing_object = ''m''"
    and "moveFrom executing_object = Inr ((sample_move executing_status)\<lparr>mv_ResourceVersion := ''10''\<rparr>)"
proof -
  have "executing_world ''mv-1'' \<noteq> None" by code_simp
  then show "executing_world ''mv-1'' = Some executing_object" by (auto simp: executing_object_def)
qed code_simp+

section \<open>The hold of a Move\<close>

text \<open>
  C29. The capacity hold of a Move changes only in four guarded ways. Whatever Move operations have
  run before, one more operation keeps the hold, or reserves with valid fields for a protected Move
  before disruption and without destination intent, or cancels the reservation of a canceling Move
  into Cancelled without destination intent, or turns the reservation of a protected Move that waits
  for capacity into the execution on exactly the reserved node and pool with the transaction
  identities they determine, or releases the execution of a blocked Move whose recovery retires, as
  settled, after its cleanup has completed or, with none, a rollback scan is recorded. So a
  reservation is never replaced by another one, an execution never by another execution or a
  reservation, and nothing is executed that was not reserved.
\<close>

theorem move_hold_refines:
  assumes "(move_op k r)\<^sup>*\<^sup>* w0 w" and "move_op k r w w'" and "moves_relied {uid} stored r"
    and "\<forall>n obj m. stored w0 n = Some obj \<longrightarrow> moveFrom obj = Inr m \<longrightarrow> execution_sound m"
    and "\<forall>n obj m. stored w n = Some obj \<longrightarrow> ao_UID obj = uid \<longrightarrow> moveFrom obj = Inr m \<longrightarrow> m = before"
    and "stored w' n = Some obj" and "ao_UID obj = uid" and "moveFrom obj = Inr after"
  shows "hold_change before after"
proof -
  have "all_stored (move_good (\<lambda>_. True) execution_sound) stored w0"
    using assms(4) by (auto simp: all_stored_def move_good_def)
  then have "all_stored (move_good (\<lambda>_. True) execution_sound) stored w"
    by (rule es.move_ops_good [OF assms(1) moves_relied_any [OF assms(3)]])
  moreover have "all_stored (move_good (\<lambda>u. u = uid) (\<lambda>m. m = before)) stored w"
    using assms(5) by (auto simp: all_stored_def move_good_def)
  ultimately have "all_stored (move_good (\<lambda>u. u = uid) (hold_change before)) stored w'"
    by (rule move_op_hold [OF assms(2,3)])
  with assms(6-8) show ?thesis by (simp add: all_stored_def move_good_def)
qed

lemma prepared_sound: "execution_sound (sample_move prepared_status)"
  by (simp add: execution_sound_def sample_move_def prepared_status_def)

lemma prepared_hold: "hold_of prepared_status = Reserved sample_preparation" "hold_of executing_status = Executing ''node2'' ''pu2''"
  by code_simp+

theorem move_hold_refines_witness:
  "hold_change (sample_move prepared_status) ((sample_move executing_status)\<lparr>mv_ResourceVersion := ''10''\<rparr>) \<and>
   hold_of prepared_status = Reserved sample_preparation \<and> hold_of executing_status = Executing ''node2'' ''pu2''"
proof -
  have r: "moves_relied {''m''} (\<lambda>w. w) memory_moves" by (rule memory_moves_relied) simp
  have sound: "\<forall>n obj m. prepared_world n = Some obj \<longrightarrow> moveFrom obj = Inr m \<longrightarrow> execution_sound m"
    by (auto simp: prepared_only prepared_move prepared_sound)
  have only: "\<forall>n obj m. prepared_world n = Some obj \<longrightarrow> ao_UID obj = ''m'' \<longrightarrow> moveFrom obj = Inr m \<longrightarrow> m = sample_move prepared_status"
    by (auto simp: prepared_only prepared_move)
  from move_hold_refines [OF rtranclp.rtrancl_refl executing_op r, OF sound only executing_stored] prepared_hold
  show ?thesis by simp
qed

text \<open>
  C31. The recorded history of a Move is kept: no Move operation changes its spec, a recorded copy,
  an identity of the plan or of the destination, an operation identity, the measured usage or the
  rollback fence, or withdraws a requested settlement.
\<close>

theorem move_history_kept:
  assumes "(move_op k r)\<^sup>*\<^sup>* w w'" and "moves_relied {uid} stored r"
    and "\<forall>n obj m. stored w n = Some obj \<longrightarrow> ao_UID obj = uid \<longrightarrow> moveFrom obj = Inr m \<longrightarrow> m = m0"
    and "stored w' n = Some obj" and "ao_UID obj = uid" and "moveFrom obj = Inr m"
  shows "move_extends m0 m"
proof -
  have "all_stored (move_good (\<lambda>u. u = uid) (move_extends m0)) stored w"
    using assms(3) move_extends_refl by (auto simp: all_stored_def move_good_def)
  then have "all_stored (move_good (\<lambda>u. u = uid) (move_extends m0)) stored w'" by (rule mk.move_ops_good [OF assms(1,2)])
  with assms(4-6) show ?thesis by (simp add: all_stored_def move_good_def)
qed

theorem move_history_kept_witness:
  "move_extends (sample_move prepared_status) ((sample_move executing_status)\<lparr>mv_ResourceVersion := ''10''\<rparr>)"
proof -
  have r: "moves_relied {''m''} (\<lambda>w. w) memory_moves" by (rule memory_moves_relied) simp
  have "\<forall>n obj m. prepared_world n = Some obj \<longrightarrow> ao_UID obj = ''m'' \<longrightarrow> moveFrom obj = Inr m \<longrightarrow> m = sample_move prepared_status"
    by (auto simp: prepared_only prepared_move)
  from move_history_kept [OF executing_run r, OF this executing_stored] show ?thesis .
qed

text \<open>
  C30. An approved Move is bound to one exact transaction: after any run of Move operations an
  approved Move has no reservation left, a source copy on another pool than its destination, and the
  incoming and destination copies and operations that its UID and the destination determine.
\<close>

theorem approved_move_exact:
  assumes "(move_op k r)\<^sup>*\<^sup>* w w'" and "moves_relied {} stored r"
    and "\<forall>n obj m. stored w n = Some obj \<longrightarrow> moveFrom obj = Inr m \<longrightarrow> execution_sound m"
    and "stored w' n = Some obj" and "moveFrom obj = Inr m" and "mt_CapacityApproved (mv_Status m)"
  shows "mt_Preparation (mv_Status m) = None \<and> exact_transaction m"
proof -
  have "all_stored (move_good (\<lambda>_. True) execution_sound) stored w" using assms(3) by (auto simp: all_stored_def move_good_def)
  then have "all_stored (move_good (\<lambda>_. True) execution_sound) stored w'" by (rule es.move_ops_good [OF assms(1,2)])
  with assms(4-6) show ?thesis by (simp add: all_stored_def move_good_def execution_sound_def)
qed

lemma executing_approved: "mt_CapacityApproved executing_status"
  by code_simp

theorem approved_move_exact_witness:
  "exact_transaction ((sample_move executing_status)\<lparr>mv_ResourceVersion := ''10''\<rparr>)"
proof -
  have r: "moves_relied {} (\<lambda>w. w) memory_moves" by (rule memory_moves_relied) simp
  have "\<forall>n obj m. prepared_world n = Some obj \<longrightarrow> moveFrom obj = Inr m \<longrightarrow> execution_sound m"
    using prepared_sound by (auto simp: prepared_only prepared_move)
  from approved_move_exact [OF executing_run r, OF this executing_stored(1,3)] show ?thesis
    using executing_approved by (simp add: sample_move_def)
qed

section \<open>The ledger of a pool\<close>

text \<open>
  C35. The reserved bytes of a pool are its ledger: the two loops answer a total exactly when every
  volume and Move can be attributed and the sum of what volumes own and Moves hold of that pool fits
  an \<open>int64\<close>, and then they answer that sum, in whatever order the map is visited.
\<close>

theorem reserved_is_ledger:
  "(ReservedBytesForPool vs ms uid = Inr t \<longleftrightarrow>
     uid \<noteq> [] \<and> attributable vs ms uid \<and> t = ledger vs ms uid \<and> t \<le> max_int64) \<and>
   (mset vs = mset vs' \<and> distinct (map fst vs) \<longrightarrow>
     (ReservedBytesForPool vs ms uid = Inr t \<longleftrightarrow> ReservedBytesForPool vs' ms uid = Inr t))"
  using reserved_ledger reserved_order by blast

definition serving_state :: "string \<Rightarrow> string \<Rightarrow> State" where
  "serving_state phase move = \<lparr>vs_UID = ''u'', vs_Finalizers = [VolumeProtectionFinalizer], vs_RequestName = ''pvc-1'', vs_CapacityBytes = 1024,
     vs_InitialNode = ''node'', vs_InitialPool = None, vs_CreationClaim = None, vs_HasCleanup = False, vs_Deleting = False,
     vs_Phase = phase, vs_OwnerNode = ''node'', vs_ActiveMove = move, vs_PublishedNodes = [], vs_CreationOperationID = [],
     vs_DeletionOperationID = [], vs_CurrentCopy = Some sample_copy, vs_CreationExecutor = None, vs_CreationReceipt = None\<rparr>"

definition other_state :: State where
  "other_state = (serving_state PhaseReady [])\<lparr>vs_UID := ''u3''\<rparr>"

lemma executing_ledger:
  "ReservedBytesForPool [(sample_volume, serving_state PhaseMoving ''mv-1''), (''v3'', other_state)] [sample_move executing_status] ''pu'' = Inr 2048"
  "ReservedBytesForPool [(sample_volume, serving_state PhaseMoving ''mv-1''), (''v3'', other_state)] [sample_move executing_status] ''pu2'' = Inr 1024"
  by code_simp+

theorem reserved_is_ledger_witness:
  "ReservedBytesForPool [(''v3'', other_state), (sample_volume, serving_state PhaseMoving ''mv-1'')] [sample_move executing_status] ''pu'' = Inr 2048"
  using reserved_is_ledger [of "[(sample_volume, serving_state PhaseMoving ''mv-1''), (''v3'', other_state)]" "[sample_move executing_status]" "''pu''" 2048
    "[(''v3'', other_state), (sample_volume, serving_state PhaseMoving ''mv-1'')]"] executing_ledger(1) by simp

end
