(* ===== verification/Capacity_Evidence.thy ===== *)
theory Capacity_Evidence
  imports Move_Evidence
begin

text \<open>
  The claims on changes of the ledger: admission, the approval of an execution, the owner commit and
  the end of a Move; and what an owner commit needs before it changes anything.
\<close>

section \<open>Admission\<close>

text \<open>
  C34. Admission never overcommits a pool: when a request fits the limit beside what is reserved, the
  ledger with the new volume's initial reservation answers exactly the sum, which is within the limit.
\<close>

theorem admission_within_limit:
  assumes "ReservedBytesForPool vs ms uid = Inr reserved" and "FitsReservation (vs_CapacityBytes s) reserved limit"
    and "limit \<le> max_int64" and "HasInitialReservation s" and "vs_InitialPool s = Some p" and "pr_UID p = uid" and "map_of vs i = None"
  shows "ReservedBytesForPool ((i, s) # vs) ms uid = Inr (reserved + vs_CapacityBytes s) \<and> reserved + vs_CapacityBytes s \<le> limit"
proof -
  have f: "0 < vs_CapacityBytes s" "reserved + vs_CapacityBytes s \<le> limit" using assms(2) by (simp_all add: FitsReservation_def)
  have "ownerPoolUID i s = Inr uid" using owner_initial [OF assms(4)] assms(5,6) by simp
  from reserved_new_volume [OF assms(1,7) this f(1)] f(2) assms(3) show ?thesis by simp
qed

definition requested_state :: State where
  "requested_state = (serving_state [] [])\<lparr>vs_UID := ''u9'', vs_CapacityBytes := 100, vs_InitialPool := Some \<lparr>pr_Name = ''pool'', pr_UID = ''pu''\<rparr>,
     vs_OwnerNode := [], vs_CurrentCopy := None\<rparr>"

theorem admission_within_limit_witness:
  "ReservedBytesForPool ((''v9'', requested_state) # [(sample_volume, serving_state PhaseMoving ''mv-1''), (''v3'', other_state)])
     [sample_move executing_status] ''pu'' = Inr 2148"
proof -
  have "FitsReservation (vs_CapacityBytes requested_state) 2048 4096" "HasInitialReservation requested_state"
    "vs_InitialPool requested_state = Some \<lparr>pr_Name = ''pool'', pr_UID = ''pu''\<rparr>" "vs_CapacityBytes requested_state = 100" by code_simp+
  with admission_within_limit [OF executing_ledger(1), of requested_state 4096 "\<lparr>pr_Name = ''pool'', pr_UID = ''pu''\<rparr>" "''v9''"]
  show ?thesis by (simp add: max_int64_def)
qed

section \<open>Approval\<close>

text \<open>
  C33. Approval conserves every pool's ledger: a status write that is accepted and turns a
  reservation into an approved execution keeps the pool and the bytes the Move holds, so the reserved
  bytes of every pool are the same before and after.
\<close>

theorem approval_conserves_ledger:
  assumes "validatePreparedProtection m new hasCleanup = None" and "validatePreparedTransition m new = None"
    and "mt_CleanupPhase new = mt_CleanupPhase (mv_Status m)" and "mt_Preparation (mv_Status m) = Some p" and "mt_CapacityApproved new"
    and "moveReservation vs m = Inr (held, bytes)"
  shows "moveReservation vs (m\<lparr>mv_Status := new\<rparr>) = Inr (held, bytes) \<and>
    ReservedBytesForPool vs (xs @ m\<lparr>mv_Status := new\<rparr> # ys) uid = ReservedBytesForPool vs (xs @ m # ys) uid"
proof -
  have "accepted m new" using assms(1-3) by (auto simp: accepted_def)
  from approval_keeps_reservation [OF this assms(4-6)] have r: "moveReservation vs (m\<lparr>mv_Status := new\<rparr>) = Inr (held, bytes)" .
  then have "moveHeldBytesForPool acc vs (m\<lparr>mv_Status := new\<rparr> # ys) uid = moveHeldBytesForPool acc vs (m # ys) uid" for acc
    by (simp add: assms(6))
  then show ?thesis using r unfolding ReservedBytesForPool_def moveHeld_append by simp
qed

theorem approval_conserves_ledger_witness:
  "moveReservation [(sample_volume, serving_state PhaseMoving ''mv-1'')] ((sample_move prepared_status)\<lparr>mv_Status := executing_status\<rparr>) =
     Inr (''pu2'', 1024)"
proof -
  have "validatePreparedProtection (sample_move prepared_status) executing_status False = None"
    "validatePreparedTransition (sample_move prepared_status) executing_status = None"
    "mt_CleanupPhase executing_status = mt_CleanupPhase (mv_Status (sample_move prepared_status))"
    "mt_Preparation (mv_Status (sample_move prepared_status)) = Some sample_preparation" "mt_CapacityApproved executing_status"
    "moveReservation [(sample_volume, serving_state PhaseMoving ''mv-1'')] (sample_move prepared_status) = Inr (''pu2'', 1024)"
    by code_simp+
  from approval_conserves_ledger [OF this] show ?thesis by blast
qed

section \<open>The owner commit\<close>

text \<open>
  C32. The owner commit conserves every pool's ledger: when the compare-and-set of a hand-over that
  passed its identity checks writes the volume's object, the volume's bytes go to the destination pool and the
  Move's hold goes to the source pool, so the reserved bytes of every pool read the same before and after.
\<close>

theorem commit_conserves_ledger:
  assumes "ownerCommitPoolUID m s destination = Inr u" and "mt_DestinationCopy (mv_Status m) = Some c"
    and "volume_apply k (compareAndSet_mutate PhaseMoving (mv_Name m) (ms_SourceNode (mv_Spec m)) None
      (handoff_state m s destination c)) obj = Inr obj'"
    and "stateFrom k obj = Inr before" and "stateFrom k obj' = Inr after" and "vs_CurrentCopy before = vs_CurrentCopy s"
    and "mt_CapacityApproved (mv_Status m)" and "mt_Preparation (mv_Status m) = None" and "\<not> MoveCleanupSettled m"
    and "distinct (map fst (as @ (ms_VolumeID (mv_Spec m), before) # bs))" and "mv_Name m \<notin> mv_Name ` set (xs @ ys)"
  shows "ReservedBytesForPool (as @ (ms_VolumeID (mv_Spec m), before) # bs) (xs @ m # ys) uid = Inr t \<longleftrightarrow>
    ReservedBytesForPool (as @ (ms_VolumeID (mv_Spec m), after) # bs) (xs @ m # ys) uid = Inr t"
proof -
  obtain new where new: "compareAndSet_mutate PhaseMoving (mv_Name m) (ms_SourceNode (mv_Spec m)) None
      (handoff_state m s destination c) before = Inr new" "obj' = setState obj (merge_state before new)"
    using assms(3,4) by (auto simp: volume_apply_def bind_res_Inr)
  have "ValidateCopy c = None" by (rule ownerCommitPoolUID_Inr [OF assms(1)]) (simp add: assms(2))
  moreover have "vs_CurrentCopy new = Some c" using new(1) by (auto simp: compareAndSet_mutate_def handoff_state_def split: if_splits)
  ultimately have "copy_valid new" by (simp add: copy_valid_def)
  then have "copy_valid (merge_state before new)" using stateFrom_copy_valid [OF assms(4)] by (simp add: merge_copy_valid)
  from stateFrom_setState [OF assms(4) this] have "after = committed_state before new"
    using assms(5) new(2) by (simp add: committed_state_def)
  with commit_conserves [OF assms(1,2) new(1) assms(6-9) refl refl assms(10) refl assms(11)] show ?thesis by simp
qed

definition moving_volume :: volume_object where
  "moving_volume = (volume_in PhaseMoving [] [])\<lparr>ao_Body := (ao_Body (volume_in PhaseMoving [] []))\<lparr>vb_activeMove := Present ''mv-1''\<rparr>\<rparr>"

definition moving_state :: State where
  "moving_state = projr (stateFrom sample_k8s moving_volume)"

abbreviation sample_commit :: "State \<Rightarrow> State res" where
  "sample_commit \<equiv> compareAndSet_mutate PhaseMoving ''mv-1'' ''node'' None
     (handoff_state (sample_move executing_status) moving_state ''node2'' (snd sample_copies))"

definition committed_volume :: volume_object where
  "committed_volume = projr (volume_apply sample_k8s sample_commit moving_volume)"

lemma commit_evaluated:
  "stateFrom sample_k8s moving_volume = Inr moving_state"
  "volume_apply sample_k8s sample_commit moving_volume = Inr committed_volume"
  "stateFrom sample_k8s committed_volume = Inr (projr (stateFrom sample_k8s committed_volume))"
  "ownerCommitPoolUID (sample_move executing_status) moving_state ''node2'' = Inr ''pu2''"
  "ReservedBytesForPool [(sample_volume, moving_state)] [sample_move executing_status] ''pu2'' = Inr 1024"
  "\<not> MoveCleanupSettled (sample_move executing_status)"
proof -
  have "\<not> isl (stateFrom sample_k8s moving_volume)" "\<not> isl (volume_apply sample_k8s sample_commit moving_volume)"
    "\<not> isl (stateFrom sample_k8s committed_volume)" by code_simp+
  then show "stateFrom sample_k8s moving_volume = Inr moving_state" "volume_apply sample_k8s sample_commit moving_volume = Inr committed_volume"
    "stateFrom sample_k8s committed_volume = Inr (projr (stateFrom sample_k8s committed_volume))"
    by (simp_all add: moving_state_def committed_volume_def)
qed code_simp+

lemma executing_fields:
  "mv_Name (sample_move executing_status) = ''mv-1''" "ms_SourceNode (mv_Spec (sample_move executing_status)) = ''node''"
  "ms_VolumeID (mv_Spec (sample_move executing_status)) = sample_volume" "mv_Status (sample_move executing_status) = executing_status"
  "mt_DestinationCopy executing_status = Some (snd sample_copies)" "mt_CapacityApproved executing_status" "mt_Preparation executing_status = None"
  "mt_DestinationNode executing_status = ''node2''"
  by (simp_all add: sample_move_def executing_status_def)

theorem commit_conserves_ledger_witness:
  "ReservedBytesForPool [(sample_volume, projr (stateFrom sample_k8s committed_volume))] [sample_move executing_status] ''pu2'' = Inr 1024"
  using commit_conserves_ledger [OF commit_evaluated(4), of "snd sample_copies" sample_k8s moving_volume committed_volume moving_state
      "projr (stateFrom sample_k8s committed_volume)" "[]" "[]" "[]" "[]" "''pu2''" 1024] commit_evaluated
  by (simp add: executing_fields)

text \<open>
  C36. An owner commit that changes anything was allowed to: it held the lock of the destination pool,
  the placement Pod of this very Move was scheduled on the destination and not going away, the volume still served the
  recorded source copy, and the new copy is one of the same volume on the destination's node and another pool.
  The change itself is one compare-and-set, so every property of registry operations holds across it.
\<close>

theorem commit_needs_authority:
  assumes "commitOwner k r tryLock getPod m s committed w = (e, w')" and "w' \<noteq> w"
  shows "\<exists>acquired pod source target. tryLock = Some acquired \<and> acquired (mt_DestinationPoolUID (mv_Status m)) \<and>
    getPod w (rn_PlacementPod (namesFor (mv_Name m))) = Inr pod \<and> map_option or_UID (po_Controller pod) = Some (mv_UID m) \<and>
    po_NodeName pod = mt_DestinationNode (mv_Status m) \<and> \<not> po_Deleting pod \<and>
    vs_CurrentCopy s = Some source \<and> mt_SourceCopy (mv_Status m) = Some source \<and> mt_DestinationCopy (mv_Status m) = Some target \<and>
    ci_NodeName target = mt_DestinationNode (mv_Status m) \<and> ci_VolumeUID target = vs_UID s \<and> ci_PoolUID target \<noteq> ci_PoolUID source \<and>
    volume_op k r w w'"
proof -
  obtain acquired uid target e' where c: "tryLock = Some acquired" "acquired uid"
    "ownerCommitPoolUID m s (mt_DestinationNode (mv_Status m)) = Inr uid" "requireScheduledPlacement getPod m w = None"
    "mt_DestinationCopy (mv_Status m) = Some target"
    "CompareAndSetState k r (ms_VolumeID (mv_Spec m)) PhaseMoving (mv_Name m) (ms_SourceNode (mv_Spec m))
       (handoff_state m s (mt_DestinationNode (mv_Status m)) target) w = (e', w')"
    using assms by (rule commitOwner_changes)
  obtain source where o: "mt_SourceCopy (mv_Status m) = Some source" "vs_CurrentCopy s = Some source"
    "ci_NodeName target = mt_DestinationNode (mv_Status m)" "ci_VolumeUID target = vs_UID s" "ci_PoolUID target \<noteq> ci_PoolUID source"
    "uid = mt_DestinationPoolUID (mv_Status m)"
    by (rule ownerCommitPoolUID_Inr [OF c(3)]) (simp add: c(5))
  obtain pod where p: "getPod w (rn_PlacementPod (namesFor (mv_Name m))) = Inr pod" "map_option or_UID (po_Controller pod) = Some (mv_UID m)"
    "po_NodeName pod = mt_DestinationNode (mv_Status m)" "\<not> po_Deleting pod"
    using c(4) by (cases "getPod w (rn_PlacementPod (namesFor (mv_Name m)))")
      (simp_all add: requireScheduledPlacement_def validatePlacementIdentity_def validatePlacementOwner_def first_error_None Let_def split: if_splits)
  show ?thesis using c(1,2,5) o p handoff_op [OF c(3,5,6)] by blast
qed

definition sample_pod :: placement_pod where
  "sample_pod = \<lparr>po_UID = ''pod'', po_Labels = [(''shiftpv.io/move'', rn_Base (namesFor ''mv-1'')), (''shiftpv.io/role'', ''placement'')],
     po_Controller = Some \<lparr>or_APIVersion = ''shiftpv.io/v1alpha1'', or_Kind = KindMove, or_Name = ''mv-1'', or_UID = ''m''\<rparr>,
     po_Deleting = False, po_NodeName = ''node2''\<rparr>"

definition moving_world :: "volume_body memory" where
  "moving_world = (\<lambda>_. None)(sample_volume \<mapsto> moving_volume)"

abbreviation committed_run :: "error option \<times> volume_body memory" where
  "committed_run \<equiv> commitOwner sample_k8s memory_registry (Some (\<lambda>u. u = ''pu2'')) (\<lambda>_ _. Inr sample_pod) (sample_move executing_status)
     moving_state False moving_world"

lemma sample_placement: "requireScheduledPlacement (\<lambda>_ _. Inr sample_pod) (sample_move executing_status) w = None"
  by (simp add: requireScheduledPlacement_def validatePlacementIdentity_def validatePlacementOwner_def first_error_None Let_def
    sample_pod_def sample_move_def executing_status_def)

lemma committed_changes: "snd committed_run \<noteq> moving_world"
proof -
  let ?cas = "CompareAndSetState sample_k8s memory_registry sample_volume PhaseMoving ''mv-1'' ''node''
    (handoff_state (sample_move executing_status) moving_state ''node2'' (snd sample_copies)) moving_world"
  have cas: "fst ?cas = None" "map_option ao_ResourceVersion (snd ?cas sample_volume) = Some ''10''"
    "map_option ao_ResourceVersion (moving_world sample_volume) = Some ''1''" by code_simp+
  then obtain w2 where w2: "?cas = (None, w2)" by (cases ?cas) simp
  have "committed_run = ?cas"
    unfolding commitOwner_def Let_def executing_fields commit_evaluated(4) sample_placement w2 by (simp add: w2)
  then show ?thesis using cas(2,3) by auto
qed

theorem commit_needs_authority_witness:
  "\<exists>target. mt_DestinationCopy executing_status = Some target \<and> ci_VolumeUID target = vs_UID moving_state \<and>
     volume_op sample_k8s memory_registry moving_world (snd committed_run)"
  using commit_needs_authority [OF prod.collapse [symmetric] committed_changes] by (auto simp: sample_move_def)

section \<open>Settled history\<close>

text \<open>
  C37. Settled history holds nothing: a Move that the history check accepts is settled in the sense of the
  registry, reserves nothing, and removing it from the list changes the reserved bytes of no pool.
\<close>

theorem settled_history_holds_nothing:
  assumes "ValidateSettledMove m current journal = None"
  shows "MoveCleanupSettled m \<and> moveReservation vs m = Inr ([], 0) \<and>
    ReservedBytesForPool vs (xs @ m # ys) uid = ReservedBytesForPool vs (xs @ ys) uid"
  using settled_cleanup(1) [OF assms] settled_reservation [OF assms] settled_dropped [OF assms] by blast

definition cancelled_move :: Move where
  "cancelled_move = sample_move (prepared_status\<lparr>mt_Preparation := None, mt_Phase := ''Cancelled''\<rparr>)"

lemma cancelled_accepted: "ValidateSettledMove cancelled_move (Some (serving_state PhaseReady [])) None = None"
  by code_simp

theorem settled_history_holds_nothing_witness:
  "ReservedBytesForPool [] [cancelled_move] ''pu2'' = ReservedBytesForPool [] [] ''pu2'' \<and> MoveCleanupSettled cancelled_move"
  using settled_history_holds_nothing [OF cancelled_accepted, of "[]" "[]" "[]" "''pu2''"] by simp

end
