(* ===== verification/Keyed_Lock.thy ===== *)
theory Keyed_Lock
  imports ShiftPV_Prelude
begin

text \<open>
  The keyed mutex \<open>Locker\<close> (\<open>src/pool/capacity/locker.go\<close>) under every interleaving of its callers:
  the entries are heap cells, each step of a goroutine that takes a mutex is one step of the relation
  \<open>lock_step\<close>.
\<close>

section \<open>The locker\<close>

record lockEntry =
  le_mu :: bool
  le_refs :: int

text \<open>A nil map of entries reads as the empty one. \<open>lk_next\<close> is the address of the next allocation.\<close>

record Locker =
  lk_entries :: "string \<Rightarrow> nat option"
  lk_heap :: "nat \<Rightarrow> lockEntry"
  lk_next :: nat

definition reference :: "string \<Rightarrow> Locker \<Rightarrow> nat \<times> Locker" where
  "reference pool l = (case lk_entries l pool of
     Some e \<Rightarrow> (e, l\<lparr>lk_heap := (lk_heap l)(e := (lk_heap l e)\<lparr>le_refs := le_refs (lk_heap l e) + 1\<rparr>)\<rparr>)
   | None \<Rightarrow> (lk_next l, \<lparr>lk_entries = (lk_entries l)(pool \<mapsto> lk_next l),
       lk_heap = (lk_heap l)(lk_next l := \<lparr>le_mu = False, le_refs = 1\<rparr>), lk_next = lk_next l + 1\<rparr>))"

definition release :: "string \<Rightarrow> nat \<Rightarrow> Locker \<Rightarrow> Locker" where
  "release pool e l = (let refs = le_refs (lk_heap l e) - 1; l' = l\<lparr>lk_heap := (lk_heap l)(e := (lk_heap l e)\<lparr>le_refs := refs\<rparr>)\<rparr> in
     if refs = 0 then l'\<lparr>lk_entries := (lk_entries l')(pool := None)\<rparr> else l')"

definition set_mu :: "nat \<Rightarrow> bool \<Rightarrow> Locker \<Rightarrow> Locker" where
  "set_mu e b l = l\<lparr>lk_heap := (lk_heap l)(e := (lk_heap l e)\<lparr>le_mu := b\<rparr>)\<rparr>"

section \<open>Callers\<close>

text \<open>
  Where a goroutine stands: \<open>Waiting\<close> has its entry and is at \<open>Lock\<close> or \<open>TryLock\<close> of its mutex,
  \<open>Refused\<close> is a failed \<open>TryLock\<close> before its \<open>release\<close>, \<open>Released\<close> is between the two calls of \<open>unlock\<close>.
\<close>

datatype caller = Idle | Waiting string nat | Refused string nat | Holding string nat | Released string nat

fun entry_of :: "caller \<Rightarrow> (string \<times> nat) option" where
  "entry_of Idle = None"
| "entry_of (Waiting p e) = Some (p, e)"
| "entry_of (Refused p e) = Some (p, e)"
| "entry_of (Holding p e) = Some (p, e)"
| "entry_of (Released p e) = Some (p, e)"

text \<open>
  A step of one goroutine. A \<open>TryLock\<close> may be refused at any time, which allows more than
  \<open>sync.Mutex\<close> does; \<open>Lock\<close> waits until the mutex is free.
\<close>

inductive lock_step :: "caller list \<times> Locker \<Rightarrow> caller list \<times> Locker \<Rightarrow> bool" where
  reference: "i < length cs \<Longrightarrow> cs ! i = Idle \<Longrightarrow> reference p l = (e, l') \<Longrightarrow> lock_step (cs, l) (cs[i := Waiting p e], l')"
| acquire: "i < length cs \<Longrightarrow> cs ! i = Waiting p e \<Longrightarrow> \<not> le_mu (lk_heap l e) \<Longrightarrow>
    lock_step (cs, l) (cs[i := Holding p e], set_mu e True l)"
| refuse: "i < length cs \<Longrightarrow> cs ! i = Waiting p e \<Longrightarrow> lock_step (cs, l) (cs[i := Refused p e], l)"
| unlock: "i < length cs \<Longrightarrow> cs ! i = Holding p e \<Longrightarrow> lock_step (cs, l) (cs[i := Released p e], set_mu e False l)"
| release: "i < length cs \<Longrightarrow> cs ! i \<in> {Refused p e, Released p e} \<Longrightarrow> lock_step (cs, l) (cs[i := Idle], release p e l)"

definition unused_locker :: Locker where
  "unused_locker = \<lparr>lk_entries = (\<lambda>_. None), lk_heap = (\<lambda>_. \<lparr>le_mu = False, le_refs = 0\<rparr>), lk_next = 0\<rparr>"

section \<open>The invariant\<close>

definition tally :: "('a \<Rightarrow> bool) \<Rightarrow> 'a list \<Rightarrow> int" where
  "tally P xs = int (length (filter P xs))"

definition refers :: "nat \<Rightarrow> caller \<Rightarrow> bool" where
  "refers e c \<longleftrightarrow> (\<exists>p. entry_of c = Some (p, e))"

definition holds :: "nat \<Rightarrow> caller \<Rightarrow> bool" where
  "holds e c \<longleftrightarrow> (\<exists>p. c = Holding p e)"

definition keyed :: "caller list \<Rightarrow> (string \<Rightarrow> nat option) \<Rightarrow> bool" where
  "keyed cs es \<longleftrightarrow> (\<forall>c \<in> set cs. case entry_of c of Some (p, e) \<Rightarrow> es p = Some e | None \<Rightarrow> True) \<and>
     (\<forall>p q e. es p = Some e \<longrightarrow> es q = Some e \<longrightarrow> p = q)"

definition counted :: "caller list \<Rightarrow> nat \<Rightarrow> lockEntry \<Rightarrow> bool" where
  "counted cs e x \<longleftrightarrow> le_refs x = tally (refers e) cs \<and> 0 < tally (refers e) cs \<and> tally (holds e) cs = of_bool (le_mu x)"

definition lock_inv :: "caller list \<times> Locker \<Rightarrow> bool" where
  "lock_inv w \<longleftrightarrow> keyed (fst w) (lk_entries (snd w)) \<and>
     (\<forall>p e. lk_entries (snd w) p = Some e \<longrightarrow> e < lk_next (snd w) \<and> counted (fst w) e (lk_heap (snd w) e))"

lemma tally_update: "i < length xs \<Longrightarrow> tally P (xs[i := y]) = tally P xs - of_bool (P (xs ! i)) + of_bool (P y)"
  by (subst (2) id_take_nth_drop [of i xs]) (simp_all add: tally_def upd_conv_take_nth_drop)

lemma tally_pos: "i < length xs \<Longrightarrow> P (xs ! i) \<Longrightarrow> 0 < tally P xs"
  by (auto simp: tally_def filter_empty_conv)

lemma tally_none: "(\<And>x. x \<in> set xs \<Longrightarrow> \<not> P x) \<Longrightarrow> tally P xs = 0"
  by (simp add: tally_def)

lemma tally_two:
  assumes "i < length xs" and "j < length xs" and "i \<noteq> j" and "P (xs ! i)" and "P (xs ! j)" and "\<not> P y"
  shows "2 \<le> tally P xs"
proof -
  have "0 < tally P (xs[i := y])" using assms by (intro tally_pos [of j]) auto
  then show ?thesis using assms by (simp add: tally_update)
qed

lemma caller_simps [simp]:
  "\<not> refers e Idle" "refers e (Waiting p e') = (e' = e)" "refers e (Refused p e') = (e' = e)" "refers e (Holding p e') = (e' = e)"
  "refers e (Released p e') = (e' = e)" "\<not> holds e Idle" "\<not> holds e (Waiting p e')" "\<not> holds e (Refused p e')"
  "holds e (Holding p e') = (e' = e)" "\<not> holds e (Released p e')"
  by (auto simp: refers_def holds_def)

lemma keyed_entry: "keyed cs es \<Longrightarrow> i < length cs \<Longrightarrow> entry_of (cs ! i) = Some (p, e) \<Longrightarrow> es p = Some e"
  unfolding keyed_def by (drule conjunct1, drule bspec, erule nth_mem) simp

lemma keyed_update: "keyed cs es \<Longrightarrow> (case entry_of c of Some (p, e) \<Rightarrow> es p = Some e | None \<Rightarrow> True) \<Longrightarrow> keyed (cs[i := c]) es"
  unfolding keyed_def using set_update_subset_insert [of cs i c] by blast

text \<open>A step that keeps the key and entry of its caller and at most flips the mutex of that entry.\<close>

lemma inv_same_entry:
  assumes "lock_inv (cs, l)" and "i < length cs" and "entry_of (cs ! i) = Some (p, e)" and "entry_of c = Some (p, e)"
    and "of_bool b = of_bool (le_mu (lk_heap l e)) - of_bool (holds e (cs ! i)) + (of_bool (holds e c) :: int)"
    and "\<And>e'. e' \<noteq> e \<Longrightarrow> \<not> holds e' (cs ! i) \<and> \<not> holds e' c"
  shows "lock_inv (cs[i := c], set_mu e b l)"
proof -
  have r: "refers e' c \<longleftrightarrow> refers e' (cs ! i)" for e' using assms(3,4) by (auto simp: refers_def)
  have k: "keyed cs (lk_entries l)" using assms(1) by (simp add: lock_inv_def)
  from keyed_update [OF k, of c i] keyed_entry [OF k assms(2,3)] assms(4) have "keyed (cs[i := c]) (lk_entries l)" by simp
  moreover have "counted (cs[i := c]) e' (lk_heap (set_mu e b l) e')" if "counted cs e' (lk_heap l e')" for e'
    using that assms(2,5) assms(6) [of e'] by (cases "e' = e") (simp_all add: counted_def set_mu_def tally_update r)
  ultimately show ?thesis using assms(1) by (simp add: lock_inv_def) (simp add: set_mu_def)
qed

lemma inv_reference:
  assumes "lock_inv (cs, l)" and "i < length cs" and "cs ! i = Idle" and "reference p l = (e, l')"
  shows "lock_inv (cs[i := Waiting p e], l')"
proof (cases "lk_entries l p")
  case (Some e0)
  have k: "keyed cs (lk_entries l)" using assms(1) by (simp add: lock_inv_def)
  from assms(4) Some have l': "e0 = e" "l' = l\<lparr>lk_heap := (lk_heap l)(e := (lk_heap l e)\<lparr>le_refs := le_refs (lk_heap l e) + 1\<rparr>)\<rparr>"
    by (auto simp: reference_def)
  have "counted (cs[i := Waiting p e]) e' (lk_heap l' e')" if "counted cs e' (lk_heap l e')" for e'
    using that assms(2,3) by (cases "e' = e") (simp_all add: counted_def l'(2) tally_update)
  then show ?thesis using assms(1) keyed_update [OF k, of "Waiting p e" i] Some by (simp add: lock_inv_def l')
next
  case None
  have k: "keyed cs (lk_entries l)" using assms(1) by (simp add: lock_inv_def)
  from assms(4) None have l': "e = lk_next l" "l' = \<lparr>lk_entries = (lk_entries l)(p \<mapsto> lk_next l),
       lk_heap = (lk_heap l)(lk_next l := \<lparr>le_mu = False, le_refs = 1\<rparr>), lk_next = lk_next l + 1\<rparr>"
    by (auto simp: reference_def)
  have old: "e' < lk_next l" if "lk_entries l q = Some e'" for q e' using assms(1) that by (auto simp: lock_inv_def)
  have fresh: "entry_of c \<noteq> Some (q, lk_next l)" if "c \<in> set cs" for c q
    using k that old [of q "lk_next l"] by (auto simp: keyed_def)
  have free: "entry_of c \<noteq> Some (p, e')" if "c \<in> set cs" for c e'
    using k that None by (auto simp: keyed_def)
  have "tally (refers (lk_next l)) cs = 0" "tally (holds (lk_next l)) cs = 0"
    by (rule tally_none, use fresh in \<open>auto simp: refers_def\<close>) (rule tally_none, use fresh in \<open>metis entry_of.simps(4) holds_def\<close>)
  then have new: "counted (cs[i := Waiting p e]) (lk_next l) \<lparr>le_mu = False, le_refs = 1\<rparr>"
    using assms(2,3) l'(1) by (simp add: counted_def tally_update)
  have others: "counted (cs[i := Waiting p e]) e' x" if "counted cs e' x" "e' < lk_next l" for e' x
    using that assms(2,3) l'(1) by (simp add: counted_def tally_update)
  have "\<forall>c \<in> set cs. case entry_of c of Some (q, e') \<Rightarrow> ((lk_entries l)(p \<mapsto> lk_next l)) q = Some e' | None \<Rightarrow> True"
    using k free unfolding keyed_def by (fastforce split: option.splits)
  moreover have "\<forall>q q' e'. ((lk_entries l)(p \<mapsto> lk_next l)) q = Some e' \<longrightarrow> ((lk_entries l)(p \<mapsto> lk_next l)) q' = Some e' \<longrightarrow> q = q'"
    using k old unfolding keyed_def by (metis fun_upd_apply less_irrefl option.inject)
  ultimately have "keyed cs ((lk_entries l)(p \<mapsto> lk_next l))" unfolding keyed_def by blast
  then have "keyed (cs[i := Waiting p e]) (lk_entries l')" using keyed_update [of cs _ "Waiting p e" i] l' by simp
  then show ?thesis using assms(1) new others old by (auto simp: lock_inv_def l'(2) less_Suc_eq)
qed

lemma inv_release:
  assumes "lock_inv (cs, l)" and "i < length cs" and "entry_of (cs ! i) = Some (p, e)" and "\<not> holds e (cs ! i)"
  shows "lock_inv (cs[i := Idle], release p e l)"
proof -
  have k: "keyed cs (lk_entries l)" using assms(1) by (simp add: lock_inv_def)
  have pe: "lk_entries l p = Some e" using keyed_entry [OF k assms(2,3)] .
  have ref: "refers e' (cs ! i) \<longleftrightarrow> e' = e" "\<not> holds e' (cs ! i)" for e' using assms(3,4) by (auto simp: refers_def holds_def)
  have t: "tally (refers e') (cs[i := Idle]) = tally (refers e') cs - of_bool (e' = e)" "tally (holds e') (cs[i := Idle]) = tally (holds e') cs"
    for e' using assms(2) ref by (simp_all add: tally_update)
  have c: "counted cs e (lk_heap l e)" using assms(1) pe by (simp add: lock_inv_def)
  have kk: "keyed (cs[i := Idle]) (lk_entries l)" by (rule keyed_update [OF k]) simp
  show ?thesis
  proof (cases "le_refs (lk_heap l e) - 1 = 0")
    case True
    then have z: "tally (refers e) (cs[i := Idle]) = 0" using c t(1) [of e] by (simp add: counted_def)
    have gone: "entry_of c \<noteq> Some (p, e')" if "c \<in> set (cs[i := Idle])" for c e'
    proof
      assume a: "entry_of c = Some (p, e')"
      with kk that have "lk_entries l p = Some e'" unfolding keyed_def by (auto dest!: bspec)
      with a pe have "refers e c" by (simp add: refers_def)
      with z that show False by (auto simp: tally_def filter_empty_conv)
    qed
    have "keyed (cs[i := Idle]) ((lk_entries l)(p := None))"
      unfolding keyed_def
    proof (intro conjI ballI allI impI)
      fix c assume "c \<in> set (cs[i := Idle])"
      then show "case entry_of c of Some (q, e') \<Rightarrow> ((lk_entries l)(p := None)) q = Some e' | None \<Rightarrow> True"
        using kk gone [of c] unfolding keyed_def by (auto dest!: bspec split: option.splits)
    next
      fix q q' e' assume "((lk_entries l)(p := None)) q = Some e'" "((lk_entries l)(p := None)) q' = Some e'"
      then show "q = q'" using k unfolding keyed_def by (simp split: if_splits)
    qed
    moreover have "counted (cs[i := Idle]) e' (lk_heap (release p e l) e')" if "lk_entries l q = Some e'" "q \<noteq> p" for q e'
    proof -
      have "e' \<noteq> e" using k that pe unfolding keyed_def by blast
      moreover have "counted cs e' (lk_heap l e')" using assms(1) that(1) by (simp add: lock_inv_def)
      ultimately show ?thesis by (simp add: counted_def release_def Let_def t)
    qed
    moreover have "lk_entries (release p e l) = (lk_entries l)(p := None)" "lk_next (release p e l) = lk_next l"
      using True by (simp_all add: release_def Let_def)
    ultimately show ?thesis using assms(1) by (simp add: lock_inv_def split: if_splits)
  next
    case False
    have "counted (cs[i := Idle]) e' (lk_heap (release p e l) e')" if "counted cs e' (lk_heap l e')" for e'
      using that False c by (cases "e' = e") (auto simp: counted_def release_def Let_def t)
    then show ?thesis using assms(1) kk False by (simp add: lock_inv_def) (simp add: release_def Let_def)
  qed
qed

lemma lock_inv_step: "lock_step w w' \<Longrightarrow> lock_inv w \<Longrightarrow> lock_inv w'"
proof (induction rule: lock_step.induct)
  case (reference i cs p l e l')
  then show ?case by (intro inv_reference)
next
  case (acquire i cs p e l)
  then show ?case by (intro inv_same_entry [of cs l i p e]) auto
next
  case (refuse i cs p e l)
  then have "lock_inv (cs[i := Refused p e], set_mu e (le_mu (lk_heap l e)) l)" by (intro inv_same_entry [of cs l i p e]) auto
  then show ?case by (simp add: set_mu_def)
next
  case (unlock i cs p e l)
  then have "0 < tally (holds e) cs" by (intro tally_pos [of i]) simp_all
  moreover have "keyed cs (lk_entries l)" using unlock(3) by (simp add: lock_inv_def)
  from keyed_entry [OF this unlock(1), of p e] unlock(2,3) have "counted cs e (lk_heap l e)" by (simp add: lock_inv_def)
  ultimately have "le_mu (lk_heap l e)" by (cases "le_mu (lk_heap l e)") (simp_all add: counted_def)
  with unlock show ?case by (intro inv_same_entry [of cs l i p e]) auto
next
  case (release i cs p e l)
  then show ?case by (intro inv_release) auto
qed

lemma lock_inv_run: "lock_step\<^sup>*\<^sup>* w w' \<Longrightarrow> lock_inv w \<Longrightarrow> lock_inv w'"
  by (induction rule: rtranclp_induct) (auto dest: lock_inv_step)

lemma lock_inv_start: "set cs \<subseteq> {Idle} \<Longrightarrow> lock_inv (cs, unused_locker)"
  by (auto simp: lock_inv_def keyed_def unused_locker_def)

section \<open>The claim\<close>

text \<open>
  C40. The keyed mutex excludes and leaves nothing behind: from an unused locker, under every
  interleaving of callers, no two of them hold the same key, every caller with an entry has the one
  the key leads to, and once no caller uses the locker its map of entries is empty again.
\<close>

theorem keyed_lock_exclusive:
  assumes "lock_step\<^sup>*\<^sup>* (replicate n Idle, unused_locker) (cs, l)"
  shows "(i < length cs \<longrightarrow> j < length cs \<longrightarrow> cs ! i = Holding p e \<longrightarrow> cs ! j = Holding p e' \<longrightarrow> i = j) \<and>
    (\<forall>k < length cs. \<forall>q d. entry_of (cs ! k) = Some (q, d) \<longrightarrow> lk_entries l q = Some d) \<and>
    (set cs \<subseteq> {Idle} \<longrightarrow> lk_entries l = (\<lambda>_. None))"
proof -
  have w: "lock_inv (cs, l)" by (rule lock_inv_run [OF assms lock_inv_start]) auto
  then have k: "keyed cs (lk_entries l)" by (simp add: lock_inv_def)
  have "i = j" if "i < length cs" "j < length cs" "cs ! i = Holding p e" "cs ! j = Holding p e'"
  proof (rule ccontr)
    assume "i \<noteq> j"
    have e: "lk_entries l p = Some e" "lk_entries l p = Some e'"
      using keyed_entry [OF k that(1), of p e] keyed_entry [OF k that(2), of p e'] that by simp_all
    then have "2 \<le> tally (holds e) cs" using that \<open>i \<noteq> j\<close> by (intro tally_two [of i cs j _ Idle]) simp_all
    moreover have "counted cs e (lk_heap l e)" using w e by (simp add: lock_inv_def)
    ultimately show False by (cases "le_mu (lk_heap l e)") (simp_all add: counted_def)
  qed
  moreover have "lk_entries l = (\<lambda>_. None)" if idle: "set cs \<subseteq> {Idle}"
  proof
    fix q
    have "tally (refers d) cs = 0" for d using idle by (intro tally_none) auto
    then show "lk_entries l q = None" using w by (cases "lk_entries l q") (auto simp: lock_inv_def counted_def)
  qed
  ultimately show ?thesis using keyed_entry [OF k] by blast
qed

definition contended :: "caller list \<times> Locker" where
  "contended = ([Holding ''p'' 0, Waiting ''p'' 0], \<lparr>lk_entries = (\<lambda>_. None)(''p'' \<mapsto> 0),
     lk_heap = (\<lambda>_. \<lparr>le_mu = False, le_refs = 0\<rparr>)(0 := \<lparr>le_mu = True, le_refs = 2\<rparr>), lk_next = 1\<rparr>)"

lemma contended_run: "lock_step\<^sup>*\<^sup>* (replicate 2 Idle, unused_locker) contended"
proof -
  let ?r = "\<lambda>n. snd (reference ''p'' n)"
  have "lock_step ([Idle, Idle], unused_locker) ([Waiting ''p'' 0, Idle], ?r unused_locker)"
    using lock_step.reference [of 0 "[Idle, Idle]" "''p''" unused_locker 0] by (simp add: reference_def unused_locker_def)
  moreover have "lock_step ([Waiting ''p'' 0, Idle], ?r unused_locker) ([Waiting ''p'' 0, Waiting ''p'' 0], ?r (?r unused_locker))"
    using lock_step.reference [of 1 "[Waiting ''p'' 0, Idle]" "''p''" "?r unused_locker" 0] by (simp add: reference_def unused_locker_def)
  moreover have "lock_step ([Waiting ''p'' 0, Waiting ''p'' 0], ?r (?r unused_locker)) contended"
    using lock_step.acquire [of 0 "[Waiting ''p'' 0, Waiting ''p'' 0]" "''p''" 0 "?r (?r unused_locker)"]
    by (simp add: reference_def unused_locker_def contended_def set_mu_def)
  ultimately show ?thesis by (simp add: numeral_2_eq_2)
qed

theorem keyed_lock_exclusive_witness:
  "fst contended ! 0 = Holding ''p'' 0 \<and> fst contended ! 1 = Waiting ''p'' 0 \<and> lk_entries (snd contended) ''p'' = Some 0"
proof -
  have "entry_of (fst contended ! 0) = Some (''p'', 0)" "0 < length (fst contended)" by (simp_all add: contended_def)
  moreover have "lock_step\<^sup>*\<^sup>* (replicate 2 Idle, unused_locker) (fst contended, snd contended)" using contended_run by simp
  ultimately have "lk_entries (snd contended) ''p'' = Some 0" using keyed_lock_exclusive [of 2 "fst contended" "snd contended"] by blast
  then show ?thesis by (simp add: contended_def)
qed

end
