(* ===== verification/Uninstall_Check.thy ===== *)
theory Uninstall_Check
  imports Move_History
begin

text \<open>
  The uninstall guard's checks (\<open>src/lifecycle/uninstall\<close>): what still blocks the removal of the
  driver, of one pool, or the retirement of a pool, and the release of pool protection. A map of
  volumes is the list of its entries in the order the loop visits them.
\<close>

section \<open>What the checks read\<close>

text \<open>
  The fields of Kubernetes objects the checks read. The terms of a PersistentVolume's required node
  affinity are empty when the affinity or its required part is nil; \<open>sel_Operator\<close> is the operator.
\<close>

record node_selector =
  sel_Key :: string
  sel_Operator :: string
  sel_Values :: "string list"

record PersistentVolume =
  pv_Name :: string
  pv_CSI :: "(string \<times> string) option"
  pv_ClaimRef :: "(string \<times> string) option"
  pv_Terms :: "node_selector list list"

record PersistentVolumeClaim =
  pvc_Namespace :: string
  pvc_Name :: string
  pvc_StorageClassName :: "string option"
  pvc_VolumeName :: string

record PodSpec =
  sc_NodeName :: string
  sc_HostPaths :: "string list"

record helper_pod =
  hp_Namespace :: string
  hp_Name :: string
  hp_Phase :: string
  hp_Spec :: PodSpec

record helper_job =
  hj_Namespace :: string
  hj_Name :: string
  hj_Conditions :: "(string \<times> string) list"
  hj_Spec :: PodSpec

record 'w VolumeRepository =
  rp_ListVolumes :: "'w \<Rightarrow> volumes res"
  rp_ListMoves :: "'w \<Rightarrow> Move list res"
  rp_ListPoolRegistrations :: "'w \<Rightarrow> Pool list res"
  rp_RemovePoolFinalizer :: "string \<Rightarrow> string \<Rightarrow> 'w closure"

text \<open>The lists of the Kubernetes client, which is there, the two repositories and the clock.\<close>

record 'w Checker =
  kc_PersistentVolumes :: "'w \<Rightarrow> PersistentVolume list res"
  kc_Claims :: "'w \<Rightarrow> PersistentVolumeClaim list res"
  kc_Pods :: "'w \<Rightarrow> string \<Rightarrow> helper_pod list res"
  kc_Jobs :: "'w \<Rightarrow> string \<Rightarrow> helper_job list res"
  kc_Volumes :: "'w VolumeRepository option"
  kc_StorageClassNames :: "string list"
  kc_Namespace :: string
  kc_Cleanups :: "('w \<Rightarrow> Cleanup list res) option"
  kc_Now :: "'w \<Rightarrow> int"
  kc_InventoryMaxAge :: int
  kc_PreserveRetiredPoolUIDs :: "string list"

section \<open>Blockers\<close>

record Blocker =
  bk_Kind :: string
  bk_Namespace :: string
  bk_Name :: string
  bk_Reason :: string

type_synonym Report = "Blocker list"

abbreviation PoolInventoryBlockerKind :: string where "PoolInventoryBlockerKind \<equiv> ''ShiftPVPoolInventory''"

definition Safe :: "Report \<Rightarrow> bool" where
  "Safe r \<longleftrightarrow> r = []"

definition WaitingForInventory :: "Report \<Rightarrow> bool" where
  "WaitingForInventory r \<longleftrightarrow> r \<noteq> [] \<and>
     list_all (\<lambda>b. bk_Kind b = PoolInventoryBlockerKind \<or> bk_Kind b = ''ShiftPVPoolIdentity'') r"

definition blockerKey :: "Blocker \<Rightarrow> string" where
  "blockerKey b = bk_Kind b @ [CHR 0x00] @ bk_Namespace b @ [CHR 0x00] @ bk_Name b @ [CHR 0x00] @ bk_Reason b"

definition sortBlockers :: "Blocker list \<Rightarrow> Blocker list" where
  "sortBlockers = sort_key blockerKey"

definition blocker :: "string \<Rightarrow> string \<Rightarrow> string \<Rightarrow> Blocker" where
  "blocker kind name reason = \<lparr>bk_Kind = kind, bk_Namespace = [], bk_Name = name, bk_Reason = reason\<rparr>"

definition print_int :: "int \<Rightarrow> string" where
  "print_int i = (if i < 0 then CHR ''-'' # print_nat (nat (- i)) else print_nat (nat i))"

abbreviation spaced :: "string list \<Rightarrow> string" where "spaced \<equiv> join_with (CHR '' '')"

section \<open>References to a pool\<close>

definition copyUsesPool :: "CopyIdentity option \<Rightarrow> Pool \<Rightarrow> bool" where
  "copyUsesPool c pool = (case c of None \<Rightarrow> False | Some c \<Rightarrow> ci_PoolName c = pl_Name pool \<and> ci_PoolUID c = pl_UID pool)"

definition preparationUsesPool :: "MovePreparation option \<Rightarrow> Pool \<Rightarrow> bool \<times> bool" where
  "preparationUsesPool preparation pool = (case preparation of
     None \<Rightarrow> (False, False)
   | Some p \<Rightarrow>
       if pr_UID (mp_Pool p) = pl_UID pool then (True, True)
       else if ValidObjectName (pr_Name (mp_Pool p)) \<and> ValidIdentityToken (pr_UID (mp_Pool p)) \<and> ValidObjectName (mp_NodeName p)
       then (False, True)
       else (pr_Name (mp_Pool p) = pl_Name pool \<or> mp_NodeName p = [] \<or> mp_NodeName p = pl_NodeName pool, False))"

definition exactMoveCopy :: "CopyIdentity option \<Rightarrow> string \<Rightarrow> string \<Rightarrow> string \<Rightarrow> bool" where
  "exactMoveCopy c volumeID nodeName role = (case c of None \<Rightarrow> False
   | Some c \<Rightarrow> ValidateCopy c = None \<and> ci_VolumeID c = volumeID \<and> ci_NodeName c = nodeName \<and> ci_Role c = role)"

definition moveUsesPool :: "Move \<Rightarrow> Pool \<Rightarrow> bool" where
  "moveUsesPool m pool = (let s = mv_Status m; (preparationUses, preparationKnown) = preparationUsesPool (mt_Preparation s) pool;
       volumeID = ms_VolumeID (mv_Spec m); node = mt_DestinationNode s;
       exact = filter (\<lambda>(c, role). exactMoveCopy c volumeID node role) [(mt_IncomingCopy s, RoleIncoming), (mt_DestinationCopy s, RoleServing)];
       recorded = (node \<noteq> [] \<and> mt_DestinationPoolUID s \<noteq> []);
       destinationKnown = (preparationKnown \<or> exact \<noteq> [] \<or> recorded) in
     preparationUses \<or>
     (if exactMoveCopy (mt_SourceCopy s) volumeID (ms_SourceNode (mv_Spec m)) RoleServing then copyUsesPool (mt_SourceCopy s) pool
      else ms_SourceNode (mv_Spec m) = pl_NodeName pool) \<or>
     list_ex (\<lambda>(c, _). copyUsesPool c pool) exact \<or>
     recorded \<and> mt_DestinationPoolUID s = pl_UID pool \<or>
     \<not> destinationKnown \<and> (node = pl_NodeName pool \<or> pl_NodeName pool \<in> set (mt_CandidateNodes s)))"

definition currentCopyUsesPool :: "string \<Rightarrow> State \<Rightarrow> Pool \<Rightarrow> bool \<times> bool" where
  "currentCopyUsesPool volumeID s pool = (
     if HasInitialReservation s
     then (vs_InitialPool s = Some \<lparr>pr_Name = pl_Name pool, pr_UID = pl_UID pool\<rparr>, True)
     else case vs_CurrentCopy s of
       None \<Rightarrow> (False, False)
     | Some c \<Rightarrow>
         if ValidateCopy c \<noteq> None \<or> ci_VolumeID c \<noteq> volumeID \<or> ci_VolumeUID c \<noteq> vs_UID s \<or> ci_NodeName c \<noteq> vs_OwnerNode s \<or>
            ci_Role c \<noteq> RoleServing then (False, False)
         else (ci_PoolName c = pl_Name pool \<and> ci_PoolUID c = pl_UID pool, True))"

text \<open>The loop over the expressions of one term: whether one was read, and what the last one read says.\<close>

definition term_targets :: "string \<Rightarrow> node_selector list \<Rightarrow> bool \<times> bool" where
  "term_targets nodeName term = fold (\<lambda>e (known, matches).
     if sel_Key e \<noteq> TopologyKey then (known, matches)
     else if sel_Operator e = ''In'' then (True, nodeName \<in> set (sel_Values e))
     else if sel_Operator e = ''NotIn'' then (True, nodeName \<notin> set (sel_Values e))
     else (known, matches)) term (False, False)"

fun terms_target :: "string \<Rightarrow> node_selector list list \<Rightarrow> bool \<times> bool" where
  "terms_target nodeName [] = (False, True)"
| "terms_target nodeName (t # ts) = (case term_targets nodeName t of (known, matches) \<Rightarrow>
     if \<not> known then (False, False) else if matches then (True, True) else terms_target nodeName ts)"

definition persistentVolumeTargetsNode :: "PersistentVolume \<Rightarrow> string \<Rightarrow> bool \<times> bool" where
  "persistentVolumeTargetsNode pv nodeName = (if pv_Terms pv = [] then (False, False) else terms_target nodeName (pv_Terms pv))"

section \<open>Blockers of each kind\<close>

definition listDriverPersistentVolumes :: "'w Checker \<Rightarrow> 'w \<Rightarrow> PersistentVolume list res" where
  "listDriverPersistentVolumes c w = (case kc_PersistentVolumes c w of
     Inl e \<Rightarrow> Inl (Wrapped e ''list PersistentVolumes'')
   | Inr pvs \<Rightarrow> Inr (filter (\<lambda>pv. map_option fst (pv_CSI pv) = Some DriverName) pvs))"

definition persistentVolumeBlockers :: "PersistentVolume list \<Rightarrow> Blocker list" where
  "persistentVolumeBlockers pvs = concat (map (\<lambda>pv. case pv_CSI pv of
     None \<Rightarrow> []
   | Some (_, handle) \<Rightarrow> [blocker ''PersistentVolume'' (pv_Name pv) (''driver='' @ DriverName @ '' volumeHandle='' @ handle @
       (case pv_ClaimRef pv of None \<Rightarrow> [] | Some (ns, n) \<Rightarrow> '' claim='' @ ns @ ''/'' @ n))]) pvs)"

definition poolPersistentVolumeBlockers :: "PersistentVolume list \<Rightarrow> volumes \<Rightarrow> Pool \<Rightarrow> Blocker list" where
  "poolPersistentVolumeBlockers pvs vs pool = concat (map (\<lambda>pv. case pv_CSI pv of
     None \<Rightarrow> []
   | Some (_, handle) \<Rightarrow> (let
         located = (case map_of vs handle of None \<Rightarrow> (False, False) | Some s \<Rightarrow> currentCopyUsesPool handle s pool) in
       if snd located
       then (if fst located then [blocker ''PersistentVolume'' (pv_Name pv) (''pool='' @ pl_Name pool @ '' poolUID='' @ pl_UID pool)] else [])
       else (case persistentVolumeTargetsNode pv (pl_NodeName pool) of (matches, known) \<Rightarrow>
         if \<not> known \<or> matches
         then [blocker ''PersistentVolume'' (pv_Name pv) (if matches then ''node='' @ pl_NodeName pool else ''placement=unknown'')]
         else []))) pvs)"

definition claimBlockers :: "'w Checker \<Rightarrow> 'w \<Rightarrow> Blocker list res" where
  "claimBlockers c w = (case kc_Claims c w of
     Inl e \<Rightarrow> Inl (Wrapped e ''list PersistentVolumeClaims'')
   | Inr claims \<Rightarrow> Inr (concat (map (\<lambda>claim. case pvc_StorageClassName claim of
         None \<Rightarrow> []
       | Some class \<Rightarrow> if class \<notin> set (kc_StorageClassNames c) then []
           else [\<lparr>bk_Kind = ''PersistentVolumeClaim'', bk_Namespace = pvc_Namespace claim, bk_Name = pvc_Name claim,
             bk_Reason = ''references the ShiftPV StorageClass'' @
               (if pvc_VolumeName claim \<noteq> [] then '' volume='' @ pvc_VolumeName claim else [])\<rparr>]) claims)))"

definition volumeBlockers :: "volumes \<Rightarrow> Blocker list" where
  "volumeBlockers vs = map (\<lambda>(volumeID, s). blocker ''ShiftPVVolume'' volumeID (spaced (
     [''phase='' @ vs_Phase s, ''owner='' @ vs_OwnerNode s] @
     (if vs_ActiveMove s \<noteq> [] then [''activeMove='' @ vs_ActiveMove s] else []) @
     (if vs_PublishedNodes s \<noteq> [] then [''publishedNodes='' @ join_with (CHR '','') (vs_PublishedNodes s)] else [])))) vs"

definition poolVolumeBlockers :: "volumes \<Rightarrow> Pool \<Rightarrow> Blocker list" where
  "poolVolumeBlockers vs pool = concat (map (\<lambda>(volumeID, s). case currentCopyUsesPool volumeID s pool of (usesPool, known) \<Rightarrow>
     if known \<and> \<not> usesPool then []
     else if \<not> known \<and> pl_NodeName pool \<notin> set (vs_PublishedNodes s) \<and> vs_OwnerNode s \<noteq> pl_NodeName pool \<and>
       \<not> (vs_Phase s = [] \<and> vs_InitialNode s = pl_NodeName pool) then []
     else [blocker ''ShiftPVVolume'' volumeID (''owner='' @ vs_OwnerNode s @ (case vs_CurrentCopy s of
         None \<Rightarrow> '' currentCopy=missing''
       | Some c \<Rightarrow> '' pool='' @ ci_PoolName c @ '' poolUID='' @ ci_PoolUID c))]) vs)"

definition moveBlockers :: "'w VolumeRepository \<Rightarrow> Pool option \<Rightarrow> 'w \<Rightarrow> Blocker list res" where
  "moveBlockers r pool w = (case rp_ListMoves r w of
     Inl e \<Rightarrow> Inl (Wrapped e ''list ShiftPVMoves'')
   | Inr moves \<Rightarrow> Inr (map (\<lambda>m. blocker ''ShiftPVMove'' (mv_Name m) (''phase='' @ mt_Phase (mv_Status m) @ '' volume='' @ ms_VolumeID (mv_Spec m)))
       (filter (\<lambda>m. \<not> MoveCleanupSettled m \<and> (case pool of None \<Rightarrow> True | Some p \<Rightarrow> moveUsesPool m p)) moves)))"

definition cleanupJournalBlocker :: "Cleanup \<Rightarrow> Blocker res" where
  "cleanupJournalBlocker c = (let kind = au_Kind (sp_Authority (cl_Spec c)); name = au_Name (sp_Authority (cl_Spec c)) in
     if kind \<noteq> KindVolume \<and> kind \<noteq> KindMove \<or> TrimSpace name = [] then Inl (Errorf ''cleanup journal has invalid parent authority'')
     else Inr (blocker kind name (''cleanupPhase='' @ (if st_Phase (cl_Status c) = [] then CleanupPending else st_Phase (cl_Status c)) @
       '' operation='' @ sp_OperationID (cl_Spec c) @ '' volume='' @ ci_VolumeID (sp_Target (cl_Spec c)))))"

definition cleanupBlockers :: "('w \<Rightarrow> Cleanup list res) \<Rightarrow> Pool option \<Rightarrow> 'w \<Rightarrow> Blocker list res" where
  "cleanupBlockers list pool w = (case list w of
     Inl e \<Rightarrow> Inl (Wrapped e ''list cleanup journals'')
   | Inr cleanups \<Rightarrow> map_res cleanupJournalBlocker (filter (\<lambda>c. st_Phase (cl_Status c) \<noteq> PhaseCompleted \<and>
       (case pool of None \<Rightarrow> True | Some p \<Rightarrow> ci_PoolName (sp_Target (cl_Spec c)) = pl_Name p \<and> ci_PoolUID (sp_Target (cl_Spec c)) = pl_UID p)) cleanups))"

section \<open>Inventories\<close>

definition inventory_reasons :: "Pool \<Rightarrow> PoolInventory \<Rightarrow> int \<Rightarrow> int \<Rightarrow> time \<Rightarrow> string list" where
  "inventory_reasons pool inventory now maxAge observedAfter =
     (if ps_ObservedGeneration (pl_Status pool) \<noteq> pl_Generation pool
      then [''generation='' @ print_int (pl_Generation pool) @ '' observedGeneration='' @ print_int (ps_ObservedGeneration (pl_Status pool))] else []) @
     (if \<not> iv_Valid inventory then [''valid=false''] else []) @
     (if iv_Truncated inventory then [''truncated=true''] else []) @
     (if iv_Message inventory \<noteq> [] then [''message='' @ iv_Message inventory] else []) @
     (case iv_ObservedAt inventory of
        None \<Rightarrow> [''observedAt=missing'']
      | Some at \<Rightarrow>
          if now < at then [''observedAt=future'']
          else if time_Sub now at > maxAge then [''observedAt=stale'']
          else (case observedAfter of None \<Rightarrow> [] | Some after \<Rightarrow> if \<not> at > after then [''observedAt=before-quiesce''] else []))"

definition copy_parts :: "CopyObservation \<Rightarrow> string list" where
  "copy_parts o' = [''marker='' @ cob_Marker o', ''present='' @ (if cob_Present o' then ''true'' else ''false'')] @
     (case cob_Identity o' of None \<Rightarrow> []
      | Some i \<Rightarrow> [''role='' @ ci_Role i, ''volume='' @ ci_VolumeID i, ''copy='' @ ci_CopyID i]) @
     (if cob_Published o' then [''published=true''] else []) @
     (if cob_Problem o' \<noteq> [] then [''problem='' @ cob_Problem o'] else [])"

definition poolInventoryBlockers :: "Pool \<Rightarrow> int \<Rightarrow> int \<Rightarrow> time \<Rightarrow> Blocker list" where
  "poolInventoryBlockers pool now maxAge observedAfter = (case ps_Inventory (pl_Status pool) of
     None \<Rightarrow> [blocker PoolInventoryBlockerKind (pl_Name pool) ''inventory=missing'']
   | Some inventory \<Rightarrow> (let reasons = inventory_reasons pool inventory now maxAge observedAfter in
       if reasons \<noteq> [] then [blocker PoolInventoryBlockerKind (pl_Name pool) (spaced reasons)]
       else map (\<lambda>o'. blocker ''ShiftPVPoolCopy'' (pl_Name pool) (spaced (copy_parts o')))
         (filter (\<lambda>o'. cob_Present o' \<or> cob_Published o') (iv_Copies inventory))))"

definition inventoryMaxAge :: "'w Checker \<Rightarrow> int" where
  "inventoryMaxAge c = (if kc_InventoryMaxAge c > 0 then kc_InventoryMaxAge c else DefaultPoolReadinessStaleAfter)"

section \<open>Retirement\<close>

definition retirementCleanupBlockers :: "('w \<Rightarrow> Cleanup list res) \<Rightarrow> Pool \<Rightarrow> 'w \<Rightarrow> Blocker list res" where
  "retirementCleanupBlockers list pool w = (case list w of
     Inl e \<Rightarrow> Inl (Wrapped e ''list cleanup journals'')
   | Inr cleanups \<Rightarrow> map_res cleanupJournalBlocker (filter (\<lambda>c. let target = sp_Target (cl_Spec c) in
       st_Phase (cl_Status c) \<noteq> ''Completed'' \<and> (ci_PoolUID target = pl_UID pool \<or>
         ValidateCopy target \<noteq> None \<and> (ci_NodeName target = [] \<or> ci_NodeName target = pl_NodeName pool))) cleanups))"

definition retirementMoveView :: "Move \<Rightarrow> volumes \<Rightarrow> Move" where
  "retirementMoveView m vs = (let s = mv_Status m;
       source = (case map_of vs (ms_VolumeID (mv_Spec m)) of None \<Rightarrow> mt_SourceCopy s
         | Some v \<Rightarrow> if mt_SourceCopy s = None \<and> map_option ci_VolumeUID (vs_CurrentCopy v) = Some (vs_UID v) \<and>
               vs_OwnerNode v = ms_SourceNode (mv_Spec m) \<and>
               exactMoveCopy (vs_CurrentCopy v) (ms_VolumeID (mv_Spec m)) (ms_SourceNode (mv_Spec m)) RoleServing
             then vs_CurrentCopy v else mt_SourceCopy s);
       node = (if \<not> mt_CapacityApproved s \<and> mt_Preparation s = None \<and> mt_IncomingCopy s = None \<and> mt_DestinationCopy s = None \<and>
           mt_DestinationPoolUID s = [] then [] else mt_DestinationNode s) in
     m\<lparr>mv_Status := s\<lparr>mt_SourceCopy := source, mt_CandidateNodes := [], mt_DestinationNode := node\<rparr>\<rparr>)"

definition retirementMoveUsesPool :: "Move \<Rightarrow> Pool \<Rightarrow> volumes \<Rightarrow> bool" where
  "retirementMoveUsesPool m pool vs \<longleftrightarrow> (let s = mv_Status m in
     list_ex (\<lambda>c. case c of None \<Rightarrow> False
       | Some c \<Rightarrow> ci_PoolUID c = pl_UID pool \<or> ValidateCopy c \<noteq> None \<and> (ci_NodeName c = [] \<or> ci_NodeName c = pl_NodeName pool))
       [mt_SourceCopy s, mt_IncomingCopy s, mt_DestinationCopy s] \<or>
     mt_DestinationPoolUID s = pl_UID pool \<or>
     (case mt_Preparation s of None \<Rightarrow> False | Some p \<Rightarrow> pr_UID (mp_Pool p) = pl_UID pool) \<or>
     \<not> ValidObjectName (ms_SourceNode (mv_Spec m)) \<or>
     moveUsesPool (retirementMoveView m vs) pool)"

definition retirement_reference :: "Pool \<Rightarrow> State \<Rightarrow> bool" where
  "retirement_reference pool s \<longleftrightarrow> map_option pr_UID (vs_InitialPool s) = Some (pl_UID pool) \<or>
     map_option ci_PoolUID (vs_CurrentCopy s) = Some (pl_UID pool)"

definition retirement_unlocated :: "Pool \<Rightarrow> string \<Rightarrow> State \<Rightarrow> bool" where
  "retirement_unlocated pool i s \<longleftrightarrow> \<not> snd (currentCopyUsesPool i s pool) \<and> \<not> ValidObjectName (vs_OwnerNode s) \<and>
     (vs_Phase s \<noteq> [] \<or> \<not> ValidObjectName (vs_InitialNode s))"

fun retirement_scan :: "Pool \<Rightarrow> volumes \<Rightarrow> Blocker list \<times> volumes" where
  "retirement_scan pool [] = ([], [])"
| "retirement_scan pool ((i, s) # vs) = (case retirement_scan pool vs of (blockers, references) \<Rightarrow>
     if retirement_reference pool s then (blocker ''ShiftPVVolume'' i ''Pool UID reference remains'' # blockers, references)
     else if vs_InitialPool s = None \<and> UnstartedCreation s then (blockers, references)
     else if retirement_unlocated pool i s then (blocker ''ShiftPVVolume'' i ''Pool ownership cannot be located'' # blockers, references)
     else (blockers, (i, s) # references))"

definition retirementVolumeBlockers :: "volumes \<Rightarrow> Pool \<Rightarrow> Blocker list" where
  "retirementVolumeBlockers vs pool = (case retirement_scan pool vs of (blockers, references) \<Rightarrow> blockers @ poolVolumeBlockers references pool)"

definition helperMountsPool :: "PodSpec \<Rightarrow> Pool \<Rightarrow> bool" where
  "helperMountsPool spec pool \<longleftrightarrow> (sc_NodeName spec = [] \<or> sc_NodeName spec = pl_NodeName pool) \<and>
     list_ex (\<lambda>path. Clean path = pl_MountPath pool) (sc_HostPaths spec)"

definition poolRetirementActors :: "'w Checker \<Rightarrow> Pool \<Rightarrow> 'w \<Rightarrow> Blocker list res" where
  "poolRetirementActors c pool w = (case kc_Pods c w (kc_Namespace c) of
     Inl e \<Rightarrow> Inl (Wrapped e ''list Pool helper Pods'')
   | Inr pods \<Rightarrow> (case kc_Jobs c w (kc_Namespace c) of
       Inl e \<Rightarrow> Inl (Wrapped e ''list Pool helper Jobs'')
     | Inr jobs \<Rightarrow> Inr (
         map (\<lambda>p. \<lparr>bk_Kind = ''Pod'', bk_Namespace = hp_Namespace p, bk_Name = hp_Name p, bk_Reason = ''active Pool helper''\<rparr>)
           (filter (\<lambda>p. hp_Phase p \<noteq> ''Succeeded'' \<and> hp_Phase p \<noteq> ''Failed'' \<and> helperMountsPool (hp_Spec p) pool) pods) @
         map (\<lambda>j. \<lparr>bk_Kind = ''Job'', bk_Namespace = hj_Namespace j, bk_Name = hj_Name j, bk_Reason = ''active Pool helper''\<rparr>)
           (filter (\<lambda>j. \<not> list_ex (\<lambda>(t, status). status = ConditionTrue \<and> (t = ''Complete'' \<or> t = ''Failed'')) (hj_Conditions j) \<and>
              helperMountsPool (hj_Spec j) pool) jobs))))"

definition retirementReferences :: "'w Checker \<Rightarrow> 'w VolumeRepository \<Rightarrow> ('w \<Rightarrow> Cleanup list res) \<Rightarrow> Pool \<Rightarrow> 'w \<Rightarrow> Report res" where
  "retirementReferences c r cleanups pool w = (case rp_ListVolumes r w of
     Inl e \<Rightarrow> Inl (Wrapped e ''list ShiftPVVolumes'')
   | Inr vs \<Rightarrow> bind_res (listDriverPersistentVolumes c w) (\<lambda>pvs. case rp_ListMoves r w of
       Inl e \<Rightarrow> Inl (Wrapped e ''list ShiftPVMoves'')
     | Inr moves \<Rightarrow> bind_res (retirementCleanupBlockers cleanups pool w) (\<lambda>cleaned. bind_res (poolRetirementActors c pool w) (\<lambda>actors.
         Inr (sortBlockers (retirementVolumeBlockers vs pool @ poolPersistentVolumeBlockers pvs vs pool @
           map (\<lambda>m. blocker ''ShiftPVMove'' (mv_Name m) ''unsettled Pool reference'')
             (filter (\<lambda>m. \<not> MoveCleanupSettled m \<and> retirementMoveUsesPool m pool vs) moves) @ cleaned @ actors))))))"

section \<open>The checks\<close>

definition exactPool :: "'w VolumeRepository \<Rightarrow> string \<Rightarrow> string \<Rightarrow> 'w \<Rightarrow> Pool res" where
  "exactPool r poolName poolUID w = (
     if TrimSpace poolName = [] \<or> poolUID = [] then Inl (Errorf ''exact Pool identity is required'')
     else case rp_ListPoolRegistrations r w of
       Inl e \<Rightarrow> Inl (Wrapped e ''list ShiftPVPools'')
     | Inr pools \<Rightarrow> (case find (\<lambda>p. pl_Name p = poolName) pools of
         None \<Rightarrow> Inl (Errorf ''Pool was not found'')
       | Some p \<Rightarrow> if pl_UID p \<noteq> poolUID then Inl (Errorf ''Pool identity changed'') else Inr p))"

definition CheckPoolRetirement :: "k8s_lib \<Rightarrow> 'w Checker \<Rightarrow> string \<Rightarrow> string \<Rightarrow> 'w \<Rightarrow> Report res" where
  "CheckPoolRetirement k c name uid w = (case (kc_Volumes c, kc_Cleanups c) of
     (Some r, Some cleanups) \<Rightarrow>
       if kc_Namespace c = [] then Inl (Errorf ''Pool retirement checker is not configured'')
       else bind_res (exactPool r name uid w) (\<lambda>pool.
         if \<not> RetirementRequested pool \<or> \<not> RegistrationApproved k pool \<or> \<not> IsAbs (pl_MountPath pool) \<or> pl_MountPath pool = ''/''
         then Inl (Errorf ''Pool retirement requires an exact approved registration request'')
         else retirementReferences c r cleanups pool w)
   | _ \<Rightarrow> Inl (Errorf ''Pool retirement checker is not configured''))"

definition preserved_pool :: "k8s_lib \<Rightarrow> Pool list \<Rightarrow> string \<Rightarrow> string res" where
  "preserved_pool k pools uid = (
     if \<not> ValidIdentityToken uid then Inl (Errorf ''preserved retired Pool UID is invalid'')
     else case filter (\<lambda>p. pl_UID p = uid) pools of
       [] \<Rightarrow> Inl (Errorf ''preserved retired Pool UID was not found'')
     | [pool] \<Rightarrow>
         if \<not> RegistrationRetired pool \<or> \<not> RegistrationApproved k pool \<or> PoolProtectionFinalizer \<notin> set (pl_Finalizers pool) \<or>
            \<not> ValidObjectName (pl_Name pool) \<or> \<not> ValidObjectName (pl_NodeName pool) \<or> \<not> IsAbs (pl_MountPath pool) \<or>
            Clean (pl_MountPath pool) \<noteq> pl_MountPath pool \<or> pl_MountPath pool = ''/''
         then Inl (Errorf ''Pool is not an approved protected retirement'')
         else Inr uid
     | _ \<Rightarrow> Inl (Errorf ''preserved retired Pool UID is ambiguous''))"

definition preservedPoolUIDs :: "k8s_lib \<Rightarrow> 'w Checker \<Rightarrow> Pool list \<Rightarrow> string list res" where
  "preservedPoolUIDs k c pools = map_res (preserved_pool k pools) (kc_PreserveRetiredPoolUIDs c)"

definition identity_blockers :: "k8s_lib \<Rightarrow> Pool \<Rightarrow> Blocker list" where
  "identity_blockers k pool = (
     if pl_DeletionTimestamp pool = None then []
     else case find_condition k pool ''IdentityReleased'' of
       None \<Rightarrow> [blocker ''ShiftPVPoolIdentity'' (pl_Name pool) ''identity=retained'']
     | Some released \<Rightarrow>
         if cond_Status released \<noteq> ConditionTrue \<or> cond_ObservedGeneration released \<noteq> pl_Generation pool
         then [blocker ''ShiftPVPoolIdentity'' (pl_Name pool) (if cond_Reason released \<noteq> [] then cond_Reason released else ''identity=retained'')]
         else [])"

definition poolBlockers :: "k8s_lib \<Rightarrow> 'w Checker \<Rightarrow> 'w VolumeRepository \<Rightarrow> ('w \<Rightarrow> Cleanup list res) \<Rightarrow> time \<Rightarrow> 'w \<Rightarrow> Blocker list res" where
  "poolBlockers k c r cleanups inventoryAfter w = (case rp_ListPoolRegistrations r w of
     Inl e \<Rightarrow> Inl (Wrapped e ''list ShiftPVPools'')
   | Inr pools \<Rightarrow> bind_res (preservedPoolUIDs k c pools) (\<lambda>preserved.
       bind_res (map_res (\<lambda>pool.
         if pl_UID pool \<in> set preserved then retirementReferences c r cleanups pool w
         else Inr (poolInventoryBlockers pool (kc_Now c w) (inventoryMaxAge c) inventoryAfter @ identity_blockers k pool)) pools)
       (\<lambda>blockers. Inr (concat blockers))))"

definition CheckAfter :: "k8s_lib \<Rightarrow> 'w Checker \<Rightarrow> time \<Rightarrow> 'w \<Rightarrow> Report res" where
  "CheckAfter k c inventoryAfter w = (case (kc_Volumes c, kc_Cleanups c) of
     (Some r, Some cleanups) \<Rightarrow>
       if kc_StorageClassNames c = [] then Inl (Errorf ''at least one ShiftPV StorageClass name is required'')
       else if list_ex (\<lambda>n. TrimSpace n = []) (kc_StorageClassNames c) then Inl (Errorf ''ShiftPV StorageClass names must not be empty'')
       else bind_res (listDriverPersistentVolumes c w) (\<lambda>pvs. bind_res (claimBlockers c w) (\<lambda>claimed.
         case rp_ListVolumes r w of
           Inl e \<Rightarrow> Inl (Wrapped e ''list ShiftPVVolumes'')
         | Inr vs \<Rightarrow> bind_res (moveBlockers r None w) (\<lambda>moved. bind_res (cleanupBlockers cleanups None w) (\<lambda>cleaned.
             bind_res (poolBlockers k c r cleanups inventoryAfter w) (\<lambda>pooled.
             Inr (sortBlockers (persistentVolumeBlockers pvs @ claimed @ volumeBlockers vs @ moved @ cleaned @ pooled)))))))
   | _ \<Rightarrow> Inl (Errorf ''uninstall checker is not configured''))"

definition CheckPoolDeleteAfter :: "'w Checker \<Rightarrow> string \<Rightarrow> string \<Rightarrow> time \<Rightarrow> 'w \<Rightarrow> Report res" where
  "CheckPoolDeleteAfter c poolName poolUID inventoryAfter w = (case (kc_Volumes c, kc_Cleanups c) of
     (Some r, Some cleanups) \<Rightarrow> bind_res (exactPool r poolName poolUID w) (\<lambda>target.
       case rp_ListVolumes r w of
         Inl e \<Rightarrow> Inl (Wrapped e ''list ShiftPVVolumes'')
       | Inr vs \<Rightarrow> bind_res (listDriverPersistentVolumes c w) (\<lambda>pvs. bind_res (moveBlockers r (Some target) w) (\<lambda>moved.
           bind_res (cleanupBlockers cleanups (Some target) w) (\<lambda>cleaned.
           Inr (sortBlockers (poolInventoryBlockers target (kc_Now c w) (inventoryMaxAge c) inventoryAfter @
             poolPersistentVolumeBlockers pvs vs target @ poolVolumeBlockers vs target @ moved @ cleaned))))))
   | _ \<Rightarrow> Inl (Errorf ''Pool deletion checker is not configured''))"

section \<open>Releasing pool protection\<close>

fun release_pools :: "'w VolumeRepository \<Rightarrow> string list \<Rightarrow> Pool list \<Rightarrow> error option \<Rightarrow> 'w closure" where
  "release_pools r preserved [] result w = (result, w)"
| "release_pools r preserved (pool # pools) result w = (
     if pl_UID pool \<in> set preserved \<or> PoolProtectionFinalizer \<notin> set (pl_Finalizers pool) then release_pools r preserved pools result w
     else case rp_RemovePoolFinalizer r (pl_Name pool) (pl_UID pool) w of
       (None, w') \<Rightarrow> release_pools r preserved pools result w'
     | (Some e, w') \<Rightarrow> release_pools r preserved pools (Some (case result of
           None \<Rightarrow> Wrapped e ''release ShiftPVPool protection''
         | Some e0 \<Rightarrow> Joined e0 (Wrapped e ''release ShiftPVPool protection''))) w')"

definition ReleasePoolProtectionAfter :: "k8s_lib \<Rightarrow> 'w Checker \<Rightarrow> time \<Rightarrow> 'w closure" where
  "ReleasePoolProtectionAfter k c inventoryAfter w = (case kc_Volumes c of
     None \<Rightarrow> (Some (Errorf ''uninstall checker is not configured''), w)
   | Some r \<Rightarrow> (case (if kc_PreserveRetiredPoolUIDs c = [] then Inr [] else CheckAfter k c inventoryAfter w) of
       Inl e \<Rightarrow> (Some e, w)
     | Inr report \<Rightarrow>
         if \<not> Safe report then (Some (Errorf ''storage dependencies changed before Pool protection release''), w)
         else (case rp_ListPoolRegistrations r w of
             Inl e \<Rightarrow> (Some (Wrapped e ''list ShiftPVPools''), w)
           | Inr pools \<Rightarrow> (case preservedPoolUIDs k c pools of
               Inl e \<Rightarrow> (Some e, w)
             | Inr preserved \<Rightarrow> release_pools r preserved pools None w))))"

end
