(* ===== verification/Uninstall_Evidence.thy ===== *)
theory Uninstall_Evidence
  imports Uninstall_Check Volume_Evidence
begin

text \<open>
  The claims on the uninstall guard: a safe report means that nothing is left that the driver must
  serve, and a retired pool holds no capacity.
\<close>

section \<open>Reading a safe report\<close>

lemma sortBlockers_Nil [simp]: "sortBlockers bs = [] \<longleftrightarrow> bs = []"
  by (simp add: sortBlockers_def) (metis length_0_conv length_sort)

lemma map_res_elem: "map_res f xs = Inr ys \<Longrightarrow> x \<in> set xs \<Longrightarrow> \<exists>y \<in> set ys. f x = Inr y"
  by (induction xs arbitrary: ys) (auto simp: bind_res_Inr)

lemma map_res_Nil: "map_res f xs = Inr [] \<longleftrightarrow> xs = []"
  by (cases xs) (auto simp: bind_res_Inr)

text \<open>An inventory that is current, complete, fresh and newer than the quiesce barrier, and shows no copy.\<close>

definition trusted_empty :: "Pool \<Rightarrow> int \<Rightarrow> int \<Rightarrow> time \<Rightarrow> bool" where
  "trusted_empty pool now maxAge barrier \<longleftrightarrow> (\<exists>inventory at. ps_Inventory (pl_Status pool) = Some inventory \<and>
     ps_ObservedGeneration (pl_Status pool) = pl_Generation pool \<and> iv_Valid inventory \<and> \<not> iv_Truncated inventory \<and>
     iv_Message inventory = [] \<and> iv_ObservedAt inventory = Some at \<and> at \<le> now \<and> time_Sub now at \<le> maxAge \<and>
     (\<forall>quiesced. barrier = Some quiesced \<longrightarrow> quiesced < at) \<and>
     (\<forall>o' \<in> set (iv_Copies inventory). \<not> cob_Present o' \<and> \<not> cob_Published o'))"

lemma inventory_clear:
  assumes "poolInventoryBlockers pool now maxAge barrier = []"
  shows "trusted_empty pool now maxAge barrier"
proof -
  obtain inventory where i: "ps_Inventory (pl_Status pool) = Some inventory"
    using assms by (cases "ps_Inventory (pl_Status pool)") (simp_all add: poolInventoryBlockers_def)
  with assms have r: "inventory_reasons pool inventory now maxAge barrier = []"
    and copies: "\<forall>o' \<in> set (iv_Copies inventory). \<not> cob_Present o' \<and> \<not> cob_Published o'"
    by (auto simp: poolInventoryBlockers_def Let_def filter_empty_conv split: if_splits)
  obtain at where at: "iv_ObservedAt inventory = Some at" using r by (cases "iv_ObservedAt inventory") (simp_all add: inventory_reasons_def)
  show ?thesis using r i at copies by (auto simp: trusted_empty_def inventory_reasons_def split: if_splits)
qed

lemma identity_clear: "identity_blockers k pool = [] \<Longrightarrow> pl_DeletionTimestamp pool \<noteq> None \<Longrightarrow>
  \<exists>released. find_condition k pool ''IdentityReleased'' = Some released \<and> cond_Status released = ConditionTrue \<and>
    cond_ObservedGeneration released = pl_Generation pool"
  by (auto simp: identity_blockers_def split: option.splits if_splits)

lemma preserved_Inr:
  assumes "preservedPoolUIDs k c pools = Inr preserved"
  shows "preserved = kc_PreserveRetiredPoolUIDs c"
    and "uid \<in> set preserved \<Longrightarrow> pool \<in> set pools \<Longrightarrow> pl_UID pool = uid \<Longrightarrow>
      RegistrationRetired pool \<and> RegistrationApproved k pool \<and> PoolProtectionFinalizer \<in> set (pl_Finalizers pool)"
proof -
  have one: "u' = u" if "preserved_pool k pools u = Inr u'" for u u'
    using that by (auto simp: preserved_pool_def split: if_splits list.splits)
  have "map_res (preserved_pool k pools) us = Inr vs \<Longrightarrow> vs = us" for us vs
    by (induction us arbitrary: vs) (auto simp: bind_res_Inr dest: one)
  with assms show p: "preserved = kc_PreserveRetiredPoolUIDs c" by (simp add: preservedPoolUIDs_def)
  assume u: "uid \<in> set preserved" and pool: "pool \<in> set pools" "pl_UID pool = uid"
  from u p assms obtain u' where "preserved_pool k pools uid = Inr u'" unfolding preservedPoolUIDs_def using map_res_elem by metis
  then obtain q where q: "filter (\<lambda>p. pl_UID p = uid) pools = [q]" "RegistrationRetired q" "RegistrationApproved k q"
      "PoolProtectionFinalizer \<in> set (pl_Finalizers q)"
    by (auto simp: preserved_pool_def split: if_splits list.splits)
  have "pool \<in> set (filter (\<lambda>p. pl_UID p = uid) pools)" using pool by simp
  then show "RegistrationRetired pool \<and> RegistrationApproved k pool \<and> PoolProtectionFinalizer \<in> set (pl_Finalizers pool)"
    unfolding q(1) using q(2-4) by simp
qed

section \<open>The whole driver\<close>

lemma CheckAfter_Inr:
  assumes "CheckAfter k c barrier w = Inr report"
  obtains r cleanups pvs claimed vs moved cleaned pooled where "kc_Volumes c = Some r" "kc_Cleanups c = Some cleanups"
    "listDriverPersistentVolumes c w = Inr pvs" "claimBlockers c w = Inr claimed" "rp_ListVolumes r w = Inr vs"
    "moveBlockers r None w = Inr moved" "cleanupBlockers cleanups None w = Inr cleaned"
    "poolBlockers k c r cleanups barrier w = Inr pooled"
    "report = sortBlockers (persistentVolumeBlockers pvs @ claimed @ volumeBlockers vs @ moved @ cleaned @ pooled)"
proof -
  obtain r cleanups where rc: "kc_Volumes c = Some r" "kc_Cleanups c = Some cleanups"
    using assms by (auto simp: CheckAfter_def split: option.splits)
  obtain vs where vs: "rp_ListVolumes r w = Inr vs"
    using assms by (cases "rp_ListVolumes r w") (auto simp: CheckAfter_def rc bind_res_Inr split: if_splits)
  show thesis
    using assms by (auto simp: CheckAfter_def rc vs bind_res_Inr split: if_splits intro: that [OF rc _ _ vs])
qed

lemma driver_volumes_clear:
  assumes "listDriverPersistentVolumes c w = Inr pvs" and "persistentVolumeBlockers pvs = []"
  shows "\<exists>listed. kc_PersistentVolumes c w = Inr listed \<and> (\<forall>pv \<in> set listed. map_option fst (pv_CSI pv) \<noteq> Some DriverName)"
  using assms by (fastforce simp: listDriverPersistentVolumes_def persistentVolumeBlockers_def split: sum.splits option.splits)

lemma claims_clear:
  assumes "claimBlockers c w = Inr []"
  shows "\<exists>claims. kc_Claims c w = Inr claims \<and>
    (\<forall>claim \<in> set claims. \<forall>class. pvc_StorageClassName claim = Some class \<longrightarrow> class \<notin> set (kc_StorageClassNames c))"
  using assms by (auto simp: claimBlockers_def split: sum.splits option.splits if_splits)

lemma moves_clear: "moveBlockers r pool w = Inr [] \<Longrightarrow> \<exists>ms. rp_ListMoves r w = Inr ms \<and>
  (\<forall>m \<in> set ms. (case pool of None \<Rightarrow> True | Some p \<Rightarrow> moveUsesPool m p) \<longrightarrow> MoveCleanupSettled m)"
  by (auto simp: moveBlockers_def filter_empty_conv split: sum.splits option.splits)

lemma cleanups_clear: "cleanupBlockers cleanups None w = Inr [] \<Longrightarrow> \<exists>js. cleanups w = Inr js \<and>
  (\<forall>j \<in> set js. st_Phase (cl_Status j) = PhaseCompleted)"
  by (auto simp: cleanupBlockers_def map_res_Nil filter_empty_conv split: sum.splits)

lemma pools_clear:
  assumes "poolBlockers k c r cleanups barrier w = Inr []"
  shows "\<exists>pools. rp_ListPoolRegistrations r w = Inr pools \<and> (\<forall>pool \<in> set pools.
    if pl_UID pool \<in> set (kc_PreserveRetiredPoolUIDs c)
    then RegistrationRetired pool \<and> PoolProtectionFinalizer \<in> set (pl_Finalizers pool) \<and> retirementReferences c r cleanups pool w = Inr []
    else trusted_empty pool (kc_Now c w) (inventoryMaxAge c) barrier \<and> identity_blockers k pool = [])"
proof -
  obtain pools preserved bs where p: "rp_ListPoolRegistrations r w = Inr pools" "preservedPoolUIDs k c pools = Inr preserved"
    "map_res (\<lambda>pool. if pl_UID pool \<in> set preserved then retirementReferences c r cleanups pool w
         else Inr (poolInventoryBlockers pool (kc_Now c w) (inventoryMaxAge c) barrier @ identity_blockers k pool)) pools = Inr bs" "concat bs = []"
    using assms by (auto simp: poolBlockers_def bind_res_Inr split: sum.splits)
  have "if pl_UID pool \<in> set preserved then retirementReferences c r cleanups pool w = Inr []
      else poolInventoryBlockers pool (kc_Now c w) (inventoryMaxAge c) barrier = [] \<and> identity_blockers k pool = []"
    if "pool \<in> set pools" for pool
    using map_res_elem [OF p(3) that] p(4) by (auto split: if_splits)
  then show ?thesis using p(1) preserved_Inr [OF p(2)] inventory_clear by (intro exI [of _ pools]) auto
qed

text \<open>
  C38. A safe uninstall report means that nothing is left: no PersistentVolume of the driver, no claim
  of its storage classes, no volume, only settled Moves and completed cleanups, and every pool either
  shows no copy in a current, complete, fresh inventory taken after the quiesce barrier, and has its
  identity released when it is being deleted, or is an explicitly preserved retirement that stays protected and
  that nothing refers to.
\<close>

theorem safe_uninstall_leaves_nothing:
  assumes "CheckAfter k c barrier w = Inr report" and "Safe report"
  shows "\<exists>r cleanups pvs claims ms js pools. kc_Volumes c = Some r \<and> kc_Cleanups c = Some cleanups \<and>
    kc_PersistentVolumes c w = Inr pvs \<and> (\<forall>pv \<in> set pvs. map_option fst (pv_CSI pv) \<noteq> Some DriverName) \<and>
    kc_Claims c w = Inr claims \<and>
    (\<forall>claim \<in> set claims. \<forall>class. pvc_StorageClassName claim = Some class \<longrightarrow> class \<notin> set (kc_StorageClassNames c)) \<and>
    rp_ListVolumes r w = Inr [] \<and> rp_ListMoves r w = Inr ms \<and> (\<forall>m \<in> set ms. MoveCleanupSettled m) \<and>
    cleanups w = Inr js \<and> (\<forall>j \<in> set js. st_Phase (cl_Status j) = PhaseCompleted) \<and>
    rp_ListPoolRegistrations r w = Inr pools \<and> (\<forall>pool \<in> set pools.
      if pl_UID pool \<in> set (kc_PreserveRetiredPoolUIDs c)
      then RegistrationRetired pool \<and> PoolProtectionFinalizer \<in> set (pl_Finalizers pool) \<and> retirementReferences c r cleanups pool w = Inr []
      else trusted_empty pool (kc_Now c w) (inventoryMaxAge c) barrier \<and> identity_blockers k pool = [])"
proof -
  obtain r cleanups pvs claimed vs moved cleaned pooled where x: "kc_Volumes c = Some r" "kc_Cleanups c = Some cleanups"
    "listDriverPersistentVolumes c w = Inr pvs" "claimBlockers c w = Inr claimed" "rp_ListVolumes r w = Inr vs"
    "moveBlockers r None w = Inr moved" "cleanupBlockers cleanups None w = Inr cleaned"
    "poolBlockers k c r cleanups barrier w = Inr pooled"
    "report = sortBlockers (persistentVolumeBlockers pvs @ claimed @ volumeBlockers vs @ moved @ cleaned @ pooled)"
    using assms(1) by (rule CheckAfter_Inr)
  from assms(2) x(9) have e: "persistentVolumeBlockers pvs = []" "claimed = []" "volumeBlockers vs = []" "moved = []" "cleaned = []" "pooled = []"
    by (simp_all add: Safe_def)
  have "vs = []" using e(3) by (simp add: volumeBlockers_def)
  then show ?thesis
    using x(1,2,5) driver_volumes_clear [OF x(3) e(1)] claims_clear [OF x(4) [unfolded e(2)]] moves_clear [OF x(6) [unfolded e(4)]]
      cleanups_clear [OF x(7) [unfolded e(5)]] pools_clear [OF x(8) [unfolded e(6)]] by simp
qed

definition cleared_pool :: Pool where
  "cleared_pool = sample_pool\<lparr>pl_RetirementRequest := ''uid'', pl_Status := (pl_Status sample_pool)\<lparr>ps_RegistrationApproved := True\<rparr>\<rparr>"

definition cleared_checker :: "unit Checker" where
  "cleared_checker = \<lparr>kc_PersistentVolumes = \<lambda>_. Inr [\<lparr>pv_Name = ''other'', pv_CSI = Some (''other.driver'', ''h''), pv_ClaimRef = None, pv_Terms = []\<rparr>],
     kc_Claims = \<lambda>_. Inr [], kc_Pods = \<lambda>_ _. Inr [], kc_Jobs = \<lambda>_ _. Inr [],
     kc_Volumes = Some \<lparr>rp_ListVolumes = \<lambda>_. Inr [], rp_ListMoves = \<lambda>_. Inr [], rp_ListPoolRegistrations = \<lambda>_. Inr [cleared_pool],
       rp_RemovePoolFinalizer = \<lambda>_ _ w. (None, w)\<rparr>,
     kc_StorageClassNames = [''shiftpv''], kc_Namespace = ''shiftpv-system'', kc_Cleanups = Some (\<lambda>_. Inr []), kc_Now = \<lambda>_. 100,
     kc_InventoryMaxAge = 50, kc_PreserveRetiredPoolUIDs = []\<rparr>"

lemma cleared_safe: "CheckAfter sample_k8s cleared_checker (Some 80) () = Inr []"
  by code_simp

theorem safe_uninstall_leaves_nothing_witness: "trusted_empty cleared_pool 100 50 (Some 80)"
  using safe_uninstall_leaves_nothing [OF cleared_safe] by (auto simp: Safe_def cleared_checker_def inventoryMaxAge_def)

section \<open>A retired pool\<close>

lemma scan_clear: "fst (retirement_scan pool vs) = [] \<Longrightarrow> (i, s) \<in> set vs \<Longrightarrow> \<not> retirement_reference pool s"
  by (induction vs) (auto split: prod.splits if_splits)

lemma unreferenced_volume: "\<not> retirement_reference pool s \<Longrightarrow> pl_UID pool \<noteq> [] \<Longrightarrow> ownerPoolUID i s \<noteq> Inr (pl_UID pool)"
  by (auto simp: retirement_reference_def ownerPoolUID_def split: if_splits option.splits)

lemma unreferenced_move:
  assumes "MoveCleanupSettled m \<or> \<not> retirementMoveUsesPool m pool vs'" and "pl_UID pool \<noteq> []" and "moveReservation vs m = Inr (held, b)"
  shows "held \<noteq> pl_UID pool"
proof (cases "mt_Preparation (mv_Status m)")
  case (Some p)
  then have "\<not> retirementMoveUsesPool m pool vs'" using assms(1) by (auto simp: MoveCleanupSettled_def Let_def)
  then have "pr_UID (mp_Pool p) \<noteq> pl_UID pool" using Some by (simp add: retirementMoveUsesPool_def Let_def)
  moreover have "held = pr_UID (mp_Pool p)" using assms(3) Some
    by (auto simp: moveReservation_def preparationReservation_def Let_def split: option.splits if_splits)
  ultimately show ?thesis by simp
next
  case None
  show ?thesis
  proof (cases "MoveCleanupSettled m \<or> \<not> mt_CapacityApproved (mv_Status m)")
    case True
    then show ?thesis using assms(2,3) None by (auto simp: moveReservation_def Let_def)
  next
    case False
    then have n: "\<not> retirementMoveUsesPool m pool vs'" using assms(1) by blast
    from assms(3) None False obtain source where s: "mt_SourceCopy (mv_Status m) = Some source"
        "held = ci_PoolUID source \<or> held = mt_DestinationPoolUID (mv_Status m)"
      by (auto simp: moveReservation_def Let_def split: option.splits if_splits)
    then show ?thesis using n by (auto simp: retirementMoveUsesPool_def Let_def)
  qed
qed

lemma retirement_Inr:
  assumes "retirementReferences c r cleanups pool w = Inr []"
  obtains vs ms where "rp_ListVolumes r w = Inr vs" "rp_ListMoves r w = Inr ms" "retirementVolumeBlockers vs pool = []"
    "\<forall>m \<in> set ms. MoveCleanupSettled m \<or> \<not> retirementMoveUsesPool m pool vs" "retirementCleanupBlockers cleanups pool w = Inr []"
    "poolRetirementActors c pool w = Inr []"
proof -
  obtain vs where vs: "rp_ListVolumes r w = Inr vs"
    using assms by (cases "rp_ListVolumes r w") (simp_all add: retirementReferences_def)
  obtain ms where ms: "rp_ListMoves r w = Inr ms"
    using assms vs by (cases "rp_ListMoves r w") (auto simp: retirementReferences_def bind_res_Inr)
  show thesis
    using assms by (intro that [OF vs ms]) (auto simp: retirementReferences_def vs ms bind_res_Inr filter_empty_conv)
qed

lemma helpers_clear: "poolRetirementActors c pool w = Inr [] \<Longrightarrow> \<exists>pods. kc_Pods c w (kc_Namespace c) = Inr pods \<and>
  (\<forall>pod \<in> set pods. helperMountsPool (hp_Spec pod) pool \<longrightarrow> hp_Phase pod = ''Succeeded'' \<or> hp_Phase pod = ''Failed'')"
  by (auto simp: poolRetirementActors_def filter_empty_conv split: sum.splits)

text \<open>
  C39. A retired pool holds nothing: when the retirement check of a pool is safe, no volume and no Move
  has a byte of it in the ledger, so its reserved bytes are zero, no unfinished cleanup targets it, and no
  unfinished helper Pod mounts it.
\<close>

theorem safe_retirement_frees_ledger:
  assumes "CheckPoolRetirement k c name uid w = Inr report" and "Safe report"
  shows "\<exists>r cleanups vs ms js. kc_Volumes c = Some r \<and> kc_Cleanups c = Some cleanups \<and> rp_ListVolumes r w = Inr vs \<and> rp_ListMoves r w = Inr ms \<and>
    (\<forall>t. ReservedBytesForPool vs ms uid = Inr t \<longrightarrow> t = 0) \<and>
    cleanups w = Inr js \<and> (\<forall>j \<in> set js. st_Phase (cl_Status j) \<noteq> PhaseCompleted \<longrightarrow> ci_PoolUID (sp_Target (cl_Spec j)) \<noteq> uid) \<and>
    (\<exists>pool pods. exactPool r name uid w = Inr pool \<and> kc_Pods c w (kc_Namespace c) = Inr pods \<and>
      (\<forall>pod \<in> set pods. helperMountsPool (hp_Spec pod) pool \<longrightarrow> hp_Phase pod = ''Succeeded'' \<or> hp_Phase pod = ''Failed''))"
proof -
  obtain r cleanups pool where x: "kc_Volumes c = Some r" "kc_Cleanups c = Some cleanups" "exactPool r name uid w = Inr pool"
      "retirementReferences c r cleanups pool w = Inr []"
    using assms by (auto simp: CheckPoolRetirement_def Safe_def bind_res_Inr split: option.splits if_splits)
  have uid: "pl_UID pool = uid" "uid \<noteq> []" using x(3) by (auto simp: exactPool_def split: if_splits sum.splits option.splits)
  obtain vs ms where v: "rp_ListVolumes r w = Inr vs" "rp_ListMoves r w = Inr ms" "retirementVolumeBlockers vs pool = []"
      "\<forall>m \<in> set ms. MoveCleanupSettled m \<or> \<not> retirementMoveUsesPool m pool vs" "retirementCleanupBlockers cleanups pool w = Inr []"
      "poolRetirementActors c pool w = Inr []"
    using x(4) by (rule retirement_Inr)
  have scan: "fst (retirement_scan pool vs) = []" using v(3) by (auto simp: retirementVolumeBlockers_def split: prod.splits)
  have "volume_hold uid y = 0" if "y \<in> set vs" for y
    using scan_clear [OF scan, of "fst y" "snd y"] unreferenced_volume [of pool "snd y" "fst y"] that uid by (auto simp: volume_hold_def)
  moreover have "move_hold vs uid m = 0" if "m \<in> set ms" for m
    using unreferenced_move [of m pool vs vs] v(4) that uid by (auto simp: move_hold_def split: sum.splits)
  ultimately have "ledger vs ms uid = 0" by (simp add: ledger_def cong: map_cong)
  then have t: "\<forall>t. ReservedBytesForPool vs ms uid = Inr t \<longrightarrow> t = 0" by (simp add: reserved_ledger)
  obtain js where "cleanups w = Inr js" "\<forall>j \<in> set js. st_Phase (cl_Status j) \<noteq> PhaseCompleted \<longrightarrow> ci_PoolUID (sp_Target (cl_Spec j)) \<noteq> uid"
    using v(5) uid by (auto simp: retirementCleanupBlockers_def map_res_Nil filter_empty_conv Let_def split: sum.splits)
  with x(1-3) v(1,2) t helpers_clear [OF v(6)] show ?thesis by blast
qed

text \<open>The pool is retired while a volume lives on another pool of its node.\<close>

definition retiring_checker :: "unit Checker" where
  "retiring_checker = cleared_checker\<lparr>kc_Volumes := Some \<lparr>rp_ListVolumes = \<lambda>_. Inr [(sample_volume, projr (stateFrom sample_k8s (volume_in PhaseReady [] [])))],
     rp_ListMoves = \<lambda>_. Inr [], rp_ListPoolRegistrations = \<lambda>_. Inr [cleared_pool], rp_RemovePoolFinalizer = \<lambda>_ _ w. (None, w)\<rparr>\<rparr>"

lemma retiring_safe: "CheckPoolRetirement sample_k8s retiring_checker ''pool'' ''uid'' () = Inr []"
  by code_simp

theorem safe_retirement_frees_ledger_witness:
  "ReservedBytesForPool [(sample_volume, projr (stateFrom sample_k8s (volume_in PhaseReady [] [])))] [] ''uid'' = Inr 0"
proof -
  let ?vs = "[(sample_volume, projr (stateFrom sample_k8s (volume_in PhaseReady [] [])))]"
  have "\<not> isl (ReservedBytesForPool ?vs [] ''uid'')" by code_simp
  then obtain t where t: "ReservedBytesForPool ?vs [] ''uid'' = Inr t" by (cases "ReservedBytesForPool ?vs [] ''uid''") auto
  with safe_retirement_frees_ledger [OF retiring_safe] have "t = 0" by (auto simp: Safe_def retiring_checker_def)
  with t show ?thesis by simp
qed

end
