(* ===== verification/Spec2Isabelle.thy ===== *)
theory Spec2Isabelle
  imports Mobility_Runs Device_Mapper Pool_Properties Cleanup_Evidence Volume_Evidence Capacity_Evidence Keyed_Lock Uninstall_Evidence
begin

text \<open>
  A verification library of ShiftPV, a CSI driver whose volumes live on the local disks of nodes and
  can move between nodes.

  \<^bold>\<open>The program.\<close> A volume is a directory in a pool of one node. Its durable state is a
  \<open>ShiftPVVolume\<close> object; a pool is a \<open>ShiftPVPool\<close>, and the transfer of a volume to another
  node is a \<open>ShiftPVMove\<close>. The registry (\<open>src/kubernetes/volumeapi\<close>) is the only writer of
  these objects, by read-modify-write steps with optimistic concurrency. The mobility controller
  (\<open>src/mobility/controller\<close>) observes a Move, asks the state machine (\<open>src/mobility/fsm\<close>) for
  the next action and performs it; removed copies are journalled in the status of their volume or Move
  (\<open>src/kubernetes/cleanupapi\<close>) until a scan of the pool proves their absence. Capacity is a ledger
  of logical reservations per pool (\<open>src/pool/capacity\<close>), valid as long as pools share no sectors
  (\<open>src/pool/capacityunit\<close>, \<open>src/pool/registration\<close>).

  \<^bold>\<open>Foundations.\<close>
  \<^item> \<open>ShiftPV_Prelude\<close>: errors as values (\<open>error + 'a\<close>, \<open>errors.Is\<close>), the generic
    lemmas and the locale \<open>rule_chain\<close> of ordered checks.
  \<^item> \<open>Go_Stdlib\<close>, \<open>Go_Encoding\<close>: what the code uses of \<open>strings\<close>, \<open>strconv\<close>,
    \<open>path/filepath\<close>, \<open>encoding/hex\<close>, \<open>crypto/sha256\<close>, \<open>time\<close> and \<open>encoding/json\<close>.
  \<^item> \<open>Kubernetes_Lib\<close>: apimachinery functions the code relies on, as a parameter with the
    hypothesis \<open>k8s_documented\<close>.
  \<^item> \<open>Object_Store\<close>: the read-modify-write loop and the finalizer loop of \<open>registry.go\<close> over an
    arbitrary API client. What is assumed of the client and of \<open>RetryOnConflict\<close> is named
    (\<open>client_writes\<close>, \<open>client_creates\<close>, \<open>client_deletes\<close>, \<open>retries_on_conflict\<close>):
    a write takes effect or not, also when it reports an error, and a retry runs the closure again. A
    client in memory shows that the hypotheses can hold. The locale \<open>object_invariant\<close> carries a
    property of single objects through every write.

  \<^bold>\<open>Components.\<close> Records carry the fields of the Go structs behind a short prefix, operations keep the
  names of the Go functions, and the closure of a step is a definition of its own (\<open>*_mutate\<close>,
  \<open>*_apply\<close>, \<open>*_attempt\<close>). The text of an error message leaves out the values it formats.
  \<^item> \<open>Mobility_FSM\<close> is the whole package \<open>mobility/fsm\<close>; \<open>Staged_Machine\<close> holds the
    locales for machines with ordered stages, interpreted in \<open>Mobility_Runs\<close>, which proves the claims on
    decisions and on runs: the ordered evidence of the forward actions and of the retirement of an
    artifact in recovery, the actions left with an unusable source, cancellation, final history, a
    bound on the phase changes of a Move from its unset phase on, success under cooperative
    observations, recovery.
  \<^item> \<open>Volume_Identity\<close>: \<open>src/volume\<close>, ids, copy identities, paths, the deletion decision.
  \<^item> \<open>Capacity_Unit\<close>, \<open>Device_Mapper\<close>: \<open>pool/capacityunit\<close>, extents, the resolver, the
    sysfs backend and the decoder of device-mapper tables.
  \<^item> \<open>Pool_Registration\<close>: \<open>pool/registration\<close>. \<open>Pool_State\<close>, \<open>Pool_Properties\<close>:
    the pool object (\<open>pool*.go\<close> of \<open>volumeapi\<close>), readiness, lookups and every write.
  \<^item> \<open>Cleanup_Journal\<close>, \<open>Cleanup_Store\<close>: the package \<open>cleanupapi\<close>;
    \<open>Cleanup_Properties\<close> and \<open>Cleanup_Evidence\<close> prove that completed cleanup is proven absence.
  \<^item> \<open>Volume_State\<close>, \<open>Volume_Registry\<close>: \<open>volume.go\<close>, \<open>creation_*.go\<close> and
    \<open>installation.go\<close>. \<open>Volume_Properties\<close> has the relation \<open>volume_op\<close> of all operations and the
    locale \<open>volume_invariant\<close>, \<open>Volume_Lifecycle\<close> the abstract lifecycle and the refinement,
    \<open>Volume_Evidence\<close> the claims.
  \<^item> \<open>Move_State\<close>, \<open>Move_Registry\<close>: \<open>move*.go\<close>. \<open>Move_Properties\<close> has the
    relation \<open>move_op\<close>, the locales \<open>move_objects\<close> and \<open>move_invariant\<close> and the guarded changes
    \<open>hold_change\<close> of a Move's capacity hold, \<open>Move_Evidence\<close> the claims.
  \<^item> \<open>Pool_Capacity\<close>: the ledger of \<open>pool/capacity\<close>. \<open>Keyed_Lock\<close>: its keyed mutex as a step
    relation over all interleavings of callers.
  \<^item> \<open>Move_History\<close>: the package \<open>mobility/history\<close>. \<open>Owner_Handoff\<close>: \<open>commitOwner\<close> and
    \<open>markBlocked\<close> of \<open>mobility/controller/actions.go\<close> with the checks they make.
    \<open>Capacity_Evidence\<close> proves that admission stays within the limit, and that approval, owner
    commit and the end of a Move keep every pool's ledger.
  \<^item> \<open>Uninstall_Check\<close>: the checks of \<open>lifecycle/uninstall\<close> (\<open>checker.go\<close>,
    \<open>pool_retirement.go\<close>, \<open>preserved_pool.go\<close>). \<open>Uninstall_Evidence\<close> proves that a safe
    report leaves nothing to serve, and that a retired pool has no byte in the ledger.

  \<^bold>\<open>How the parts fit.\<close> A phase of the state machine that has an effect needs the evidence of all earlier
  phases; the effect on the volume is a registry operation and so a step of the abstract lifecycle;
  the effect on capacity leaves the ledger as it is. Claims about runs quantify over every sequence of
  operations, with failed, repeated and conflicting writes.

  \<^bold>\<open>Bounds and fuel.\<close> The resolver of block devices stops at \<open>maxDepth\<close> as the source does. The mutual
  recursion of \<open>BeginCreate\<close> and \<open>initializeCreate\<close> has fuel two, proved enough. All other recursion
  is total. \<open>int64\<close> values are \<open>int\<close> with the overflow checks of the source written out,
  \<open>uint64\<close> values are \<open>64 word\<close>. A Go map that is ranged over is a list of its entries; the result
  is proved independent of the order where it is used so.

  \<^bold>\<open>Assumptions a reader should know.\<close> One step of an operation reads and writes one world; writes of
  others between the read and the write show as conflicts that the client reports. \<open>volume_op\<close> allows
  \<open>CompareAndSetState\<close> only between the phases Ready, Moving and Blocked, the ones its callers use. The
  conservation of the ledger across the owner commit supposes that the stored volume still has the copy
  the controller observed; the compare-and-set itself compares UID, phase, Move and owner.

  \<^bold>\<open>Not modelled.\<close> The observing side of the mobility controller and the helper resources it creates, the
  CSI services, the admission webhooks, the node's file system work, the RPC layer, the probe and
  provisioning loops, the permit and quiesce gate of the uninstall, the other lifecycle controllers, metrics and the commands. They are calls of client-go, gRPC,
  Prometheus and Linux system calls around the modelled rules; what they decide durably goes through the
  modelled operations. Of the conversion of a pool status the cut of \<open>metav1.Time\<close> to whole seconds and
  the failure on an extent above the largest \<open>int64\<close> are left out. Of \<open>pool/capacity\<close> the digests of \<open>measurement.go\<close> are left out, of
  \<open>pool/capacityunit\<close> the ioctl.
\<close>

end
